(* ===== verification/Prelude.thy ===== *)
theory Prelude
  imports Main "HOL-Library.Word"
begin

text \<open>
  Shared vocabulary of the VeilVM development.

  \<^item> Machine integers. Go's fixed-width integers are words; \<open>int64\<close> is a 64-bit word read
    with \<open>sint\<close>. Go's fixed-size byte arrays (\<open>codec.Address\<close>, \<open>ids.ID\<close>, \<open>[32]byte\<close>) are
    words too, of 264 and 256 bits: a word has exactly as many values as the array, the zero
    array is \<open>0\<close>, \<open>==\<close> is equality and \<open>a[:]\<close> is the big-endian byte list \<open>be_bytes\<close>.
  \<^item> Byte strings. A Go \<open>[]byte\<close> or \<open>string\<close> is a list of 8-bit words; \<open>be_bytes\<close> and
    \<open>of_be\<close> are the big-endian encodings of \<open>encoding/binary\<close>.
  \<^item> Effects. A state-changing Go function is a function from the store to a result (\<open>Inl\<close> the
    error, \<open>Inr\<close> the value) and the store it leaves behind, on the error path too. The
    combinators \<open>go_bind\<close>, \<open>go_guard\<close>, \<open>go_read\<close> and \<open>go_lift\<close> are the idioms
    \<open>x, err := f(); if err != nil { return err }\<close> and \<open>if c { return err }\<close>.

  The collection \<open>run_simps\<close> inverts a successful run of such a function into the facts of its
  steps; \<open>byte_simps\<close> computes with encodings.
\<close>

named_theorems run_simps
named_theorems byte_simps

section \<open>Machine types\<close>

type_synonym byte = "8 word"
type_synonym bytes = "byte list"
type_synonym u8 = "8 word"
type_synonym u16 = "16 word"
type_synonym u32 = "32 word"
type_synonym u64 = "64 word"
type_synonym i64 = "64 word"
type_synonym Address = "264 word"
type_synonym ID = "256 word"
type_synonym Hash32 = "256 word"

section \<open>Big-endian byte strings\<close>

text \<open>\<open>binary.BigEndian.AppendUint64\<close> and its siblings, and \<open>a[:]\<close> for a byte array.\<close>

fun be_bytes :: "nat \<Rightarrow> 'a::len word \<Rightarrow> bytes" where
  "be_bytes 0 w = []"
| "be_bytes (Suc n) w = ucast (drop_bit (8 * n) w) # be_bytes n w"

text \<open>\<open>binary.BigEndian.Uint64\<close> and its siblings, and \<open>copy(a[:], v)\<close> into a byte array.\<close>

definition of_be :: "bytes \<Rightarrow> 'a::len word" where
  "of_be bs = foldl (\<lambda>acc b. acc * 256 + ucast b) 0 bs"

text \<open>The Go slice expression \<open>v[i:j]\<close>; every use in the code stands behind a length check.\<close>

definition slice :: "'a list \<Rightarrow> nat \<Rightarrow> nat \<Rightarrow> 'a list" where
  "slice v i j = take (j - i) (drop i v)"

text \<open>The bytes of a Go string literal.\<close>

definition go_str :: "string \<Rightarrow> bytes" where
  "go_str s = map of_char s"

lemma length_be_bytes [simp]: "length (be_bytes n w) = n"
  by (induction n) auto

lemma foldl_be_bytes:
  fixes w :: "'a::len word"
  assumes "8 * n \<le> LENGTH('a)"
  shows "foldl (\<lambda>acc b. acc * 256 + ucast b) acc (be_bytes n w)
    = acc * 2 ^ (8 * n) + take_bit (8 * n) w"
  using assms
proof (induction n arbitrary: acc)
  case 0
  then show ?case by simp
next
  case (Suc n)
  let ?hi = "take_bit 8 (drop_bit (8 * n) w)"
  have "take_bit (8 * Suc n) w = push_bit (8 * n) ?hi + take_bit (8 * n) w"
    by (subst disjunctive_add) (auto simp: bit_eq_iff bit_simps)
  then have split: "take_bit (8 * Suc n) w = ?hi * 2 ^ (8 * n) + take_bit (8 * n) w"
    by (simp add: push_bit_eq_mult)
  have top: "(ucast (ucast (drop_bit (8 * n) w) :: byte) :: 'a word) = ?hi"
    by (auto simp: bit_eq_iff bit_simps)
  have le: "8 * n \<le> LENGTH('a)"
    using Suc.prems by simp
  have "foldl (\<lambda>acc b. acc * 256 + ucast b) acc (be_bytes (Suc n) w)
      = (acc * 256 + ?hi) * 2 ^ (8 * n) + take_bit (8 * n) w"
    by (simp only: be_bytes.simps foldl_Cons Suc.IH [OF le] top)
  then show ?case
    by (simp only: split) (simp add: algebra_simps power_add)
qed

lemma of_be_be_bytes:
  "LENGTH('a) = 8 * n \<Longrightarrow> of_be (be_bytes n (w :: 'a::len word)) = w"
  by (simp add: of_be_def foldl_be_bytes take_bit_word_eq_self)

lemma be_bytes_inject:
  "LENGTH('a) = 8 * n \<Longrightarrow> be_bytes n (w :: 'a::len word) = be_bytes n v \<longleftrightarrow> w = v"
  by (metis of_be_be_bytes)

lemma of_be_roundtrip [simp, byte_simps]:
  "of_be (be_bytes 2 (a :: u16)) = a"
  "of_be (be_bytes 4 (b :: u32)) = b"
  "of_be (be_bytes 8 (c :: u64)) = c"
  "of_be (be_bytes 33 (d :: Address)) = d"
  "of_be (be_bytes 32 (e :: ID)) = e"
  by (rule of_be_be_bytes, simp)+

lemma be_bytes_eq_iff [simp, byte_simps]:
  "be_bytes 2 (a :: u16) = be_bytes 2 a' \<longleftrightarrow> a = a'"
  "be_bytes 4 (b :: u32) = be_bytes 4 b' \<longleftrightarrow> b = b'"
  "be_bytes 8 (c :: u64) = be_bytes 8 c' \<longleftrightarrow> c = c'"
  "be_bytes 33 (d :: Address) = be_bytes 33 d' \<longleftrightarrow> d = d'"
  "be_bytes 32 (e :: ID) = be_bytes 32 e' \<longleftrightarrow> e = e'"
  by (rule be_bytes_inject, simp)+

text \<open>Every byte list of the right length is the encoding of a word.\<close>

lemma be_bytes_surj:
  assumes "LENGTH('a) = 8 * n" and "length bs = n"
  shows "\<exists>w :: 'a::len word. be_bytes n w = bs"
proof -
  let ?A = "range (be_bytes n :: 'a word \<Rightarrow> bytes)" and ?B = "{bs :: bytes. set bs \<subseteq> UNIV \<and> length bs = n}"
  have "inj (be_bytes n :: 'a word \<Rightarrow> bytes)"
    by (rule injI) (simp add: be_bytes_inject [OF assms(1)])
  then have "card ?A = 2 ^ (8 * n)" by (simp add: card_image card_word assms(1))
  moreover have "card ?B = 2 ^ (8 * n)"
    by (subst card_lists_length_eq) (simp_all add: card_word power_mult)
  moreover have "finite ?B" by (rule finite_lists_length_eq) simp
  moreover have "?A \<subseteq> ?B" by auto
  ultimately have "?A = ?B" by (intro card_subset_eq) simp_all
  with assms(2) show ?thesis by (metis (mono_tags, lifting) mem_Collect_eq rangeE subset_UNIV)
qed

lemma be_bytes_of_be:
  "LENGTH('a) = 8 * n \<Longrightarrow> length bs = n \<Longrightarrow> be_bytes n (of_be bs :: 'a::len word) = bs"
  using be_bytes_surj of_be_be_bytes by metis

lemma be_bytes_zero: "be_bytes n 0 = replicate n 0"
  by (induction n) simp_all

lemma be_bytes_not_Nil [simp]: "be_bytes n w = [] \<longleftrightarrow> n = 0"
  by (cases n) auto

text \<open>Two concatenations of fields of equal widths agree field by field.\<close>

lemma be_append_eq_iff [simp, byte_simps]:
  "be_bytes n (w :: 'a::len word) @ xs = be_bytes n (v :: 'b::len word) @ ys
    \<longleftrightarrow> be_bytes n w = be_bytes n v \<and> xs = ys"
  by (simp add: append_eq_append_conv)

lemma slice_length: "j \<le> length v \<Longrightarrow> length (slice v i j) = j - i"
  by (simp add: slice_def)

lemma slice_drop_append [byte_simps]:
  "length xs \<le> i \<Longrightarrow> slice (xs @ ys) i j = slice ys (i - length xs) (j - length xs)"
  by (simp add: slice_def)

lemma slice_Cons [byte_simps]: "0 < i \<Longrightarrow> slice (x # xs) i j = slice xs (i - 1) (j - 1)"
  by (cases i; cases j) (simp_all add: slice_def)

lemma slice_take_append [byte_simps]:
  "length xs = j \<Longrightarrow> slice (xs @ ys) 0 j = xs"
  by (simp add: slice_def)

lemma slice_all [byte_simps]: "length xs = j \<Longrightarrow> slice xs 0 j = xs"
  by (simp add: slice_def)

section \<open>Go functions with errors over a store\<close>

type_synonym ('s, 'e, 'a) exec = "'s \<Rightarrow> ('e + 'a) \<times> 's"

definition go_return :: "'a \<Rightarrow> ('s, 'e, 'a) exec" where
  "go_return x = (\<lambda>s. (Inr x, s))"

definition go_fail :: "'e \<Rightarrow> ('s, 'e, 'a) exec" where
  "go_fail e = (\<lambda>s. (Inl e, s))"

definition go_bind :: "('s, 'e, 'a) exec \<Rightarrow> ('a \<Rightarrow> ('s, 'e, 'b) exec) \<Rightarrow> ('s, 'e, 'b) exec" where
  "go_bind m f = (\<lambda>s. case m s of (Inl e, t) \<Rightarrow> (Inl e, t) | (Inr x, t) \<Rightarrow> f x t)"

text \<open>\<open>if c { return e }\<close> followed by the rest.\<close>

definition go_guard :: "bool \<Rightarrow> 'e \<Rightarrow> ('s, 'e, 'a) exec \<Rightarrow> ('s, 'e, 'a) exec" where
  "go_guard c e m = (if c then go_fail e else m)"

text \<open>A read of the store that may fail, and a pure computation that may fail.\<close>

definition go_read :: "('s \<Rightarrow> 'e + 'a) \<Rightarrow> ('s, 'e, 'a) exec" where
  "go_read f = (\<lambda>s. (f s, s))"

definition go_lift :: "'e + 'a \<Rightarrow> ('s, 'e, 'a) exec" where
  "go_lift r = (\<lambda>s. (r, s))"

lemma go_return_run [run_simps]: "go_return x s = (Inr y, t) \<longleftrightarrow> y = x \<and> t = s"
  by (auto simp: go_return_def)

lemma go_fail_run [run_simps]: "go_fail e s = (Inr y, t) \<longleftrightarrow> False"
  by (simp add: go_fail_def)

lemma go_bind_run [run_simps]:
  "go_bind m f s = (Inr y, t) \<longleftrightarrow> (\<exists>x u. m s = (Inr x, u) \<and> f x u = (Inr y, t))"
  by (auto simp: go_bind_def split: prod.splits sum.splits)

lemma go_guard_run [run_simps]:
  "go_guard c e m s = (Inr y, t) \<longleftrightarrow> \<not> c \<and> m s = (Inr y, t)"
  by (auto simp: go_guard_def go_fail_def)

lemma go_read_run [run_simps]: "go_read f s = (Inr y, t) \<longleftrightarrow> f s = Inr y \<and> t = s"
  by (auto simp: go_read_def)

lemma go_lift_run [run_simps]: "go_lift r s = (Inr y, t) \<longleftrightarrow> r = Inr y \<and> t = s"
  by (auto simp: go_lift_def)

text \<open>Equations that run a function forwards, for error branches and concrete inputs.\<close>

lemma go_bind_Inl: "m s = (Inl e, t) \<Longrightarrow> go_bind m f s = (Inl e, t)"
  by (simp add: go_bind_def)

lemma go_bind_Inr: "m s = (Inr x, t) \<Longrightarrow> go_bind m f s = f x t"
  by (simp add: go_bind_def)

lemmas go_defs = go_return_def go_fail_def go_bind_def go_guard_def go_read_def go_lift_def

section \<open>Word arithmetic against natural numbers\<close>

lemma unat_add_exact:
  "unat a + unat b < 2 ^ LENGTH('a) \<Longrightarrow> unat ((a :: 'a::len word) + b) = unat a + unat b"
  by (simp add: unat_word_ariths)

lemma unat_sub_exact: "b \<le> a \<Longrightarrow> unat ((a :: 'a::len word) - b) = unat a - unat b"
  by (simp add: unat_sub)

lemma unat_mul_exact:
  "unat a * unat b < 2 ^ LENGTH('a) \<Longrightarrow> unat ((a :: 'a::len word) * b) = unat a * unat b"
  by (simp add: unat_word_ariths)

lemma unat_lt_u64 [simp]: "unat (a :: u64) < 18446744073709551616"
  using unsigned_less [of a, where ?'a = nat] by simp

text \<open>Updating one entry of a finite family changes the sum by the difference of that entry.\<close>

lemma sum_fun_upd_nat:
  fixes f :: "'a::finite \<Rightarrow> nat"
  shows "(\<Sum>x\<in>UNIV. (f(a := v)) x) + f a = (\<Sum>x\<in>UNIV. f x) + v"
proof -
  have "(\<Sum>x\<in>UNIV. (f(a := v)) x) = v + (\<Sum>x\<in>UNIV - {a}. f x)"
    by (subst sum.remove [of _ a]) (auto intro: sum.cong)
  moreover have "(\<Sum>x\<in>UNIV. f x) = f a + (\<Sum>x\<in>UNIV - {a}. f x)"
    by (subst sum.remove [of _ a]) auto
  ultimately show ?thesis by simp
qed

end
