(* ===== verification/Errors.thy ===== *)
theory Errors
  imports Prelude
begin

text \<open>
  The errors the code can return. A sentinel declared with \<open>errors.New\<close> is \<open>Err\<close> with its
  message; the messages of the repository are pairwise distinct, so two sentinels are equal
  exactly when they are the same variable. An error wrapped with
  \<open>fmt.Errorf("%w: ...", ErrX)\<close> is its sentinel, which is what \<open>errors.Is\<close> sees; an error made by
  \<open>fmt.Errorf\<close> or \<open>errors.New\<close> at the place of return is \<open>Err\<close> with the fixed part of its
  message. \<open>DbErrNotFound\<close> is \<open>database.ErrNotFound\<close>, \<open>HostError\<close> any other error of a
  library the code calls, and \<open>GoPanic\<close> a run-time panic, which aborts the call.
\<close>

datatype error =
    Err string
  | DbErrNotFound
  | HostError string
  | GoPanic string

type_synonym ('s, 'a) action_run = "('s, error, 'a) exec"

section \<open>Sentinels of storage/errors.go\<close>

abbreviation ErrInvalidAddress :: error where "ErrInvalidAddress \<equiv> Err ''invalid address''"
abbreviation ErrInvalidBalance :: error where "ErrInvalidBalance \<equiv> Err ''invalid balance''"
abbreviation ErrMarketNotFound :: error where "ErrMarketNotFound \<equiv> Err ''market not found''"
abbreviation ErrMarketExists :: error where "ErrMarketExists \<equiv> Err ''market already exists''"
abbreviation ErrMarketNotActive :: error where "ErrMarketNotActive \<equiv> Err ''market is not active''"
abbreviation ErrMarketNotResolved :: error where "ErrMarketNotResolved \<equiv> Err ''market is not resolved''"
abbreviation ErrMarketResolved :: error where "ErrMarketResolved \<equiv> Err ''market already resolved''"
abbreviation ErrInvalidOutcome :: error where "ErrInvalidOutcome \<equiv> Err ''invalid outcome''"
abbreviation ErrDisputeWindow :: error where "ErrDisputeWindow \<equiv> Err ''not in dispute window''"
abbreviation ErrUnauthorized :: error where "ErrUnauthorized \<equiv> Err ''unauthorized''"
abbreviation ErrInvalidTokenomicsConfig :: error where "ErrInvalidTokenomicsConfig \<equiv> Err ''invalid tokenomics config''"
abbreviation ErrInvalidFeeRouterConfig :: error where "ErrInvalidFeeRouterConfig \<equiv> Err ''invalid fee router config''"
abbreviation ErrInvalidFeeAmount :: error where "ErrInvalidFeeAmount \<equiv> Err ''fee amount must be > 0''"
abbreviation ErrInvalidReleaseAmount :: error where "ErrInvalidReleaseAmount \<equiv> Err ''release amount must be > 0''"
abbreviation ErrInsufficientLockedCOL :: error where "ErrInsufficientLockedCOL \<equiv> Err ''insufficient locked COL''"
abbreviation ErrReleaseTooEarly :: error where "ErrReleaseTooEarly \<equiv> Err ''release epoch has not elapsed''"
abbreviation ErrReleaseCapExceeded :: error where "ErrReleaseCapExceeded \<equiv> Err ''release amount exceeds epoch cap''"
abbreviation ErrInvalidVAIAmount :: error where "ErrInvalidVAIAmount \<equiv> Err ''VAI amount must be > 0''"
abbreviation ErrVAIDebtCeilingExceeded :: error where "ErrVAIDebtCeilingExceeded \<equiv> Err ''VAI debt ceiling exceeded''"
abbreviation ErrVAIEpochMintLimitExceeded :: error where "ErrVAIEpochMintLimitExceeded \<equiv> Err ''VAI epoch mint limit exceeded''"
abbreviation ErrVAIDebtInvariant :: error where "ErrVAIDebtInvariant \<equiv> Err ''VAI debt invariant violation''"
abbreviation ErrBackingRatioViolation :: error where "ErrBackingRatioViolation \<equiv> Err ''backing ratio floor violated''"
abbreviation ErrInvalidRiskConfig :: error where "ErrInvalidRiskConfig \<equiv> Err ''invalid risk config''"
abbreviation ErrInvalidReserveState :: error where "ErrInvalidReserveState \<equiv> Err ''invalid reserve state''"
abbreviation ErrInvalidReserveUpdate :: error where "ErrInvalidReserveUpdate \<equiv> Err ''invalid reserve update''"
abbreviation ErrUnsupportedAsset :: error where "ErrUnsupportedAsset \<equiv> Err ''unsupported asset''"
abbreviation ErrInvalidAssetPair :: error where "ErrInvalidAssetPair \<equiv> Err ''invalid asset pair''"
abbreviation ErrInvalidPoolFee :: error where "ErrInvalidPoolFee \<equiv> Err ''invalid pool fee''"
abbreviation ErrPoolNotFound :: error where "ErrPoolNotFound \<equiv> Err ''pool not found''"
abbreviation ErrPoolExists :: error where "ErrPoolExists \<equiv> Err ''pool already exists''"
abbreviation ErrInvalidLiquidityAmount :: error where "ErrInvalidLiquidityAmount \<equiv> Err ''invalid liquidity amount''"
abbreviation ErrInvalidSwapAmount :: error where "ErrInvalidSwapAmount \<equiv> Err ''invalid swap amount''"
abbreviation ErrInsufficientLiquidity :: error where "ErrInsufficientLiquidity \<equiv> Err ''insufficient liquidity''"
abbreviation ErrInsufficientLPBalance :: error where "ErrInsufficientLPBalance \<equiv> Err ''insufficient LP balance''"
abbreviation ErrSlippageExceeded :: error where "ErrSlippageExceeded \<equiv> Err ''slippage exceeded''"
abbreviation ErrInvalidProofConfig :: error where "ErrInvalidProofConfig \<equiv> Err ''invalid proof config''"
abbreviation ErrProofNotFound :: error where "ErrProofNotFound \<equiv> Err ''batch proof not found''"
abbreviation ErrProofAlreadySubmitted :: error where "ErrProofAlreadySubmitted \<equiv> Err ''batch proof already submitted''"
abbreviation ErrInvalidProofEnvelope :: error where "ErrInvalidProofEnvelope \<equiv> Err ''invalid proof envelope''"
abbreviation ErrProofTypeMismatch :: error where "ErrProofTypeMismatch \<equiv> Err ''proof type mismatch''"
abbreviation ErrProofCircuitMismatch :: error where "ErrProofCircuitMismatch \<equiv> Err ''proof circuit mismatch''"
abbreviation ErrUnsupportedProofCircuit :: error where "ErrUnsupportedProofCircuit \<equiv> Err ''unsupported proof circuit''"
abbreviation ErrProofDeadlineMissed :: error where "ErrProofDeadlineMissed \<equiv> Err ''proof deadline missed''"
abbreviation ErrProofFillsMismatch :: error where "ErrProofFillsMismatch \<equiv> Err ''proof/batch fills hash mismatch''"
abbreviation ErrProofCommitmentMismatch :: error where "ErrProofCommitmentMismatch \<equiv> Err ''proof commitment mismatch''"
abbreviation ErrProofPublicInputsMismatch :: error where "ErrProofPublicInputsMismatch \<equiv> Err ''proof public inputs mismatch''"
abbreviation ErrProofVerifierUnavailable :: error where "ErrProofVerifierUnavailable \<equiv> Err ''proof verifier unavailable''"
abbreviation ErrProofVerificationFailed :: error where "ErrProofVerificationFailed \<equiv> Err ''proof verification failed''"
abbreviation ErrVellumProofNotFound :: error where "ErrVellumProofNotFound \<equiv> Err ''vellum proof not found''"
abbreviation ErrInvalidVellumProof :: error where "ErrInvalidVellumProof \<equiv> Err ''invalid vellum proof''"
abbreviation ErrInvalidBloodsworn :: error where "ErrInvalidBloodsworn \<equiv> Err ''invalid bloodsworn''"
abbreviation ErrGlyphNotFound :: error where "ErrGlyphNotFound \<equiv> Err ''glyph not found''"
abbreviation ErrInvalidGlyph :: error where "ErrInvalidGlyph \<equiv> Err ''invalid glyph''"

section \<open>Sentinels and messages of the actions\<close>

abbreviation ErrUnmarshalEmptyBurnVAI :: error where "ErrUnmarshalEmptyBurnVAI \<equiv> Err ''cannot unmarshal empty bytes as burn_vai''"
abbreviation ErrFillsHashEmpty :: error where "ErrFillsHashEmpty \<equiv> Err ''fills hash is empty''"
abbreviation ErrFillsHashTooLarge :: error where "ErrFillsHashTooLarge \<equiv> Err ''fills hash is too large''"
abbreviation ErrFillsHashWrongSize :: error where "ErrFillsHashWrongSize \<equiv> Err ''fills hash has invalid size''"
abbreviation ErrClearPriceZero :: error where "ErrClearPriceZero \<equiv> Err ''clear price is zero''"
abbreviation ErrUnmarshalEmptyClearBatch :: error where "ErrUnmarshalEmptyClearBatch \<equiv> Err ''cannot unmarshal empty bytes as clear_batch''"
abbreviation ErrEnvelopeEmpty :: error where "ErrEnvelopeEmpty \<equiv> Err ''envelope is empty''"
abbreviation ErrEnvelopeTooLarge :: error where "ErrEnvelopeTooLarge \<equiv> Err ''envelope is too large''"
abbreviation ErrCommitmentEmpty :: error where "ErrCommitmentEmpty \<equiv> Err ''commitment is empty''"
abbreviation ErrCommitmentTooLarge :: error where "ErrCommitmentTooLarge \<equiv> Err ''commitment is too large''"
abbreviation ErrUnmarshalEmptyCommitOrder :: error where "ErrUnmarshalEmptyCommitOrder \<equiv> Err ''cannot unmarshal empty bytes as commit_order''"
abbreviation ErrInvalidOutcomes :: error where "ErrInvalidOutcomes \<equiv> Err ''outcomes must be >= 2''"
abbreviation ErrInvalidResolutionTime :: error where "ErrInvalidResolutionTime \<equiv> Err ''invalid resolution time''"
abbreviation ErrCreatorBondZero :: error where "ErrCreatorBondZero \<equiv> Err ''creator bond is zero''"
abbreviation ErrQuestionTooLarge :: error where "ErrQuestionTooLarge \<equiv> Err ''question too large''"
abbreviation ErrUnmarshalEmptyCreateMarket :: error where "ErrUnmarshalEmptyCreateMarket \<equiv> Err ''cannot unmarshal empty bytes as create_market''"
abbreviation ErrUnmarshalEmptyCreatePool :: error where "ErrUnmarshalEmptyCreatePool \<equiv> Err ''cannot unmarshal empty bytes as create_pool''"
abbreviation ErrBondZero :: error where "ErrBondZero \<equiv> Err ''bond is zero''"
abbreviation ErrEvidenceEmpty :: error where "ErrEvidenceEmpty \<equiv> Err ''evidence is empty''"
abbreviation ErrEvidenceTooLarge :: error where "ErrEvidenceTooLarge \<equiv> Err ''evidence is too large''"
abbreviation ErrUnmarshalEmptyDispute :: error where "ErrUnmarshalEmptyDispute \<equiv> Err ''cannot unmarshal empty bytes as dispute''"
abbreviation ErrUnmarshalEmptyMintVAI :: error where "ErrUnmarshalEmptyMintVAI \<equiv> Err ''cannot unmarshal empty bytes as mint_vai''"
abbreviation ErrUnmarshalEmptyReleaseCOLTranche :: error where "ErrUnmarshalEmptyReleaseCOLTranche \<equiv> Err ''cannot unmarshal empty bytes as release_col_tranche''"
abbreviation ErrSignatureEmpty :: error where "ErrSignatureEmpty \<equiv> Err ''signature is empty''"
abbreviation ErrSignatureTooLarge :: error where "ErrSignatureTooLarge \<equiv> Err ''signature is too large''"
abbreviation ErrUnmarshalEmptyResolveMarket :: error where "ErrUnmarshalEmptyResolveMarket \<equiv> Err ''cannot unmarshal empty bytes as resolve_market''"
abbreviation ErrDecryptionShareEmpty :: error where "ErrDecryptionShareEmpty \<equiv> Err ''decryption share is empty''"
abbreviation ErrDecryptionShareTooLarge :: error where "ErrDecryptionShareTooLarge \<equiv> Err ''decryption share is too large''"
abbreviation ErrUnmarshalEmptyRevealBatch :: error where "ErrUnmarshalEmptyRevealBatch \<equiv> Err ''cannot unmarshal empty bytes as reveal_batch''"
abbreviation ErrUnmarshalEmptyRouteFees :: error where "ErrUnmarshalEmptyRouteFees \<equiv> Err ''cannot unmarshal empty bytes as route_fees''"
abbreviation ErrUnmarshalEmptySetProofConfig :: error where "ErrUnmarshalEmptySetProofConfig \<equiv> Err ''cannot unmarshal empty bytes as set_proof_config''"
abbreviation ErrUnmarshalEmptySetRiskParams :: error where "ErrUnmarshalEmptySetRiskParams \<equiv> Err ''cannot unmarshal empty bytes as set_risk_params''"
abbreviation ErrUnmarshalEmptySubmitBatchProof :: error where "ErrUnmarshalEmptySubmitBatchProof \<equiv> Err ''cannot unmarshal empty bytes as submit_batch_proof''"
abbreviation ErrOutputValueZero :: error where "ErrOutputValueZero \<equiv> Err ''value is zero''"
abbreviation ErrOutputMemoTooLarge :: error where "ErrOutputMemoTooLarge \<equiv> Err ''memo is too large''"
abbreviation ErrUnmarshalEmptyTransfer :: error where "ErrUnmarshalEmptyTransfer \<equiv> Err ''cannot unmarshal empty bytes as transfer''"
abbreviation ErrUnmarshalEmptyUpdateReserveState :: error where "ErrUnmarshalEmptyUpdateReserveState \<equiv> Err ''cannot unmarshal empty bytes as update_reserve_state''"
abbreviation InvalidMarketDataLength :: error where "InvalidMarketDataLength \<equiv> Err ''invalid market data length''"
abbreviation InvalidPoolDataLength :: error where "InvalidPoolDataLength \<equiv> Err ''invalid pool data length''"
abbreviation DivisionByZero :: error where "DivisionByZero \<equiv> Err ''division by zero''"
abbreviation Overflow :: error where "Overflow \<equiv> Err ''overflow''"

end
