(* ===== verification/Host.thy ===== *)
theory Host
  imports Errors
begin

text \<open>
  What the VM takes from outside the repository. The code runs inside HyperSDK and calls it and
  avalanchego through a few functions whose source is not part of the repository; each is a field of
  the record \<open>host\<close>, which every definition that calls one of them takes as its argument:
  \<^item> \<open>GetValue\<close>, \<open>Insert\<close>, \<open>Remove\<close>: the interface \<open>state.Mutable\<close> (and
    \<open>state.Immutable\<close>) through which actions reach the chain's key-value state;
  \<^item> \<open>smath_Add\<close>, \<open>smath_Sub\<close>, \<open>smath_Mul\<close>: the overflow-checked arithmetic of
    \<open>avalanchego/utils/math\<close>;
  \<^item> \<open>ParseUInt64\<close>: \<open>database.ParseUInt64\<close>;
  \<^item> \<open>DefaultMinimumPrefix\<close>: the first key prefix \<open>state/metadata\<close> leaves to a VM.

  The locales below say what the code relies on. \<open>checked_math\<close> is the documented contract of
  the arithmetic, \<open>kv_state\<close> that a read returns what was last written, \<open>host_env\<close> both
  together with the decoding of a stored integer, and \<open>total_env\<close> a state that also accepts
  every write. \<open>mem_host\<close> is a state held in memory as a finite map. Its interpretation shows
  that the contracts can be met together, and concrete runs of the model are evaluated on it.
\<close>

record 's host =
  GetValue :: "'s \<Rightarrow> bytes \<Rightarrow> error + bytes"
  Insert :: "bytes \<Rightarrow> bytes \<Rightarrow> ('s, unit) action_run"
  Remove :: "bytes \<Rightarrow> ('s, unit) action_run"
  smath_Add :: "u64 \<Rightarrow> u64 \<Rightarrow> error + u64"
  smath_Sub :: "u64 \<Rightarrow> u64 \<Rightarrow> error + u64"
  smath_Mul :: "u64 \<Rightarrow> u64 \<Rightarrow> error + u64"
  ParseUInt64 :: "bytes \<Rightarrow> error + u64"
  DefaultMinimumPrefix :: byte

section \<open>The contracts\<close>

locale checked_math =
  fixes add sub mul :: "u64 \<Rightarrow> u64 \<Rightarrow> error + u64"
  assumes add_fits: "unat a + unat b < 2 ^ 64 \<Longrightarrow> add a b = Inr (a + b)"
    and add_overflow: "2 ^ 64 \<le> unat a + unat b \<Longrightarrow> \<exists>e. add a b = Inl e"
    and sub_fits: "b \<le> a \<Longrightarrow> sub a b = Inr (a - b)"
    and sub_underflow: "a < b \<Longrightarrow> \<exists>e. sub a b = Inl e"
    and mul_fits: "unat a * unat b < 2 ^ 64 \<Longrightarrow> mul a b = Inr (a * b)"
    and mul_overflow: "2 ^ 64 \<le> unat a * unat b \<Longrightarrow> \<exists>e. mul a b = Inl e"
begin

lemma add_Inr_iff: "add a b = Inr c \<longleftrightarrow> unat a + unat b < 2 ^ 64 \<and> c = a + b"
proof (cases "unat a + unat b < 2 ^ 64")
  case False
  then obtain e where "add a b = Inl e" using add_overflow by force
  with False show ?thesis by simp
qed (auto simp: add_fits)

lemma sub_Inr_iff: "sub a b = Inr c \<longleftrightarrow> b \<le> a \<and> c = a - b"
proof (cases "b \<le> a")
  case False
  then obtain e where "sub a b = Inl e" using sub_underflow by force
  with False show ?thesis by simp
qed (auto simp: sub_fits)

lemma mul_Inr_iff: "mul a b = Inr c \<longleftrightarrow> unat a * unat b < 2 ^ 64 \<and> c = a * b"
proof (cases "unat a * unat b < 2 ^ 64")
  case False
  then obtain e where "mul a b = Inl e" using mul_overflow by force
  with False show ?thesis by simp
qed (auto simp: mul_fits)

lemma add_unat: "add a b = Inr c \<Longrightarrow> unat c = unat a + unat b"
  by (auto simp: add_Inr_iff unat_add_exact)

lemma sub_unat: "sub a b = Inr c \<Longrightarrow> unat b \<le> unat a \<and> unat c = unat a - unat b"
  by (auto simp: sub_Inr_iff unat_sub_exact word_le_nat_alt)

lemma mul_unat: "mul a b = Inr c \<Longrightarrow> unat c = unat a * unat b"
  by (auto simp: mul_Inr_iff unat_mul_exact)

end

locale kv_state =
  fixes get :: "'s \<Rightarrow> bytes \<Rightarrow> error + bytes"
    and insert_kv :: "bytes \<Rightarrow> bytes \<Rightarrow> ('s, unit) action_run"
    and remove_kv :: "bytes \<Rightarrow> ('s, unit) action_run"
  assumes insert_get: "insert_kv k v s = (Inr u, t) \<Longrightarrow> get t = (get s)(k := Inr v)"
    and remove_get: "remove_kv k s = (Inr u, t) \<Longrightarrow> get t = (get s)(k := Inl DbErrNotFound)"

locale host_env =
  checked_math "smath_Add H" "smath_Sub H" "smath_Mul H" +
  kv_state "GetValue H" "Insert H" "Remove H"
  for H :: "'s host" +
  assumes parse_ok: "length b = 8 \<Longrightarrow> ParseUInt64 H b = Inr (of_be b)"
    and parse_wrong_size: "length b \<noteq> 8 \<Longrightarrow> \<exists>e. ParseUInt64 H b = Inl e"
begin

lemma parse_be [simp]: "ParseUInt64 H (be_bytes 8 (w :: u64)) = Inr w"
  by (simp add: parse_ok)

end

locale total_env = host_env +
  assumes insert_total: "\<exists>t. Insert H k v s = (Inr (), t)"
    and remove_total: "\<exists>t. Remove H k s = (Inr (), t)"
begin

lemma insert_succeeds: "\<exists>t. Insert H k v s = (Inr (), t) \<and> GetValue H t = (GetValue H s)(k := Inr v)"
  using insert_total [of k v s] insert_get by blast

lemma remove_succeeds:
  "\<exists>t. Remove H k s = (Inr (), t) \<and> GetValue H t = (GetValue H s)(k := Inl DbErrNotFound)"
  using remove_total [of k s] remove_get by blast

end

section \<open>A state held in memory\<close>

type_synonym mem = "bytes \<rightharpoonup> bytes"

definition mem_get :: "mem \<Rightarrow> bytes \<Rightarrow> error + bytes" where
  "mem_get m k = (case m k of None \<Rightarrow> Inl DbErrNotFound | Some v \<Rightarrow> Inr v)"

definition mem_add :: "u64 \<Rightarrow> u64 \<Rightarrow> error + u64" where
  "mem_add a b = (if a + b < a then Inl (HostError ''overflow'') else Inr (a + b))"

definition mem_sub :: "u64 \<Rightarrow> u64 \<Rightarrow> error + u64" where
  "mem_sub a b = (if a < b then Inl (HostError ''underflow'') else Inr (a - b))"

definition mem_mul :: "u64 \<Rightarrow> u64 \<Rightarrow> error + u64" where
  "mem_mul a b = (if 2 ^ 64 \<le> unat a * unat b then Inl (HostError ''overflow'') else Inr (a * b))"

definition mem_parse :: "bytes \<Rightarrow> error + u64" where
  "mem_parse b = (if length b = 8 then Inr (of_be b) else Inl (HostError ''wrong size''))"

definition mem_host :: "mem host" where
  "mem_host = \<lparr>GetValue = mem_get,
     Insert = (\<lambda>k v m. (Inr (), m(k \<mapsto> v))),
     Remove = (\<lambda>k m. (Inr (), m(k := None))),
     smath_Add = mem_add, smath_Sub = mem_sub, smath_Mul = mem_mul,
     ParseUInt64 = mem_parse, DefaultMinimumPrefix = 3\<rparr>"

lemma mem_add_no_overflow: "a + b < (a :: u64) \<longleftrightarrow> 2 ^ 64 \<le> unat a + unat b"
proof -
  have "a + b < a \<longleftrightarrow> \<not> a \<le> a + b" by (simp add: not_le)
  also have "\<dots> \<longleftrightarrow> \<not> unat a + unat b < 2 ^ 64"
    using no_olen_add_nat [of a b] by simp
  finally show ?thesis by (simp add: not_less)
qed

lemma mem_checked_math: "checked_math mem_add mem_sub mem_mul"
  by unfold_locales (auto simp: mem_add_def mem_sub_def mem_mul_def mem_add_no_overflow)

interpretation mem_env: total_env mem_host
proof -
  show "total_env mem_host"
    by (intro total_env.intro host_env.intro host_env_axioms.intro total_env_axioms.intro
        kv_state.intro)
      (auto simp: mem_host_def mem_get_def mem_parse_def mem_checked_math split: option.splits)
qed

end
