(* ===== verification/Storage_Keys.thy ===== *)
theory Storage_Keys
  imports Host
begin

text \<open>
  The state keys of \<open>storage/storage.go\<close>: one prefix byte, the identifying fields at fixed
  width, and the two-byte chunk count HyperSDK reads off the end of a key.

  \<open>slot\<close> names the storage slots abstractly and \<open>slot_key\<close> is the byte key of a slot. Every key
  function of the code is \<open>slot_key\<close> of its slot (collection \<open>key_simps\<close>) and \<open>slot_key\<close> is
  injective, so reasoning about which write can affect which read is reasoning about slots.
\<close>

named_theorems key_simps

section \<open>Prefixes and chunk counts\<close>

definition balancePrefix :: "'s host \<Rightarrow> byte" where
  "balancePrefix H = DefaultMinimumPrefix H"

definition marketPrefix :: "'s host \<Rightarrow> byte" where
  "marketPrefix H = DefaultMinimumPrefix H + 1"

definition commitmentPrefix :: "'s host \<Rightarrow> byte" where
  "commitmentPrefix H = DefaultMinimumPrefix H + 2"

definition batchPrefix :: "'s host \<Rightarrow> byte" where
  "batchPrefix H = DefaultMinimumPrefix H + 3"

definition oraclePrefix :: "'s host \<Rightarrow> byte" where
  "oraclePrefix H = DefaultMinimumPrefix H + 4"

definition treasuryConfigPrefix :: "'s host \<Rightarrow> byte" where
  "treasuryConfigPrefix H = DefaultMinimumPrefix H + 5"

definition treasuryStatePrefix :: "'s host \<Rightarrow> byte" where
  "treasuryStatePrefix H = DefaultMinimumPrefix H + 6"

definition feeRouterConfigPrefix :: "'s host \<Rightarrow> byte" where
  "feeRouterConfigPrefix H = DefaultMinimumPrefix H + 7"

definition feeRouterStatePrefix :: "'s host \<Rightarrow> byte" where
  "feeRouterStatePrefix H = DefaultMinimumPrefix H + 8"

definition vaiConfigPrefix :: "'s host \<Rightarrow> byte" where
  "vaiConfigPrefix H = DefaultMinimumPrefix H + 9"

definition vaiStatePrefix :: "'s host \<Rightarrow> byte" where
  "vaiStatePrefix H = DefaultMinimumPrefix H + 10"

definition vaiBalancePrefix :: "'s host \<Rightarrow> byte" where
  "vaiBalancePrefix H = DefaultMinimumPrefix H + 11"

definition poolPrefix :: "'s host \<Rightarrow> byte" where
  "poolPrefix H = DefaultMinimumPrefix H + 12"

definition lpBalancePrefix :: "'s host \<Rightarrow> byte" where
  "lpBalancePrefix H = DefaultMinimumPrefix H + 13"

definition riskConfigPrefix :: "'s host \<Rightarrow> byte" where
  "riskConfigPrefix H = DefaultMinimumPrefix H + 14"

definition reserveStatePrefix :: "'s host \<Rightarrow> byte" where
  "reserveStatePrefix H = DefaultMinimumPrefix H + 15"

definition proofConfigPrefix :: "'s host \<Rightarrow> byte" where
  "proofConfigPrefix H = DefaultMinimumPrefix H + 16"

definition batchProofPrefix :: "'s host \<Rightarrow> byte" where
  "batchProofPrefix H = DefaultMinimumPrefix H + 17"

definition vellumProofPrefix :: "'s host \<Rightarrow> byte" where
  "vellumProofPrefix H = DefaultMinimumPrefix H + 18"

definition bloodswornPrefix :: "'s host \<Rightarrow> byte" where
  "bloodswornPrefix H = DefaultMinimumPrefix H + 19"

definition glyphPrefix :: "'s host \<Rightarrow> byte" where
  "glyphPrefix H = DefaultMinimumPrefix H + 20"

lemmas prefix_defs = balancePrefix_def marketPrefix_def commitmentPrefix_def batchPrefix_def
  oraclePrefix_def treasuryConfigPrefix_def treasuryStatePrefix_def feeRouterConfigPrefix_def
  feeRouterStatePrefix_def vaiConfigPrefix_def vaiStatePrefix_def vaiBalancePrefix_def
  poolPrefix_def lpBalancePrefix_def riskConfigPrefix_def reserveStatePrefix_def
  proofConfigPrefix_def batchProofPrefix_def vellumProofPrefix_def bloodswornPrefix_def
  glyphPrefix_def

abbreviation BalanceChunks :: u16 where "BalanceChunks \<equiv> 1"
abbreviation MarketChunks :: u16 where "MarketChunks \<equiv> 8"
abbreviation CommitmentChunks :: u16 where "CommitmentChunks \<equiv> 16"
abbreviation BatchChunks :: u16 where "BatchChunks \<equiv> 4"
abbreviation OracleChunks :: u16 where "OracleChunks \<equiv> 8"
abbreviation TreasuryConfigChunks :: u16 where "TreasuryConfigChunks \<equiv> 4"
abbreviation TreasuryStateChunks :: u16 where "TreasuryStateChunks \<equiv> 4"
abbreviation FeeRouterConfigChunks :: u16 where "FeeRouterConfigChunks \<equiv> 2"
abbreviation FeeRouterStateChunks :: u16 where "FeeRouterStateChunks \<equiv> 4"
abbreviation VAIConfigChunks :: u16 where "VAIConfigChunks \<equiv> 4"
abbreviation VAIStateChunks :: u16 where "VAIStateChunks \<equiv> 4"
abbreviation VAIBalanceChunks :: u16 where "VAIBalanceChunks \<equiv> 1"
abbreviation PoolChunks :: u16 where "PoolChunks \<equiv> 4"
abbreviation LPBalanceChunks :: u16 where "LPBalanceChunks \<equiv> 1"
abbreviation RiskConfigChunks :: u16 where "RiskConfigChunks \<equiv> 4"
abbreviation ReserveStateChunks :: u16 where "ReserveStateChunks \<equiv> 4"
abbreviation ProofConfigChunks :: u16 where "ProofConfigChunks \<equiv> 4"
abbreviation BatchProofChunks :: u16 where "BatchProofChunks \<equiv> 8"
abbreviation VellumProofChunks :: u16 where "VellumProofChunks \<equiv> 128"
abbreviation BloodswornChunks :: u16 where "BloodswornChunks \<equiv> 4"
abbreviation GlyphChunks :: u16 where "GlyphChunks \<equiv> 16"

section \<open>The key functions\<close>

definition BalanceKey :: "'s host \<Rightarrow> Address \<Rightarrow> bytes" where
  "BalanceKey H addr = balancePrefix H # be_bytes 33 addr @ be_bytes 2 BalanceChunks"

definition MarketKey :: "'s host \<Rightarrow> ID \<Rightarrow> bytes" where
  "MarketKey H marketID = marketPrefix H # be_bytes 32 marketID @ be_bytes 2 MarketChunks"

definition CommitmentKey :: "'s host \<Rightarrow> ID \<Rightarrow> u64 \<Rightarrow> Address \<Rightarrow> bytes" where
  "CommitmentKey H marketID windowID actor = commitmentPrefix H #
     be_bytes 32 marketID @ be_bytes 8 windowID @ be_bytes 33 actor @ be_bytes 2 CommitmentChunks"

definition BatchKey :: "'s host \<Rightarrow> ID \<Rightarrow> u64 \<Rightarrow> bytes" where
  "BatchKey H marketID windowID = batchPrefix H #
     be_bytes 32 marketID @ be_bytes 8 windowID @ be_bytes 2 BatchChunks"

definition OracleKey :: "'s host \<Rightarrow> ID \<Rightarrow> u32 \<Rightarrow> bytes" where
  "OracleKey H marketID validatorIndex = oraclePrefix H #
     be_bytes 32 marketID @ be_bytes 4 validatorIndex @ be_bytes 2 OracleChunks"

definition DisputeKey :: "'s host \<Rightarrow> ID \<Rightarrow> bytes" where
  "DisputeKey H marketID = OracleKey H marketID 0xFFFFFFFF"

definition sortedAssetPair :: "u8 \<Rightarrow> u8 \<Rightarrow> u8 \<times> u8" where
  "sortedAssetPair asset0 asset1 = (if asset0 \<le> asset1 then (asset0, asset1) else (asset1, asset0))"

definition PoolKey :: "'s host \<Rightarrow> u8 \<Rightarrow> u8 \<Rightarrow> bytes" where
  "PoolKey H asset0 asset1 = (case sortedAssetPair asset0 asset1 of (a0, a1) \<Rightarrow>
     [poolPrefix H, a0, a1] @ be_bytes 2 PoolChunks)"

definition LPBalanceKey :: "'s host \<Rightarrow> u8 \<Rightarrow> u8 \<Rightarrow> Address \<Rightarrow> bytes" where
  "LPBalanceKey H asset0 asset1 addr = (case sortedAssetPair asset0 asset1 of (a0, a1) \<Rightarrow>
     [lpBalancePrefix H, a0, a1] @ be_bytes 33 addr @ be_bytes 2 LPBalanceChunks)"

definition singletonKey :: "byte \<Rightarrow> u16 \<Rightarrow> bytes" where
  "singletonKey prefix chunks = prefix # be_bytes 2 chunks"

definition TreasuryConfigKey :: "'s host \<Rightarrow> bytes" where
  "TreasuryConfigKey H = singletonKey (treasuryConfigPrefix H) TreasuryConfigChunks"

definition TreasuryStateKey :: "'s host \<Rightarrow> bytes" where
  "TreasuryStateKey H = singletonKey (treasuryStatePrefix H) TreasuryStateChunks"

definition FeeRouterConfigKey :: "'s host \<Rightarrow> bytes" where
  "FeeRouterConfigKey H = singletonKey (feeRouterConfigPrefix H) FeeRouterConfigChunks"

definition FeeRouterStateKey :: "'s host \<Rightarrow> bytes" where
  "FeeRouterStateKey H = singletonKey (feeRouterStatePrefix H) FeeRouterStateChunks"

definition VAIConfigKey :: "'s host \<Rightarrow> bytes" where
  "VAIConfigKey H = singletonKey (vaiConfigPrefix H) VAIConfigChunks"

definition VAIStateKey :: "'s host \<Rightarrow> bytes" where
  "VAIStateKey H = singletonKey (vaiStatePrefix H) VAIStateChunks"

definition RiskConfigKey :: "'s host \<Rightarrow> bytes" where
  "RiskConfigKey H = singletonKey (riskConfigPrefix H) RiskConfigChunks"

definition ReserveStateKey :: "'s host \<Rightarrow> bytes" where
  "ReserveStateKey H = singletonKey (reserveStatePrefix H) ReserveStateChunks"

definition ProofConfigKey :: "'s host \<Rightarrow> bytes" where
  "ProofConfigKey H = singletonKey (proofConfigPrefix H) ProofConfigChunks"

definition BatchProofKey :: "'s host \<Rightarrow> ID \<Rightarrow> u64 \<Rightarrow> bytes" where
  "BatchProofKey H marketID windowID = batchProofPrefix H #
     be_bytes 32 marketID @ be_bytes 8 windowID @ be_bytes 2 BatchProofChunks"

definition VellumProofKey :: "'s host \<Rightarrow> ID \<Rightarrow> u64 \<Rightarrow> bytes" where
  "VellumProofKey H marketID windowID = vellumProofPrefix H #
     be_bytes 32 marketID @ be_bytes 8 windowID @ be_bytes 2 VellumProofChunks"

definition BloodswornKey :: "'s host \<Rightarrow> Address \<Rightarrow> bytes" where
  "BloodswornKey H addr = bloodswornPrefix H # be_bytes 33 addr @ be_bytes 2 BloodswornChunks"

definition GlyphKey :: "'s host \<Rightarrow> ID \<Rightarrow> u64 \<Rightarrow> bytes" where
  "GlyphKey H marketID windowID = glyphPrefix H #
     be_bytes 32 marketID @ be_bytes 8 windowID @ be_bytes 2 GlyphChunks"

definition VAIBalanceKey :: "'s host \<Rightarrow> Address \<Rightarrow> bytes" where
  "VAIBalanceKey H addr = vaiBalancePrefix H # be_bytes 33 addr @ be_bytes 2 VAIBalanceChunks"

section \<open>Slots\<close>

datatype slot =
    SBalance Address
  | SMarket ID
  | SCommitment ID u64 Address
  | SBatch ID u64
  | SOracle ID u32
  | STreasuryConfig
  | STreasuryState
  | SFeeRouterConfig
  | SFeeRouterState
  | SVAIConfig
  | SVAIState
  | SVAIBalance Address
  | SPool u8 u8
  | SLPBalance u8 u8 Address
  | SRiskConfig
  | SReserveState
  | SProofConfig
  | SBatchProof ID u64
  | SVellumProof ID u64
  | SBloodsworn Address
  | SGlyph ID u64

primrec slot_key :: "'s host \<Rightarrow> slot \<Rightarrow> bytes" where
  "slot_key H (SBalance a) = balancePrefix H # be_bytes 33 a @ be_bytes 2 BalanceChunks"
| "slot_key H (SMarket m) = marketPrefix H # be_bytes 32 m @ be_bytes 2 MarketChunks"
| "slot_key H (SCommitment m w a) = commitmentPrefix H #
     be_bytes 32 m @ be_bytes 8 w @ be_bytes 33 a @ be_bytes 2 CommitmentChunks"
| "slot_key H (SBatch m w) = batchPrefix H # be_bytes 32 m @ be_bytes 8 w @ be_bytes 2 BatchChunks"
| "slot_key H (SOracle m i) = oraclePrefix H # be_bytes 32 m @ be_bytes 4 i @ be_bytes 2 OracleChunks"
| "slot_key H STreasuryConfig = treasuryConfigPrefix H # be_bytes 2 TreasuryConfigChunks"
| "slot_key H STreasuryState = treasuryStatePrefix H # be_bytes 2 TreasuryStateChunks"
| "slot_key H SFeeRouterConfig = feeRouterConfigPrefix H # be_bytes 2 FeeRouterConfigChunks"
| "slot_key H SFeeRouterState = feeRouterStatePrefix H # be_bytes 2 FeeRouterStateChunks"
| "slot_key H SVAIConfig = vaiConfigPrefix H # be_bytes 2 VAIConfigChunks"
| "slot_key H SVAIState = vaiStatePrefix H # be_bytes 2 VAIStateChunks"
| "slot_key H (SVAIBalance a) = vaiBalancePrefix H # be_bytes 33 a @ be_bytes 2 VAIBalanceChunks"
| "slot_key H (SPool a b) = poolPrefix H # a # b # be_bytes 2 PoolChunks"
| "slot_key H (SLPBalance a b x) = lpBalancePrefix H # a # b # be_bytes 33 x @ be_bytes 2 LPBalanceChunks"
| "slot_key H SRiskConfig = riskConfigPrefix H # be_bytes 2 RiskConfigChunks"
| "slot_key H SReserveState = reserveStatePrefix H # be_bytes 2 ReserveStateChunks"
| "slot_key H SProofConfig = proofConfigPrefix H # be_bytes 2 ProofConfigChunks"
| "slot_key H (SBatchProof m w) = batchProofPrefix H #
     be_bytes 32 m @ be_bytes 8 w @ be_bytes 2 BatchProofChunks"
| "slot_key H (SVellumProof m w) = vellumProofPrefix H #
     be_bytes 32 m @ be_bytes 8 w @ be_bytes 2 VellumProofChunks"
| "slot_key H (SBloodsworn a) = bloodswornPrefix H # be_bytes 33 a @ be_bytes 2 BloodswornChunks"
| "slot_key H (SGlyph m w) = glyphPrefix H # be_bytes 32 m @ be_bytes 8 w @ be_bytes 2 GlyphChunks"

text \<open>The position of a slot's prefix after \<open>DefaultMinimumPrefix\<close>.\<close>

primrec slot_kind :: "slot \<Rightarrow> byte" where
  "slot_kind (SBalance a) = 0"
| "slot_kind (SMarket m) = 1"
| "slot_kind (SCommitment m w a) = 2"
| "slot_kind (SBatch m w) = 3"
| "slot_kind (SOracle m i) = 4"
| "slot_kind STreasuryConfig = 5"
| "slot_kind STreasuryState = 6"
| "slot_kind SFeeRouterConfig = 7"
| "slot_kind SFeeRouterState = 8"
| "slot_kind SVAIConfig = 9"
| "slot_kind SVAIState = 10"
| "slot_kind (SVAIBalance a) = 11"
| "slot_kind (SPool a b) = 12"
| "slot_kind (SLPBalance a b x) = 13"
| "slot_kind SRiskConfig = 14"
| "slot_kind SReserveState = 15"
| "slot_kind SProofConfig = 16"
| "slot_kind (SBatchProof m w) = 17"
| "slot_kind (SVellumProof m w) = 18"
| "slot_kind (SBloodsworn a) = 19"
| "slot_kind (SGlyph m w) = 20"

lemma hd_slot_key: "hd (slot_key H k) = DefaultMinimumPrefix H + slot_kind k"
  by (cases k) (simp_all add: prefix_defs)

lemma slot_key_kind: "slot_key H k = slot_key H k' \<Longrightarrow> slot_kind k = slot_kind k'"
  using hd_slot_key [of H k] hd_slot_key [of H k'] by simp

lemma slot_key_inject [simp]: "slot_key H k = slot_key H k' \<longleftrightarrow> k = k'"
proof
  assume eq: "slot_key H k = slot_key H k'"
  from slot_key_kind [OF eq] eq show "k = k'"
    by (cases k; cases k'; simp)
qed simp

lemma key_slots [key_simps]:
  "BalanceKey H a = slot_key H (SBalance a)"
  "MarketKey H m = slot_key H (SMarket m)"
  "CommitmentKey H m w a = slot_key H (SCommitment m w a)"
  "BatchKey H m w = slot_key H (SBatch m w)"
  "OracleKey H m i = slot_key H (SOracle m i)"
  "DisputeKey H m = slot_key H (SOracle m 0xFFFFFFFF)"
  "TreasuryConfigKey H = slot_key H STreasuryConfig"
  "TreasuryStateKey H = slot_key H STreasuryState"
  "FeeRouterConfigKey H = slot_key H SFeeRouterConfig"
  "FeeRouterStateKey H = slot_key H SFeeRouterState"
  "VAIConfigKey H = slot_key H SVAIConfig"
  "VAIStateKey H = slot_key H SVAIState"
  "VAIBalanceKey H a = slot_key H (SVAIBalance a)"
  "RiskConfigKey H = slot_key H SRiskConfig"
  "ReserveStateKey H = slot_key H SReserveState"
  "ProofConfigKey H = slot_key H SProofConfig"
  "BatchProofKey H m w = slot_key H (SBatchProof m w)"
  "VellumProofKey H m w = slot_key H (SVellumProof m w)"
  "BloodswornKey H a = slot_key H (SBloodsworn a)"
  "GlyphKey H m w = slot_key H (SGlyph m w)"
  by (simp_all add: BalanceKey_def MarketKey_def CommitmentKey_def BatchKey_def OracleKey_def
      DisputeKey_def singletonKey_def TreasuryConfigKey_def TreasuryStateKey_def
      FeeRouterConfigKey_def FeeRouterStateKey_def VAIConfigKey_def VAIStateKey_def
      VAIBalanceKey_def RiskConfigKey_def ReserveStateKey_def ProofConfigKey_def
      BatchProofKey_def VellumProofKey_def BloodswornKey_def GlyphKey_def)

lemma pair_key_slots [key_simps]:
  "PoolKey H a b = slot_key H (SPool (min a b) (max a b))"
  "LPBalanceKey H a b x = slot_key H (SLPBalance (min a b) (max a b) x)"
  by (auto simp: PoolKey_def LPBalanceKey_def sortedAssetPair_def min_def max_def)

text \<open>From here on a key is reasoned about as its slot, not as its bytes.\<close>

declare slot_key.simps [simp del]

end
