(* ===== verification/Storage_Config.thy ===== *)
theory Storage_Config
  imports Storage_Keys
begin

text \<open>
  The singleton records of \<open>storage/storage.go\<close>: treasury, fee router, VAI, risk and reserve. Each
  has its Go struct as a record, its byte layout as an \<open>encode\<close>/\<open>decode\<close> pair taken from its
  \<open>Put\<close>/\<open>Get\<close> functions, and the functions themselves. The lemmas say that decoding inverts
  encoding (for the validated records: on valid values), that a \<open>Put\<close> writes exactly its slot, and
  that a \<open>Get\<close> reads nothing else.
\<close>

section \<open>Shared idioms\<close>

text \<open>\<open>v, err := im.GetValue(..); if errors.Is(err, database.ErrNotFound) { return e }; ...\<close>\<close>

definition with_stored :: "error \<Rightarrow> error + bytes \<Rightarrow> (bytes \<Rightarrow> error + 'a) \<Rightarrow> error + 'a" where
  "with_stored e r f = (case r of
     Inl err \<Rightarrow> if err = DbErrNotFound then Inl e else Inl err
   | Inr v \<Rightarrow> f v)"

definition bipsDenominator :: u64 where
  "bipsDenominator = 10000"

lemma with_stored_Inr [simp]: "with_stored e (Inr v) f = f v"
  by (simp add: with_stored_def)

lemma with_stored_absent [simp]: "with_stored e (Inl DbErrNotFound) f = Inl e"
  by (simp add: with_stored_def)

lemma with_stored_ok: "with_stored e r f = Inr x \<longleftrightarrow> (\<exists>v. r = Inr v \<and> f v = Inr x)"
  by (auto simp: with_stored_def split: sum.splits if_splits)

section \<open>Treasury\<close>

record TreasuryConfig =
  tc_Governance :: Address
  tc_Operations :: Address
  tc_MaxReleaseBips :: u16
  tc_ReleaseEpochSeconds :: i64

record TreasuryState =
  ts_Locked :: u64
  ts_Live :: u64
  ts_Released :: u64
  ts_LastReleaseUnix :: i64

definition encodeTreasuryConfig :: "TreasuryConfig \<Rightarrow> bytes" where
  "encodeTreasuryConfig cfg = be_bytes 33 (tc_Governance cfg) @ be_bytes 33 (tc_Operations cfg)
     @ be_bytes 2 (tc_MaxReleaseBips cfg) @ be_bytes 8 (tc_ReleaseEpochSeconds cfg)"

definition decodeTreasuryConfig :: "bytes \<Rightarrow> error + TreasuryConfig" where
  "decodeTreasuryConfig v =
     (if length v < 76 then Inl ErrInvalidTokenomicsConfig
      else Inr \<lparr>tc_Governance = of_be (slice v 0 33), tc_Operations = of_be (slice v 33 66),
        tc_MaxReleaseBips = of_be (slice v 66 68), tc_ReleaseEpochSeconds = of_be (slice v 68 76)\<rparr>)"

definition PutTreasuryConfig :: "'s host \<Rightarrow> TreasuryConfig \<Rightarrow> ('s, unit) action_run" where
  "PutTreasuryConfig H cfg = Insert H (TreasuryConfigKey H) (encodeTreasuryConfig cfg)"

definition GetTreasuryConfig :: "'s host \<Rightarrow> 's \<Rightarrow> error + TreasuryConfig" where
  "GetTreasuryConfig H s =
     with_stored ErrInvalidTokenomicsConfig (GetValue H s (TreasuryConfigKey H)) decodeTreasuryConfig"

definition encodeTreasuryState :: "TreasuryState \<Rightarrow> bytes" where
  "encodeTreasuryState st = be_bytes 8 (ts_Locked st) @ be_bytes 8 (ts_Live st)
     @ be_bytes 8 (ts_Released st) @ be_bytes 8 (ts_LastReleaseUnix st)"

definition decodeTreasuryState :: "bytes \<Rightarrow> error + TreasuryState" where
  "decodeTreasuryState v =
     (if length v < 32 then Inl ErrInvalidTokenomicsConfig
      else Inr \<lparr>ts_Locked = of_be (slice v 0 8), ts_Live = of_be (slice v 8 16),
        ts_Released = of_be (slice v 16 24), ts_LastReleaseUnix = of_be (slice v 24 32)\<rparr>)"

definition PutTreasuryState :: "'s host \<Rightarrow> TreasuryState \<Rightarrow> ('s, unit) action_run" where
  "PutTreasuryState H st = Insert H (TreasuryStateKey H) (encodeTreasuryState st)"

definition GetTreasuryState :: "'s host \<Rightarrow> 's \<Rightarrow> error + TreasuryState" where
  "GetTreasuryState H s =
     with_stored ErrInvalidTokenomicsConfig (GetValue H s (TreasuryStateKey H)) decodeTreasuryState"

section \<open>Fee router\<close>

record FeeRouterConfig =
  fc_MSRBBips :: u16
  fc_COLBips :: u16
  fc_OpsBips :: u16

record FeeRouterState =
  fs_MSRBBudget :: u64
  fs_COLBudget :: u64
  fs_OpsBudget :: u64

definition encodeFeeRouterConfig :: "FeeRouterConfig \<Rightarrow> bytes" where
  "encodeFeeRouterConfig cfg =
     be_bytes 2 (fc_MSRBBips cfg) @ be_bytes 2 (fc_COLBips cfg) @ be_bytes 2 (fc_OpsBips cfg)"

definition feeRouterSum :: "FeeRouterConfig \<Rightarrow> u64" where
  "feeRouterSum cfg = ucast (fc_MSRBBips cfg) + ucast (fc_COLBips cfg) + ucast (fc_OpsBips cfg)"

definition decodeFeeRouterConfig :: "bytes \<Rightarrow> error + FeeRouterConfig" where
  "decodeFeeRouterConfig v =
     (if length v < 6 then Inl ErrInvalidFeeRouterConfig
      else let cfg = \<lparr>fc_MSRBBips = of_be (slice v 0 2), fc_COLBips = of_be (slice v 2 4),
             fc_OpsBips = of_be (slice v 4 6)\<rparr>
           in if feeRouterSum cfg \<noteq> bipsDenominator then Inl ErrInvalidFeeRouterConfig else Inr cfg)"

definition PutFeeRouterConfig :: "'s host \<Rightarrow> FeeRouterConfig \<Rightarrow> ('s, unit) action_run" where
  "PutFeeRouterConfig H cfg = Insert H (FeeRouterConfigKey H) (encodeFeeRouterConfig cfg)"

definition GetFeeRouterConfig :: "'s host \<Rightarrow> 's \<Rightarrow> error + FeeRouterConfig" where
  "GetFeeRouterConfig H s =
     with_stored ErrInvalidFeeRouterConfig (GetValue H s (FeeRouterConfigKey H)) decodeFeeRouterConfig"

definition encodeFeeRouterState :: "FeeRouterState \<Rightarrow> bytes" where
  "encodeFeeRouterState st =
     be_bytes 8 (fs_MSRBBudget st) @ be_bytes 8 (fs_COLBudget st) @ be_bytes 8 (fs_OpsBudget st)"

definition decodeFeeRouterState :: "bytes \<Rightarrow> error + FeeRouterState" where
  "decodeFeeRouterState v =
     (if length v < 24 then Inl ErrInvalidFeeRouterConfig
      else Inr \<lparr>fs_MSRBBudget = of_be (slice v 0 8), fs_COLBudget = of_be (slice v 8 16),
        fs_OpsBudget = of_be (slice v 16 24)\<rparr>)"

definition PutFeeRouterState :: "'s host \<Rightarrow> FeeRouterState \<Rightarrow> ('s, unit) action_run" where
  "PutFeeRouterState H st = Insert H (FeeRouterStateKey H) (encodeFeeRouterState st)"

definition GetFeeRouterState :: "'s host \<Rightarrow> 's \<Rightarrow> error + FeeRouterState" where
  "GetFeeRouterState H s =
     with_stored ErrInvalidFeeRouterConfig (GetValue H s (FeeRouterStateKey H)) decodeFeeRouterState"

section \<open>VAI\<close>

record VAIConfig =
  vc_MintAuthority :: Address
  vc_DebtCeiling :: u64
  vc_EpochMintLimit :: u64
  vc_MintEpochSeconds :: i64

record VAIState =
  vs_TotalDebt :: u64
  vs_EpochStartUnix :: i64
  vs_EpochMinted :: u64

definition encodeVAIConfig :: "VAIConfig \<Rightarrow> bytes" where
  "encodeVAIConfig cfg = be_bytes 33 (vc_MintAuthority cfg) @ be_bytes 8 (vc_DebtCeiling cfg)
     @ be_bytes 8 (vc_EpochMintLimit cfg) @ be_bytes 8 (vc_MintEpochSeconds cfg)"

definition decodeVAIConfig :: "bytes \<Rightarrow> error + VAIConfig" where
  "decodeVAIConfig v =
     (if length v < 57 then Inl ErrInvalidTokenomicsConfig
      else Inr \<lparr>vc_MintAuthority = of_be (slice v 0 33), vc_DebtCeiling = of_be (slice v 33 41),
        vc_EpochMintLimit = of_be (slice v 41 49), vc_MintEpochSeconds = of_be (slice v 49 57)\<rparr>)"

definition PutVAIConfig :: "'s host \<Rightarrow> VAIConfig \<Rightarrow> ('s, unit) action_run" where
  "PutVAIConfig H cfg = Insert H (VAIConfigKey H) (encodeVAIConfig cfg)"

definition GetVAIConfig :: "'s host \<Rightarrow> 's \<Rightarrow> error + VAIConfig" where
  "GetVAIConfig H s =
     with_stored ErrInvalidTokenomicsConfig (GetValue H s (VAIConfigKey H)) decodeVAIConfig"

definition encodeVAIState :: "VAIState \<Rightarrow> bytes" where
  "encodeVAIState st =
     be_bytes 8 (vs_TotalDebt st) @ be_bytes 8 (vs_EpochStartUnix st) @ be_bytes 8 (vs_EpochMinted st)"

definition decodeVAIState :: "bytes \<Rightarrow> error + VAIState" where
  "decodeVAIState v =
     (if length v < 24 then Inl ErrInvalidTokenomicsConfig
      else Inr \<lparr>vs_TotalDebt = of_be (slice v 0 8), vs_EpochStartUnix = of_be (slice v 8 16),
        vs_EpochMinted = of_be (slice v 16 24)\<rparr>)"

definition PutVAIState :: "'s host \<Rightarrow> VAIState \<Rightarrow> ('s, unit) action_run" where
  "PutVAIState H st = Insert H (VAIStateKey H) (encodeVAIState st)"

definition GetVAIState :: "'s host \<Rightarrow> 's \<Rightarrow> error + VAIState" where
  "GetVAIState H s =
     with_stored ErrInvalidTokenomicsConfig (GetValue H s (VAIStateKey H)) decodeVAIState"

section \<open>Risk and reserve\<close>

record RiskConfig =
  rc_BackingFloorBips :: u32
  rc_VEILLtvBips :: u16
  rc_WVEILLtvBips :: u16
  rc_WSVEILLtvBips :: u16
  rc_VEILHaircutBips :: u16
  rc_WVEILHaircutBips :: u16
  rc_WSVEILHaircutBips :: u16

record ReserveState =
  rs_ExogenousReserve :: u64
  rs_VAIBuffer :: u64

definition validateRiskConfig :: "RiskConfig \<Rightarrow> error + unit" where
  "validateRiskConfig cfg =
     (if rc_BackingFloorBips cfg = 0 then Inl ErrInvalidRiskConfig
      else if ucast (rc_VEILLtvBips cfg) > bipsDenominator
        \<or> ucast (rc_WVEILLtvBips cfg) > bipsDenominator
        \<or> ucast (rc_WSVEILLtvBips cfg) > bipsDenominator then Inl ErrInvalidRiskConfig
      else if ucast (rc_VEILHaircutBips cfg) > bipsDenominator
        \<or> ucast (rc_WVEILHaircutBips cfg) > bipsDenominator
        \<or> ucast (rc_WSVEILHaircutBips cfg) > bipsDenominator then Inl ErrInvalidRiskConfig
      else if rc_WSVEILLtvBips cfg \<noteq> 0 then Inl ErrInvalidRiskConfig
      else Inr ())"

definition encodeRiskConfig :: "RiskConfig \<Rightarrow> bytes" where
  "encodeRiskConfig cfg = be_bytes 4 (rc_BackingFloorBips cfg) @ be_bytes 2 (rc_VEILLtvBips cfg)
     @ be_bytes 2 (rc_WVEILLtvBips cfg) @ be_bytes 2 (rc_WSVEILLtvBips cfg)
     @ be_bytes 2 (rc_VEILHaircutBips cfg) @ be_bytes 2 (rc_WVEILHaircutBips cfg)
     @ be_bytes 2 (rc_WSVEILHaircutBips cfg)"

definition decodeRiskConfig :: "bytes \<Rightarrow> error + RiskConfig" where
  "decodeRiskConfig v =
     (if length v < 16 then Inl ErrInvalidRiskConfig
      else let cfg = \<lparr>rc_BackingFloorBips = of_be (slice v 0 4), rc_VEILLtvBips = of_be (slice v 4 6),
             rc_WVEILLtvBips = of_be (slice v 6 8), rc_WSVEILLtvBips = of_be (slice v 8 10),
             rc_VEILHaircutBips = of_be (slice v 10 12), rc_WVEILHaircutBips = of_be (slice v 12 14),
             rc_WSVEILHaircutBips = of_be (slice v 14 16)\<rparr>
           in case validateRiskConfig cfg of Inl err \<Rightarrow> Inl err | Inr _ \<Rightarrow> Inr cfg)"

definition PutRiskConfig :: "'s host \<Rightarrow> RiskConfig \<Rightarrow> ('s, unit) action_run" where
  "PutRiskConfig H cfg = go_bind (go_lift (validateRiskConfig cfg))
     (\<lambda>_. Insert H (RiskConfigKey H) (encodeRiskConfig cfg))"

definition GetRiskConfig :: "'s host \<Rightarrow> 's \<Rightarrow> error + RiskConfig" where
  "GetRiskConfig H s =
     with_stored ErrInvalidRiskConfig (GetValue H s (RiskConfigKey H)) decodeRiskConfig"

definition encodeReserveState :: "ReserveState \<Rightarrow> bytes" where
  "encodeReserveState st = be_bytes 8 (rs_ExogenousReserve st) @ be_bytes 8 (rs_VAIBuffer st)"

definition decodeReserveState :: "bytes \<Rightarrow> error + ReserveState" where
  "decodeReserveState v =
     (if length v < 16 then Inl ErrInvalidReserveState
      else Inr \<lparr>rs_ExogenousReserve = of_be (slice v 0 8), rs_VAIBuffer = of_be (slice v 8 16)\<rparr>)"

definition PutReserveState :: "'s host \<Rightarrow> ReserveState \<Rightarrow> ('s, unit) action_run" where
  "PutReserveState H st = Insert H (ReserveStateKey H) (encodeReserveState st)"

definition GetReserveState :: "'s host \<Rightarrow> 's \<Rightarrow> error + ReserveState" where
  "GetReserveState H s =
     with_stored ErrInvalidReserveState (GetValue H s (ReserveStateKey H)) decodeReserveState"

section \<open>Decoding inverts encoding\<close>

lemma decode_treasury_config [simp]: "decodeTreasuryConfig (encodeTreasuryConfig cfg) = Inr cfg"
  by (simp add: decodeTreasuryConfig_def encodeTreasuryConfig_def byte_simps)

lemma decode_treasury_state [simp]: "decodeTreasuryState (encodeTreasuryState st) = Inr st"
  by (simp add: decodeTreasuryState_def encodeTreasuryState_def byte_simps)

lemma decode_fee_router_config [simp]:
  "decodeFeeRouterConfig (encodeFeeRouterConfig cfg) =
    (if feeRouterSum cfg = bipsDenominator then Inr cfg else Inl ErrInvalidFeeRouterConfig)"
  by (cases cfg) (simp add: decodeFeeRouterConfig_def encodeFeeRouterConfig_def byte_simps Let_def)

lemma decode_fee_router_state [simp]: "decodeFeeRouterState (encodeFeeRouterState st) = Inr st"
  by (simp add: decodeFeeRouterState_def encodeFeeRouterState_def byte_simps)

lemma decode_vai_config [simp]: "decodeVAIConfig (encodeVAIConfig cfg) = Inr cfg"
  by (simp add: decodeVAIConfig_def encodeVAIConfig_def byte_simps)

lemma decode_vai_state [simp]: "decodeVAIState (encodeVAIState st) = Inr st"
  by (simp add: decodeVAIState_def encodeVAIState_def byte_simps)

lemma decode_risk_config [simp]:
  "validateRiskConfig cfg = Inr () \<Longrightarrow> decodeRiskConfig (encodeRiskConfig cfg) = Inr cfg"
  by (cases cfg) (simp add: decodeRiskConfig_def encodeRiskConfig_def byte_simps Let_def)

lemma decode_reserve_state [simp]: "decodeReserveState (encodeReserveState st) = Inr st"
  by (simp add: decodeReserveState_def encodeReserveState_def byte_simps)

text \<open>A configuration that was read is one the code accepts.\<close>

lemma GetRiskConfig_valid:
  "GetRiskConfig H s = Inr cfg \<Longrightarrow> validateRiskConfig cfg = Inr ()"
  by (auto simp: GetRiskConfig_def with_stored_ok decodeRiskConfig_def Let_def
      split: if_splits sum.splits)

lemma GetFeeRouterConfig_sum:
  "GetFeeRouterConfig H s = Inr cfg \<Longrightarrow> feeRouterSum cfg = bipsDenominator"
  by (auto simp: GetFeeRouterConfig_def with_stored_ok decodeFeeRouterConfig_def Let_def
      split: if_splits)

section \<open>Each write touches one slot\<close>

lemmas config_get_defs = GetTreasuryConfig_def GetTreasuryState_def GetFeeRouterConfig_def
  GetFeeRouterState_def GetVAIConfig_def GetVAIState_def GetRiskConfig_def GetReserveState_def

context host_env
begin

lemma config_put_run:
  "PutTreasuryConfig H c s = (Inr u, t) \<Longrightarrow>
    GetValue H t = (GetValue H s)(slot_key H STreasuryConfig := Inr (encodeTreasuryConfig c))"
  "PutTreasuryState H d s = (Inr u, t) \<Longrightarrow>
    GetValue H t = (GetValue H s)(slot_key H STreasuryState := Inr (encodeTreasuryState d))"
  "PutFeeRouterConfig H e s = (Inr u, t) \<Longrightarrow>
    GetValue H t = (GetValue H s)(slot_key H SFeeRouterConfig := Inr (encodeFeeRouterConfig e))"
  "PutFeeRouterState H f s = (Inr u, t) \<Longrightarrow>
    GetValue H t = (GetValue H s)(slot_key H SFeeRouterState := Inr (encodeFeeRouterState f))"
  "PutVAIConfig H g s = (Inr u, t) \<Longrightarrow>
    GetValue H t = (GetValue H s)(slot_key H SVAIConfig := Inr (encodeVAIConfig g))"
  "PutVAIState H h s = (Inr u, t) \<Longrightarrow>
    GetValue H t = (GetValue H s)(slot_key H SVAIState := Inr (encodeVAIState h))"
  "PutReserveState H i s = (Inr u, t) \<Longrightarrow>
    GetValue H t = (GetValue H s)(slot_key H SReserveState := Inr (encodeReserveState i))"
  by (simp_all add: PutTreasuryConfig_def PutTreasuryState_def PutFeeRouterConfig_def
      PutFeeRouterState_def PutVAIConfig_def PutVAIState_def PutReserveState_def key_simps insert_get)

lemma PutRiskConfig_run:
  "PutRiskConfig H cfg s = (Inr u, t) \<Longrightarrow> validateRiskConfig cfg = Inr () \<and>
    GetValue H t = (GetValue H s)(slot_key H SRiskConfig := Inr (encodeRiskConfig cfg))"
  by (auto simp: PutRiskConfig_def run_simps key_simps dest!: insert_get)

end

end
