(* ===== verification/Storage_Balance.thy ===== *)
theory Storage_Balance
  imports Storage_Keys
begin

text \<open>
  The three balance tables of \<open>storage/storage.go\<close>: native VEIL, the VAI stablecoin and the LP
  shares of a pool, and the \<open>BalanceHandler\<close> through which HyperSDK charges fees.

  A stored balance is eight big-endian bytes; an account whose balance reaches zero is removed. The
  locale \<open>ledger\<close> is the contract of such a table: what a credit and a debit do to the
  balances, and so to their sum over all accounts. Each of the three tables is an instance.
\<close>

section \<open>Reading a stored amount\<close>

text \<open>
  \<open>innerGetBalance\<close> returns the balance, whether the account exists, and the error. The
  argument is what \<open>GetValue\<close> returned.
\<close>

definition innerGetBalance :: "'s host \<Rightarrow> error + bytes \<Rightarrow> u64 \<times> bool \<times> error option" where
  "innerGetBalance H r = (case r of
     Inl err \<Rightarrow> if err = DbErrNotFound then (0, False, None) else (0, False, Some err)
   | Inr v \<Rightarrow> (case ParseUInt64 H v of
       Inl err \<Rightarrow> (0, False, Some err)
     | Inr val \<Rightarrow> (val, True, None)))"

text \<open>
  \<open>ReadState\<close> is the batch reader of the RPC layer; \<open>readFirst\<close> is \<open>values[0], errs[0]\<close> of its
  answer.
\<close>

type_synonym ReadState = "bytes list \<Rightarrow> bytes list \<times> error option list"

definition readFirst :: "bytes list \<times> error option list \<Rightarrow> error + bytes" where
  "readFirst r = (case r of
     (v # _, None # _) \<Rightarrow> Inr v
   | (_ # _, Some err # _) \<Rightarrow> Inl err
   | _ \<Rightarrow> Inl (GoPanic ''index out of range''))"

definition balanceResult :: "u64 \<times> bool \<times> error option \<Rightarrow> error + u64" where
  "balanceResult r = (case r of (bal, _, Some err) \<Rightarrow> Inl err | (bal, _, None) \<Rightarrow> Inr bal)"

section \<open>VEIL balances\<close>

definition getBalance :: "'s host \<Rightarrow> 's \<Rightarrow> Address \<Rightarrow> bytes \<times> u64 \<times> bool \<times> error option" where
  "getBalance H s addr = (let k = BalanceKey H addr in (k, innerGetBalance H (GetValue H s k)))"

definition GetBalance :: "'s host \<Rightarrow> 's \<Rightarrow> Address \<Rightarrow> error + u64" where
  "GetBalance H s addr = balanceResult (snd (getBalance H s addr))"

definition GetBalanceFromState :: "'s host \<Rightarrow> ReadState \<Rightarrow> Address \<Rightarrow> error + u64" where
  "GetBalanceFromState H f addr =
     balanceResult (innerGetBalance H (readFirst (f [BalanceKey H addr])))"

definition setBalance :: "'s host \<Rightarrow> bytes \<Rightarrow> u64 \<Rightarrow> ('s, unit) action_run" where
  "setBalance H key balance = Insert H key (be_bytes 8 balance)"

definition SetBalance :: "'s host \<Rightarrow> Address \<Rightarrow> u64 \<Rightarrow> ('s, unit) action_run" where
  "SetBalance H addr balance = setBalance H (BalanceKey H addr) balance"

definition AddBalance :: "'s host \<Rightarrow> Address \<Rightarrow> u64 \<Rightarrow> ('s, u64) action_run" where
  "AddBalance H addr amount = (\<lambda>s. case getBalance H s addr of
     (key, bal, _, Some err) \<Rightarrow> (Inl err, s)
   | (key, bal, _, None) \<Rightarrow> (case smath_Add H bal amount of
       Inl _ \<Rightarrow> (Inl ErrInvalidBalance, s)
     | Inr nbal \<Rightarrow> go_bind (setBalance H key nbal) (\<lambda>_. go_return nbal) s))"

definition SubBalance :: "'s host \<Rightarrow> Address \<Rightarrow> u64 \<Rightarrow> ('s, u64) action_run" where
  "SubBalance H addr amount = (\<lambda>s. case getBalance H s addr of
     (key, bal, False, err) \<Rightarrow> (Inl ErrInvalidBalance, s)
   | (key, bal, True, Some err) \<Rightarrow> (Inl err, s)
   | (key, bal, True, None) \<Rightarrow> (case smath_Sub H bal amount of
       Inl _ \<Rightarrow> (Inl ErrInvalidBalance, s)
     | Inr nbal \<Rightarrow>
         if nbal = 0 then go_bind (Remove H key) (\<lambda>_. go_return 0) s
         else go_bind (setBalance H key nbal) (\<lambda>_. go_return nbal) s))"

section \<open>VAI balances\<close>

definition getVAIBalance :: "'s host \<Rightarrow> 's \<Rightarrow> Address \<Rightarrow> bytes \<times> u64 \<times> bool \<times> error option" where
  "getVAIBalance H s addr = (let k = VAIBalanceKey H addr in (k, innerGetBalance H (GetValue H s k)))"

definition GetVAIBalance :: "'s host \<Rightarrow> 's \<Rightarrow> Address \<Rightarrow> error + u64" where
  "GetVAIBalance H s addr = balanceResult (snd (getVAIBalance H s addr))"

definition GetVAIBalanceFromState :: "'s host \<Rightarrow> ReadState \<Rightarrow> Address \<Rightarrow> error + u64" where
  "GetVAIBalanceFromState H f addr =
     balanceResult (innerGetBalance H (readFirst (f [VAIBalanceKey H addr])))"

definition setVAIBalance :: "'s host \<Rightarrow> bytes \<Rightarrow> u64 \<Rightarrow> ('s, unit) action_run" where
  "setVAIBalance H key balance = Insert H key (be_bytes 8 balance)"

definition AddVAIBalance :: "'s host \<Rightarrow> Address \<Rightarrow> u64 \<Rightarrow> ('s, u64) action_run" where
  "AddVAIBalance H addr amount = (\<lambda>s. case getVAIBalance H s addr of
     (key, bal, _, Some err) \<Rightarrow> (Inl err, s)
   | (key, bal, _, None) \<Rightarrow> (case smath_Add H bal amount of
       Inl _ \<Rightarrow> (Inl ErrInvalidBalance, s)
     | Inr nbal \<Rightarrow> go_bind (setVAIBalance H key nbal) (\<lambda>_. go_return nbal) s))"

definition SubVAIBalance :: "'s host \<Rightarrow> Address \<Rightarrow> u64 \<Rightarrow> ('s, u64) action_run" where
  "SubVAIBalance H addr amount = (\<lambda>s. case getVAIBalance H s addr of
     (key, bal, False, err) \<Rightarrow> (Inl ErrInvalidBalance, s)
   | (key, bal, True, Some err) \<Rightarrow> (Inl err, s)
   | (key, bal, True, None) \<Rightarrow> (case smath_Sub H bal amount of
       Inl _ \<Rightarrow> (Inl ErrInvalidBalance, s)
     | Inr nbal \<Rightarrow>
         if nbal = 0 then go_bind (Remove H key) (\<lambda>_. go_return 0) s
         else go_bind (setVAIBalance H key nbal) (\<lambda>_. go_return nbal) s))"

section \<open>LP balances\<close>

definition getLPBalance ::
    "'s host \<Rightarrow> 's \<Rightarrow> u8 \<Rightarrow> u8 \<Rightarrow> Address \<Rightarrow> bytes \<times> u64 \<times> bool \<times> error option" where
  "getLPBalance H s asset0 asset1 addr =
     (let k = LPBalanceKey H asset0 asset1 addr in (k, innerGetBalance H (GetValue H s k)))"

definition GetLPBalance :: "'s host \<Rightarrow> 's \<Rightarrow> u8 \<Rightarrow> u8 \<Rightarrow> Address \<Rightarrow> error + u64" where
  "GetLPBalance H s asset0 asset1 addr = balanceResult (snd (getLPBalance H s asset0 asset1 addr))"

definition GetLPBalanceFromState :: "'s host \<Rightarrow> ReadState \<Rightarrow> u8 \<Rightarrow> u8 \<Rightarrow> Address \<Rightarrow> error + u64" where
  "GetLPBalanceFromState H f asset0 asset1 addr =
     balanceResult (innerGetBalance H (readFirst (f [LPBalanceKey H asset0 asset1 addr])))"

definition setLPBalance :: "'s host \<Rightarrow> bytes \<Rightarrow> u64 \<Rightarrow> ('s, unit) action_run" where
  "setLPBalance H key balance = Insert H key (be_bytes 8 balance)"

definition AddLPBalance :: "'s host \<Rightarrow> u8 \<Rightarrow> u8 \<Rightarrow> Address \<Rightarrow> u64 \<Rightarrow> ('s, u64) action_run" where
  "AddLPBalance H asset0 asset1 addr amount = (\<lambda>s. case getLPBalance H s asset0 asset1 addr of
     (key, bal, _, Some err) \<Rightarrow> (Inl err, s)
   | (key, bal, _, None) \<Rightarrow> (case smath_Add H bal amount of
       Inl _ \<Rightarrow> (Inl ErrInvalidBalance, s)
     | Inr nbal \<Rightarrow> go_bind (setLPBalance H key nbal) (\<lambda>_. go_return nbal) s))"

definition SubLPBalance :: "'s host \<Rightarrow> u8 \<Rightarrow> u8 \<Rightarrow> Address \<Rightarrow> u64 \<Rightarrow> ('s, u64) action_run" where
  "SubLPBalance H asset0 asset1 addr amount = (\<lambda>s. case getLPBalance H s asset0 asset1 addr of
     (key, bal, False, err) \<Rightarrow> (Inl ErrInsufficientLPBalance, s)
   | (key, bal, True, Some err) \<Rightarrow> (Inl err, s)
   | (key, bal, True, None) \<Rightarrow> (case smath_Sub H bal amount of
       Inl _ \<Rightarrow> (Inl ErrInsufficientLPBalance, s)
     | Inr nbal \<Rightarrow>
         if nbal = 0 then go_bind (Remove H key) (\<lambda>_. go_return 0) s
         else go_bind (setLPBalance H key nbal) (\<lambda>_. go_return nbal) s))"

section \<open>The fee handler\<close>

text \<open>\<open>storage/balance_handler.go\<close>: how HyperSDK charges and credits a transaction's sponsor.\<close>

definition CanDeduct :: "'s host \<Rightarrow> 's \<Rightarrow> Address \<Rightarrow> u64 \<Rightarrow> error + unit" where
  "CanDeduct H s addr amount = (case GetBalance H s addr of
     Inl err \<Rightarrow> Inl err
   | Inr bal \<Rightarrow> if bal < amount then Inl ErrInvalidBalance else Inr ())"

definition Deduct :: "'s host \<Rightarrow> Address \<Rightarrow> u64 \<Rightarrow> ('s, unit) action_run" where
  "Deduct H addr amount = go_bind (SubBalance H addr amount) (\<lambda>_. go_return ())"

definition HandlerAddBalance :: "'s host \<Rightarrow> Address \<Rightarrow> u64 \<Rightarrow> ('s, unit) action_run" where
  "HandlerAddBalance H addr amount = go_bind (AddBalance H addr amount) (\<lambda>_. go_return ())"

definition HandlerGetBalance :: "'s host \<Rightarrow> Address \<Rightarrow> 's \<Rightarrow> error + u64" where
  "HandlerGetBalance H addr s = GetBalance H s addr"

section \<open>The ledger contract\<close>

locale ledger =
  fixes bal :: "'s \<Rightarrow> 'k::finite \<Rightarrow> nat"
    and credit :: "'k \<Rightarrow> u64 \<Rightarrow> ('s, u64) action_run"
    and debit :: "'k \<Rightarrow> u64 \<Rightarrow> ('s, u64) action_run"
  assumes credit_bal: "credit k v s = (Inr n, t) \<Longrightarrow>
      bal t = (bal s)(k := bal s k + unat v) \<and> unat n = bal s k + unat v"
    and debit_bal: "debit k v s = (Inr n, t) \<Longrightarrow>
      unat v \<le> bal s k \<and> bal t = (bal s)(k := bal s k - unat v) \<and> unat n = bal s k - unat v"
begin

lemma total_credit:
  assumes "credit k v s = (Inr n, t)"
  shows "(\<Sum>x\<in>UNIV. bal t x) = (\<Sum>x\<in>UNIV. bal s x) + unat v"
proof -
  have "bal t = (bal s)(k := bal s k + unat v)" using credit_bal [OF assms] by simp
  with sum_fun_upd_nat [of "bal s" k "bal s k + unat v"] show ?thesis by simp
qed

lemma total_debit:
  assumes "debit k v s = (Inr n, t)"
  shows "(\<Sum>x\<in>UNIV. bal t x) + unat v = (\<Sum>x\<in>UNIV. bal s x)"
proof -
  have le: "unat v \<le> bal s k" and "bal t = (bal s)(k := bal s k - unat v)"
    using debit_bal [OF assms] by auto
  with sum_fun_upd_nat [of "bal s" k "bal s k - unat v"] show ?thesis by simp
qed

lemma move_conserves:
  assumes "debit k v s = (Inr n, u)" and "credit k' v u = (Inr m, t)"
  shows "(\<Sum>x\<in>UNIV. bal t x) = (\<Sum>x\<in>UNIV. bal s x)"
  using total_debit [OF assms(1)] total_credit [OF assms(2)] by simp

lemma move_elsewhere:
  assumes "debit k v s = (Inr n, u)" and "credit k' v u = (Inr m, t)" and "x \<noteq> k" and "x \<noteq> k'"
  shows "bal t x = bal s x"
  using debit_bal [OF assms(1)] credit_bal [OF assms(2)] assms(3,4) by simp

end

section \<open>What the tables hold\<close>

text \<open>The amount a stored value stands for; an absent or unreadable entry counts as zero.\<close>

definition amount_of :: "'s host \<Rightarrow> error + bytes \<Rightarrow> nat" where
  "amount_of H r = unat (fst (innerGetBalance H r))"

definition veil_balance :: "'s host \<Rightarrow> 's \<Rightarrow> Address \<Rightarrow> nat" where
  "veil_balance H s addr = amount_of H (GetValue H s (BalanceKey H addr))"

definition vai_balance :: "'s host \<Rightarrow> 's \<Rightarrow> Address \<Rightarrow> nat" where
  "vai_balance H s addr = amount_of H (GetValue H s (VAIBalanceKey H addr))"

definition lp_balance :: "'s host \<Rightarrow> u8 \<Rightarrow> u8 \<Rightarrow> 's \<Rightarrow> Address \<Rightarrow> nat" where
  "lp_balance H asset0 asset1 s addr = amount_of H (GetValue H s (LPBalanceKey H asset0 asset1 addr))"

lemmas balance_defs = veil_balance_def vai_balance_def lp_balance_def

text \<open>What a balance operation leaves at its key.\<close>

definition stored_amount :: "u64 \<Rightarrow> error + bytes" where
  "stored_amount n = (if n = 0 then Inl DbErrNotFound else Inr (be_bytes 8 n))"

lemma amount_absent [simp]: "amount_of H (Inl DbErrNotFound) = 0"
  by (simp add: amount_of_def innerGetBalance_def)

lemma balanceResult_Inr: "balanceResult r = Inr b \<Longrightarrow> fst r = b"
  by (auto simp: balanceResult_def split: prod.splits option.splits)

context host_env
begin

lemma amount_stored [simp]: "amount_of H (Inr (be_bytes 8 (n :: u64))) = unat n"
  by (simp add: amount_of_def innerGetBalance_def)

lemma amount_stored_amount [simp]: "amount_of H (stored_amount n) = unat n"
  by (simp add: stored_amount_def)

text \<open>A credit adds the amount, without overflow, and writes that one key.\<close>

lemma AddBalance_run:
  assumes "AddBalance H a v s = (Inr n, t)"
  shows "unat n = veil_balance H s a + unat v
    \<and> GetValue H t = (GetValue H s)(BalanceKey H a := Inr (be_bytes 8 n))"
  using assms
  by (auto simp: AddBalance_def getBalance_def setBalance_def veil_balance_def amount_of_def Let_def
      run_simps dest!: insert_get add_unat split: prod.splits option.splits sum.splits)

lemma AddVAIBalance_run:
  assumes "AddVAIBalance H a v s = (Inr n, t)"
  shows "unat n = vai_balance H s a + unat v
    \<and> GetValue H t = (GetValue H s)(VAIBalanceKey H a := Inr (be_bytes 8 n))"
  using assms
  by (auto simp: AddVAIBalance_def getVAIBalance_def setVAIBalance_def vai_balance_def amount_of_def
      Let_def run_simps dest!: insert_get add_unat split: prod.splits option.splits sum.splits)

lemma AddLPBalance_run:
  assumes "AddLPBalance H a0 a1 a v s = (Inr n, t)"
  shows "unat n = lp_balance H a0 a1 s a + unat v
    \<and> GetValue H t = (GetValue H s)(LPBalanceKey H a0 a1 a := Inr (be_bytes 8 n))"
  using assms
  by (auto simp: AddLPBalance_def getLPBalance_def setLPBalance_def lp_balance_def amount_of_def
      Let_def run_simps dest!: insert_get add_unat split: prod.splits option.splits sum.splits)

text \<open>A debit needs the balance, subtracts the amount and removes an emptied account.\<close>

lemma SubBalance_run:
  assumes "SubBalance H a v s = (Inr n, t)"
  shows "unat v \<le> veil_balance H s a \<and> unat n = veil_balance H s a - unat v
    \<and> GetValue H t = (GetValue H s)(BalanceKey H a := stored_amount n)"
  using assms
  by (auto simp: SubBalance_def getBalance_def setBalance_def veil_balance_def amount_of_def Let_def
      stored_amount_def run_simps dest!: insert_get remove_get sub_unat
      split: prod.splits option.splits sum.splits bool.splits if_splits)

lemma SubVAIBalance_run:
  assumes "SubVAIBalance H a v s = (Inr n, t)"
  shows "unat v \<le> vai_balance H s a \<and> unat n = vai_balance H s a - unat v
    \<and> GetValue H t = (GetValue H s)(VAIBalanceKey H a := stored_amount n)"
  using assms
  by (auto simp: SubVAIBalance_def getVAIBalance_def setVAIBalance_def vai_balance_def amount_of_def
      Let_def stored_amount_def run_simps dest!: insert_get remove_get sub_unat
      split: prod.splits option.splits sum.splits bool.splits if_splits)

lemma SubLPBalance_run:
  assumes "SubLPBalance H a0 a1 a v s = (Inr n, t)"
  shows "unat v \<le> lp_balance H a0 a1 s a \<and> unat n = lp_balance H a0 a1 s a - unat v
    \<and> GetValue H t = (GetValue H s)(LPBalanceKey H a0 a1 a := stored_amount n)"
  using assms
  by (auto simp: SubLPBalance_def getLPBalance_def setLPBalance_def lp_balance_def amount_of_def
      Let_def stored_amount_def run_simps dest!: insert_get remove_get sub_unat
      split: prod.splits option.splits sum.splits bool.splits if_splits)

end

sublocale host_env \<subseteq> veil: ledger "veil_balance H" "AddBalance H" "SubBalance H"
proof
  show "veil_balance H t = (veil_balance H s)(k := veil_balance H s k + unat v)
      \<and> unat n = veil_balance H s k + unat v" if "AddBalance H k v s = (Inr n, t)" for k v s n t
    using AddBalance_run [OF that] by (auto simp: veil_balance_def key_simps fun_eq_iff)
  show "unat v \<le> veil_balance H s k
      \<and> veil_balance H t = (veil_balance H s)(k := veil_balance H s k - unat v)
      \<and> unat n = veil_balance H s k - unat v" if "SubBalance H k v s = (Inr n, t)" for k v s n t
    using SubBalance_run [OF that] by (auto simp: veil_balance_def key_simps fun_eq_iff)
qed

sublocale host_env \<subseteq> vai: ledger "vai_balance H" "AddVAIBalance H" "SubVAIBalance H"
proof
  show "vai_balance H t = (vai_balance H s)(k := vai_balance H s k + unat v)
      \<and> unat n = vai_balance H s k + unat v" if "AddVAIBalance H k v s = (Inr n, t)" for k v s n t
    using AddVAIBalance_run [OF that] by (auto simp: vai_balance_def key_simps fun_eq_iff)
  show "unat v \<le> vai_balance H s k
      \<and> vai_balance H t = (vai_balance H s)(k := vai_balance H s k - unat v)
      \<and> unat n = vai_balance H s k - unat v" if "SubVAIBalance H k v s = (Inr n, t)" for k v s n t
    using SubVAIBalance_run [OF that] by (auto simp: vai_balance_def key_simps fun_eq_iff)
qed

sublocale host_env \<subseteq> lp: ledger "lp_balance H a0 a1" "AddLPBalance H a0 a1" "SubLPBalance H a0 a1"
  for a0 a1
proof
  show "lp_balance H a0 a1 t = (lp_balance H a0 a1 s)(k := lp_balance H a0 a1 s k + unat v)
      \<and> unat n = lp_balance H a0 a1 s k + unat v"
    if "AddLPBalance H a0 a1 k v s = (Inr n, t)" for k v s n t
    using AddLPBalance_run [OF that] by (auto simp: lp_balance_def key_simps fun_eq_iff)
  show "unat v \<le> lp_balance H a0 a1 s k
      \<and> lp_balance H a0 a1 t = (lp_balance H a0 a1 s)(k := lp_balance H a0 a1 s k - unat v)
      \<and> unat n = lp_balance H a0 a1 s k - unat v"
    if "SubLPBalance H a0 a1 k v s = (Inr n, t)" for k v s n t
    using SubLPBalance_run [OF that] by (auto simp: lp_balance_def key_simps fun_eq_iff)
qed

end
