(* ===== verification/Storage_Market.thy ===== *)
theory Storage_Market
  imports Storage_Config Storage_Balance
begin

text \<open>
  Markets, order commitments, batch results, decryption shares and disputes, and the liquidity pools
  of \<open>storage/storage.go\<close>. \<open>GetMarket\<close> returns its five values as the record \<open>Market\<close>.
\<close>

section \<open>Markets\<close>

abbreviation MarketStatusActive :: u8 where "MarketStatusActive \<equiv> 0"
abbreviation MarketStatusResolved :: u8 where "MarketStatusResolved \<equiv> 1"
abbreviation MarketStatusDisputed :: u8 where "MarketStatusDisputed \<equiv> 2"

record Market =
  mk_status :: u8
  mk_outcomes :: u8
  mk_resolutionTime :: i64
  mk_resolvedOutcome :: u8
  mk_question :: bytes

definition encodeMarket :: "Market \<Rightarrow> bytes" where
  "encodeMarket m = [mk_status m, mk_outcomes m] @ be_bytes 8 (mk_resolutionTime m)
     @ [mk_resolvedOutcome m] @ mk_question m"

definition decodeMarket :: "bytes \<Rightarrow> error + Market" where
  "decodeMarket v =
     (if length v < 11 then Inl InvalidMarketDataLength
      else Inr \<lparr>mk_status = v ! 0, mk_outcomes = v ! 1, mk_resolutionTime = of_be (slice v 2 10),
        mk_resolvedOutcome = v ! 10, mk_question = drop 11 v\<rparr>)"

definition PutMarket ::
    "'s host \<Rightarrow> ID \<Rightarrow> u8 \<Rightarrow> u8 \<Rightarrow> i64 \<Rightarrow> u8 \<Rightarrow> bytes \<Rightarrow> ('s, unit) action_run" where
  "PutMarket H marketID status outcomes resolutionTime resolvedOutcome question =
     Insert H (MarketKey H marketID)
       (encodeMarket \<lparr>mk_status = status, mk_outcomes = outcomes, mk_resolutionTime = resolutionTime,
          mk_resolvedOutcome = resolvedOutcome, mk_question = question\<rparr>)"

definition GetMarket :: "'s host \<Rightarrow> 's \<Rightarrow> ID \<Rightarrow> error + Market" where
  "GetMarket H s marketID =
     with_stored ErrMarketNotFound (GetValue H s (MarketKey H marketID)) decodeMarket"

definition GetMarketFromState :: "'s host \<Rightarrow> ReadState \<Rightarrow> ID \<Rightarrow> error + Market" where
  "GetMarketFromState H f marketID =
     with_stored ErrMarketNotFound (readFirst (f [MarketKey H marketID])) decodeMarket"

section \<open>Commitments, batch results, disputes\<close>

definition PutCommitment ::
    "'s host \<Rightarrow> ID \<Rightarrow> u64 \<Rightarrow> Address \<Rightarrow> bytes \<Rightarrow> bytes \<Rightarrow> ('s, unit) action_run" where
  "PutCommitment H marketID windowID actor envelope commitment =
     Insert H (CommitmentKey H marketID windowID actor) (commitment @ envelope)"

definition encodeBatchResult :: "u64 \<Rightarrow> u64 \<Rightarrow> bytes \<Rightarrow> bytes" where
  "encodeBatchResult clearPrice totalVolume fillsHash =
     be_bytes 8 clearPrice @ be_bytes 8 totalVolume @ fillsHash"

definition PutBatchResult ::
    "'s host \<Rightarrow> ID \<Rightarrow> u64 \<Rightarrow> u64 \<Rightarrow> u64 \<Rightarrow> bytes \<Rightarrow> ('s, unit) action_run" where
  "PutBatchResult H marketID windowID clearPrice totalVolume fillsHash =
     Insert H (BatchKey H marketID windowID) (encodeBatchResult clearPrice totalVolume fillsHash)"

definition PutDispute :: "'s host \<Rightarrow> ID \<Rightarrow> u64 \<Rightarrow> bytes \<Rightarrow> ('s, unit) action_run" where
  "PutDispute H marketID bond evidence =
     Insert H (DisputeKey H marketID) (be_bytes 8 bond @ evidence)"

section \<open>Pools\<close>

record Pool =
  p_Asset0 :: u8
  p_Asset1 :: u8
  p_FeeBips :: u16
  p_Reserve0 :: u64
  p_Reserve1 :: u64
  p_TotalLP :: u64

definition encodePool :: "Pool \<Rightarrow> bytes" where
  "encodePool pool = (case sortedAssetPair (p_Asset0 pool) (p_Asset1 pool) of (a0, a1) \<Rightarrow>
     [a0, a1] @ be_bytes 2 (p_FeeBips pool) @ be_bytes 8 (p_Reserve0 pool)
       @ be_bytes 8 (p_Reserve1 pool) @ be_bytes 8 (p_TotalLP pool))"

definition parsePool :: "bytes \<Rightarrow> error + Pool" where
  "parsePool v =
     (if length v < 28 then Inl InvalidPoolDataLength
      else Inr \<lparr>p_Asset0 = v ! 0, p_Asset1 = v ! 1, p_FeeBips = of_be (slice v 2 4),
        p_Reserve0 = of_be (slice v 4 12), p_Reserve1 = of_be (slice v 12 20),
        p_TotalLP = of_be (slice v 20 28)\<rparr>)"

definition PutPool :: "'s host \<Rightarrow> Pool \<Rightarrow> ('s, unit) action_run" where
  "PutPool H pool = Insert H (PoolKey H (p_Asset0 pool) (p_Asset1 pool)) (encodePool pool)"

definition GetPool :: "'s host \<Rightarrow> 's \<Rightarrow> u8 \<Rightarrow> u8 \<Rightarrow> error + Pool" where
  "GetPool H s asset0 asset1 =
     with_stored ErrPoolNotFound (GetValue H s (PoolKey H asset0 asset1)) parsePool"

definition GetPoolFromState :: "'s host \<Rightarrow> ReadState \<Rightarrow> u8 \<Rightarrow> u8 \<Rightarrow> error + Pool" where
  "GetPoolFromState H f asset0 asset1 =
     with_stored ErrPoolNotFound (readFirst (f [PoolKey H asset0 asset1])) parsePool"

section \<open>Decoding inverts encoding\<close>

lemma decode_market [simp]: "decodeMarket (encodeMarket m) = Inr m"
  by (cases m) (simp add: decodeMarket_def encodeMarket_def byte_simps nth_append)

text \<open>\<open>PutPool\<close> sorts the asset pair but not the reserves: a pool whose pair is sorted survives.\<close>

lemma parse_pool [simp]:
  "p_Asset0 p \<le> p_Asset1 p \<Longrightarrow> parsePool (encodePool p) = Inr p"
  by (cases p) (simp add: parsePool_def encodePool_def sortedAssetPair_def byte_simps)

section \<open>Each write touches one slot\<close>

context host_env
begin

lemma market_put_run:
  "PutMarket H m st oc rt ro q s = (Inr u, t) \<Longrightarrow>
    GetValue H t = (GetValue H s)(slot_key H (SMarket m) :=
      Inr (encodeMarket \<lparr>mk_status = st, mk_outcomes = oc, mk_resolutionTime = rt,
        mk_resolvedOutcome = ro, mk_question = q\<rparr>))"
  "PutCommitment H m w a env com s = (Inr u, t) \<Longrightarrow>
    GetValue H t = (GetValue H s)(slot_key H (SCommitment m w a) := Inr (com @ env))"
  "PutBatchResult H m w cp vol fh s = (Inr u, t) \<Longrightarrow>
    GetValue H t = (GetValue H s)(slot_key H (SBatch m w) := Inr (encodeBatchResult cp vol fh))"
  "PutDispute H m bond ev s = (Inr u, t) \<Longrightarrow>
    GetValue H t = (GetValue H s)(slot_key H (SOracle m 0xFFFFFFFF) := Inr (be_bytes 8 bond @ ev))"
  "PutPool H p s = (Inr u, t) \<Longrightarrow>
    GetValue H t = (GetValue H s)(slot_key H (SPool (min (p_Asset0 p) (p_Asset1 p))
      (max (p_Asset0 p) (p_Asset1 p))) := Inr (encodePool p))"
  by (simp_all add: PutMarket_def PutCommitment_def PutBatchResult_def PutDispute_def PutPool_def
      key_simps insert_get)

end

end
