(* ===== verification/Storage_Proof.thy ===== *)
theory Storage_Proof
  imports Storage_Config Storage_Balance
begin

text \<open>
  The proof side of \<open>storage/storage.go\<close>: the proof configuration, the record of an accepted batch
  proof, the stored proof blob (\<^emph>\<open>vellum\<close>), the prover's standing (\<^emph>\<open>bloodsworn\<close>) and the
  inscription derived from a proof (\<^emph>\<open>glyph\<close>), with their byte layouts.
\<close>

abbreviation ProofTypeGroth16 :: u8 where "ProofTypeGroth16 \<equiv> 1"
abbreviation ProofTypePlonk :: u8 where "ProofTypePlonk \<equiv> 2"

abbreviation maxVellumProofBytes :: nat where "maxVellumProofBytes \<equiv> 131072"

section \<open>Proof configuration\<close>

record ProofConfig =
  pc_RequireProof :: bool
  pc_RequiredProofType :: u8
  pc_BatchWindowMs :: i64
  pc_ProofDeadlineMs :: i64
  pc_ProverAuthority :: Address

definition validateProofConfig :: "ProofConfig \<Rightarrow> error + unit" where
  "validateProofConfig cfg =
     (if pc_RequiredProofType cfg \<noteq> ProofTypeGroth16 \<and> pc_RequiredProofType cfg \<noteq> ProofTypePlonk
      then Inl ErrInvalidProofConfig
      else if sint (pc_BatchWindowMs cfg) \<le> 0 \<or> sint (pc_ProofDeadlineMs cfg) \<le> 0
      then Inl ErrInvalidProofConfig
      else if pc_ProverAuthority cfg = 0 then Inl ErrInvalidProofConfig
      else Inr ())"

definition encodeProofConfig :: "ProofConfig \<Rightarrow> bytes" where
  "encodeProofConfig cfg = (if pc_RequireProof cfg then [1] else [0]) @ [pc_RequiredProofType cfg]
     @ be_bytes 8 (pc_BatchWindowMs cfg) @ be_bytes 8 (pc_ProofDeadlineMs cfg)
     @ be_bytes 33 (pc_ProverAuthority cfg)"

definition decodeProofConfig :: "bytes \<Rightarrow> error + ProofConfig" where
  "decodeProofConfig v =
     (if length v < 51 then Inl ErrInvalidProofConfig
      else let cfg = \<lparr>pc_RequireProof = (v ! 0 = 1), pc_RequiredProofType = v ! 1,
             pc_BatchWindowMs = of_be (slice v 2 10), pc_ProofDeadlineMs = of_be (slice v 10 18),
             pc_ProverAuthority = of_be (slice v 18 51)\<rparr>
           in case validateProofConfig cfg of Inl err \<Rightarrow> Inl err | Inr _ \<Rightarrow> Inr cfg)"

definition PutProofConfig :: "'s host \<Rightarrow> ProofConfig \<Rightarrow> ('s, unit) action_run" where
  "PutProofConfig H cfg = go_bind (go_lift (validateProofConfig cfg))
     (\<lambda>_. Insert H (ProofConfigKey H) (encodeProofConfig cfg))"

definition GetProofConfig :: "'s host \<Rightarrow> 's \<Rightarrow> error + ProofConfig" where
  "GetProofConfig H s =
     with_stored ErrInvalidProofConfig (GetValue H s (ProofConfigKey H)) decodeProofConfig"

section \<open>Batch proof records\<close>

record BatchProofRecord =
  bp_ProofType :: u8
  bp_SubmittedAtMs :: i64
  bp_WindowCloseAtMs :: i64
  bp_Prover :: Address
  bp_ProofCommitment :: Hash32
  bp_PublicInputsHash :: bytes
  bp_FillsHash :: bytes

definition encodeBatchProofRecord :: "BatchProofRecord \<Rightarrow> bytes" where
  "encodeBatchProofRecord r = [bp_ProofType r] @ be_bytes 8 (bp_SubmittedAtMs r)
     @ be_bytes 8 (bp_WindowCloseAtMs r) @ be_bytes 33 (bp_Prover r)
     @ be_bytes 32 (bp_ProofCommitment r)
     @ be_bytes 2 (of_nat (length (bp_PublicInputsHash r)) :: u16) @ bp_PublicInputsHash r
     @ be_bytes 2 (of_nat (length (bp_FillsHash r)) :: u16) @ bp_FillsHash r"

definition decodeBatchProofRecord :: "bytes \<Rightarrow> error + BatchProofRecord" where
  "decodeBatchProofRecord v =
     (if length v < 86 then Inl ErrInvalidProofEnvelope
      else let pihLen = unat (of_be (slice v 82 84) :: u16); offset = 84
      in if pihLen = 0 \<or> pihLen > 32 \<or> length (drop offset v) < pihLen + 2
         then Inl ErrInvalidProofEnvelope
      else let pih = slice v offset (offset + pihLen); offset = offset + pihLen;
               fillsLen = unat (of_be (slice v offset (offset + 2)) :: u16); offset = offset + 2
      in if fillsLen = 0 \<or> fillsLen > 64 \<or> length (drop offset v) < fillsLen
         then Inl ErrInvalidProofEnvelope
      else Inr \<lparr>bp_ProofType = v ! 0, bp_SubmittedAtMs = of_be (slice v 1 9),
             bp_WindowCloseAtMs = of_be (slice v 9 17), bp_Prover = of_be (slice v 17 50),
             bp_ProofCommitment = of_be (slice v 50 82), bp_PublicInputsHash = pih,
             bp_FillsHash = slice v offset (offset + fillsLen)\<rparr>)"

definition PutBatchProofRecord :: "'s host \<Rightarrow> ID \<Rightarrow> u64 \<Rightarrow> BatchProofRecord \<Rightarrow> ('s, unit) action_run" where
  "PutBatchProofRecord H marketID windowID record =
     go_guard (length (bp_PublicInputsHash record) = 0 \<or> length (bp_PublicInputsHash record) > 32)
       ErrInvalidProofEnvelope
     (go_guard (length (bp_FillsHash record) = 0 \<or> length (bp_FillsHash record) > 64)
       ErrInvalidProofEnvelope
     (Insert H (BatchProofKey H marketID windowID) (encodeBatchProofRecord record)))"

definition GetBatchProofRecord :: "'s host \<Rightarrow> 's \<Rightarrow> ID \<Rightarrow> u64 \<Rightarrow> error + BatchProofRecord" where
  "GetBatchProofRecord H s marketID windowID =
     with_stored ErrProofNotFound (GetValue H s (BatchProofKey H marketID windowID))
       decodeBatchProofRecord"

section \<open>Stored proof blobs\<close>

definition encodeVellumProof :: "bytes \<Rightarrow> bytes" where
  "encodeVellumProof proof = be_bytes 4 (of_nat (length proof) :: u32) @ proof"

definition decodeVellumProof :: "bytes \<Rightarrow> error + bytes" where
  "decodeVellumProof v =
     (if length v < 4 then Inl ErrInvalidVellumProof
      else let proofLen = unat (of_be (slice v 0 4) :: u32)
      in if proofLen = 0 \<or> proofLen > maxVellumProofBytes \<or> length v \<noteq> 4 + proofLen
         then Inl ErrInvalidVellumProof
      else Inr (drop 4 v))"

definition PutVellumProof :: "'s host \<Rightarrow> ID \<Rightarrow> u64 \<Rightarrow> bytes \<Rightarrow> ('s, unit) action_run" where
  "PutVellumProof H marketID windowID proof =
     go_guard (length proof = 0 \<or> length proof > maxVellumProofBytes) ErrInvalidVellumProof
     (Insert H (VellumProofKey H marketID windowID) (encodeVellumProof proof))"

definition GetVellumProof :: "'s host \<Rightarrow> 's \<Rightarrow> ID \<Rightarrow> u64 \<Rightarrow> error + bytes" where
  "GetVellumProof H s marketID windowID =
     with_stored ErrVellumProofNotFound (GetValue H s (VellumProofKey H marketID windowID))
       decodeVellumProof"

definition GetVellumProofFromState :: "'s host \<Rightarrow> ReadState \<Rightarrow> ID \<Rightarrow> u64 \<Rightarrow> error + bytes" where
  "GetVellumProofFromState H f marketID windowID =
     with_stored ErrVellumProofNotFound (readFirst (f [VellumProofKey H marketID windowID]))
       decodeVellumProof"

section \<open>Bloodsworn\<close>

record Bloodsworn =
  bs_TotalAcceptedProofs :: u64
  bs_ActiveStreak :: u64
  bs_LastProofAtMs :: i64
  bs_ScarCount :: u32

definition zeroBloodsworn :: Bloodsworn where
  "zeroBloodsworn = \<lparr>bs_TotalAcceptedProofs = 0, bs_ActiveStreak = 0, bs_LastProofAtMs = 0,
     bs_ScarCount = 0\<rparr>"

definition encodeBloodsworn :: "Bloodsworn \<Rightarrow> bytes" where
  "encodeBloodsworn b = be_bytes 8 (bs_TotalAcceptedProofs b) @ be_bytes 8 (bs_ActiveStreak b)
     @ be_bytes 8 (bs_LastProofAtMs b) @ be_bytes 4 (bs_ScarCount b)"

definition decodeBloodsworn :: "bytes \<Rightarrow> error + Bloodsworn" where
  "decodeBloodsworn v =
     (if length v < 28 then Inl ErrInvalidBloodsworn
      else Inr \<lparr>bs_TotalAcceptedProofs = of_be (slice v 0 8), bs_ActiveStreak = of_be (slice v 8 16),
        bs_LastProofAtMs = of_be (slice v 16 24), bs_ScarCount = of_be (slice v 24 28)\<rparr>)"

text \<open>An address without a record reads as the zero record.\<close>

definition bloodswornResult :: "error + bytes \<Rightarrow> error + Bloodsworn" where
  "bloodswornResult r = (case r of
     Inl err \<Rightarrow> if err = DbErrNotFound then Inr zeroBloodsworn else Inl err
   | Inr v \<Rightarrow> decodeBloodsworn v)"

definition PutBloodsworn :: "'s host \<Rightarrow> Address \<Rightarrow> Bloodsworn \<Rightarrow> ('s, unit) action_run" where
  "PutBloodsworn H addr b = Insert H (BloodswornKey H addr) (encodeBloodsworn b)"

definition GetBloodsworn :: "'s host \<Rightarrow> 's \<Rightarrow> Address \<Rightarrow> error + Bloodsworn" where
  "GetBloodsworn H s addr = bloodswornResult (GetValue H s (BloodswornKey H addr))"

definition GetBloodswornFromState :: "'s host \<Rightarrow> ReadState \<Rightarrow> Address \<Rightarrow> error + Bloodsworn" where
  "GetBloodswornFromState H f addr = bloodswornResult (readFirst (f [BloodswornKey H addr]))"

section \<open>Glyphs\<close>

record Glyph =
  gl_Class :: u8
  gl_Rarity :: u8
  gl_CreatedAtMs :: i64
  gl_Prover :: Address
  gl_ProofCommitment :: Hash32
  gl_PublicInputsHash :: Hash32
  gl_Entropy :: Hash32

definition encodeGlyph :: "Glyph \<Rightarrow> bytes" where
  "encodeGlyph g = [gl_Class g, gl_Rarity g] @ be_bytes 8 (gl_CreatedAtMs g)
     @ be_bytes 33 (gl_Prover g) @ be_bytes 32 (gl_ProofCommitment g)
     @ be_bytes 32 (gl_PublicInputsHash g) @ be_bytes 32 (gl_Entropy g)"

definition decodeGlyph :: "bytes \<Rightarrow> error + Glyph" where
  "decodeGlyph v =
     (if length v < 139 then Inl ErrInvalidGlyph
      else Inr \<lparr>gl_Class = v ! 0, gl_Rarity = v ! 1, gl_CreatedAtMs = of_be (slice v 2 10),
        gl_Prover = of_be (slice v 10 43), gl_ProofCommitment = of_be (slice v 43 75),
        gl_PublicInputsHash = of_be (slice v 75 107), gl_Entropy = of_be (slice v 107 139)\<rparr>)"

definition PutGlyph :: "'s host \<Rightarrow> ID \<Rightarrow> u64 \<Rightarrow> Glyph \<Rightarrow> ('s, unit) action_run" where
  "PutGlyph H marketID windowID glyph =
     go_guard (gl_Class glyph = 0 \<or> gl_Rarity glyph = 0 \<or> sint (gl_CreatedAtMs glyph) \<le> 0)
       ErrInvalidGlyph
     (Insert H (GlyphKey H marketID windowID) (encodeGlyph glyph))"

definition GetGlyph :: "'s host \<Rightarrow> 's \<Rightarrow> ID \<Rightarrow> u64 \<Rightarrow> error + Glyph" where
  "GetGlyph H s marketID windowID =
     with_stored ErrGlyphNotFound (GetValue H s (GlyphKey H marketID windowID)) decodeGlyph"

definition GetGlyphFromState :: "'s host \<Rightarrow> ReadState \<Rightarrow> ID \<Rightarrow> u64 \<Rightarrow> error + Glyph" where
  "GetGlyphFromState H f marketID windowID =
     with_stored ErrGlyphNotFound (readFirst (f [GlyphKey H marketID windowID])) decodeGlyph"

section \<open>Decoding inverts encoding\<close>

lemma decode_proof_config [simp]:
  "validateProofConfig cfg = Inr () \<Longrightarrow> decodeProofConfig (encodeProofConfig cfg) = Inr cfg"
  by (cases cfg; cases "pc_RequireProof cfg")
    (simp_all add: decodeProofConfig_def encodeProofConfig_def byte_simps Let_def)

lemma GetProofConfig_valid: "GetProofConfig H s = Inr cfg \<Longrightarrow> validateProofConfig cfg = Inr ()"
  by (auto simp: GetProofConfig_def with_stored_ok decodeProofConfig_def Let_def
      split: if_splits sum.splits)

definition storable_record :: "BatchProofRecord \<Rightarrow> bool" where
  "storable_record r \<longleftrightarrow> bp_PublicInputsHash r \<noteq> [] \<and> length (bp_PublicInputsHash r) \<le> 32
     \<and> bp_FillsHash r \<noteq> [] \<and> length (bp_FillsHash r) \<le> 64"

lemma decode_batch_proof_record [simp]:
  "storable_record r \<Longrightarrow> decodeBatchProofRecord (encodeBatchProofRecord r) = Inr r"
  by (cases r) (simp add: storable_record_def decodeBatchProofRecord_def encodeBatchProofRecord_def
      byte_simps Let_def unat_of_nat)

lemma decode_vellum_proof [simp]:
  "proof \<noteq> [] \<Longrightarrow> length proof \<le> maxVellumProofBytes \<Longrightarrow>
    decodeVellumProof (encodeVellumProof proof) = Inr proof"
  by (simp add: decodeVellumProof_def encodeVellumProof_def byte_simps Let_def unat_of_nat)

lemma decode_bloodsworn [simp]: "decodeBloodsworn (encodeBloodsworn b) = Inr b"
  by (simp add: decodeBloodsworn_def encodeBloodsworn_def byte_simps)

lemma decode_glyph [simp]: "decodeGlyph (encodeGlyph g) = Inr g"
  by (simp add: decodeGlyph_def encodeGlyph_def byte_simps)

section \<open>Each write touches one slot\<close>

context host_env
begin

lemma PutProofConfig_run:
  "PutProofConfig H cfg s = (Inr u, t) \<Longrightarrow> validateProofConfig cfg = Inr () \<and>
    GetValue H t = (GetValue H s)(slot_key H SProofConfig := Inr (encodeProofConfig cfg))"
  by (auto simp: PutProofConfig_def run_simps key_simps dest!: insert_get)

lemma PutBatchProofRecord_run:
  "PutBatchProofRecord H m w r s = (Inr u, t) \<Longrightarrow> storable_record r \<and>
    GetValue H t = (GetValue H s)(slot_key H (SBatchProof m w) := Inr (encodeBatchProofRecord r))"
  by (auto simp: PutBatchProofRecord_def storable_record_def run_simps key_simps dest!: insert_get)

lemma PutVellumProof_run:
  "PutVellumProof H m w p s = (Inr u, t) \<Longrightarrow> p \<noteq> [] \<and> length p \<le> maxVellumProofBytes \<and>
    GetValue H t = (GetValue H s)(slot_key H (SVellumProof m w) := Inr (encodeVellumProof p))"
  by (auto simp: PutVellumProof_def run_simps key_simps dest!: insert_get)

lemma PutBloodsworn_run:
  "PutBloodsworn H a b s = (Inr u, t) \<Longrightarrow>
    GetValue H t = (GetValue H s)(slot_key H (SBloodsworn a) := Inr (encodeBloodsworn b))"
  by (auto simp: PutBloodsworn_def key_simps dest!: insert_get)

lemma PutGlyph_run:
  "PutGlyph H m w g s = (Inr u, t) \<Longrightarrow>
    GetValue H t = (GetValue H s)(slot_key H (SGlyph m w) := Inr (encodeGlyph g))"
  by (auto simp: PutGlyph_def run_simps key_simps dest!: insert_get)

end

end
