(* ===== verification/Access.thy ===== *)
theory Access
  imports Storage_Market Storage_Proof
begin

text \<open>
  The key sets that actions declare (\<open>StateKeys\<close>). HyperSDK schedules transactions by these sets,
  so an action must not change a key it did not declare for writing. \<open>Permissions\<close> has one value
  for each permission expression the code uses. The locale \<open>declared_action\<close> is the contract
  between an action and its declaration: a successful execution changes only keys declared for
  writing. It is interpreted for each action in the theory that defines it.
\<close>

datatype Permissions =
    StateRead          \<comment> \<open>\<open>state.Read\<close>\<close>
  | StateReadWrite     \<comment> \<open>\<open>state.Read | state.Write\<close>\<close>
  | StateAll           \<comment> \<open>\<open>state.All\<close>\<close>

type_synonym state_keys = "bytes \<rightharpoonup> Permissions"

text \<open>A Go map literal: of two entries with the same key the later one stays.\<close>

definition Keys :: "(bytes \<times> Permissions) list \<Rightarrow> state_keys" where
  "Keys entries = foldl (\<lambda>m (k, p). m(k \<mapsto> p)) Map.empty entries"

definition writable :: "state_keys \<Rightarrow> bytes \<Rightarrow> bool" where
  "writable K k = (case K k of None \<Rightarrow> False | Some p \<Rightarrow> p \<noteq> StateRead)"

definition confined :: "'s host \<Rightarrow> state_keys \<Rightarrow> 's \<Rightarrow> 's \<Rightarrow> bool" where
  "confined H K s t \<longleftrightarrow> (\<forall>k. \<not> writable K k \<longrightarrow> GetValue H t k = GetValue H s k)"

lemma confinedI: "(\<And>k. \<not> writable K k \<Longrightarrow> GetValue H t k = GetValue H s k) \<Longrightarrow> confined H K s t"
  by (simp add: confined_def)

lemma confined_undeclared:
  "confined H K s t \<Longrightarrow> K k = None \<Longrightarrow> GetValue H t k = GetValue H s k"
  by (simp add: confined_def writable_def)

lemma confined_read_only:
  "confined H K s t \<Longrightarrow> K k = Some StateRead \<Longrightarrow> GetValue H t k = GetValue H s k"
  by (simp add: confined_def writable_def)

text \<open>The step used for every action: a chain of writes to writable keys is confined.\<close>

lemma confined_upd:
  "GetValue H t = g(k := v) \<Longrightarrow> writable K k \<Longrightarrow>
    (\<And>k'. \<not> writable K k' \<Longrightarrow> g k' = GetValue H s k') \<Longrightarrow> confined H K s t"
  by (auto simp: confined_def)

lemmas keys_simps = Keys_def writable_def key_simps

locale declared_action = host_env H for H :: "'s host" +
  fixes keys :: "'a \<Rightarrow> Address \<Rightarrow> state_keys"
    and exec :: "'a \<Rightarrow> i64 \<Rightarrow> Address \<Rightarrow> ('s, 'r) action_run"
  assumes exec_confined: "exec a now actor s = (Inr r, t) \<Longrightarrow> confined H (keys a actor) s t"
begin

text \<open>Balances, configurations and pools an action does not declare keep their value.\<close>

lemma undeclared_unchanged:
  assumes "exec a now actor s = (Inr r, t)" and "keys a actor k = None"
  shows "GetValue H t k = GetValue H s k"
  using confined_undeclared [OF exec_confined [OF assms(1)] assms(2)] .

lemma read_only_unchanged:
  assumes "exec a now actor s = (Inr r, t)" and "keys a actor k = Some StateRead"
  shows "GetValue H t k = GetValue H s k"
  using confined_read_only [OF exec_confined [OF assms(1)] assms(2)] .

lemma veil_untouched:
  assumes "exec a now actor s = (Inr r, t)" and "\<And>x. keys a actor (BalanceKey H x) = None"
  shows "veil_balance H t = veil_balance H s"
  using undeclared_unchanged [OF assms(1)] assms(2) by (auto simp: veil_balance_def)

lemma vai_untouched:
  assumes "exec a now actor s = (Inr r, t)" and "\<And>x. keys a actor (VAIBalanceKey H x) = None"
  shows "vai_balance H t = vai_balance H s"
  using undeclared_unchanged [OF assms(1)] assms(2) by (auto simp: vai_balance_def)

end

end
