(* ===== verification/Economy.thy ===== *)
theory Economy
  imports Access
begin

text \<open>
  The economic content of a chain state: who holds VEIL, VAI and shares of the VEIL/VAI pool, the
  pool itself, the recorded VAI debt and the fee budgets. \<open>economy_of\<close> abstracts a key-value state
  to it. The lemmas say what each storage operation does to the abstraction; the actions are
  shown to implement transitions of this economy, and the conservation laws are proved on it.
\<close>

named_theorems econ_simps

record economy =
  eVeil :: "Address \<Rightarrow> nat"
  eVai :: "Address \<Rightarrow> nat"
  eShares :: "Address \<Rightarrow> nat"
  ePool :: "Pool option"
  eVAI :: "VAIState option"
  eFees :: "FeeRouterState option"

definition read_option :: "error + 'a \<Rightarrow> 'a option" where
  "read_option r = (case r of Inl _ \<Rightarrow> None | Inr x \<Rightarrow> Some x)"

definition economy_of :: "'s host \<Rightarrow> 's \<Rightarrow> economy" where
  "economy_of H s = \<lparr>eVeil = veil_balance H s, eVai = vai_balance H s, eShares = lp_balance H 0 1 s,
     ePool = read_option (GetPool H s 0 1), eVAI = read_option (GetVAIState H s),
     eFees = read_option (GetFeeRouterState H s)\<rparr>"

lemma read_option_simps [simp]: "read_option (Inl e) = None" "read_option (Inr x) = Some x"
  by (simp_all add: read_option_def)

lemma read_option_Some [simp]: "read_option r = Some x \<longleftrightarrow> r = Inr x"
  by (cases r) auto

lemma economy_fields:
  "eVeil (economy_of H s) = veil_balance H s"
  "eVai (economy_of H s) = vai_balance H s"
  "eShares (economy_of H s) = lp_balance H 0 1 s"
  "ePool (economy_of H s) = read_option (GetPool H s 0 1)"
  "eVAI (economy_of H s) = read_option (GetVAIState H s)"
  "eFees (economy_of H s) = read_option (GetFeeRouterState H s)"
  by (simp_all add: economy_of_def)

lemmas economy_defs = economy_of_def veil_balance_def vai_balance_def lp_balance_def GetPool_def
  GetVAIState_def GetFeeRouterState_def key_simps

text \<open>Slots outside the economy do not affect it.\<close>

definition economic :: "slot \<Rightarrow> bool" where
  "economic k = (case k of SBalance _ \<Rightarrow> True | SVAIBalance _ \<Rightarrow> True
     | SLPBalance a b _ \<Rightarrow> a = 0 \<and> b = 1 | SPool a b \<Rightarrow> a = 0 \<and> b = 1
     | SVAIState \<Rightarrow> True | SFeeRouterState \<Rightarrow> True | _ \<Rightarrow> False)"

lemma zero_one_sorted [simp]: "min (0 :: u8) 1 = 0" "max (0 :: u8) 1 = 1"
  "min (1 :: u8) 0 = 0" "max (1 :: u8) 0 = 1"
  by (simp_all add: min_def max_def)

lemma economy_of_cong:
  assumes "\<And>k. economic k \<Longrightarrow> GetValue H t (slot_key H k) = GetValue H s (slot_key H k)"
  shows "economy_of H t = economy_of H s"
  by (simp add: economy_defs assms economic_def fun_eq_iff)

lemma economy_frame:
  assumes "GetValue H t = (GetValue H s)(slot_key H k := v)" and "\<not> economic k"
  shows "economy_of H t = economy_of H s"
proof (rule economy_of_cong)
  fix k' assume "economic k'"
  with assms show "GetValue H t (slot_key H k') = GetValue H s (slot_key H k')" by auto
qed

section \<open>Operations of the economy\<close>

definition credit_veil :: "Address \<Rightarrow> nat \<Rightarrow> economy \<Rightarrow> economy" where
  "credit_veil a v e = e\<lparr>eVeil := (eVeil e)(a := eVeil e a + v)\<rparr>"

definition debit_veil :: "Address \<Rightarrow> nat \<Rightarrow> economy \<Rightarrow> economy" where
  "debit_veil a v e = e\<lparr>eVeil := (eVeil e)(a := eVeil e a - v)\<rparr>"

definition credit_vai :: "Address \<Rightarrow> nat \<Rightarrow> economy \<Rightarrow> economy" where
  "credit_vai a v e = e\<lparr>eVai := (eVai e)(a := eVai e a + v)\<rparr>"

definition debit_vai :: "Address \<Rightarrow> nat \<Rightarrow> economy \<Rightarrow> economy" where
  "debit_vai a v e = e\<lparr>eVai := (eVai e)(a := eVai e a - v)\<rparr>"

definition credit_shares :: "Address \<Rightarrow> nat \<Rightarrow> economy \<Rightarrow> economy" where
  "credit_shares a v e = e\<lparr>eShares := (eShares e)(a := eShares e a + v)\<rparr>"

definition debit_shares :: "Address \<Rightarrow> nat \<Rightarrow> economy \<Rightarrow> economy" where
  "debit_shares a v e = e\<lparr>eShares := (eShares e)(a := eShares e a - v)\<rparr>"

definition set_pool :: "Pool \<Rightarrow> economy \<Rightarrow> economy" where
  "set_pool p e = e\<lparr>ePool := Some p\<rparr>"

definition set_vai :: "VAIState \<Rightarrow> economy \<Rightarrow> economy" where
  "set_vai st e = e\<lparr>eVAI := Some st\<rparr>"

definition set_fees :: "FeeRouterState \<Rightarrow> economy \<Rightarrow> economy" where
  "set_fees st e = e\<lparr>eFees := Some st\<rparr>"

lemmas econ_ops = credit_veil_def debit_veil_def credit_vai_def debit_vai_def credit_shares_def
  debit_shares_def set_pool_def set_vai_def set_fees_def

section \<open>What storage operations do to the economy\<close>

context host_env
begin

lemma econ_AddBalance:
  assumes "AddBalance H a v s = (Inr n, t)"
  shows "economy_of H t = credit_veil a (unat v) (economy_of H s)"
  using AddBalance_run [OF assms] by (auto simp: economy_defs econ_ops fun_eq_iff)

lemma econ_SubBalance:
  assumes "SubBalance H a v s = (Inr n, t)"
  shows "unat v \<le> eVeil (economy_of H s) a"
    and "economy_of H t = debit_veil a (unat v) (economy_of H s)"
  using SubBalance_run [OF assms] by (auto simp: economy_defs econ_ops fun_eq_iff)

lemma econ_AddVAIBalance:
  assumes "AddVAIBalance H a v s = (Inr n, t)"
  shows "economy_of H t = credit_vai a (unat v) (economy_of H s)"
  using AddVAIBalance_run [OF assms] by (auto simp: economy_defs econ_ops fun_eq_iff)

lemma econ_SubVAIBalance:
  assumes "SubVAIBalance H a v s = (Inr n, t)"
  shows "unat v \<le> eVai (economy_of H s) a"
    and "economy_of H t = debit_vai a (unat v) (economy_of H s)"
  using SubVAIBalance_run [OF assms] by (auto simp: economy_defs econ_ops fun_eq_iff)

lemma econ_AddLPBalance:
  assumes "AddLPBalance H 0 1 a v s = (Inr n, t)"
  shows "economy_of H t = credit_shares a (unat v) (economy_of H s)"
  using AddLPBalance_run [OF assms] by (auto simp: economy_defs econ_ops fun_eq_iff)

lemma econ_SubLPBalance:
  assumes "SubLPBalance H 0 1 a v s = (Inr n, t)"
  shows "unat v \<le> eShares (economy_of H s) a"
    and "economy_of H t = debit_shares a (unat v) (economy_of H s)"
  using SubLPBalance_run [OF assms] by (auto simp: economy_defs econ_ops fun_eq_iff)

lemma econ_PutPool:
  assumes "PutPool H p s = (Inr u, t)" and "p_Asset0 p = 0" and "p_Asset1 p = 1"
  shows "economy_of H t = set_pool p (economy_of H s)"
  using market_put_run(5) [OF assms(1)] assms(2,3) by (auto simp: economy_defs econ_ops fun_eq_iff)

lemma econ_PutVAIState:
  assumes "PutVAIState H st s = (Inr u, t)"
  shows "economy_of H t = set_vai st (economy_of H s)"
  using config_put_run(6) [OF assms] by (auto simp: economy_defs econ_ops fun_eq_iff)

lemma econ_PutFeeRouterState:
  assumes "PutFeeRouterState H st s = (Inr u, t)"
  shows "economy_of H t = set_fees st (economy_of H s)"
  using config_put_run(4) [OF assms] by (auto simp: economy_defs econ_ops fun_eq_iff)

end

section \<open>Totals\<close>

definition pool_veil :: "economy \<Rightarrow> nat" where
  "pool_veil e = (case ePool e of None \<Rightarrow> 0 | Some p \<Rightarrow> unat (p_Reserve0 p))"

definition pool_vai :: "economy \<Rightarrow> nat" where
  "pool_vai e = (case ePool e of None \<Rightarrow> 0 | Some p \<Rightarrow> unat (p_Reserve1 p))"

definition pool_shares :: "economy \<Rightarrow> nat" where
  "pool_shares e = (case ePool e of None \<Rightarrow> 0 | Some p \<Rightarrow> unat (p_TotalLP p))"

definition debt :: "economy \<Rightarrow> nat" where
  "debt e = (case eVAI e of None \<Rightarrow> 0 | Some st \<Rightarrow> unat (vs_TotalDebt st))"

definition budget_sum :: "FeeRouterState \<Rightarrow> nat" where
  "budget_sum st = unat (fs_MSRBBudget st) + unat (fs_COLBudget st) + unat (fs_OpsBudget st)"

definition budgets :: "economy \<Rightarrow> nat" where
  "budgets e = (case eFees e of None \<Rightarrow> 0 | Some st \<Rightarrow> budget_sum st)"

text \<open>All VEIL: in accounts, in the pool and in the fee budgets. All VAI: in accounts and the pool.\<close>

definition holdings :: "(Address \<Rightarrow> nat) \<Rightarrow> nat" where
  "holdings f = (\<Sum>a\<in>UNIV. f a)"

definition veil_supply :: "economy \<Rightarrow> nat" where
  "veil_supply e = holdings (eVeil e) + pool_veil e + budgets e"

definition vai_supply :: "economy \<Rightarrow> nat" where
  "vai_supply e = holdings (eVai e) + pool_vai e"

definition shares_issued :: "economy \<Rightarrow> nat" where
  "shares_issued e = holdings (eShares e)"

lemma holdings_add [econ_simps]: "holdings (f(a := f a + v)) = holdings f + v"
  using sum_fun_upd_nat [of f a "f a + v"] by (simp add: holdings_def)

lemma holdings_ge: "v \<le> f a \<Longrightarrow> v \<le> holdings f"
  using member_le_sum [of a UNIV f] by (simp add: holdings_def)

lemma holdings_sub [econ_simps]: "v \<le> f a \<Longrightarrow> holdings (f(a := f a - v)) = holdings f - v"
  using sum_fun_upd_nat [of f a "f a - v"] by (simp add: holdings_def)

lemmas totals = veil_supply_def vai_supply_def shares_issued_def pool_veil_def pool_vai_def
  pool_shares_def debt_def budgets_def

section \<open>The abstract exchange and its steps\<close>

text \<open>
  Every transition of the economy, with the amounts it moves and, for the exchange, the inequalities
  that protect the holders of shares.
\<close>

inductive econ_step :: "economy \<Rightarrow> economy \<Rightarrow> bool" where
  idle: "econ_step e e"
| pay: "v \<le> eVeil e a \<Longrightarrow> econ_step e (credit_veil b v (debit_veil a v e))"
| bond: "v \<le> eVeil e a \<Longrightarrow> econ_step e (debit_veil a v e)"
| mint: "eVAI e = Some st \<Longrightarrow> unat (vs_TotalDebt st') = unat (vs_TotalDebt st) + v \<Longrightarrow>
    econ_step e (set_vai st' (credit_vai a v e))"
| burn: "eVAI e = Some st \<Longrightarrow> v \<le> eVai e a \<Longrightarrow> unat (vs_TotalDebt st') + v = unat (vs_TotalDebt st) \<Longrightarrow>
    econ_step e (set_vai st' (debit_vai a v e))"
| route: "eFees e = Some f \<Longrightarrow> v \<le> eVeil e a \<Longrightarrow> budget_sum f' = budget_sum f + v \<Longrightarrow>
    econ_step e (set_fees f' (debit_veil a v e))"
| create: "ePool e = None \<Longrightarrow> p_Reserve0 p = 0 \<Longrightarrow> p_Reserve1 p = 0 \<Longrightarrow> p_TotalLP p = 0 \<Longrightarrow>
    econ_step e (set_pool p e)"
| deposit: "ePool e = Some p \<Longrightarrow> v \<le> eVeil e a \<Longrightarrow> w \<le> eVai e a \<Longrightarrow> 0 < v \<Longrightarrow> 0 < w \<Longrightarrow> 0 < n \<Longrightarrow>
    unat (p_Reserve0 q) = unat (p_Reserve0 p) + v \<Longrightarrow>
    unat (p_Reserve1 q) = unat (p_Reserve1 p) + w \<Longrightarrow>
    unat (p_TotalLP q) = unat (p_TotalLP p) + n \<Longrightarrow>
    unat (p_Reserve0 p) * unat (p_TotalLP q) \<le> unat (p_Reserve0 q) * unat (p_TotalLP p)
      \<or> p_TotalLP p = 0 \<Longrightarrow>
    unat (p_Reserve1 p) * unat (p_TotalLP q) \<le> unat (p_Reserve1 q) * unat (p_TotalLP p)
      \<or> p_TotalLP p = 0 \<Longrightarrow>
    econ_step e (credit_shares a n (set_pool q (debit_vai a w (debit_veil a v e))))"
| withdraw: "ePool e = Some p \<Longrightarrow> n \<le> eShares e a \<Longrightarrow> 0 < n \<Longrightarrow>
    unat (p_Reserve0 q) + v = unat (p_Reserve0 p) \<Longrightarrow>
    unat (p_Reserve1 q) + w = unat (p_Reserve1 p) \<Longrightarrow>
    unat (p_TotalLP q) + n = unat (p_TotalLP p) \<Longrightarrow>
    v = n * unat (p_Reserve0 p) div unat (p_TotalLP p) \<Longrightarrow>
    w = n * unat (p_Reserve1 p) div unat (p_TotalLP p) \<Longrightarrow>
    econ_step e (credit_vai a w (credit_veil a v (debit_shares a n (set_pool q e))))"
| swap_veil_in: "ePool e = Some p \<Longrightarrow> v \<le> eVeil e a \<Longrightarrow> 0 < v \<Longrightarrow>
    unat (p_Reserve0 q) = unat (p_Reserve0 p) + v \<Longrightarrow>
    unat (p_Reserve1 q) + w = unat (p_Reserve1 p) \<Longrightarrow>
    p_TotalLP q = p_TotalLP p \<Longrightarrow> p_Reserve0 p \<noteq> 0 \<Longrightarrow> p_Reserve1 q \<noteq> 0 \<Longrightarrow>
    unat (p_Reserve0 p) * unat (p_Reserve1 p) \<le> unat (p_Reserve0 q) * unat (p_Reserve1 q) \<Longrightarrow>
    econ_step e (credit_vai a w (set_pool q (debit_veil a v e)))"
| swap_vai_in: "ePool e = Some p \<Longrightarrow> w \<le> eVai e a \<Longrightarrow> 0 < w \<Longrightarrow>
    unat (p_Reserve1 q) = unat (p_Reserve1 p) + w \<Longrightarrow>
    unat (p_Reserve0 q) + v = unat (p_Reserve0 p) \<Longrightarrow>
    p_TotalLP q = p_TotalLP p \<Longrightarrow> p_Reserve1 p \<noteq> 0 \<Longrightarrow> p_Reserve0 q \<noteq> 0 \<Longrightarrow>
    unat (p_Reserve0 p) * unat (p_Reserve1 p) \<le> unat (p_Reserve0 q) * unat (p_Reserve1 q) \<Longrightarrow>
    econ_step e (credit_veil a v (set_pool q (debit_vai a w e)))"

text \<open>VEIL is never created: every step keeps the supply or, for a bond, lowers it.\<close>

lemma econ_step_veil: "econ_step e e' \<Longrightarrow> veil_supply e' \<le> veil_supply e"
proof (induction rule: econ_step.induct)
  case (pay v e a b)
  then show ?case
    using holdings_ge [of v "eVeil e" a] by (simp add: totals econ_ops econ_simps del: fun_upd_apply)
qed (auto simp: totals econ_ops econ_simps simp del: fun_upd_apply
      dest: holdings_ge [where f = "eVeil _"])

text \<open>VAI in circulation moves exactly with the recorded debt.\<close>

lemma econ_step_vai:
  "econ_step e e' \<Longrightarrow> vai_supply e' + debt e = vai_supply e + debt e'"
  by (induction rule: econ_step.induct)
    (auto simp: totals econ_ops econ_simps simp del: fun_upd_apply
      dest: holdings_ge [where f = "eVai _"])

text \<open>Shares held move exactly with the shares the pool has issued.\<close>

lemma econ_step_shares:
  "econ_step e e' \<Longrightarrow> shares_issued e' + pool_shares e = shares_issued e + pool_shares e'"
  by (induction rule: econ_step.induct)
    (auto simp: totals econ_ops econ_simps simp del: fun_upd_apply
      dest: holdings_ge [where f = "eShares _"])

text \<open>
  The reserves are empty exactly when no share is outstanding: nothing is stranded in an abandoned
  pool and no share is without backing.
\<close>

definition pool_live :: "economy \<Rightarrow> bool" where
  "pool_live e = (case ePool e of None \<Rightarrow> True
     | Some p \<Rightarrow> (p_TotalLP p = 0 \<longleftrightarrow> p_Reserve0 p = 0) \<and> (p_TotalLP p = 0 \<longleftrightarrow> p_Reserve1 p = 0))"

lemma share_of_part:
  fixes n r t :: nat
  assumes "n < t" and "0 < r"
  shows "n * r div t < r"
  using assms by (metis div_less_iff_less_mult mult.commute mult_less_cancel2 less_nat_zero_code
      neq0_conv)

lemma withdraw_live:
  fixes p q :: Pool
  assumes "unat r' + n * unat r div unat t = unat (r :: u64)" and "unat t' + n = unat (t :: u64)"
    and "0 < n" and "t = 0 \<longleftrightarrow> r = 0"
  shows "t' = 0 \<longleftrightarrow> (r' :: u64) = 0"
proof (cases "n = unat t")
  case True
  with assms show ?thesis by (simp add: unat_eq_0 flip: unat_gt_0)
next
  case False
  with assms(2) have "n < unat t" by simp
  moreover from this assms(4) have "0 < unat r" by (auto simp: unat_gt_0)
  ultimately have "n * unat r div unat t < unat r" by (rule share_of_part)
  with assms(1) have "0 < unat r'" by linarith
  moreover have "0 < unat t'" using assms(2) \<open>n < unat t\<close> by linarith
  ultimately show ?thesis by (simp add: unat_gt_0)
qed

lemma econ_step_live: "econ_step e e' \<Longrightarrow> pool_live e \<Longrightarrow> pool_live e'"
proof (induction rule: econ_step.induct)
  case (withdraw e p n a q v w)
  from withdraw(1,9) have l0: "p_TotalLP p = 0 \<longleftrightarrow> p_Reserve0 p = 0"
    and l1: "p_TotalLP p = 0 \<longleftrightarrow> p_Reserve1 p = 0"
    by (auto simp: pool_live_def)
  have "p_TotalLP q = 0 \<longleftrightarrow> p_Reserve0 q = 0"
    using withdraw_live [OF _ withdraw(6,3) l0] withdraw(4,7) by blast
  moreover have "p_TotalLP q = 0 \<longleftrightarrow> p_Reserve1 q = 0"
    using withdraw_live [OF _ withdraw(6,3) l1] withdraw(5,8) by blast
  ultimately show ?case by (auto simp: pool_live_def econ_ops)
next
  case (deposit e p v a w n q)
  then have "0 < unat (p_Reserve0 q)" "0 < unat (p_Reserve1 q)" "0 < unat (p_TotalLP q)" by auto
  then show ?case by (simp add: pool_live_def econ_ops unat_gt_0)
next
  case (swap_veil_in e p v a q w)
  then have "0 < unat (p_Reserve0 q)" by auto
  with swap_veil_in show ?case by (auto simp: pool_live_def econ_ops unat_gt_0)
next
  case (swap_vai_in e p w a q v)
  then have "0 < unat (p_Reserve1 q)" by auto
  with swap_vai_in show ?case by (auto simp: pool_live_def econ_ops unat_gt_0)
qed (auto simp: pool_live_def econ_ops)

text \<open>
  What one share stands for never shrinks: measured by the product of the reserves over the square of
  the shares, cleared of denominators.
\<close>

lemma econ_step_share_value:
  assumes "econ_step e e'" and "ePool e = Some p" and "ePool e' = Some q" and "p_TotalLP p \<noteq> 0"
  shows "unat (p_Reserve0 p) * unat (p_Reserve1 p) * (unat (p_TotalLP q))\<^sup>2
    \<le> unat (p_Reserve0 q) * unat (p_Reserve1 q) * (unat (p_TotalLP p))\<^sup>2"
proof -
  have both: "r0 * r1 * T\<^sup>2 \<le> r0' * r1' * t\<^sup>2"
    if "r0 * T \<le> r0' * t" and "r1 * T \<le> r1' * t" for r0 r1 r0' r1' t T :: nat
    using mult_le_mono [OF that] by (simp add: power2_eq_square mult_ac)
  have less: "r * (t - n) \<le> (r - n * r div t) * t" if "n \<le> t" for r t n :: nat
  proof -
    have "n * r div t * t \<le> n * r" by simp
    then have "r * t - n * r \<le> r * t - n * r div t * t" by (rule diff_le_mono2)
    then show ?thesis by (simp add: diff_mult_distrib diff_mult_distrib2 mult.commute)
  qed
  from assms show ?thesis
  proof (cases rule: econ_step.cases)
    case (withdraw p' n a q' v w)
    then have [simp]: "p' = p" "q' = q" using assms by (auto simp: econ_ops)
    have n: "n \<le> unat (p_TotalLP p)" and t: "unat (p_TotalLP q) = unat (p_TotalLP p) - n"
      using withdraw by auto
    have "unat (p_Reserve0 q) = unat (p_Reserve0 p) - n * unat (p_Reserve0 p) div unat (p_TotalLP p)"
      "unat (p_Reserve1 q) = unat (p_Reserve1 p) - n * unat (p_Reserve1 p) div unat (p_TotalLP p)"
      using withdraw by auto
    then show ?thesis
      using less [OF n, of "unat (p_Reserve0 p)"] less [OF n, of "unat (p_Reserve1 p)"]
      by (intro both) (simp_all add: t)
  qed (auto simp: econ_ops intro: both)
qed

section \<open>Runs of the economy\<close>

lemma econ_steps_veil: "econ_step\<^sup>*\<^sup>* e e' \<Longrightarrow> veil_supply e' \<le> veil_supply e"
  by (induction rule: rtranclp_induct) (auto dest: econ_step_veil)

lemma econ_steps_vai: "econ_step\<^sup>*\<^sup>* e e' \<Longrightarrow> vai_supply e' + debt e = vai_supply e + debt e'"
  by (induction rule: rtranclp_induct) (auto dest: econ_step_vai)

lemma econ_steps_shares:
  "econ_step\<^sup>*\<^sup>* e e' \<Longrightarrow> shares_issued e' + pool_shares e = shares_issued e + pool_shares e'"
  by (induction rule: rtranclp_induct) (auto dest: econ_step_shares)

lemma econ_steps_live: "econ_step\<^sup>*\<^sup>* e e' \<Longrightarrow> pool_live e \<Longrightarrow> pool_live e'"
  by (induction rule: rtranclp_induct) (auto intro: econ_step_live)

lemma econ_step_mint_state: "econ_step e e' \<Longrightarrow> eVAI e \<noteq> None \<Longrightarrow> eVAI e' \<noteq> None"
  by (induction rule: econ_step.induct) (auto simp: econ_ops)

lemma econ_steps_mint_state: "econ_step\<^sup>*\<^sup>* e e' \<Longrightarrow> eVAI e \<noteq> None \<Longrightarrow> eVAI e' \<noteq> None"
  by (induction rule: rtranclp_induct) (use econ_step_mint_state in blast)+

lemma econ_step_keeps_pool: "econ_step e e' \<Longrightarrow> ePool e = Some p \<Longrightarrow> \<exists>q. ePool e' = Some q"
  by (induction rule: econ_step.induct) (auto simp: econ_ops)

end
