(* ===== verification/Sample.thy ===== *)
theory Sample
  imports Economy
begin

text \<open>
  Concrete chain states on the in-memory host, for running the model on given inputs. A state is
  written as a list of slots with their stored bytes; the collection \<open>run_mem\<close> evaluates reads,
  writes and checked arithmetic on such states, so that a run of an action is computed by the
  simplifier. \<open>sample\<close> is a small chain: one governance address, the configurations of a
  fresh genesis, a funded account and a pool.
\<close>

named_theorems run_mem

definition store :: "(slot \<times> bytes option) list \<Rightarrow> mem" where
  "store xs = foldr (\<lambda>(k, v) m. m(slot_key mem_host k := v)) xs Map.empty"

lemma store_at: "store xs (slot_key mem_host k) = (case map_of xs k of None \<Rightarrow> None | Some v \<Rightarrow> v)"
  by (induction xs) (auto simp: store_def)

lemma store_get [run_mem]:
  "mem_get (store xs) (slot_key mem_host k) = (case map_of xs k of
     Some (Some v) \<Rightarrow> Inr v | _ \<Rightarrow> Inl DbErrNotFound)"
  by (simp add: mem_get_def store_at split: option.splits)

lemma store_upd [run_mem]:
  "(store xs)(slot_key mem_host k \<mapsto> v) = store ((k, Some v) # xs)"
  "(store xs)(slot_key mem_host k := None) = store ((k, None) # xs)"
  by (simp_all add: store_def)

lemma mem_host_fields [run_mem]:
  "GetValue mem_host = mem_get" "Insert mem_host k v m = (Inr (), m(k \<mapsto> v))"
  "Remove mem_host k m = (Inr (), m(k := None))" "smath_Add mem_host = mem_add"
  "smath_Sub mem_host = mem_sub" "smath_Mul mem_host = mem_mul" "ParseUInt64 mem_host = mem_parse"
  by (simp_all add: mem_host_def)

lemma mem_parse_be [run_mem]: "mem_parse (be_bytes 8 (n :: u64)) = Inr n"
  by (simp add: mem_parse_def)

lemmas mem_host_env = mem_env.host_env_axioms
lemmas mem_total_env = mem_env.total_env_axioms

lemmas run_mem_defs = go_defs key_simps run_mem mem_add_def mem_sub_def mem_mul_def
  AddBalance_def SubBalance_def getBalance_def setBalance_def AddVAIBalance_def SubVAIBalance_def
  getVAIBalance_def setVAIBalance_def AddLPBalance_def SubLPBalance_def getLPBalance_def
  setLPBalance_def GetLPBalance_def balanceResult_def innerGetBalance_def config_get_defs GetPool_def
  GetMarket_def GetProofConfig_def PutVAIState_def PutFeeRouterState_def PutTreasuryState_def
  PutReserveState_def PutRiskConfig_def PutPool_def PutMarket_def PutProofConfig_def Let_def

section \<open>A small chain\<close>

abbreviation gov :: Address where "gov \<equiv> 1"
abbreviation alice :: Address where "alice \<equiv> 2"
abbreviation bob :: Address where "bob \<equiv> 3"

definition sample_pool :: Pool where
  "sample_pool = \<lparr>p_Asset0 = 0, p_Asset1 = 1, p_FeeBips = 30, p_Reserve0 = 1000, p_Reserve1 = 4000,
     p_TotalLP = 2000\<rparr>"

definition sample_risk :: RiskConfig where
  "sample_risk = \<lparr>rc_BackingFloorBips = 10000, rc_VEILLtvBips = 3000, rc_WVEILLtvBips = 3500,
     rc_WSVEILLtvBips = 0, rc_VEILHaircutBips = 6000, rc_WVEILHaircutBips = 5500,
     rc_WSVEILHaircutBips = 10000\<rparr>"

definition sample_slots :: "(slot \<times> bytes option) list" where
  "sample_slots =
     [(STreasuryConfig, Some (encodeTreasuryConfig \<lparr>tc_Governance = gov, tc_Operations = gov,
         tc_MaxReleaseBips = 15, tc_ReleaseEpochSeconds = 86400\<rparr>)),
      (STreasuryState, Some (encodeTreasuryState \<lparr>ts_Locked = 1000000, ts_Live = 0, ts_Released = 0,
         ts_LastReleaseUnix = 0\<rparr>)),
      (SFeeRouterConfig, Some (encodeFeeRouterConfig \<lparr>fc_MSRBBips = 7000, fc_COLBips = 2000,
         fc_OpsBips = 1000\<rparr>)),
      (SFeeRouterState, Some (encodeFeeRouterState \<lparr>fs_MSRBBudget = 0, fs_COLBudget = 0,
         fs_OpsBudget = 0\<rparr>)),
      (SVAIConfig, Some (encodeVAIConfig \<lparr>vc_MintAuthority = gov, vc_DebtCeiling = 1000000,
         vc_EpochMintLimit = 500000, vc_MintEpochSeconds = 3600\<rparr>)),
      (SVAIState, Some (encodeVAIState \<lparr>vs_TotalDebt = 9000, vs_EpochStartUnix = 0,
         vs_EpochMinted = 0\<rparr>)),
      (SRiskConfig, Some (encodeRiskConfig sample_risk)),
      (SReserveState, Some (encodeReserveState \<lparr>rs_ExogenousReserve = 1000000, rs_VAIBuffer = 0\<rparr>)),
      (SBalance alice, Some (be_bytes 8 (50000 :: u64))),
      (SVAIBalance alice, Some (be_bytes 8 (5000 :: u64))),
      (SLPBalance 0 1 alice, Some (be_bytes 8 (2000 :: u64))),
      (SPool 0 1, Some (encodePool sample_pool))]"

definition sample :: mem where
  "sample = store sample_slots"

lemma sample_risk_valid [simp]: "validateRiskConfig sample_risk = Inr ()"
  by (simp add: validateRiskConfig_def sample_risk_def bipsDenominator_def)

lemma sample_pool_parses [simp]: "parsePool (encodePool sample_pool) = Inr sample_pool"
  by (rule parse_pool) (simp add: sample_pool_def)

lemma sample_risk_floor [simp]: "rc_BackingFloorBips sample_risk = 10000"
  by (simp add: sample_risk_def)

text \<open>A run whose result is known, as the equation the theorems ask for.\<close>

lemma run_ok: "fst x = r \<Longrightarrow> x = (r, snd x)"
  by (cases x) simp

lemmas sample_defs = sample_def sample_slots_def sample_pool_def

end
