(* ===== verification/Storage_Laws.thy ===== *)
theory Storage_Laws
  imports Sample
begin

text \<open>
  The laws of the storage layer as its clients use it: keys of different records never collide,
  what was stored is read back, the RPC readers agree with the readers of the actions, and an
  amount the fee handler said it can deduct is deducted.
\<close>

section \<open>Writes on a state that accepts them\<close>

context total_env
begin

lemma SubBalance_succeeds:
  assumes "GetBalance H s a = Inr b" and "v \<le> b" and "v \<noteq> 0"
  shows "\<exists>t. SubBalance H a v s = (Inr (b - v), t)"
proof -
  obtain ex where g: "getBalance H s a = (BalanceKey H a, b, ex, None)"
    using assms(1) by (auto simp: GetBalance_def balanceResult_def getBalance_def Let_def
        split: prod.splits option.splits)
  have ex: "ex" if "b \<noteq> 0"
    using g that by (auto simp: getBalance_def innerGetBalance_def Let_def split: sum.splits if_splits)
  have "b \<noteq> 0" using assms(2,3) by auto
  with g ex show ?thesis
    using insert_total [of "BalanceKey H a" "be_bytes 8 (b - v)" s] remove_total [of "BalanceKey H a" s]
      sub_fits [OF assms(2)]
    by (auto simp: SubBalance_def setBalance_def go_defs)
qed

lemma AddBalance_succeeds:
  assumes "GetBalance H s a = Inr b" and "unat b + unat v < 2 ^ 64"
  shows "\<exists>t. AddBalance H a v s = (Inr (b + v), t)"
proof -
  obtain ex where g: "getBalance H s a = (BalanceKey H a, b, ex, None)"
    using assms(1) by (auto simp: GetBalance_def balanceResult_def getBalance_def Let_def
        split: prod.splits option.splits)
  then show ?thesis
    using insert_total [of "BalanceKey H a" "be_bytes 8 (b + v)" s] add_fits [OF assms(2)]
    by (auto simp: AddBalance_def setBalance_def go_defs)
qed

end

context host_env
begin

lemma GetBalance_veil: "GetBalance H s a = Inr b \<Longrightarrow> veil_balance H s a = unat b"
  by (auto simp: GetBalance_def getBalance_def veil_balance_def amount_of_def Let_def
      dest: balanceResult_Inr)

lemmas veil_debit = veil.debit_bal
lemmas veil_total = veil.total_debit

lemma GetBalance_stored:
  "GetValue H t = (GetValue H s)(BalanceKey H a := stored_amount n) \<Longrightarrow>
    GetBalance H t x = (if x = a then Inr n else GetBalance H s x)"
  by (auto simp: GetBalance_def getBalance_def innerGetBalance_def balanceResult_def
      stored_amount_def Let_def key_simps)

end

section \<open>Keys\<close>


section \<open>Round trips\<close>

context total_env
begin

lemma put_get:
  shows "\<exists>t. PutTreasuryConfig H tc s = (Inr (), t) \<and> GetTreasuryConfig H t = Inr tc"
    and "\<exists>t. PutTreasuryState H ts s = (Inr (), t) \<and> GetTreasuryState H t = Inr ts"
    and "feeRouterSum fc = bipsDenominator \<Longrightarrow>
      \<exists>t. PutFeeRouterConfig H fc s = (Inr (), t) \<and> GetFeeRouterConfig H t = Inr fc"
    and "\<exists>t. PutFeeRouterState H fs s = (Inr (), t) \<and> GetFeeRouterState H t = Inr fs"
    and "\<exists>t. PutVAIConfig H vc s = (Inr (), t) \<and> GetVAIConfig H t = Inr vc"
    and "\<exists>t. PutVAIState H vs s = (Inr (), t) \<and> GetVAIState H t = Inr vs"
    and "validateRiskConfig rc = Inr () \<Longrightarrow>
      \<exists>t. PutRiskConfig H rc s = (Inr (), t) \<and> GetRiskConfig H t = Inr rc"
    and "\<exists>t. PutReserveState H rs s = (Inr (), t) \<and> GetReserveState H t = Inr rs"
    and "validateProofConfig pc = Inr () \<Longrightarrow>
      \<exists>t. PutProofConfig H pc s = (Inr (), t) \<and> GetProofConfig H t = Inr pc"
    and "\<exists>t. PutMarket H m (mk_status mk) (mk_outcomes mk) (mk_resolutionTime mk)
        (mk_resolvedOutcome mk) (mk_question mk) s = (Inr (), t) \<and> GetMarket H t m = Inr mk"
    and "p_Asset0 p \<le> p_Asset1 p \<Longrightarrow>
      \<exists>t. PutPool H p s = (Inr (), t) \<and> GetPool H t (p_Asset0 p) (p_Asset1 p) = Inr p
        \<and> GetPool H t (p_Asset1 p) (p_Asset0 p) = Inr p"
    and "storable_record r \<Longrightarrow>
      \<exists>t. PutBatchProofRecord H m w r s = (Inr (), t) \<and> GetBatchProofRecord H t m w = Inr r"
    and "pf \<noteq> [] \<Longrightarrow> length pf \<le> maxVellumProofBytes \<Longrightarrow>
      \<exists>t. PutVellumProof H m w pf s = (Inr (), t) \<and> GetVellumProof H t m w = Inr pf"
    and "\<exists>t. PutBloodsworn H a b s = (Inr (), t) \<and> GetBloodsworn H t a = Inr b"
    and "gl_Class g \<noteq> 0 \<Longrightarrow> gl_Rarity g \<noteq> 0 \<Longrightarrow> 0 < sint (gl_CreatedAtMs g) \<Longrightarrow>
      \<exists>t. PutGlyph H m w g s = (Inr (), t) \<and> GetGlyph H t m w = Inr g"
proof -
  note ins = insert_succeeds
  note puts = PutTreasuryConfig_def PutTreasuryState_def PutFeeRouterConfig_def
    PutFeeRouterState_def PutVAIConfig_def PutVAIState_def PutRiskConfig_def PutReserveState_def
    PutProofConfig_def PutMarket_def PutPool_def PutBatchProofRecord_def PutVellumProof_def
    PutBloodsworn_def PutGlyph_def
  note gets = config_get_defs GetProofConfig_def GetMarket_def GetPool_def GetBatchProofRecord_def
    GetVellumProof_def GetBloodsworn_def GetGlyph_def bloodswornResult_def
  have stored: "\<exists>t. Insert H (slot_key H k) v s = (Inr (), t) \<and> Q t"
    if "\<And>t. GetValue H t (slot_key H k) = Inr v \<Longrightarrow> Q t" for k v Q
    using ins [of "slot_key H k" v s] that by auto
  show "\<exists>t. PutTreasuryConfig H tc s = (Inr (), t) \<and> GetTreasuryConfig H t = Inr tc"
    "\<exists>t. PutTreasuryState H ts s = (Inr (), t) \<and> GetTreasuryState H t = Inr ts"
    "\<exists>t. PutFeeRouterState H fs s = (Inr (), t) \<and> GetFeeRouterState H t = Inr fs"
    "\<exists>t. PutVAIConfig H vc s = (Inr (), t) \<and> GetVAIConfig H t = Inr vc"
    "\<exists>t. PutVAIState H vs s = (Inr (), t) \<and> GetVAIState H t = Inr vs"
    "\<exists>t. PutReserveState H rs s = (Inr (), t) \<and> GetReserveState H t = Inr rs"
    "\<exists>t. PutBloodsworn H a b s = (Inr (), t) \<and> GetBloodsworn H t a = Inr b"
    "\<exists>t. PutMarket H m (mk_status mk) (mk_outcomes mk) (mk_resolutionTime mk)
        (mk_resolvedOutcome mk) (mk_question mk) s = (Inr (), t) \<and> GetMarket H t m = Inr mk"
    by (simp_all add: puts gets key_simps stored)
  show "feeRouterSum fc = bipsDenominator \<Longrightarrow>
      \<exists>t. PutFeeRouterConfig H fc s = (Inr (), t) \<and> GetFeeRouterConfig H t = Inr fc"
    "validateRiskConfig rc = Inr () \<Longrightarrow>
      \<exists>t. PutRiskConfig H rc s = (Inr (), t) \<and> GetRiskConfig H t = Inr rc"
    "validateProofConfig pc = Inr () \<Longrightarrow>
      \<exists>t. PutProofConfig H pc s = (Inr (), t) \<and> GetProofConfig H t = Inr pc"
    "p_Asset0 p \<le> p_Asset1 p \<Longrightarrow>
      \<exists>t. PutPool H p s = (Inr (), t) \<and> GetPool H t (p_Asset0 p) (p_Asset1 p) = Inr p
        \<and> GetPool H t (p_Asset1 p) (p_Asset0 p) = Inr p"
    "storable_record r \<Longrightarrow>
      \<exists>t. PutBatchProofRecord H m w r s = (Inr (), t) \<and> GetBatchProofRecord H t m w = Inr r"
    "pf \<noteq> [] \<Longrightarrow> length pf \<le> maxVellumProofBytes \<Longrightarrow>
      \<exists>t. PutVellumProof H m w pf s = (Inr (), t) \<and> GetVellumProof H t m w = Inr pf"
    "gl_Class g \<noteq> 0 \<Longrightarrow> gl_Rarity g \<noteq> 0 \<Longrightarrow> 0 < sint (gl_CreatedAtMs g) \<Longrightarrow>
      \<exists>t. PutGlyph H m w g s = (Inr (), t) \<and> GetGlyph H t m w = Inr g"
    by (simp_all add: puts gets key_simps stored go_defs not_le storable_record_def
        min.commute max.commute)
qed

lemmas put_get_configs = put_get(1-9)
lemmas put_get_records = put_get(10-15)

end



section \<open>The RPC readers\<close>

text \<open>A batch reader that serves the state, as the RPC layer's does.\<close>

definition state_reader :: "'s host \<Rightarrow> 's \<Rightarrow> ReadState" where
  "state_reader H s ks =
     (map (\<lambda>k. case GetValue H s k of Inr v \<Rightarrow> v | Inl _ \<Rightarrow> []) ks,
      map (\<lambda>k. case GetValue H s k of Inr _ \<Rightarrow> None | Inl err \<Rightarrow> Some err) ks)"

lemma state_reader_serves: "readFirst (state_reader H s [k]) = GetValue H s k"
  by (simp add: state_reader_def readFirst_def split: sum.splits)

text \<open>
  Over a batch reader that serves a state, each of the eight readers of the RPC layer returns what
  the reader used by the actions returns on that state, errors included.
\<close>

theorem rpc_readers_agree:
  assumes "\<And>k. readFirst (f [k]) = GetValue H s k"
  shows "GetBalanceFromState H f a = GetBalance H s a
    \<and> GetVAIBalanceFromState H f a = GetVAIBalance H s a
    \<and> GetLPBalanceFromState H f x y a = GetLPBalance H s x y a
    \<and> GetMarketFromState H f m = GetMarket H s m
    \<and> GetPoolFromState H f x y = GetPool H s x y
    \<and> GetVellumProofFromState H f m w = GetVellumProof H s m w
    \<and> GetBloodswornFromState H f a = GetBloodsworn H s a
    \<and> GetGlyphFromState H f m w = GetGlyph H s m w"
  by (simp add: assms GetBalanceFromState_def GetBalance_def getBalance_def GetVAIBalanceFromState_def
      GetVAIBalance_def getVAIBalance_def GetLPBalanceFromState_def GetLPBalance_def getLPBalance_def
      GetMarketFromState_def GetMarket_def GetPoolFromState_def GetPool_def GetVellumProofFromState_def
      GetVellumProof_def GetBloodswornFromState_def GetBloodsworn_def GetGlyphFromState_def GetGlyph_def
      Let_def)

theorem rpc_readers_agree_witness:
  "GetPoolFromState mem_host (state_reader mem_host sample) 1 0 = GetPool mem_host sample 1 0
    \<and> GetPool mem_host sample 1 0 = Inr sample_pool"
  using rpc_readers_agree [OF state_reader_serves, of mem_host sample alice 1 0 7 1]
  by (simp add: run_mem_defs sample_def sample_slots_def with_stored_def)

section \<open>The fee handler\<close>

text \<open>
  What the balance handler's CanDeduct promises, Deduct does: a non-zero amount that passed the
  check is taken, from that account alone, and the sum of all balances falls by exactly the amount.
\<close>

theorem can_deduct_then_deduct:
  assumes "total_env H" and "CanDeduct H s addr amount = Inr ()" and "amount \<noteq> 0"
  shows "\<exists>t. Deduct H addr amount s = (Inr (), t)
    \<and> veil_balance H t = (veil_balance H s)(addr := veil_balance H s addr - unat amount)
    \<and> holdings (veil_balance H t) + unat amount = holdings (veil_balance H s)"
proof -
  note env = total_env.axioms(1) [OF assms(1)]
  obtain b where b: "GetBalance H s addr = Inr b" "amount \<le> b"
    using assms(2) by (auto simp: CanDeduct_def split: sum.splits if_splits)
  obtain t where t: "SubBalance H addr amount s = (Inr (b - amount), t)"
    using total_env.SubBalance_succeeds [OF assms(1) b assms(3)] by blast
  show ?thesis
    using host_env.veil_debit [OF env t] host_env.veil_total [OF env t] t
    by (auto simp: Deduct_def go_defs holdings_def)
qed

theorem can_deduct_then_deduct_witness:
  "CanDeduct mem_host sample alice 100 = Inr ()
    \<and> (\<exists>t. Deduct mem_host alice 100 sample = (Inr (), t)
        \<and> veil_balance mem_host t = (veil_balance mem_host sample)(alice := veil_balance mem_host sample alice - 100)
        \<and> holdings (veil_balance mem_host t) + 100 = holdings (veil_balance mem_host sample))"
proof -
  have ok: "CanDeduct mem_host sample alice 100 = Inr ()"
    by (simp add: CanDeduct_def GetBalance_def run_mem_defs sample_def sample_slots_def)
  then show ?thesis using can_deduct_then_deduct [OF mem_total_env ok] by simp
qed

end
