(* ===== verification/Act_Transfer.thy ===== *)
theory Act_Transfer
  imports Storage_Laws
begin

text \<open>
  \<open>actions/transfer.go\<close>: a VEIL payment with a memo. \<open>Execute\<close> returns the result struct
  (its encoding \<open>result.Bytes()\<close> is modelled for all actions in \<open>Codec_Results\<close>); it debits the sender first and
  credits the receiver second, which is what makes a payment to oneself leave the balance unchanged.
\<close>

abbreviation MaxMemoSize :: nat where "MaxMemoSize \<equiv> 256"

record Transfer =
  tr_To :: Address
  tr_Value :: u64
  tr_Memo :: bytes

record TransferResult =
  tr_SenderBalance :: u64
  tr_ReceiverBalance :: u64

definition Transfer_StateKeys :: "'s host \<Rightarrow> Transfer \<Rightarrow> Address \<Rightarrow> state_keys" where
  "Transfer_StateKeys H t actor = Keys
     [(BalanceKey H actor, StateReadWrite),
      (BalanceKey H (tr_To t), StateAll)]"

definition Transfer_Execute :: "'s host \<Rightarrow> Transfer \<Rightarrow> Address \<Rightarrow> ('s, TransferResult) action_run" where
  "Transfer_Execute H t actor =
     go_guard (tr_Value t = 0) ErrOutputValueZero
     (go_guard (length (tr_Memo t) > MaxMemoSize) ErrOutputMemoTooLarge
     (go_bind (SubBalance H actor (tr_Value t)) (\<lambda>senderBalance.
      go_bind (AddBalance H (tr_To t) (tr_Value t)) (\<lambda>receiverBalance.
      go_return \<lparr>tr_SenderBalance = senderBalance, tr_ReceiverBalance = receiverBalance\<rparr>))))"

context host_env
begin

lemma Transfer_run:
  assumes "Transfer_Execute H t actor s = (Inr r, s')"
  shows "\<exists>u. SubBalance H actor (tr_Value t) s = (Inr (tr_SenderBalance r), u)
    \<and> AddBalance H (tr_To t) (tr_Value t) u = (Inr (tr_ReceiverBalance r), s')
    \<and> tr_Value t \<noteq> 0 \<and> length (tr_Memo t) \<le> MaxMemoSize"
  using assms by (auto simp: Transfer_Execute_def run_simps)

lemma Transfer_confined:
  assumes "Transfer_Execute H t actor s = (Inr r, s')"
  shows "confined H (Transfer_StateKeys H t actor) s s'"
  using Transfer_run [OF assms]
  by (auto dest!: SubBalance_run AddBalance_run
      simp: confined_def Transfer_StateKeys_def keys_simps split: if_splits)

lemma econ_Transfer:
  assumes "Transfer_Execute H t actor s = (Inr r, s')"
  shows "unat (tr_Value t) \<le> eVeil (economy_of H s) actor"
    and "economy_of H s' = credit_veil (tr_To t) (unat (tr_Value t))
      (debit_veil actor (unat (tr_Value t)) (economy_of H s))"
  using Transfer_run [OF assms] econ_SubBalance econ_AddBalance by metis+

lemma Transfer_balances:
  assumes "Transfer_Execute H t actor s = (Inr r, s')"
  shows "unat (tr_Value t) \<le> veil_balance H s actor
    \<and> veil_balance H s' = (if tr_To t = actor then veil_balance H s
        else (veil_balance H s)(actor := veil_balance H s actor - unat (tr_Value t),
               tr_To t := veil_balance H s (tr_To t) + unat (tr_Value t)))"
  using Transfer_run [OF assms]
  by (auto dest!: veil.debit_bal veil.credit_bal simp: fun_eq_iff)

end

sublocale host_env \<subseteq> transfer: declared_action H "Transfer_StateKeys H"
    "\<lambda>t now actor. Transfer_Execute H t actor"
  by unfold_locales (rule Transfer_confined)

context total_env
begin

lemma Transfer_succeeds:
  assumes "GetBalance H s actor = Inr b" and "GetBalance H s (tr_To m) = Inr c"
    and "tr_Value m \<noteq> 0" and "length (tr_Memo m) \<le> MaxMemoSize" and "tr_Value m \<le> b"
    and "tr_To m = actor \<or> unat c + unat (tr_Value m) < 2 ^ 64"
  shows "\<exists>r t. Transfer_Execute H m actor s = (Inr r, t)"
proof -
  obtain u where u: "SubBalance H actor (tr_Value m) s = (Inr (b - tr_Value m), u)"
    using SubBalance_succeeds [OF assms(1,5,3)] by blast
  let ?c = "if tr_To m = actor then b - tr_Value m else c"
  have "GetBalance H u (tr_To m) = Inr ?c"
    using SubBalance_run [OF u] GetBalance_stored assms(2) by simp
  moreover have "unat ?c + unat (tr_Value m) < 2 ^ 64"
    using assms(5,6) unsigned_less [of b, where ?'a = nat]
    by (auto simp: unat_sub_exact word_le_nat_alt)
  ultimately obtain t where "AddBalance H (tr_To m) (tr_Value m) u = (Inr (?c + tr_Value m), t)"
    using AddBalance_succeeds by blast
  with u assms(3,4) show ?thesis by (auto simp: Transfer_Execute_def go_defs)
qed

lemma Transfer_iff:
  assumes "GetBalance H s actor = Inr b" and "GetBalance H s (tr_To m) = Inr c"
  shows "(\<exists>r t. Transfer_Execute H m actor s = (Inr r, t)) \<longleftrightarrow>
      tr_Value m \<noteq> 0 \<and> length (tr_Memo m) \<le> MaxMemoSize \<and> tr_Value m \<le> b
      \<and> (tr_To m = actor \<or> unat c + unat (tr_Value m) < 2 ^ 64)"
    (is "?runs \<longleftrightarrow> ?ok")
proof
  assume ?runs
  then obtain r t where "Transfer_Execute H m actor s = (Inr r, t)" by blast
  then obtain u where u: "SubBalance H actor (tr_Value m) s = (Inr (tr_SenderBalance r), u)"
    "AddBalance H (tr_To m) (tr_Value m) u = (Inr (tr_ReceiverBalance r), t)" and
    ok: "tr_Value m \<noteq> 0" "length (tr_Memo m) \<le> MaxMemoSize"
    using Transfer_run by blast
  show ?ok
    using veil.debit_bal [OF u(1)] veil.credit_bal [OF u(2)] ok GetBalance_veil [OF assms(1)]
      GetBalance_veil [OF assms(2)] unsigned_less [of "tr_ReceiverBalance r", where ?'a = nat]
    by (auto simp: word_le_nat_alt split: if_splits)
next
  assume ?ok
  then show ?runs using Transfer_succeeds [OF assms] by blast
qed

lemma Transfer_effect:
  assumes "GetBalance H s actor = Inr b" and "GetBalance H s (tr_To m) = Inr c"
    and "Transfer_Execute H m actor s = (Inr r, t)"
  shows "veil_balance H t = (if tr_To m = actor then veil_balance H s
        else (veil_balance H s)(actor := unat b - unat (tr_Value m),
                                tr_To m := unat c + unat (tr_Value m)))
    \<and> unat (tr_SenderBalance r) = unat b - unat (tr_Value m)
    \<and> unat (tr_ReceiverBalance r) = veil_balance H t (tr_To m)
    \<and> holdings (veil_balance H t) = holdings (veil_balance H s)"
proof -
  obtain u where u: "SubBalance H actor (tr_Value m) s = (Inr (tr_SenderBalance r), u)"
    "AddBalance H (tr_To m) (tr_Value m) u = (Inr (tr_ReceiverBalance r), t)"
    using Transfer_run [OF assms(3)] by blast
  show ?thesis
    using veil.debit_bal [OF u(1)] veil.credit_bal [OF u(2)] veil.move_conserves [OF u]
      GetBalance_veil [OF assms(1)] GetBalance_veil [OF assms(2)]
    by (auto simp: fun_eq_iff holdings_def)
qed

end

text \<open>
  C22: A transfer between readable accounts succeeds exactly when its value is positive, its memo is at
  most 256 bytes, the sender holds the value and the receiver's balance does not overflow (a payment
  to oneself cannot); it then moves exactly the value from the sender to the receiver, reports both
  new balances, leaves every other balance alone and keeps the sum of all balances.
\<close>

theorem transfer_exact:
  assumes "total_env H" and "GetBalance H s actor = Inr b" and "GetBalance H s (tr_To m) = Inr c"
  shows "((\<exists>r t. Transfer_Execute H m actor s = (Inr r, t)) \<longleftrightarrow>
      tr_Value m \<noteq> 0 \<and> length (tr_Memo m) \<le> MaxMemoSize \<and> tr_Value m \<le> b
      \<and> (tr_To m = actor \<or> unat c + unat (tr_Value m) < 2 ^ 64))
    \<and> (\<forall>r t. Transfer_Execute H m actor s = (Inr r, t) \<longrightarrow>
        veil_balance H t = (if tr_To m = actor then veil_balance H s
          else (veil_balance H s)(actor := unat b - unat (tr_Value m),
                                  tr_To m := unat c + unat (tr_Value m)))
        \<and> unat (tr_SenderBalance r) = unat b - unat (tr_Value m)
        \<and> unat (tr_ReceiverBalance r) = veil_balance H t (tr_To m)
        \<and> holdings (veil_balance H t) = holdings (veil_balance H s))"
  using total_env.Transfer_iff [OF assms] total_env.Transfer_effect [OF assms] by blast

definition sample_transfer :: Transfer where
  "sample_transfer = \<lparr>tr_To = bob, tr_Value = 200, tr_Memo = [104, 105]\<rparr>"

theorem transfer_exact_witness:
  "\<exists>r t. Transfer_Execute mem_host sample_transfer alice sample = (Inr r, t)
    \<and> veil_balance mem_host t = (veil_balance mem_host sample)(alice := 49800, bob := 200)
    \<and> tr_SenderBalance r = 49800"
proof -
  have bal: "GetBalance mem_host sample alice = Inr 50000"
    "GetBalance mem_host sample (tr_To sample_transfer) = Inr 0"
    by (simp_all add: GetBalance_def run_mem_defs sample_def sample_slots_def sample_transfer_def)
  note exact = transfer_exact [OF mem_total_env bal]
  have "\<exists>r t. Transfer_Execute mem_host sample_transfer alice sample = (Inr r, t)"
    using exact by (simp add: sample_transfer_def)
  then obtain r t where run: "Transfer_Execute mem_host sample_transfer alice sample = (Inr r, t)"
    by blast
  with exact have "veil_balance mem_host t = (veil_balance mem_host sample)(alice := 49800, bob := 200)"
    and "unat (tr_SenderBalance r) = 49800"
    by (auto simp: sample_transfer_def)
  moreover from this(2) have "tr_SenderBalance r = 49800"
    by (simp add: word_eq_iff_unsigned [where ?'a = nat])
  ultimately show ?thesis using run by blast
qed

end
