(* ===== verification/Act_Vai.thy ===== *)
theory Act_Vai
  imports Storage_Laws
begin

text \<open>
  \<open>actions/mint_vai.go\<close> and \<open>actions/burn_vai.go\<close>: issuing and retiring the VAI stablecoin.

  A mint is checked against the per-epoch limit, the debt ceiling and the backing floor, credits the
  receiver and adds the amount to the recorded debt; a burn debits the caller and subtracts it. The
  run lemmas say exactly which slots change and how, and that debt and balances move together.
\<close>

section \<open>Mint\<close>

record MintVAI =
  mv_To :: Address
  mv_Amount :: u64

record MintVAIResult =
  mv_ToBalance :: u64
  mv_TotalDebt :: u64

definition MintVAI_StateKeys :: "'s host \<Rightarrow> MintVAI \<Rightarrow> Address \<Rightarrow> state_keys" where
  "MintVAI_StateKeys H t actor = Keys
     [(VAIConfigKey H, StateRead),
      (VAIStateKey H, StateReadWrite),
      (RiskConfigKey H, StateRead),
      (ReserveStateKey H, StateRead),
      (VAIBalanceKey H (mv_To t), StateReadWrite)]"

text \<open>The epoch the mint falls in: a first mint or an elapsed epoch opens a new one.\<close>

definition mintEpoch :: "VAIConfig \<Rightarrow> i64 \<Rightarrow> VAIState \<Rightarrow> VAIState" where
  "mintEpoch cfg timestamp st =
     (let st1 = (if vs_EpochStartUnix st = 0 then st\<lparr>vs_EpochStartUnix := timestamp\<rparr> else st)
      in if sint timestamp \<ge> sint (vs_EpochStartUnix st1 + vc_MintEpochSeconds cfg * 1000)
         then st1\<lparr>vs_EpochStartUnix := timestamp, vs_EpochMinted := 0\<rparr>
         else st1)"

text \<open>\<open>left.Cmp(right) < 0\<close> on the two \<open>big.Int\<close> products.\<close>

definition backingViolated :: "RiskConfig \<Rightarrow> ReserveState \<Rightarrow> u64 \<Rightarrow> bool" where
  "backingViolated riskCfg reserveState nextDebt \<longleftrightarrow> nextDebt > 0
     \<and> unat (rs_ExogenousReserve reserveState) * 10000
        < unat nextDebt * unat (rc_BackingFloorBips riskCfg)"

definition MintVAI_Execute ::
    "'s host \<Rightarrow> MintVAI \<Rightarrow> i64 \<Rightarrow> Address \<Rightarrow> ('s, MintVAIResult) action_run" where
  "MintVAI_Execute H t timestamp actor =
     go_guard (mv_Amount t = 0) ErrInvalidVAIAmount
     (go_bind (go_read (GetVAIConfig H)) (\<lambda>cfg.
      go_guard (actor \<noteq> vc_MintAuthority cfg) ErrUnauthorized
     (go_bind (go_read (GetVAIState H)) (\<lambda>stored.
      let stateVal = mintEpoch cfg timestamp stored in
      go_bind (go_lift (smath_Add H (vs_EpochMinted stateVal) (mv_Amount t))) (\<lambda>nextEpochMinted.
      go_guard (nextEpochMinted > vc_EpochMintLimit cfg) ErrVAIEpochMintLimitExceeded
     (go_bind (go_lift (smath_Add H (vs_TotalDebt stateVal) (mv_Amount t))) (\<lambda>nextDebt.
      go_guard (nextDebt > vc_DebtCeiling cfg) ErrVAIDebtCeilingExceeded
     (go_bind (go_read (GetRiskConfig H)) (\<lambda>riskCfg.
      go_bind (go_read (GetReserveState H)) (\<lambda>reserveState.
      go_guard (backingViolated riskCfg reserveState nextDebt) ErrBackingRatioViolation
     (go_bind (AddVAIBalance H (mv_To t) (mv_Amount t)) (\<lambda>toBalance.
      let nxt = stateVal\<lparr>vs_EpochMinted := nextEpochMinted, vs_TotalDebt := nextDebt\<rparr> in
      go_bind (PutVAIState H nxt) (\<lambda>_.
      go_return \<lparr>mv_ToBalance = toBalance, mv_TotalDebt = vs_TotalDebt nxt\<rparr>)))))))))))))"

section \<open>Burn\<close>

record BurnVAI =
  bv_Amount :: u64

record BurnVAIResult =
  bv_ActorBalance :: u64
  bv_TotalDebt :: u64

definition BurnVAI_StateKeys :: "'s host \<Rightarrow> BurnVAI \<Rightarrow> Address \<Rightarrow> state_keys" where
  "BurnVAI_StateKeys H t actor = Keys
     [(VAIBalanceKey H actor, StateReadWrite),
      (VAIStateKey H, StateReadWrite)]"

definition BurnVAI_Execute :: "'s host \<Rightarrow> BurnVAI \<Rightarrow> Address \<Rightarrow> ('s, BurnVAIResult) action_run" where
  "BurnVAI_Execute H t actor =
     go_guard (bv_Amount t = 0) ErrInvalidVAIAmount
     (go_bind (SubVAIBalance H actor (bv_Amount t)) (\<lambda>actorBalance.
      go_bind (go_read (GetVAIState H)) (\<lambda>stateVal.
      go_guard (bv_Amount t > vs_TotalDebt stateVal) ErrVAIDebtInvariant
     (let nxt = stateVal\<lparr>vs_TotalDebt := vs_TotalDebt stateVal - bv_Amount t\<rparr> in
      go_bind (PutVAIState H nxt) (\<lambda>_.
      go_return \<lparr>bv_ActorBalance = actorBalance, bv_TotalDebt = vs_TotalDebt nxt\<rparr>)))))"

section \<open>What a successful run does\<close>

lemma mintEpoch_debt [simp]: "vs_TotalDebt (mintEpoch cfg now st) = vs_TotalDebt st"
  by (simp add: mintEpoch_def Let_def)

lemma mintEpoch_minted_le: "unat (vs_EpochMinted (mintEpoch cfg now st)) \<le> unat (vs_EpochMinted st)"
  by (simp add: mintEpoch_def Let_def)

context host_env
begin

lemma SubVAIBalance_VAIState:
  "SubVAIBalance H a v s = (Inr n, t) \<Longrightarrow> GetVAIState H t = GetVAIState H s"
  by (drule SubVAIBalance_run) (simp add: GetVAIState_def key_simps)

lemma MintVAI_run:
  assumes "MintVAI_Execute H m now actor s = (Inr r, t)"
  obtains cfg st risk res minted debt u where
    "GetVAIConfig H s = Inr cfg" "actor = vc_MintAuthority cfg" "GetVAIState H s = Inr st"
    "GetRiskConfig H s = Inr risk" "GetReserveState H s = Inr res" "mv_Amount m \<noteq> 0"
    "unat minted = unat (vs_EpochMinted (mintEpoch cfg now st)) + unat (mv_Amount m)"
    "unat debt = unat (vs_TotalDebt st) + unat (mv_Amount m)"
    "minted \<le> vc_EpochMintLimit cfg" "debt \<le> vc_DebtCeiling cfg"
    "\<not> backingViolated risk res debt"
    "AddVAIBalance H (mv_To m) (mv_Amount m) s = (Inr (mv_ToBalance r), u)"
    "PutVAIState H (mintEpoch cfg now st\<lparr>vs_EpochMinted := minted, vs_TotalDebt := debt\<rparr>) u
      = (Inr (), t)"
    "mv_TotalDebt r = debt"
  using assms by (auto simp: MintVAI_Execute_def run_simps Let_def not_less dest!: add_unat)

lemma econ_MintVAI:
  assumes "MintVAI_Execute H m now actor s = (Inr r, t)"
  shows "econ_step (economy_of H s) (economy_of H t)"
  using assms
proof (elim MintVAI_run)
  fix cfg st risk res minted d u
  assume "GetVAIState H s = Inr st" "unat d = unat (vs_TotalDebt st) + unat (mv_Amount m)"
    and run: "AddVAIBalance H (mv_To m) (mv_Amount m) s = (Inr (mv_ToBalance r), u)"
      "PutVAIState H (mintEpoch cfg now st\<lparr>vs_EpochMinted := minted, vs_TotalDebt := d\<rparr>) u = (Inr (), t)"
  then show ?thesis
    unfolding econ_PutVAIState [OF run(2)] econ_AddVAIBalance [OF run(1)]
    by (intro econ_step.mint [where st = st]) (simp_all add: economy_fields)
qed

lemma MintVAI_confined:
  assumes "MintVAI_Execute H m now actor s = (Inr r, t)"
  shows "confined H (MintVAI_StateKeys H m actor) s t"
  using assms
  by (elim MintVAI_run)
    (auto dest!: AddVAIBalance_run config_put_run(6)
      simp: confined_def MintVAI_StateKeys_def keys_simps split: if_splits)

lemma BurnVAI_run:
  assumes "BurnVAI_Execute H b actor s = (Inr r, t)"
  obtains st u where
    "GetVAIState H s = Inr st" "bv_Amount b \<noteq> 0" "bv_Amount b \<le> vs_TotalDebt st"
    "SubVAIBalance H actor (bv_Amount b) s = (Inr (bv_ActorBalance r), u)"
    "PutVAIState H (st\<lparr>vs_TotalDebt := vs_TotalDebt st - bv_Amount b\<rparr>) u = (Inr (), t)"
    "bv_TotalDebt r = vs_TotalDebt st - bv_Amount b"
  using assms
  by (auto simp: BurnVAI_Execute_def run_simps Let_def not_less SubVAIBalance_VAIState)

lemma econ_BurnVAI:
  assumes "BurnVAI_Execute H b actor s = (Inr r, t)"
  shows "econ_step (economy_of H s) (economy_of H t)"
  using assms
proof (elim BurnVAI_run)
  fix st u
  assume "GetVAIState H s = Inr st" and le: "bv_Amount b \<le> vs_TotalDebt st"
    and run: "SubVAIBalance H actor (bv_Amount b) s = (Inr (bv_ActorBalance r), u)"
      "PutVAIState H (st\<lparr>vs_TotalDebt := vs_TotalDebt st - bv_Amount b\<rparr>) u = (Inr (), t)"
  then show ?thesis
    unfolding econ_PutVAIState [OF run(2)] econ_SubVAIBalance(2) [OF run(1)]
    using le econ_SubVAIBalance(1) [OF run(1)]
    by (intro econ_step.burn [where st = st])
      (simp_all add: economy_fields unat_sub_exact word_le_nat_alt)
qed

lemma BurnVAI_confined:
  assumes "BurnVAI_Execute H b actor s = (Inr r, t)"
  shows "confined H (BurnVAI_StateKeys H b actor) s t"
  using assms
  by (elim BurnVAI_run)
    (auto dest!: SubVAIBalance_run config_put_run(6)
      simp: confined_def BurnVAI_StateKeys_def keys_simps split: if_splits)

end

sublocale host_env \<subseteq> mint: declared_action H "MintVAI_StateKeys H" "MintVAI_Execute H"
  by unfold_locales (rule MintVAI_confined)

sublocale host_env \<subseteq> burn: declared_action H "BurnVAI_StateKeys H"
    "\<lambda>t now actor. BurnVAI_Execute H t actor"
  by unfold_locales (rule BurnVAI_confined)

section \<open>Effects and conditions\<close>

context host_env
begin

lemma PutVAIState_reads: "PutVAIState H st s = (Inr u, t) \<Longrightarrow> GetVAIState H t = Inr st"
  by (drule config_put_run(6)) (simp add: GetVAIState_def key_simps)

lemma PutVAIState_balances: "PutVAIState H st s = (Inr u, t) \<Longrightarrow> vai_balance H t = vai_balance H s"
  by (drule config_put_run(6)) (simp add: vai_balance_def key_simps fun_eq_iff)

lemma MintVAI_effect:
  assumes "MintVAI_Execute H m now actor s = (Inr r, t)"
  obtains cfg st risk res st' where
    "GetVAIConfig H s = Inr cfg" "GetVAIState H s = Inr st"
    "GetRiskConfig H s = Inr risk" "GetReserveState H s = Inr res" "GetVAIState H t = Inr st'"
    "actor = vc_MintAuthority cfg" "mv_Amount m \<noteq> 0"
    "unat (vs_TotalDebt st') = unat (vs_TotalDebt st) + unat (mv_Amount m)"
    "vs_TotalDebt st' \<le> vc_DebtCeiling cfg"
    "vs_EpochStartUnix st' = vs_EpochStartUnix (mintEpoch cfg now st)"
    "unat (vs_EpochMinted st') = unat (vs_EpochMinted (mintEpoch cfg now st)) + unat (mv_Amount m)"
    "vs_EpochMinted st' \<le> vc_EpochMintLimit cfg"
    "\<not> backingViolated risk res (vs_TotalDebt st')"
    "vai_balance H t = (vai_balance H s)(mv_To m := vai_balance H s (mv_To m) + unat (mv_Amount m))"
    "unat (mv_ToBalance r) = vai_balance H t (mv_To m)" "mv_TotalDebt r = vs_TotalDebt st'"
  using assms
proof (elim MintVAI_run)
  fix cfg st risk res minted d u
  let ?st' = "mintEpoch cfg now st\<lparr>vs_EpochMinted := minted, vs_TotalDebt := d\<rparr>"
  assume add: "AddVAIBalance H (mv_To m) (mv_Amount m) s = (Inr (mv_ToBalance r), u)"
    and put: "PutVAIState H ?st' u = (Inr (), t)"
    and rest: "GetVAIConfig H s = Inr cfg" "GetVAIState H s = Inr st" "GetRiskConfig H s = Inr risk"
      "GetReserveState H s = Inr res" "actor = vc_MintAuthority cfg" "mv_Amount m \<noteq> 0"
      "unat minted = unat (vs_EpochMinted (mintEpoch cfg now st)) + unat (mv_Amount m)"
      "unat d = unat (vs_TotalDebt st) + unat (mv_Amount m)"
      "minted \<le> vc_EpochMintLimit cfg" "d \<le> vc_DebtCeiling cfg" "\<not> backingViolated risk res d"
      "mv_TotalDebt r = d"
  show thesis
    by (rule that [OF rest(1-4) PutVAIState_reads [OF put] rest(5,6)])
      (use rest vai.credit_bal [OF add] PutVAIState_balances [OF put] in simp_all)
qed

lemma BurnVAI_effect:
  assumes "BurnVAI_Execute H b actor s = (Inr r, t)" and "GetVAIState H s = Inr st"
  shows "bv_Amount b \<noteq> 0 \<and> unat (bv_Amount b) \<le> vai_balance H s actor \<and> bv_Amount b \<le> vs_TotalDebt st
    \<and> GetVAIState H t = Inr (st\<lparr>vs_TotalDebt := vs_TotalDebt st - bv_Amount b\<rparr>)
    \<and> vai_balance H t = (vai_balance H s)(actor := vai_balance H s actor - unat (bv_Amount b))
    \<and> unat (bv_ActorBalance r) = vai_balance H t actor \<and> bv_TotalDebt r = vs_TotalDebt st - bv_Amount b"
  using assms
  by (elim BurnVAI_run)
    (auto dest!: vai.debit_bal dest: PutVAIState_balances PutVAIState_reads)

end

context total_env
begin

lemma SubVAIBalance_succeeds:
  assumes "GetVAIBalance H s a = Inr b" and "v \<le> b" and "v \<noteq> 0"
  shows "\<exists>t. SubVAIBalance H a v s = (Inr (b - v), t)"
proof -
  obtain ex where g: "getVAIBalance H s a = (VAIBalanceKey H a, b, ex, None)"
    using assms(1) by (auto simp: GetVAIBalance_def balanceResult_def getVAIBalance_def Let_def
        split: prod.splits option.splits)
  have ex: "ex" if "b \<noteq> 0"
    using g that by (auto simp: getVAIBalance_def innerGetBalance_def Let_def split: sum.splits if_splits)
  have "b \<noteq> 0" using assms(2,3) by auto
  with g ex show ?thesis
    using insert_total [of "VAIBalanceKey H a" "be_bytes 8 (b - v)" s]
      remove_total [of "VAIBalanceKey H a" s] sub_fits [OF assms(2)]
    by (auto simp: SubVAIBalance_def setVAIBalance_def go_defs)
qed

lemma BurnVAI_succeeds:
  assumes "GetVAIBalance H s actor = Inr bal" and "GetVAIState H s = Inr st"
    and "bv_Amount b \<noteq> 0" and "bv_Amount b \<le> bal" and "bv_Amount b \<le> vs_TotalDebt st"
  shows "\<exists>r t. BurnVAI_Execute H b actor s = (Inr r, t)"
proof -
  obtain u where u: "SubVAIBalance H actor (bv_Amount b) s = (Inr (bal - bv_Amount b), u)"
    using SubVAIBalance_succeeds [OF assms(1,4,3)] by blast
  then have "GetVAIState H u = Inr st" using SubVAIBalance_VAIState assms(2) by simp
  with u assms(3,5) show ?thesis
    using insert_total [of "VAIStateKey H"
        "encodeVAIState (st\<lparr>vs_TotalDebt := vs_TotalDebt st - bv_Amount b\<rparr>)" u]
    by (auto simp: BurnVAI_Execute_def PutVAIState_def go_defs Let_def not_less)
qed

end

lemma GetVAIBalance_vai: "GetVAIBalance H s a = Inr b \<Longrightarrow> vai_balance H s a = unat b"
  by (auto simp: GetVAIBalance_def getVAIBalance_def vai_balance_def amount_of_def Let_def
      dest: balanceResult_Inr)

text \<open>
  C21: A VAI mint that succeeds was sent by the mint authority, credits exactly the amount to the
  receiver and records it as debt; the new debt stays within the debt ceiling, the amount minted in
  the current epoch (the old total, or nothing when a new epoch opened) stays within the epoch
  limit, and the exogenous reserve covers the new debt at the configured backing floor.
\<close>

theorem mint_within_caps:
  assumes "host_env H" and "MintVAI_Execute H m now actor s = (Inr r, t)"
  shows "\<exists>cfg st risk res st'. GetVAIConfig H s = Inr cfg \<and> GetVAIState H s = Inr st
    \<and> GetRiskConfig H s = Inr risk \<and> GetReserveState H s = Inr res \<and> GetVAIState H t = Inr st'
    \<and> actor = vc_MintAuthority cfg \<and> 0 < unat (mv_Amount m)
    \<and> unat (vs_TotalDebt st') = unat (vs_TotalDebt st) + unat (mv_Amount m)
    \<and> unat (vs_TotalDebt st') \<le> unat (vc_DebtCeiling cfg)
    \<and> unat (vs_EpochMinted st') = unat (vs_EpochMinted (mintEpoch cfg now st)) + unat (mv_Amount m)
    \<and> unat (vs_EpochMinted st') \<le> unat (vc_EpochMintLimit cfg)
    \<and> unat (vs_TotalDebt st') * unat (rc_BackingFloorBips risk) \<le> unat (rs_ExogenousReserve res) * 10000
    \<and> vai_balance H t = (vai_balance H s)(mv_To m := vai_balance H s (mv_To m) + unat (mv_Amount m))"
  by (rule host_env.MintVAI_effect [OF assms])
    (auto simp: backingViolated_def word_le_nat_alt unat_gt_0 not_less word_gt_0)

definition sample_mint :: MintVAI where
  "sample_mint = \<lparr>mv_To = bob, mv_Amount = 700\<rparr>"

lemma sample_mint_run:
  "fst (MintVAI_Execute mem_host sample_mint 1000 gov sample) = Inr \<lparr>mv_ToBalance = 700, mv_TotalDebt = 9700\<rparr>"
  by (simp add: MintVAI_Execute_def sample_mint_def run_mem_defs sample_defs with_stored_def
      mintEpoch_def backingViolated_def)

theorem mint_within_caps_witness:
  "\<exists>st'. GetVAIState mem_host (snd (MintVAI_Execute mem_host sample_mint 1000 gov sample)) = Inr st'
    \<and> unat (vs_TotalDebt st') = 9700
    \<and> vai_balance mem_host (snd (MintVAI_Execute mem_host sample_mint 1000 gov sample)) bob
      = vai_balance mem_host sample bob + 700"
proof -
  have st: "GetVAIState mem_host sample = Inr \<lparr>vs_TotalDebt = 9000, vs_EpochStartUnix = 0, vs_EpochMinted = 0\<rparr>"
    by (simp add: run_mem_defs sample_defs with_stored_def)
  show ?thesis
    using mint_within_caps [OF mem_host_env run_ok [OF sample_mint_run]]
    by (auto simp: st sample_mint_def)
qed

text \<open>
  A burn succeeds exactly when its amount is positive and covered by both the caller's VAI and the
  recorded debt; it then lowers the caller's balance and the debt by exactly the amount and changes
  no other VAI balance and nothing else of the mint state.
\<close>

theorem burn_exact:
  assumes "total_env H" and "GetVAIBalance H s actor = Inr bal" and "GetVAIState H s = Inr st"
  shows "((\<exists>r t. BurnVAI_Execute H b actor s = (Inr r, t)) \<longleftrightarrow>
      bv_Amount b \<noteq> 0 \<and> bv_Amount b \<le> bal \<and> bv_Amount b \<le> vs_TotalDebt st)
    \<and> (\<forall>r t. BurnVAI_Execute H b actor s = (Inr r, t) \<longrightarrow>
        GetVAIState H t = Inr (st\<lparr>vs_TotalDebt := vs_TotalDebt st - bv_Amount b\<rparr>)
        \<and> vai_balance H t = (vai_balance H s)(actor := unat bal - unat (bv_Amount b))
        \<and> unat (bv_ActorBalance r) = unat bal - unat (bv_Amount b)
        \<and> bv_TotalDebt r = vs_TotalDebt st - bv_Amount b)"
proof -
  note env = total_env.axioms(1) [OF assms(1)]
  note effect = host_env.BurnVAI_effect [OF env _ assms(3)]
  note bal = GetVAIBalance_vai [OF assms(2)]
  have "bv_Amount b \<noteq> 0 \<and> bv_Amount b \<le> bal \<and> bv_Amount b \<le> vs_TotalDebt st"
    if "BurnVAI_Execute H b actor s = (Inr r, t)" for r t
    using effect [OF that] bal by (simp add: word_le_nat_alt)
  moreover have "GetVAIState H t = Inr (st\<lparr>vs_TotalDebt := vs_TotalDebt st - bv_Amount b\<rparr>)
        \<and> vai_balance H t = (vai_balance H s)(actor := unat bal - unat (bv_Amount b))
        \<and> unat (bv_ActorBalance r) = unat bal - unat (bv_Amount b)
        \<and> bv_TotalDebt r = vs_TotalDebt st - bv_Amount b"
    if "BurnVAI_Execute H b actor s = (Inr r, t)" for r t
    using effect [OF that] bal by simp
  moreover have "\<exists>r t. BurnVAI_Execute H b actor s = (Inr r, t)"
    if "bv_Amount b \<noteq> 0 \<and> bv_Amount b \<le> bal \<and> bv_Amount b \<le> vs_TotalDebt st"
    using total_env.BurnVAI_succeeds [OF assms] that by blast
  ultimately show ?thesis by blast
qed

theorem burn_exact_witness:
  "\<exists>r t. BurnVAI_Execute mem_host \<lparr>bv_Amount = 5000\<rparr> alice sample = (Inr r, t)
    \<and> vai_balance mem_host t = (vai_balance mem_host sample)(alice := 0)"
proof -
  have reads: "GetVAIBalance mem_host sample alice = Inr 5000"
    "GetVAIState mem_host sample = Inr \<lparr>vs_TotalDebt = 9000, vs_EpochStartUnix = 0, vs_EpochMinted = 0\<rparr>"
    by (simp_all add: GetVAIBalance_def run_mem_defs sample_defs with_stored_def)
  show ?thesis
    using burn_exact [OF mem_total_env reads, of "\<lparr>bv_Amount = 5000\<rparr>"] by fastforce
qed

end
