(* ===== verification/Act_Treasury.thy ===== *)
theory Act_Treasury
  imports Storage_Laws
begin

text \<open>
  Fees and treasury: \<open>actions/route_fees.go\<close>, \<open>actions/release_col_tranche.go\<close> and the
  governance updates \<open>actions/update_reserve_state.go\<close>, \<open>actions/set_risk_params.go\<close> and
  \<open>actions/set_proof_config.go\<close>.

  The shares of \<open>RouteFees\<close> and the cap of \<open>ReleaseCOLTranche\<close> multiply 64-bit words, which wraps;
  the lemmas show what survives the wrap-around: the three shares always add up to the amount, and
  a release never exceeds the share of the locked amount the configuration allows.
\<close>

section \<open>RouteFees\<close>

record RouteFees =
  rf_Amount :: u64

record RouteFeesResult =
  rf_SenderBalance :: u64
  rf_MSRBBudget :: u64
  rf_COLBudget :: u64
  rf_OpsBudget :: u64

definition RouteFees_StateKeys :: "'s host \<Rightarrow> RouteFees \<Rightarrow> Address \<Rightarrow> state_keys" where
  "RouteFees_StateKeys H t actor = Keys
     [(BalanceKey H actor, StateReadWrite),
      (FeeRouterConfigKey H, StateRead),
      (FeeRouterStateKey H, StateReadWrite)]"

text \<open>\<open>uint64(bips) * amount / 10_000\<close> on 64-bit words.\<close>

definition feeShare :: "u16 \<Rightarrow> u64 \<Rightarrow> u64" where
  "feeShare bips amount = ucast bips * amount div 10000"

definition opsShare :: "FeeRouterConfig \<Rightarrow> u64 \<Rightarrow> u64" where
  "opsShare cfg amount = amount - feeShare (fc_MSRBBips cfg) amount - feeShare (fc_COLBips cfg) amount"

definition RouteFees_Execute :: "'s host \<Rightarrow> RouteFees \<Rightarrow> Address \<Rightarrow> ('s, RouteFeesResult) action_run" where
  "RouteFees_Execute H t actor =
     go_guard (rf_Amount t = 0) ErrInvalidFeeAmount
     (go_bind (go_read (GetFeeRouterConfig H)) (\<lambda>cfg.
      go_bind (go_read (GetFeeRouterState H)) (\<lambda>stateVal.
      go_bind (SubBalance H actor (rf_Amount t)) (\<lambda>senderBalance.
      go_bind (go_lift (smath_Add H (fs_MSRBBudget stateVal) (feeShare (fc_MSRBBips cfg) (rf_Amount t))))
        (\<lambda>nextMSRB.
      go_bind (go_lift (smath_Add H (fs_COLBudget stateVal) (feeShare (fc_COLBips cfg) (rf_Amount t))))
        (\<lambda>nextCOL.
      go_bind (go_lift (smath_Add H (fs_OpsBudget stateVal) (opsShare cfg (rf_Amount t))))
        (\<lambda>nextOps.
      go_bind (PutFeeRouterState H
          \<lparr>fs_MSRBBudget = nextMSRB, fs_COLBudget = nextCOL, fs_OpsBudget = nextOps\<rparr>) (\<lambda>_.
      go_return \<lparr>rf_SenderBalance = senderBalance, rf_MSRBBudget = nextMSRB,
        rf_COLBudget = nextCOL, rf_OpsBudget = nextOps\<rparr>))))))))"

section \<open>ReleaseCOLTranche\<close>

record ReleaseCOLTranche =
  rt_Amount :: u64

record ReleaseCOLTrancheResult =
  rt_Locked :: u64
  rt_Live :: u64
  rt_Released :: u64

definition ReleaseCOLTranche_StateKeys :: "'s host \<Rightarrow> ReleaseCOLTranche \<Rightarrow> Address \<Rightarrow> state_keys" where
  "ReleaseCOLTranche_StateKeys H t actor = Keys
     [(TreasuryConfigKey H, StateRead),
      (TreasuryStateKey H, StateReadWrite)]"

definition maxRelease :: "TreasuryConfig \<Rightarrow> TreasuryState \<Rightarrow> u64" where
  "maxRelease cfg st = ts_Locked st * ucast (tc_MaxReleaseBips cfg) div 10000"

definition nextAllowed :: "TreasuryConfig \<Rightarrow> TreasuryState \<Rightarrow> i64" where
  "nextAllowed cfg st = ts_LastReleaseUnix st + tc_ReleaseEpochSeconds cfg * 1000"

definition ReleaseCOLTranche_Execute ::
    "'s host \<Rightarrow> ReleaseCOLTranche \<Rightarrow> i64 \<Rightarrow> Address \<Rightarrow> ('s, ReleaseCOLTrancheResult) action_run" where
  "ReleaseCOLTranche_Execute H t timestamp actor =
     go_guard (rt_Amount t = 0) ErrInvalidReleaseAmount
     (go_bind (go_read (GetTreasuryConfig H)) (\<lambda>cfg.
      go_guard (actor \<noteq> tc_Governance cfg) ErrUnauthorized
     (go_bind (go_read (GetTreasuryState H)) (\<lambda>stateVal.
      go_guard (sint (ts_LastReleaseUnix stateVal) > 0
          \<and> sint timestamp < sint (nextAllowed cfg stateVal)) ErrReleaseTooEarly
     (go_guard (rt_Amount t > ts_Locked stateVal) ErrInsufficientLockedCOL
     (go_guard (maxRelease cfg stateVal = 0 \<or> rt_Amount t > maxRelease cfg stateVal)
        ErrReleaseCapExceeded
     (go_bind (go_lift (smath_Add H (ts_Live stateVal) (rt_Amount t))) (\<lambda>nextLive.
      go_bind (go_lift (smath_Add H (ts_Released stateVal) (rt_Amount t))) (\<lambda>nextReleased.
      let nxt = \<lparr>ts_Locked = ts_Locked stateVal - rt_Amount t, ts_Live = nextLive,
                 ts_Released = nextReleased, ts_LastReleaseUnix = timestamp\<rparr> in
      go_bind (PutTreasuryState H nxt) (\<lambda>_.
      go_return \<lparr>rt_Locked = ts_Locked nxt, rt_Live = ts_Live nxt,
        rt_Released = ts_Released nxt\<rparr>))))))))))"

section \<open>Governance updates\<close>

record UpdateReserveState =
  ur_ExogenousReserve :: u64
  ur_VAIBuffer :: u64

record UpdateReserveStateResult =
  urr_ExogenousReserve :: u64
  urr_VAIBuffer :: u64

definition UpdateReserveState_StateKeys :: "'s host \<Rightarrow> UpdateReserveState \<Rightarrow> Address \<Rightarrow> state_keys" where
  "UpdateReserveState_StateKeys H t actor = Keys
     [(TreasuryConfigKey H, StateRead),
      (ReserveStateKey H, StateReadWrite)]"

definition UpdateReserveState_Execute ::
    "'s host \<Rightarrow> UpdateReserveState \<Rightarrow> Address \<Rightarrow> ('s, UpdateReserveStateResult) action_run" where
  "UpdateReserveState_Execute H t actor =
     go_bind (go_read (GetTreasuryConfig H)) (\<lambda>treasuryCfg.
     go_guard (actor \<noteq> tc_Governance treasuryCfg) ErrUnauthorized
    (let nxt = \<lparr>rs_ExogenousReserve = ur_ExogenousReserve t, rs_VAIBuffer = ur_VAIBuffer t\<rparr> in
     go_bind (PutReserveState H nxt) (\<lambda>_.
     go_return \<lparr>urr_ExogenousReserve = rs_ExogenousReserve nxt, urr_VAIBuffer = rs_VAIBuffer nxt\<rparr>)))"

record SetRiskParams =
  sr_BackingFloorBips :: u32
  sr_VEILLtvBips :: u16
  sr_WVEILLtvBips :: u16
  sr_WSVEILLtvBips :: u16
  sr_VEILHaircutBips :: u16
  sr_WVEILHaircutBips :: u16
  sr_WSVEILHaircutBips :: u16

record SetRiskParamsResult =
  srr_BackingFloorBips :: u32
  srr_VEILLtvBips :: u16
  srr_WVEILLtvBips :: u16
  srr_WSVEILLtvBips :: u16
  srr_VEILHaircutBips :: u16
  srr_WVEILHaircutBips :: u16
  srr_WSVEILHaircutBips :: u16

definition SetRiskParams_StateKeys :: "'s host \<Rightarrow> SetRiskParams \<Rightarrow> Address \<Rightarrow> state_keys" where
  "SetRiskParams_StateKeys H t actor = Keys
     [(TreasuryConfigKey H, StateRead),
      (RiskConfigKey H, StateReadWrite)]"

definition SetRiskParams_cfg :: "SetRiskParams \<Rightarrow> RiskConfig" where
  "SetRiskParams_cfg t = \<lparr>rc_BackingFloorBips = sr_BackingFloorBips t,
     rc_VEILLtvBips = sr_VEILLtvBips t, rc_WVEILLtvBips = sr_WVEILLtvBips t,
     rc_WSVEILLtvBips = sr_WSVEILLtvBips t, rc_VEILHaircutBips = sr_VEILHaircutBips t,
     rc_WVEILHaircutBips = sr_WVEILHaircutBips t, rc_WSVEILHaircutBips = sr_WSVEILHaircutBips t\<rparr>"

definition SetRiskParams_Execute ::
    "'s host \<Rightarrow> SetRiskParams \<Rightarrow> Address \<Rightarrow> ('s, SetRiskParamsResult) action_run" where
  "SetRiskParams_Execute H t actor =
     go_bind (go_read (GetTreasuryConfig H)) (\<lambda>treasuryCfg.
     go_guard (actor \<noteq> tc_Governance treasuryCfg) ErrUnauthorized
    (let cfg = SetRiskParams_cfg t in
     go_bind (PutRiskConfig H cfg) (\<lambda>_.
     go_return \<lparr>srr_BackingFloorBips = rc_BackingFloorBips cfg,
       srr_VEILLtvBips = rc_VEILLtvBips cfg, srr_WVEILLtvBips = rc_WVEILLtvBips cfg,
       srr_WSVEILLtvBips = rc_WSVEILLtvBips cfg, srr_VEILHaircutBips = rc_VEILHaircutBips cfg,
       srr_WVEILHaircutBips = rc_WVEILHaircutBips cfg,
       srr_WSVEILHaircutBips = rc_WSVEILHaircutBips cfg\<rparr>)))"

record SetProofConfig =
  sp_RequireProof :: bool
  sp_RequiredProofType :: u8
  sp_BatchWindowMs :: i64
  sp_ProofDeadlineMs :: i64
  sp_ProverAuthority :: Address

record SetProofConfigResult =
  spr_RequireProof :: bool
  spr_RequiredProofType :: u8
  spr_BatchWindowMs :: i64
  spr_ProofDeadlineMs :: i64
  spr_ProverAuthority :: Address

definition SetProofConfig_StateKeys :: "'s host \<Rightarrow> SetProofConfig \<Rightarrow> Address \<Rightarrow> state_keys" where
  "SetProofConfig_StateKeys H t actor = Keys
     [(TreasuryConfigKey H, StateRead),
      (ProofConfigKey H, StateReadWrite)]"

definition SetProofConfig_cfg :: "SetProofConfig \<Rightarrow> ProofConfig" where
  "SetProofConfig_cfg t = \<lparr>pc_RequireProof = sp_RequireProof t,
     pc_RequiredProofType = sp_RequiredProofType t, pc_BatchWindowMs = sp_BatchWindowMs t,
     pc_ProofDeadlineMs = sp_ProofDeadlineMs t, pc_ProverAuthority = sp_ProverAuthority t\<rparr>"

definition SetProofConfig_Execute ::
    "'s host \<Rightarrow> SetProofConfig \<Rightarrow> Address \<Rightarrow> ('s, SetProofConfigResult) action_run" where
  "SetProofConfig_Execute H t actor =
     go_bind (go_read (GetTreasuryConfig H)) (\<lambda>treasuryCfg.
     go_guard (actor \<noteq> tc_Governance treasuryCfg) ErrUnauthorized
    (let cfg = SetProofConfig_cfg t in
     go_bind (PutProofConfig H cfg) (\<lambda>_.
     go_return \<lparr>spr_RequireProof = pc_RequireProof cfg,
       spr_RequiredProofType = pc_RequiredProofType cfg, spr_BatchWindowMs = pc_BatchWindowMs cfg,
       spr_ProofDeadlineMs = pc_ProofDeadlineMs cfg,
       spr_ProverAuthority = pc_ProverAuthority cfg\<rparr>)))"

section \<open>Shares that may wrap\<close>

lemma unat_ucast_u16: "unat (ucast (b :: u16) :: u64) = unat b"
  using unsigned_less [of b, where ?'a = nat] by (simp add: unsigned_ucast_eq take_bit_nat_eq_self)

lemma unat_feeShare:
  "unat (feeShare bips amount) = (unat bips * unat amount) mod 2 ^ 64 div 10000"
  by (simp add: feeShare_def unat_div unat_word_ariths unat_ucast_u16)

text \<open>Wrap-around can only lower a share; it is exact when the product fits.\<close>

lemma feeShare_le: "unat (feeShare bips amount) * 10000 \<le> unat bips * unat amount"
proof -
  have "unat (feeShare bips amount) * 10000 \<le> (unat bips * unat amount) mod 2 ^ 64"
    unfolding unat_feeShare by (rule div_times_less_eq_dividend)
  also have "\<dots> \<le> unat bips * unat amount" by (rule mod_less_eq_dividend)
  finally show ?thesis .
qed

lemma feeShare_exact:
  "unat bips * unat amount < 2 ^ 64 \<Longrightarrow>
    unat (feeShare bips amount) = unat bips * unat amount div 10000"
  by (simp add: unat_feeShare)

lemma unat_lt_u16: "unat (a :: u16) < 65536"
  using unsigned_less [of a, where ?'a = nat] by simp

lemma feeRouterSum_unat:
  "unat (feeRouterSum cfg) = unat (fc_MSRBBips cfg) + unat (fc_COLBips cfg) + unat (fc_OpsBips cfg)"
  using unat_lt_u16 [of "fc_MSRBBips cfg"] unat_lt_u16 [of "fc_COLBips cfg"]
    unat_lt_u16 [of "fc_OpsBips cfg"]
  by (simp add: feeRouterSum_def unat_word_ariths unat_ucast_u16)

lemma shares_add_up:
  assumes "feeRouterSum cfg = bipsDenominator"
  shows "unat (feeShare (fc_MSRBBips cfg) amount) + unat (feeShare (fc_COLBips cfg) amount)
    + unat (opsShare cfg amount) = unat amount"
proof -
  let ?m = "feeShare (fc_MSRBBips cfg) amount" and ?c = "feeShare (fc_COLBips cfg) amount"
  have "unat (fc_MSRBBips cfg) + unat (fc_COLBips cfg) \<le> 10000"
    using feeRouterSum_unat [of cfg] assms by (simp add: bipsDenominator_def)
  then have "(unat (fc_MSRBBips cfg) + unat (fc_COLBips cfg)) * unat amount \<le> 10000 * unat amount"
    by (rule mult_le_mono1)
  then have le: "unat ?m + unat ?c \<le> unat amount"
    using feeShare_le [of "fc_MSRBBips cfg" amount] feeShare_le [of "fc_COLBips cfg" amount]
    by (simp add: algebra_simps)
  then have "?m \<le> amount" by (simp add: word_le_nat_alt)
  moreover from le this have "?c \<le> amount - ?m" by (simp add: word_le_nat_alt unat_sub_exact)
  ultimately show ?thesis using le by (simp add: opsShare_def unat_sub_exact)
qed

lemma maxRelease_le:
  "unat (maxRelease cfg st) * 10000 \<le> unat (ts_Locked st) * unat (tc_MaxReleaseBips cfg)"
  using feeShare_le [of "tc_MaxReleaseBips cfg" "ts_Locked st"]
  by (simp add: maxRelease_def feeShare_def mult.commute)

section \<open>What a successful run does\<close>

context host_env
begin

lemma RouteFees_run:
  assumes "RouteFees_Execute H f actor s = (Inr r, t)"
  obtains cfg st m c p u where
    "GetFeeRouterConfig H s = Inr cfg" "GetFeeRouterState H s = Inr st" "rf_Amount f \<noteq> 0"
    "SubBalance H actor (rf_Amount f) s = (Inr (rf_SenderBalance r), u)"
    "unat m = unat (fs_MSRBBudget st) + unat (feeShare (fc_MSRBBips cfg) (rf_Amount f))"
    "unat c = unat (fs_COLBudget st) + unat (feeShare (fc_COLBips cfg) (rf_Amount f))"
    "unat p = unat (fs_OpsBudget st) + unat (opsShare cfg (rf_Amount f))"
    "PutFeeRouterState H \<lparr>fs_MSRBBudget = m, fs_COLBudget = c, fs_OpsBudget = p\<rparr> u = (Inr (), t)"
    "rf_MSRBBudget r = m" "rf_COLBudget r = c" "rf_OpsBudget r = p"
  using assms by (auto simp: RouteFees_Execute_def run_simps dest!: add_unat)

lemma RouteFees_confined:
  assumes "RouteFees_Execute H f actor s = (Inr r, t)"
  shows "confined H (RouteFees_StateKeys H f actor) s t"
  using assms
  by (elim RouteFees_run)
    (auto dest!: SubBalance_run config_put_run(4)
      simp: confined_def RouteFees_StateKeys_def keys_simps split: if_splits)

lemma econ_RouteFees:
  assumes "RouteFees_Execute H f actor s = (Inr r, t)"
  obtains st st' where "eFees (economy_of H s) = Some st"
    "budget_sum st' = budget_sum st + unat (rf_Amount f)"
    "unat (rf_Amount f) \<le> eVeil (economy_of H s) actor"
    "economy_of H t = set_fees st' (debit_veil actor (unat (rf_Amount f)) (economy_of H s))"
  using assms
proof (elim RouteFees_run)
  fix cfg st m c p u
  let ?st' = "\<lparr>fs_MSRBBudget = m, fs_COLBudget = c, fs_OpsBudget = p\<rparr>"
  assume cfg: "GetFeeRouterConfig H s = Inr cfg" and st: "GetFeeRouterState H s = Inr st"
    and sub: "SubBalance H actor (rf_Amount f) s = (Inr (rf_SenderBalance r), u)"
    and shares: "unat m = unat (fs_MSRBBudget st) + unat (feeShare (fc_MSRBBips cfg) (rf_Amount f))"
      "unat c = unat (fs_COLBudget st) + unat (feeShare (fc_COLBips cfg) (rf_Amount f))"
      "unat p = unat (fs_OpsBudget st) + unat (opsShare cfg (rf_Amount f))"
    and put: "PutFeeRouterState H ?st' u = (Inr (), t)"
  show thesis
  proof (rule that [of st ?st'])
    show "eFees (economy_of H s) = Some st" using st by (simp add: economy_fields)
    show "budget_sum ?st' = budget_sum st + unat (rf_Amount f)"
      using shares shares_add_up [OF GetFeeRouterConfig_sum [OF cfg], of "rf_Amount f"]
      by (simp add: budget_sum_def)
    show "unat (rf_Amount f) \<le> eVeil (economy_of H s) actor"
      by (rule econ_SubBalance(1) [OF sub])
    show "economy_of H t = set_fees ?st' (debit_veil actor (unat (rf_Amount f)) (economy_of H s))"
      by (simp only: econ_PutFeeRouterState [OF put] econ_SubBalance(2) [OF sub])
  qed
qed

lemma ReleaseCOLTranche_run:
  assumes "ReleaseCOLTranche_Execute H a now actor s = (Inr r, t)"
  obtains cfg st live rel where
    "GetTreasuryConfig H s = Inr cfg" "actor = tc_Governance cfg" "GetTreasuryState H s = Inr st"
    "rt_Amount a \<noteq> 0" "rt_Amount a \<le> ts_Locked st" "rt_Amount a \<le> maxRelease cfg st"
    "sint (ts_LastReleaseUnix st) > 0 \<Longrightarrow> sint (nextAllowed cfg st) \<le> sint now"
    "unat live = unat (ts_Live st) + unat (rt_Amount a)"
    "unat rel = unat (ts_Released st) + unat (rt_Amount a)"
    "PutTreasuryState H \<lparr>ts_Locked = ts_Locked st - rt_Amount a, ts_Live = live,
       ts_Released = rel, ts_LastReleaseUnix = now\<rparr> s = (Inr (), t)"
    "r = \<lparr>rt_Locked = ts_Locked st - rt_Amount a, rt_Live = live, rt_Released = rel\<rparr>"
  using assms
  by (auto simp: ReleaseCOLTranche_Execute_def run_simps Let_def not_less dest!: add_unat)

lemma PutTreasuryState_reads:
  "PutTreasuryState H st s = (Inr u, t) \<Longrightarrow> GetTreasuryState H t = Inr st"
  by (drule config_put_run(2)) (simp add: GetTreasuryState_def key_simps)

lemma ReleaseCOLTranche_confined:
  assumes "ReleaseCOLTranche_Execute H a now actor s = (Inr r, t)"
  shows "confined H (ReleaseCOLTranche_StateKeys H a actor) s t"
  using assms
  by (elim ReleaseCOLTranche_run)
    (auto dest!: config_put_run(2)
      simp: confined_def ReleaseCOLTranche_StateKeys_def keys_simps split: if_splits)

lemma UpdateReserveState_run:
  assumes "UpdateReserveState_Execute H a actor s = (Inr r, t)"
  obtains cfg where "GetTreasuryConfig H s = Inr cfg" "actor = tc_Governance cfg"
    "GetValue H t = (GetValue H s)(slot_key H SReserveState :=
       Inr (encodeReserveState \<lparr>rs_ExogenousReserve = ur_ExogenousReserve a,
         rs_VAIBuffer = ur_VAIBuffer a\<rparr>))"
  using assms
  by (auto simp: UpdateReserveState_Execute_def run_simps Let_def dest!: config_put_run(7))

lemma SetRiskParams_run:
  assumes "SetRiskParams_Execute H a actor s = (Inr r, t)"
  obtains cfg where "GetTreasuryConfig H s = Inr cfg" "actor = tc_Governance cfg"
    "validateRiskConfig (SetRiskParams_cfg a) = Inr ()"
    "GetValue H t = (GetValue H s)(slot_key H SRiskConfig :=
       Inr (encodeRiskConfig (SetRiskParams_cfg a)))"
  using assms by (auto simp: SetRiskParams_Execute_def run_simps Let_def dest!: PutRiskConfig_run)

lemma SetProofConfig_run:
  assumes "SetProofConfig_Execute H a actor s = (Inr r, t)"
  obtains cfg where "GetTreasuryConfig H s = Inr cfg" "actor = tc_Governance cfg"
    "validateProofConfig (SetProofConfig_cfg a) = Inr ()"
    "GetValue H t = (GetValue H s)(slot_key H SProofConfig :=
       Inr (encodeProofConfig (SetProofConfig_cfg a)))"
  using assms by (auto simp: SetProofConfig_Execute_def run_simps Let_def dest!: PutProofConfig_run)

lemma UpdateReserveState_confined:
  assumes "UpdateReserveState_Execute H a actor s = (Inr r, t)"
  shows "confined H (UpdateReserveState_StateKeys H a actor) s t"
  using assms
  by (elim UpdateReserveState_run)
    (auto simp: confined_def UpdateReserveState_StateKeys_def keys_simps split: if_splits)

lemma SetRiskParams_confined:
  assumes "SetRiskParams_Execute H a actor s = (Inr r, t)"
  shows "confined H (SetRiskParams_StateKeys H a actor) s t"
  using assms
  by (elim SetRiskParams_run)
    (auto simp: confined_def SetRiskParams_StateKeys_def keys_simps split: if_splits)

lemma SetProofConfig_confined:
  assumes "SetProofConfig_Execute H a actor s = (Inr r, t)"
  shows "confined H (SetProofConfig_StateKeys H a actor) s t"
  using assms
  by (elim SetProofConfig_run)
    (auto simp: confined_def SetProofConfig_StateKeys_def keys_simps split: if_splits)

end

sublocale host_env \<subseteq> route: declared_action H "RouteFees_StateKeys H"
    "\<lambda>t now actor. RouteFees_Execute H t actor"
  by unfold_locales (rule RouteFees_confined)

sublocale host_env \<subseteq> release: declared_action H "ReleaseCOLTranche_StateKeys H"
    "ReleaseCOLTranche_Execute H"
  by unfold_locales (rule ReleaseCOLTranche_confined)

sublocale host_env \<subseteq> reserve: declared_action H "UpdateReserveState_StateKeys H"
    "\<lambda>t now actor. UpdateReserveState_Execute H t actor"
  by unfold_locales (rule UpdateReserveState_confined)

sublocale host_env \<subseteq> risk: declared_action H "SetRiskParams_StateKeys H"
    "\<lambda>t now actor. SetRiskParams_Execute H t actor"
  by unfold_locales (rule SetRiskParams_confined)

sublocale host_env \<subseteq> proofcfg: declared_action H "SetProofConfig_StateKeys H"
    "\<lambda>t now actor. SetProofConfig_Execute H t actor"
  by unfold_locales (rule SetProofConfig_confined)

section \<open>Effects\<close>

context host_env
begin

lemma PutFeeRouterState_reads: "PutFeeRouterState H st s = (Inr u, t) \<Longrightarrow> GetFeeRouterState H t = Inr st"
  by (drule config_put_run(4)) (simp add: GetFeeRouterState_def key_simps)

lemma PutFeeRouterState_balances:
  "PutFeeRouterState H st s = (Inr u, t) \<Longrightarrow> veil_balance H t = veil_balance H s"
  by (drule config_put_run(4)) (simp add: veil_balance_def key_simps fun_eq_iff)

lemma RouteFees_effect:
  assumes "RouteFees_Execute H f actor s = (Inr r, t)"
  obtains cfg st st' where
    "GetFeeRouterConfig H s = Inr cfg" "GetFeeRouterState H s = Inr st" "GetFeeRouterState H t = Inr st'"
    "unat (rf_Amount f) \<le> veil_balance H s actor"
    "veil_balance H t = (veil_balance H s)(actor := veil_balance H s actor - unat (rf_Amount f))"
    "unat (fs_MSRBBudget st') = unat (fs_MSRBBudget st) + unat (feeShare (fc_MSRBBips cfg) (rf_Amount f))"
    "unat (fs_COLBudget st') = unat (fs_COLBudget st) + unat (feeShare (fc_COLBips cfg) (rf_Amount f))"
    "unat (fs_OpsBudget st') = unat (fs_OpsBudget st) + unat (opsShare cfg (rf_Amount f))"
  using assms
proof (elim RouteFees_run)
  fix cfg st m c p u
  let ?st' = "\<lparr>fs_MSRBBudget = m, fs_COLBudget = c, fs_OpsBudget = p\<rparr>"
  assume "GetFeeRouterConfig H s = Inr cfg" "GetFeeRouterState H s = Inr st"
    and sub: "SubBalance H actor (rf_Amount f) s = (Inr (rf_SenderBalance r), u)"
    and "unat m = unat (fs_MSRBBudget st) + unat (feeShare (fc_MSRBBips cfg) (rf_Amount f))"
      "unat c = unat (fs_COLBudget st) + unat (feeShare (fc_COLBips cfg) (rf_Amount f))"
      "unat p = unat (fs_OpsBudget st) + unat (opsShare cfg (rf_Amount f))"
    and put: "PutFeeRouterState H ?st' u = (Inr (), t)"
  then show thesis
    using that [of cfg st ?st'] PutFeeRouterState_reads [OF put] PutFeeRouterState_balances [OF put]
      veil.debit_bal [OF sub] by simp
qed

end

text \<open>
  C27: Routing fees takes exactly the amount from the caller and adds exactly the amount to the three
  budgets together, whatever the products wrap to: the MSRB and COL budgets grow by at most their
  share, exactly by its floor when the product fits 64 bits, and operations gets the remainder.
\<close>

theorem route_fees_conserves:
  assumes "host_env H" and "RouteFees_Execute H f actor s = (Inr r, t)"
  shows "\<exists>cfg st st'. GetFeeRouterConfig H s = Inr cfg \<and> GetFeeRouterState H s = Inr st
    \<and> GetFeeRouterState H t = Inr st'
    \<and> unat (rf_Amount f) \<le> veil_balance H s actor
    \<and> veil_balance H t = (veil_balance H s)(actor := veil_balance H s actor - unat (rf_Amount f))
    \<and> budget_sum st' = budget_sum st + unat (rf_Amount f)
    \<and> fs_MSRBBudget st \<le> fs_MSRBBudget st' \<and> fs_COLBudget st \<le> fs_COLBudget st'
    \<and> fs_OpsBudget st \<le> fs_OpsBudget st'
    \<and> (unat (fs_MSRBBudget st') - unat (fs_MSRBBudget st)) * 10000 \<le> unat (fc_MSRBBips cfg) * unat (rf_Amount f)
    \<and> (unat (fs_COLBudget st') - unat (fs_COLBudget st)) * 10000 \<le> unat (fc_COLBips cfg) * unat (rf_Amount f)
    \<and> (unat (fc_MSRBBips cfg) * unat (rf_Amount f) < 2 ^ 64 \<longrightarrow> unat (fs_MSRBBudget st')
        = unat (fs_MSRBBudget st) + unat (fc_MSRBBips cfg) * unat (rf_Amount f) div 10000)
    \<and> (unat (fc_COLBips cfg) * unat (rf_Amount f) < 2 ^ 64 \<longrightarrow> unat (fs_COLBudget st')
        = unat (fs_COLBudget st) + unat (fc_COLBips cfg) * unat (rf_Amount f) div 10000)"
proof (rule host_env.RouteFees_effect [OF assms])
  fix cfg and st st' :: FeeRouterState
  assume reads: "GetFeeRouterConfig H s = Inr cfg" "GetFeeRouterState H s = Inr st"
      "GetFeeRouterState H t = Inr st'"
    and bal: "unat (rf_Amount f) \<le> veil_balance H s actor"
      "veil_balance H t = (veil_balance H s)(actor := veil_balance H s actor - unat (rf_Amount f))"
    and shares: "unat (fs_MSRBBudget st') = unat (fs_MSRBBudget st) + unat (feeShare (fc_MSRBBips cfg) (rf_Amount f))"
      "unat (fs_COLBudget st') = unat (fs_COLBudget st) + unat (feeShare (fc_COLBips cfg) (rf_Amount f))"
      "unat (fs_OpsBudget st') = unat (fs_OpsBudget st) + unat (opsShare cfg (rf_Amount f))"
  have "budget_sum st' = budget_sum st + unat (rf_Amount f)"
    using shares shares_add_up [OF GetFeeRouterConfig_sum [OF reads(1)], of "rf_Amount f"]
    by (simp add: budget_sum_def)
  then show ?thesis
    using reads bal shares feeShare_le feeShare_exact by (auto simp: word_le_nat_alt)
qed

definition sample_fees :: RouteFees where
  "sample_fees = \<lparr>rf_Amount = 1001\<rparr>"

lemma sample_fees_run:
  "fst (RouteFees_Execute mem_host sample_fees alice sample)
    = Inr \<lparr>rf_SenderBalance = 48999, rf_MSRBBudget = 700, rf_COLBudget = 200, rf_OpsBudget = 101\<rparr>"
  by (simp add: RouteFees_Execute_def sample_fees_def run_mem_defs sample_defs with_stored_def
      feeShare_def opsShare_def feeRouterSum_def bipsDenominator_def)

theorem route_fees_conserves_witness:
  "\<exists>st'. GetFeeRouterState mem_host (snd (RouteFees_Execute mem_host sample_fees alice sample)) = Inr st'
    \<and> budget_sum st' = 1001 \<and> unat (fs_MSRBBudget st') = 700"
proof -
  have reads: "GetFeeRouterState mem_host sample
      = Inr \<lparr>fs_MSRBBudget = 0, fs_COLBudget = 0, fs_OpsBudget = 0\<rparr>"
    "GetFeeRouterConfig mem_host sample = Inr \<lparr>fc_MSRBBips = 7000, fc_COLBips = 2000, fc_OpsBips = 1000\<rparr>"
    by (simp_all add: run_mem_defs sample_defs with_stored_def feeRouterSum_def bipsDenominator_def)
  show ?thesis
    using route_fees_conserves [OF mem_host_env run_ok [OF sample_fees_run]]
    by (auto simp: reads sample_fees_def budget_sum_def)
qed

text \<open>
  C28: The share of a budget is exact while the product of basis points and amount fits in 64 bits, and wraps beyond:
  with the default split of 70/20/10 percent, routing 10,000,000 VEIL (of nine decimals) credits the MSRB budget with
  1,465,976.777887134 VEIL instead of 7,000,000 and leaves the difference to operations.
\<close>

theorem fee_share_wraps:
  "(unat bips * unat amount < 2 ^ 64 \<longrightarrow> unat (feeShare bips amount) = unat bips * unat amount div 10000)
    \<and> unat (feeShare 7000 10000000000000000) = 1465976777887134
    \<and> 7000 * 10000000000000000 div 10000 = (7000000000000000 :: nat)
    \<and> unat (opsShare \<lparr>fc_MSRBBips = 7000, fc_COLBips = 2000, fc_OpsBips = 1000\<rparr> 10000000000000000)
      = 10000000000000000 - 1465976777887134 - unat (feeShare 2000 10000000000000000)"
  using feeShare_exact by (simp add: feeShare_def opsShare_def unat_div)

theorem fee_share_wraps_witness:
  "unat (feeShare 7000 1000000) = 700000"
  using fee_share_wraps [of 7000 1000000] by simp

text \<open>
  A tranche release that succeeds was sent by the governance address, moves exactly the amount from
  locked to live, counts it as released and stamps the time; the amount is at most the configured
  share of what was locked, and after an earlier release the epoch had elapsed.
\<close>

theorem release_capped_and_conserving:
  assumes "host_env H" and "ReleaseCOLTranche_Execute H a now actor s = (Inr r, t)"
  shows "\<exists>cfg st st'. GetTreasuryConfig H s = Inr cfg \<and> GetTreasuryState H s = Inr st
    \<and> GetTreasuryState H t = Inr st' \<and> actor = tc_Governance cfg \<and> 0 < unat (rt_Amount a)
    \<and> unat (ts_Locked st') + unat (rt_Amount a) = unat (ts_Locked st)
    \<and> unat (ts_Live st') = unat (ts_Live st) + unat (rt_Amount a)
    \<and> unat (ts_Released st') = unat (ts_Released st) + unat (rt_Amount a)
    \<and> ts_LastReleaseUnix st' = now
    \<and> unat (rt_Amount a) * 10000 \<le> unat (ts_Locked st) * unat (tc_MaxReleaseBips cfg)
    \<and> (0 < sint (ts_LastReleaseUnix st) \<longrightarrow>
        sint (ts_LastReleaseUnix st + tc_ReleaseEpochSeconds cfg * 1000) \<le> sint now)"
  using assms(2)
proof (rule host_env.ReleaseCOLTranche_run [OF assms(1)])
  fix cfg and st :: TreasuryState and live rel
  let ?st' = "\<lparr>ts_Locked = ts_Locked st - rt_Amount a, ts_Live = live, ts_Released = rel,
    ts_LastReleaseUnix = now\<rparr>"
  assume reads: "GetTreasuryConfig H s = Inr cfg" "GetTreasuryState H s = Inr st"
    and "actor = tc_Governance cfg" "rt_Amount a \<noteq> 0"
    and le: "rt_Amount a \<le> ts_Locked st" "rt_Amount a \<le> maxRelease cfg st"
    and "0 < sint (ts_LastReleaseUnix st) \<Longrightarrow> sint (nextAllowed cfg st) \<le> sint now"
    and "unat live = unat (ts_Live st) + unat (rt_Amount a)"
      "unat rel = unat (ts_Released st) + unat (rt_Amount a)"
    and put: "PutTreasuryState H ?st' s = (Inr (), t)"
  moreover have "unat (rt_Amount a) * 10000 \<le> unat (ts_Locked st) * unat (tc_MaxReleaseBips cfg)"
    using le(2) maxRelease_le [of cfg st] by (simp add: word_le_nat_alt)
  ultimately show ?thesis
    using host_env.PutTreasuryState_reads [OF assms(1) put]
    by (simp add: nextAllowed_def unat_sub_exact word_le_nat_alt unat_gt_0)
qed

definition sample_release :: ReleaseCOLTranche where
  "sample_release = \<lparr>rt_Amount = 1500\<rparr>"

lemma sample_release_run:
  "fst (ReleaseCOLTranche_Execute mem_host sample_release 1000 gov sample)
    = Inr \<lparr>rt_Locked = 998500, rt_Live = 1500, rt_Released = 1500\<rparr>"
  by (simp add: ReleaseCOLTranche_Execute_def sample_release_def run_mem_defs sample_defs with_stored_def
      maxRelease_def nextAllowed_def)

theorem release_capped_and_conserving_witness:
  "\<exists>st'. GetTreasuryState mem_host (snd (ReleaseCOLTranche_Execute mem_host sample_release 1000 gov sample))
      = Inr st' \<and> unat (ts_Locked st') = 998500 \<and> unat (ts_Live st') = 1500"
proof -
  have reads: "GetTreasuryState mem_host sample
      = Inr \<lparr>ts_Locked = 1000000, ts_Live = 0, ts_Released = 0, ts_LastReleaseUnix = 0\<rparr>"
    by (simp add: run_mem_defs sample_defs with_stored_def)
  show ?thesis
    using release_capped_and_conserving [OF mem_host_env run_ok [OF sample_release_run]]
    by (auto simp: reads sample_release_def)
qed

end
