(* ===== verification/Amm_Math.thy ===== *)
theory Amm_Math
  imports Storage_Market
begin

text \<open>
  \<open>actions/amm_common.go\<close>: the assets, the orientation of an asset pair against a pool, the 128-bit
  \<open>mulDiv\<close>, the integer square root, and the balance operations selected by asset.

  The lemmas give \<open>mulDiv\<close> and \<open>intSqrt\<close> their arithmetic meaning. \<open>intSqrt\<close> is Newton's
  iteration on 64-bit words; it is the integer square root on every input but the largest, on which
  its first addition wraps and the iteration divides by zero.
\<close>

section \<open>Assets and pairs\<close>

abbreviation AssetVEIL :: u8 where "AssetVEIL \<equiv> 0"
abbreviation AssetVAI :: u8 where "AssetVAI \<equiv> 1"
abbreviation MinPoolFeeBips :: u16 where "MinPoolFeeBips \<equiv> 1"
abbreviation MaxPoolFeeBips :: u16 where "MaxPoolFeeBips \<equiv> 1000"

definition isSupportedAsset :: "u8 \<Rightarrow> bool" where
  "isSupportedAsset asset \<longleftrightarrow> asset = AssetVEIL \<or> asset = AssetVAI"

definition validateAssetPair :: "u8 \<Rightarrow> u8 \<Rightarrow> error + unit" where
  "validateAssetPair asset0 asset1 =
     (if \<not> isSupportedAsset asset0 \<or> \<not> isSupportedAsset asset1 then Inl ErrUnsupportedAsset
      else if asset0 = asset1 then Inl ErrInvalidAssetPair
      else Inr ())"

definition sortedPair :: "u8 \<Rightarrow> u8 \<Rightarrow> u8 \<times> u8" where
  "sortedPair asset0 asset1 = (if asset0 \<le> asset1 then (asset0, asset1) else (asset1, asset0))"

definition mapPairAmounts :: "u8 \<Rightarrow> u8 \<Rightarrow> u64 \<Rightarrow> u64 \<Rightarrow> Pool \<Rightarrow> error + u64 \<times> u64" where
  "mapPairAmounts assetA assetB amountA amountB pool =
     (if assetA = p_Asset0 pool \<and> assetB = p_Asset1 pool then Inr (amountA, amountB)
      else if assetA = p_Asset1 pool \<and> assetB = p_Asset0 pool then Inr (amountB, amountA)
      else Inl ErrInvalidAssetPair)"

definition mapPoolAmountsToPair :: "Pool \<Rightarrow> u8 \<Rightarrow> u8 \<Rightarrow> u64 \<Rightarrow> u64 \<Rightarrow> error + u64 \<times> u64" where
  "mapPoolAmountsToPair pool assetA assetB amount0 amount1 =
     (if assetA = p_Asset0 pool \<and> assetB = p_Asset1 pool then Inr (amount0, amount1)
      else if assetA = p_Asset1 pool \<and> assetB = p_Asset0 pool then Inr (amount1, amount0)
      else Inl ErrInvalidAssetPair)"

definition subAssetBalance :: "'s host \<Rightarrow> Address \<Rightarrow> u8 \<Rightarrow> u64 \<Rightarrow> ('s, u64) action_run" where
  "subAssetBalance H actor asset amount =
     (if asset = AssetVEIL then SubBalance H actor amount
      else if asset = AssetVAI then SubVAIBalance H actor amount
      else go_fail ErrUnsupportedAsset)"

definition addAssetBalance :: "'s host \<Rightarrow> Address \<Rightarrow> u8 \<Rightarrow> u64 \<Rightarrow> ('s, u64) action_run" where
  "addAssetBalance H actor asset amount =
     (if asset = AssetVEIL then AddBalance H actor amount
      else if asset = AssetVAI then AddVAIBalance H actor amount
      else go_fail ErrUnsupportedAsset)"

section \<open>Arithmetic\<close>

text \<open>The product is a \<open>big.Int\<close>: it does not wrap, and the quotient must fit a \<open>uint64\<close>.\<close>

definition mulDiv :: "u64 \<Rightarrow> u64 \<Rightarrow> u64 \<Rightarrow> error + u64" where
  "mulDiv a b den =
     (if den = 0 then Inl DivisionByZero
      else let q = unat a * unat b div unat den
           in if q < 2 ^ 64 then Inr (of_nat q) else Inl Overflow)"

definition minU64 :: "u64 \<Rightarrow> u64 \<Rightarrow> u64" where
  "minU64 a b = (if a < b then a else b)"

text \<open>
  The loop of \<open>intSqrt\<close>, with the panic of Go's integer division. It ends because \<open>x\<close> decreases.
\<close>

function intSqrt_loop :: "u64 \<Rightarrow> u64 \<Rightarrow> u64 \<Rightarrow> error + u64" where
  "intSqrt_loop n x y =
     (if y < x then
        let x' = y in
        if x' = 0 then Inl (GoPanic ''integer divide by zero'')
        else intSqrt_loop n x' ((x' + n div x') div 2)
      else Inr x)"
  by pat_completeness auto
termination
  by (relation "measure (\<lambda>(n, x, y). unat x)") (auto simp: word_less_nat_alt)

declare intSqrt_loop.simps [simp del]

definition intSqrt :: "u64 \<Rightarrow> error + u64" where
  "intSqrt n = (if n = 0 then Inr 0 else intSqrt_loop n n ((n + 1) div 2))"

section \<open>What the arithmetic computes\<close>

lemma unat_max_u64: "unat (- 1 :: u64) = 18446744073709551615"
  by (simp add: unsigned_minus_1_eq_mask mask_eq_exp_minus_1)

lemma mulDiv_Inr:
  "mulDiv a b d = Inr q \<longleftrightarrow> d \<noteq> 0 \<and> unat q = unat a * unat b div unat d"
proof -
  have "unat q = k \<Longrightarrow> k < 2 ^ 64" for k
    using unat_lt_u64 [of q] by auto
  from this [of "unat a * unat b div unat d"] show ?thesis
    by (auto simp: mulDiv_def Let_def unat_of_nat word_unat_eq_iff)
qed

lemma mulDiv_le:
  assumes "mulDiv a b d = Inr q"
  shows "unat q * unat d \<le> unat a * unat b" and "unat a * unat b < (unat q + 1) * unat d"
proof -
  have q: "unat q = unat a * unat b div unat d" and d: "0 < unat d"
    using assms by (auto simp: mulDiv_Inr unat_gt_0)
  show "unat q * unat d \<le> unat a * unat b" by (simp add: q)
  show "unat a * unat b < (unat q + 1) * unat d"
    using dividend_less_div_times [OF d, of "unat a * unat b"] by (simp add: q)
qed

lemma minU64_min: "minU64 a b = min a b"
  by (auto simp: minU64_def min_def)

lemma newton_upper:
  fixes N x :: nat
  assumes "0 < x"
  shows "N < ((x + N div x) div 2 + 1)\<^sup>2"
proof -
  let ?q = "N div x" and ?s = "(x + N div x) div 2"
  have "N < x * (?q + 1)"
    using dividend_less_div_times [OF assms, of N] by (simp add: algebra_simps)
  then have "4 * N < 4 * (x * (?q + 1))" by simp
  also have "\<dots> \<le> (x + ?q + 1)\<^sup>2"
  proof -
    have "int (4 * (x * (?q + 1))) \<le> int ((x + ?q + 1)\<^sup>2)"
      using zero_le_power2 [of "int x - int (?q + 1)"] by (simp add: power2_eq_square algebra_simps)
    then show ?thesis by linarith
  qed
  also have "\<dots> \<le> (2 * (?s + 1))\<^sup>2"
    by (rule power_mono) auto
  also have "\<dots> = 4 * (?s + 1)\<^sup>2" by (simp add: power2_eq_square)
  finally show ?thesis by simp
qed

lemma newton_sum_le:
  fixes N x :: nat
  assumes "0 < x" and "x \<le> N"
  shows "x + N div x \<le> N + 1"
proof -
  obtain q where q: "N div x = Suc q"
    using assms by (metis div_greater_zero_iff gr0_implies_Suc)
  obtain y where y: "x = Suc y" using assms(1) by (cases x) auto
  have "x * Suc q \<le> N" using q by (metis mult.commute div_times_less_eq_dividend)
  then have "Suc q * x \<le> N" by (simp add: mult.commute)
  moreover have "x + Suc q \<le> Suc q * x + 1" by (simp add: y)
  ultimately show ?thesis unfolding q by linarith
qed

lemma newton_step_unat:
  fixes n x :: u64
  assumes "0 < unat x" and "unat x \<le> unat n" and "n \<noteq> - 1"
  shows "unat ((x + n div x) div 2) = (unat x + unat n div unat x) div 2"
proof -
  have "unat n \<noteq> unat (- 1 :: u64)" using assms(3) by (simp only: word_unat_eq_iff not_False_eq_True)
  then have "unat n < 18446744073709551615"
    using unat_lt_u64 [of n] unfolding unat_max_u64 by linarith
  then have "unat x + unat (n div x) < 2 ^ 64"
    using newton_sum_le [OF assms(1,2)] by (simp add: unat_div del: unat_lt_u64)
  then show ?thesis by (simp add: unat_div unat_add_exact)
qed

lemma intSqrt_loop_correct:
  assumes "n \<noteq> - 1" and "0 < unat x" and "unat x \<le> unat n"
    and "unat n < (unat x + 1)\<^sup>2" and "y = (x + n div x) div 2"
  shows "\<exists>r. intSqrt_loop n x y = Inr r \<and> (unat r)\<^sup>2 \<le> unat n \<and> unat n < (unat r + 1)\<^sup>2"
  using assms
proof (induction n x y rule: intSqrt_loop.induct)
  case (1 n x y)
  have yn: "unat y = (unat x + unat n div unat x) div 2"
    using newton_step_unat [OF 1(3,4,2)] 1(6) by simp
  have up: "unat n < (unat y + 1)\<^sup>2"
    using newton_upper [OF 1(3), of "unat n"] by (simp add: yn)
  show ?case
  proof (cases "y < x")
    case True
    have "unat y \<noteq> 0"
      using up 1(3,4) by (intro notI) simp
    then have pos: "0 < unat y" and nz: "y \<noteq> 0" by (auto simp: unat_eq_0 unat_gt_0)
    have le: "unat y \<le> unat n" using True 1(4) by (simp add: word_less_nat_alt)
    show ?thesis
      using 1(1) [OF True refl nz 1(2) pos le up refl] True nz
      by (simp add: intSqrt_loop.simps [of n x y] Let_def)
  next
    case False
    then have "unat x \<le> (unat x + unat n div unat x) div 2"
      by (simp add: not_less word_le_nat_alt yn)
    then have "unat x \<le> unat n div unat x" by linarith
    then have "unat x * unat x \<le> unat n"
      by (metis mult_le_mono2 order_trans times_div_less_eq_dividend)
    then show ?thesis
      using False 1(5) by (simp add: intSqrt_loop.simps [of n x y] power2_eq_square)
  qed
qed

lemma intSqrt_spec:
  assumes "n \<noteq> - 1"
  shows "\<exists>r. intSqrt n = Inr r \<and> (unat r)\<^sup>2 \<le> unat n \<and> unat n < (unat r + 1)\<^sup>2"
proof (cases "n = 0")
  case False
  then have "0 < unat n" by (simp add: unat_gt_0)
  moreover have "n div n = 1" using False by (simp add: word_unat_eq_iff [of "n div n"] unat_div unat_gt_0)
  moreover have "unat n < (unat n + 1)\<^sup>2" by (simp add: power2_eq_square)
  ultimately show ?thesis
    using intSqrt_loop_correct [OF assms, of n "(n + 1) div 2"] False by (simp add: intSqrt_def)
qed (simp add: intSqrt_def)

lemma intSqrt_max_panics: "intSqrt (- 1) = Inl (GoPanic ''integer divide by zero'')"
  by (simp add: intSqrt_def intSqrt_loop.simps word_less_nat_alt unat_max_u64)

lemma intSqrt_le: "intSqrt n = Inr r \<Longrightarrow> (unat r)\<^sup>2 \<le> unat n"
  using intSqrt_spec [of n] intSqrt_max_panics by (cases "n = - 1") auto

section \<open>The pair of the exchange\<close>

text \<open>VEIL and VAI are the only assets, so a valid pair is one of the two orders of one pool.\<close>

lemma validateAssetPair_Inr [run_simps]:
  "validateAssetPair a b = Inr u \<longleftrightarrow>
    a = AssetVEIL \<and> b = AssetVAI \<or> a = AssetVAI \<and> b = AssetVEIL"
  by (auto simp: validateAssetPair_def isSupportedAsset_def)

section \<open>Properties\<close>

text \<open>
  C20: \<open>intSqrt\<close> terminates on every 64-bit input. It returns the integer square root, the number whose square does not
  exceed the input while the next square does, except on the largest input, where the first guess wraps to zero and
  the loop divides by it.
\<close>

theorem intSqrt_correct:
  "if n = - 1 then intSqrt n = Inl (GoPanic ''integer divide by zero'')
   else \<exists>r. intSqrt n = Inr r \<and> (unat r)\<^sup>2 \<le> unat n \<and> unat n < (unat r + 1)\<^sup>2"
  using intSqrt_spec intSqrt_max_panics by simp

theorem intSqrt_correct_witness:
  "\<exists>r. intSqrt 10 = Inr r \<and> (unat r)\<^sup>2 \<le> unat (10 :: u64) \<and> unat (10 :: u64) < (unat r + 1)\<^sup>2"
  using intSqrt_correct [of 10] by simp

end
