(* ===== verification/Act_Amm.thy ===== *)
theory Act_Amm
  imports Amm_Math Sample
begin

text \<open>
  The exchange: \<open>actions/create_pool.go\<close>, \<open>actions/add_liquidity.go\<close>,
  \<open>actions/remove_liquidity.go\<close> and \<open>actions/swap_exact_in.go\<close>, a constant-product market maker on
  the one pair VEIL/VAI.

  \<open>pool_wf\<close> is the invariant of the stored pool: its assets are in order and its fee is in range. Under
  it each run lemma gives the reserves and shares a successful action leaves and the step of the
  economy it takes. The arithmetic lemmas at the start are the reasons the pool cannot be drained by
  rounding: every division rounds in the pool's favour.
\<close>

section \<open>Rounding favours the pool\<close>

lemma swap_keeps_product:
  fixes x y a f out :: nat
  assumes "f \<le> a" and "out * (x + f) \<le> y * f" and "0 < x" and "0 < y"
  shows "out < y" and "x * y \<le> (x + a) * (y - out)"
proof -
  show lt: "out < y"
  proof (rule ccontr)
    assume "\<not> out < y"
    then have "y * (x + f) \<le> out * (x + f)" by simp
    also have "\<dots> \<le> y * f" by (rule assms(2))
    finally show False using assms(3,4) by (simp add: algebra_simps)
  qed
  from lt obtain d where y: "y = out + d" using less_imp_add_positive by blast
  have "x * y \<le> (x + f) * (y - out)" using assms(2) by (simp add: y algebra_simps)
  also have "\<dots> \<le> (x + a) * (y - out)" using assms(1) by simp
  finally show "x * y \<le> (x + a) * (y - out)" .
qed

lemma deposit_no_dilution:
  fixes r a total minted :: nat
  assumes "minted * r \<le> a * total"
  shows "r * (total + minted) \<le> (r + a) * total"
  using assms by (simp add: algebra_simps)

lemma withdraw_no_dilution:
  fixes r out total l :: nat
  assumes "out * total \<le> l * r" and "out \<le> r" and "l \<le> total"
  shows "r * (total - l) \<le> (r - out) * total"
  using assms by (simp add: algebra_simps diff_mult_distrib diff_mult_distrib2)

section \<open>CreatePool\<close>

record CreatePool =
  cp_Asset0 :: u8
  cp_Asset1 :: u8
  cp_FeeBips :: u16

record CreatePoolResult =
  cpr_Asset0 :: u8
  cpr_Asset1 :: u8
  cpr_FeeBips :: u16

definition CreatePool_StateKeys :: "'s host \<Rightarrow> CreatePool \<Rightarrow> Address \<Rightarrow> state_keys" where
  "CreatePool_StateKeys H a actor = Keys
     [(TreasuryConfigKey H, StateRead),
      (PoolKey H (cp_Asset0 a) (cp_Asset1 a), StateAll)]"

definition CreatePool_Execute :: "'s host \<Rightarrow> CreatePool \<Rightarrow> Address \<Rightarrow> ('s, CreatePoolResult) action_run" where
  "CreatePool_Execute H a actor =
     go_bind (go_lift (validateAssetPair (cp_Asset0 a) (cp_Asset1 a))) (\<lambda>_.
     go_guard (cp_FeeBips a < MinPoolFeeBips \<or> cp_FeeBips a > MaxPoolFeeBips) ErrInvalidPoolFee
    (go_bind (go_read (GetTreasuryConfig H)) (\<lambda>cfg.
     go_guard (actor \<noteq> tc_Governance cfg) ErrUnauthorized
    (\<lambda>s. case GetPool H s (cp_Asset0 a) (cp_Asset1 a) of
       Inr _ \<Rightarrow> (Inl ErrPoolExists, s)
     | Inl err \<Rightarrow>
         go_guard (err \<noteq> ErrPoolNotFound) err
        (let (asset0, asset1) = sortedPair (cp_Asset0 a) (cp_Asset1 a);
             pool = \<lparr>p_Asset0 = asset0, p_Asset1 = asset1, p_FeeBips = cp_FeeBips a,
                     p_Reserve0 = 0, p_Reserve1 = 0, p_TotalLP = 0\<rparr> in
         go_bind (PutPool H pool) (\<lambda>_.
         go_return \<lparr>cpr_Asset0 = p_Asset0 pool, cpr_Asset1 = p_Asset1 pool,
           cpr_FeeBips = p_FeeBips pool\<rparr>)) s))))"

section \<open>AddLiquidity\<close>

record AddLiquidity =
  al_Asset0 :: u8
  al_Asset1 :: u8
  al_Amount0 :: u64
  al_Amount1 :: u64
  al_MinLP :: u64

record AddLiquidityResult =
  al_MintedLP :: u64
  al_LPBalance :: u64
  al_Reserve0 :: u64
  al_Reserve1 :: u64
  al_TotalLP :: u64

definition AddLiquidity_StateKeys :: "'s host \<Rightarrow> AddLiquidity \<Rightarrow> Address \<Rightarrow> state_keys" where
  "AddLiquidity_StateKeys H a actor = Keys
     [(BalanceKey H actor, StateReadWrite),
      (VAIBalanceKey H actor, StateReadWrite),
      (PoolKey H (al_Asset0 a) (al_Asset1 a), StateReadWrite),
      (LPBalanceKey H (al_Asset0 a) (al_Asset1 a) actor, StateReadWrite)]"

text \<open>The shares a deposit earns: the square root of the product for the first, then pro rata.\<close>

definition mintedShares :: "'s host \<Rightarrow> Pool \<Rightarrow> u64 \<Rightarrow> u64 \<Rightarrow> error + u64" where
  "mintedShares H pool amount0Pool amount1Pool =
     (if p_TotalLP pool = 0 then
        (case smath_Mul H amount0Pool amount1Pool of
           Inl err \<Rightarrow> Inl err
         | Inr product \<Rightarrow> intSqrt product)
      else if p_Reserve0 pool = 0 \<or> p_Reserve1 pool = 0 then Inl ErrInsufficientLiquidity
      else (case mulDiv amount0Pool (p_TotalLP pool) (p_Reserve0 pool) of
              Inl err \<Rightarrow> Inl err
            | Inr lp0 \<Rightarrow> (case mulDiv amount1Pool (p_TotalLP pool) (p_Reserve1 pool) of
                Inl err \<Rightarrow> Inl err
              | Inr lp1 \<Rightarrow> Inr (minU64 lp0 lp1))))"

definition AddLiquidity_Execute ::
    "'s host \<Rightarrow> AddLiquidity \<Rightarrow> Address \<Rightarrow> ('s, AddLiquidityResult) action_run" where
  "AddLiquidity_Execute H a actor =
     go_bind (go_lift (validateAssetPair (al_Asset0 a) (al_Asset1 a))) (\<lambda>_.
     go_guard (al_Amount0 a = 0 \<or> al_Amount1 a = 0) ErrInvalidLiquidityAmount
    (go_bind (go_read (\<lambda>s. GetPool H s (al_Asset0 a) (al_Asset1 a))) (\<lambda>pool.
     go_bind (go_lift (mapPairAmounts (al_Asset0 a) (al_Asset1 a) (al_Amount0 a) (al_Amount1 a) pool))
       (\<lambda>(amount0Pool, amount1Pool).
     go_bind (subAssetBalance H actor (al_Asset0 a) (al_Amount0 a)) (\<lambda>_.
     go_bind (subAssetBalance H actor (al_Asset1 a) (al_Amount1 a)) (\<lambda>_.
     go_bind (go_lift (mintedShares H pool amount0Pool amount1Pool)) (\<lambda>minted.
     go_guard (minted = 0 \<or> minted < al_MinLP a) ErrSlippageExceeded
    (go_bind (go_lift (smath_Add H (p_Reserve0 pool) amount0Pool)) (\<lambda>nextReserve0.
     go_bind (go_lift (smath_Add H (p_Reserve1 pool) amount1Pool)) (\<lambda>nextReserve1.
     go_bind (go_lift (smath_Add H (p_TotalLP pool) minted)) (\<lambda>nextTotalLP.
     let pool = pool\<lparr>p_Reserve0 := nextReserve0, p_Reserve1 := nextReserve1,
                     p_TotalLP := nextTotalLP\<rparr> in
     go_bind (PutPool H pool) (\<lambda>_.
     go_bind (AddLPBalance H (p_Asset0 pool) (p_Asset1 pool) actor minted) (\<lambda>lpBalance.
     go_return \<lparr>al_MintedLP = minted, al_LPBalance = lpBalance, al_Reserve0 = p_Reserve0 pool,
       al_Reserve1 = p_Reserve1 pool, al_TotalLP = p_TotalLP pool\<rparr>)))))))))))))"

section \<open>RemoveLiquidity\<close>

record RemoveLiquidity =
  rl_Asset0 :: u8
  rl_Asset1 :: u8
  rl_LPAmount :: u64
  rl_MinAmount0 :: u64
  rl_MinAmount1 :: u64

record RemoveLiquidityResult =
  rl_Amount0Out :: u64
  rl_Amount1Out :: u64
  rl_LPBalance :: u64
  rl_Reserve0 :: u64
  rl_Reserve1 :: u64
  rl_TotalLP :: u64

definition RemoveLiquidity_StateKeys :: "'s host \<Rightarrow> RemoveLiquidity \<Rightarrow> Address \<Rightarrow> state_keys" where
  "RemoveLiquidity_StateKeys H a actor = Keys
     [(BalanceKey H actor, StateReadWrite),
      (VAIBalanceKey H actor, StateReadWrite),
      (PoolKey H (rl_Asset0 a) (rl_Asset1 a), StateReadWrite),
      (LPBalanceKey H (rl_Asset0 a) (rl_Asset1 a) actor, StateReadWrite)]"

definition RemoveLiquidity_Execute ::
    "'s host \<Rightarrow> RemoveLiquidity \<Rightarrow> Address \<Rightarrow> ('s, RemoveLiquidityResult) action_run" where
  "RemoveLiquidity_Execute H a actor =
     go_bind (go_lift (validateAssetPair (rl_Asset0 a) (rl_Asset1 a))) (\<lambda>_.
     go_guard (rl_LPAmount a = 0) ErrInvalidLiquidityAmount
    (go_bind (go_read (\<lambda>s. GetPool H s (rl_Asset0 a) (rl_Asset1 a))) (\<lambda>pool.
     go_guard (p_TotalLP pool = 0 \<or> p_Reserve0 pool = 0 \<or> p_Reserve1 pool = 0)
       ErrInsufficientLiquidity
    (go_bind (go_read (\<lambda>s. GetLPBalance H s (p_Asset0 pool) (p_Asset1 pool) actor)) (\<lambda>lpBalance.
     go_guard (lpBalance < rl_LPAmount a) ErrInsufficientLPBalance
    (go_bind (go_lift (mulDiv (rl_LPAmount a) (p_Reserve0 pool) (p_TotalLP pool))) (\<lambda>out0Pool.
     go_bind (go_lift (mulDiv (rl_LPAmount a) (p_Reserve1 pool) (p_TotalLP pool))) (\<lambda>out1Pool.
     go_guard (out0Pool = 0 \<or> out1Pool = 0) ErrInsufficientLiquidity
    (go_bind (go_lift (mapPairAmounts (rl_Asset0 a) (rl_Asset1 a)
         (rl_MinAmount0 a) (rl_MinAmount1 a) pool)) (\<lambda>(min0Pool, min1Pool).
     go_guard (out0Pool < min0Pool \<or> out1Pool < min1Pool) ErrSlippageExceeded
    (go_bind (go_lift (smath_Sub H (p_Reserve0 pool) out0Pool)) (\<lambda>nextReserve0.
     go_bind (go_lift (smath_Sub H (p_Reserve1 pool) out1Pool)) (\<lambda>nextReserve1.
     go_bind (go_lift (smath_Sub H (p_TotalLP pool) (rl_LPAmount a))) (\<lambda>nextTotalLP.
     let pool = pool\<lparr>p_Reserve0 := nextReserve0, p_Reserve1 := nextReserve1,
                     p_TotalLP := nextTotalLP\<rparr> in
     go_bind (PutPool H pool) (\<lambda>_.
     go_bind (SubLPBalance H (p_Asset0 pool) (p_Asset1 pool) actor (rl_LPAmount a)) (\<lambda>nextLPBalance.
     go_bind (addAssetBalance H actor (p_Asset0 pool) out0Pool) (\<lambda>_.
     go_bind (addAssetBalance H actor (p_Asset1 pool) out1Pool) (\<lambda>_.
     go_bind (go_lift (mapPoolAmountsToPair pool (rl_Asset0 a) (rl_Asset1 a) out0Pool out1Pool))
       (\<lambda>(out0, out1).
     go_return \<lparr>rl_Amount0Out = out0, rl_Amount1Out = out1, rl_LPBalance = nextLPBalance,
       rl_Reserve0 = p_Reserve0 pool, rl_Reserve1 = p_Reserve1 pool,
       rl_TotalLP = p_TotalLP pool\<rparr>)))))))))))))))))))"

section \<open>SwapExactIn\<close>

record SwapExactIn =
  sw_AssetIn :: u8
  sw_AssetOut :: u8
  sw_AmountIn :: u64
  sw_MinAmountOut :: u64

record SwapExactInResult =
  sw_AmountOut :: u64
  sw_ReceiverBalance :: u64
  sw_Reserve0 :: u64
  sw_Reserve1 :: u64

definition SwapExactIn_StateKeys :: "'s host \<Rightarrow> SwapExactIn \<Rightarrow> Address \<Rightarrow> state_keys" where
  "SwapExactIn_StateKeys H a actor = Keys
     [(BalanceKey H actor, StateReadWrite),
      (VAIBalanceKey H actor, StateReadWrite),
      (PoolKey H (sw_AssetIn a) (sw_AssetOut a), StateReadWrite)]"

text \<open>The orientation of the swap against the pool: \<open>inIs0\<close>, \<open>reserveIn\<close>, \<open>reserveOut\<close>.\<close>

definition swapSides :: "SwapExactIn \<Rightarrow> Pool \<Rightarrow> error + bool \<times> u64 \<times> u64" where
  "swapSides a pool =
     (if p_Asset0 pool = sw_AssetIn a \<and> p_Asset1 pool = sw_AssetOut a
      then Inr (True, p_Reserve0 pool, p_Reserve1 pool)
      else if p_Asset0 pool = sw_AssetOut a \<and> p_Asset1 pool = sw_AssetIn a
      then Inr (False, p_Reserve1 pool, p_Reserve0 pool)
      else Inl ErrInvalidAssetPair)"

definition swapReserves :: "'s host \<Rightarrow> bool \<Rightarrow> Pool \<Rightarrow> u64 \<Rightarrow> u64 \<Rightarrow> error + Pool" where
  "swapReserves H inIs0 pool amountIn amountOut =
     (if inIs0 then
        (case smath_Add H (p_Reserve0 pool) amountIn of
           Inl err \<Rightarrow> Inl err
         | Inr r0 \<Rightarrow> (case smath_Sub H (p_Reserve1 pool) amountOut of
             Inl err \<Rightarrow> Inl err
           | Inr r1 \<Rightarrow> Inr (pool\<lparr>p_Reserve0 := r0, p_Reserve1 := r1\<rparr>)))
      else
        (case smath_Add H (p_Reserve1 pool) amountIn of
           Inl err \<Rightarrow> Inl err
         | Inr r1 \<Rightarrow> (case smath_Sub H (p_Reserve0 pool) amountOut of
             Inl err \<Rightarrow> Inl err
           | Inr r0 \<Rightarrow> Inr (pool\<lparr>p_Reserve0 := r0, p_Reserve1 := r1\<rparr>))))"

definition SwapExactIn_Execute ::
    "'s host \<Rightarrow> SwapExactIn \<Rightarrow> Address \<Rightarrow> ('s, SwapExactInResult) action_run" where
  "SwapExactIn_Execute H a actor =
     go_bind (go_lift (validateAssetPair (sw_AssetIn a) (sw_AssetOut a))) (\<lambda>_.
     go_guard (sw_AmountIn a = 0) ErrInvalidSwapAmount
    (go_bind (go_read (\<lambda>s. GetPool H s (sw_AssetIn a) (sw_AssetOut a))) (\<lambda>pool.
     go_bind (go_lift (swapSides a pool)) (\<lambda>(inIs0, reserveIn, reserveOut).
     go_guard (reserveIn = 0 \<or> reserveOut = 0) ErrInsufficientLiquidity
    (go_bind (subAssetBalance H actor (sw_AssetIn a) (sw_AmountIn a)) (\<lambda>_.
     go_bind (go_lift (mulDiv (sw_AmountIn a) (ucast (10000 - p_FeeBips pool)) 10000))
       (\<lambda>amountInWithFee.
     go_guard (amountInWithFee = 0) ErrInvalidSwapAmount
    (go_bind (go_lift (smath_Add H reserveIn amountInWithFee)) (\<lambda>den.
     go_bind (go_lift (mulDiv reserveOut amountInWithFee den)) (\<lambda>amountOut.
     go_guard (amountOut = 0 \<or> amountOut < sw_MinAmountOut a) ErrSlippageExceeded
    (go_guard (amountOut > reserveOut) ErrInsufficientLiquidity
    (go_bind (go_lift (swapReserves H inIs0 pool (sw_AmountIn a) amountOut)) (\<lambda>pool.
     go_bind (PutPool H pool) (\<lambda>_.
     go_bind (addAssetBalance H actor (sw_AssetOut a) amountOut) (\<lambda>receiverBalance.
     go_return \<lparr>sw_AmountOut = amountOut, sw_ReceiverBalance = receiverBalance,
       sw_Reserve0 = p_Reserve0 pool, sw_Reserve1 = p_Reserve1 pool\<rparr>)))))))))))))))"

section \<open>The stored pool\<close>

definition pool_ok :: "Pool \<Rightarrow> bool" where
  "pool_ok p \<longleftrightarrow> p_Asset0 p = AssetVEIL \<and> p_Asset1 p = AssetVAI
     \<and> MinPoolFeeBips \<le> p_FeeBips p \<and> p_FeeBips p \<le> MaxPoolFeeBips"

definition pool_wf :: "'s host \<Rightarrow> 's \<Rightarrow> bool" where
  "pool_wf H s \<longleftrightarrow> (case GetPool H s AssetVEIL AssetVAI of Inl _ \<Rightarrow> True | Inr p \<Rightarrow> pool_ok p)"

lemma pool_wfD: "pool_wf H s \<Longrightarrow> GetPool H s 0 1 = Inr p \<Longrightarrow> pool_ok p"
  by (simp add: pool_wf_def)

lemma pool_wf_economy:
  "pool_wf H s \<longleftrightarrow> (case ePool (economy_of H s) of None \<Rightarrow> True | Some p \<Rightarrow> pool_ok p)"
  by (auto simp: pool_wf_def economy_fields split: sum.splits option.splits)

lemma GetPool_pair: "GetPool H s AssetVAI AssetVEIL = GetPool H s AssetVEIL AssetVAI"
  by (simp add: GetPool_def key_simps)

lemma debits_commute: "debit_veil a v (debit_vai b w e) = debit_vai b w (debit_veil a v e)"
  by (simp add: econ_ops)

text \<open>The reserves and the accounts after a swap, for each direction.\<close>

definition swapped :: "economy \<Rightarrow> economy \<Rightarrow> Address \<Rightarrow> SwapExactIn \<Rightarrow> nat \<Rightarrow> Pool \<Rightarrow> Pool \<Rightarrow> bool" where
  "swapped e e' actor a out p q \<longleftrightarrow>
     unat (p_Reserve0 p) * unat (p_Reserve1 p) \<le> unat (p_Reserve0 q) * unat (p_Reserve1 q)
     \<and> p_TotalLP q = p_TotalLP p
     \<and> (if sw_AssetIn a = AssetVEIL
        then unat (p_Reserve0 q) = unat (p_Reserve0 p) + unat (sw_AmountIn a)
          \<and> unat (p_Reserve1 q) + out = unat (p_Reserve1 p)
          \<and> p_Reserve0 p \<noteq> 0 \<and> p_Reserve1 q \<noteq> 0
          \<and> unat (sw_AmountIn a) \<le> eVeil e actor
          \<and> e' = credit_vai actor out (set_pool q (debit_veil actor (unat (sw_AmountIn a)) e))
        else unat (p_Reserve1 q) = unat (p_Reserve1 p) + unat (sw_AmountIn a)
          \<and> unat (p_Reserve0 q) + out = unat (p_Reserve0 p)
          \<and> p_Reserve1 p \<noteq> 0 \<and> p_Reserve0 q \<noteq> 0
          \<and> unat (sw_AmountIn a) \<le> eVai e actor
          \<and> e' = credit_veil actor out (set_pool q (debit_vai actor (unat (sw_AmountIn a)) e)))"

text \<open>The reserves and the accounts after shares were redeemed.\<close>

definition withdrawn :: "economy \<Rightarrow> economy \<Rightarrow> Address \<Rightarrow> nat \<Rightarrow> Pool \<Rightarrow> Pool \<Rightarrow> bool" where
  "withdrawn e e' actor n p q \<longleftrightarrow>
     (let v = n * unat (p_Reserve0 p) div unat (p_TotalLP p);
          w = n * unat (p_Reserve1 p) div unat (p_TotalLP p)
      in 0 < n \<and> n \<le> eShares e actor
       \<and> unat (p_Reserve0 q) + v = unat (p_Reserve0 p) \<and> unat (p_Reserve1 q) + w = unat (p_Reserve1 p)
       \<and> unat (p_TotalLP q) + n = unat (p_TotalLP p)
       \<and> e' = credit_vai actor w (credit_veil actor v (debit_shares actor n (set_pool q e))))"

section \<open>What a successful run does\<close>

lemma one_le_u16: "1 \<le> (x :: u16) \<longleftrightarrow> x \<noteq> 0"
  by (simp add: word_le_nat_alt Suc_le_eq unat_gt_0)

context host_env
begin

lemma CreatePool_run:
  assumes "CreatePool_Execute H a actor s = (Inr r, t)"
  obtains cfg where "GetTreasuryConfig H s = Inr cfg" "actor = tc_Governance cfg"
    "GetPool H s 0 1 = Inl ErrPoolNotFound"
    "MinPoolFeeBips \<le> cp_FeeBips a" "cp_FeeBips a \<le> MaxPoolFeeBips"
    "PutPool H \<lparr>p_Asset0 = 0, p_Asset1 = 1, p_FeeBips = cp_FeeBips a, p_Reserve0 = 0,
       p_Reserve1 = 0, p_TotalLP = 0\<rparr> s = (Inr (), t)"
    "PoolKey H (cp_Asset0 a) (cp_Asset1 a) = slot_key H (SPool 0 1)"
proof -
  from assms have pair: "cp_Asset0 a = 0 \<and> cp_Asset1 a = 1 \<or> cp_Asset0 a = 1 \<and> cp_Asset1 a = 0"
    by (auto simp: CreatePool_Execute_def run_simps)
  from assms pair that show thesis
    by (auto simp: CreatePool_Execute_def run_simps sortedPair_def GetPool_pair key_simps
        not_less one_le_u16 split: sum.splits)
qed

text \<open>Taking both sides of a deposit from the caller, in either order of the pair.\<close>

lemma subAsset_frame:
  assumes "subAssetBalance H x a v s = (Inr n, t)"
    and "k \<noteq> slot_key H (SBalance x)" and "k \<noteq> slot_key H (SVAIBalance x)"
  shows "GetValue H t k = GetValue H s k"
  using assms
  by (auto simp: subAssetBalance_def run_simps key_simps dest!: SubBalance_run SubVAIBalance_run
      split: if_splits)

lemma addAsset_frame:
  assumes "addAssetBalance H x a v s = (Inr n, t)"
    and "k \<noteq> slot_key H (SBalance x)" and "k \<noteq> slot_key H (SVAIBalance x)"
  shows "GetValue H t k = GetValue H s k"
  using assms
  by (auto simp: addAssetBalance_def run_simps key_simps dest!: AddBalance_run AddVAIBalance_run
      split: if_splits)

lemma subAsset_econ:
  "subAssetBalance H x AssetVEIL v s = (Inr n, t) \<Longrightarrow>
    unat v \<le> eVeil (economy_of H s) x \<and> economy_of H t = debit_veil x (unat v) (economy_of H s)"
  "subAssetBalance H x AssetVAI v s = (Inr n, t) \<Longrightarrow>
    unat v \<le> eVai (economy_of H s) x \<and> economy_of H t = debit_vai x (unat v) (economy_of H s)"
  by (auto simp: subAssetBalance_def econ_SubBalance econ_SubVAIBalance)

lemma addAsset_econ:
  "addAssetBalance H x AssetVEIL v s = (Inr n, t) \<Longrightarrow>
    economy_of H t = credit_veil x (unat v) (economy_of H s)"
  "addAssetBalance H x AssetVAI v s = (Inr n, t) \<Longrightarrow>
    economy_of H t = credit_vai x (unat v) (economy_of H s)"
  by (auto simp: addAssetBalance_def econ_AddBalance econ_AddVAIBalance)

lemma AddLiquidity_run:
  assumes "AddLiquidity_Execute H a actor s = (Inr r, t)"
  obtains p v w minted r0 r1 lp n m x u0 u1 u2 where
    "al_Asset0 a = 0 \<and> al_Asset1 a = 1 \<or> al_Asset0 a = 1 \<and> al_Asset1 a = 0"
    "al_Amount0 a \<noteq> 0" "al_Amount1 a \<noteq> 0" "GetPool H s 0 1 = Inr p"
    "mapPairAmounts (al_Asset0 a) (al_Asset1 a) (al_Amount0 a) (al_Amount1 a) p = Inr (v, w)"
    "subAssetBalance H actor (al_Asset0 a) (al_Amount0 a) s = (Inr n, u0)"
    "subAssetBalance H actor (al_Asset1 a) (al_Amount1 a) u0 = (Inr m, u1)"
    "mintedShares H p v w = Inr minted" "minted \<noteq> 0" "al_MinLP a \<le> minted"
    "unat r0 = unat (p_Reserve0 p) + unat v" "unat r1 = unat (p_Reserve1 p) + unat w"
    "unat lp = unat (p_TotalLP p) + unat minted"
    "PutPool H (p\<lparr>p_Reserve0 := r0, p_Reserve1 := r1, p_TotalLP := lp\<rparr>) u1 = (Inr (), u2)"
    "AddLPBalance H (p_Asset0 p) (p_Asset1 p) actor minted u2 = (Inr x, t)"
    "r = \<lparr>al_MintedLP = minted, al_LPBalance = x, al_Reserve0 = r0, al_Reserve1 = r1,
          al_TotalLP = lp\<rparr>"
proof -
  from assms have pair: "al_Asset0 a = 0 \<and> al_Asset1 a = 1 \<or> al_Asset0 a = 1 \<and> al_Asset1 a = 0"
    by (auto simp: AddLiquidity_Execute_def run_simps)
  then have "GetPool H s (al_Asset0 a) (al_Asset1 a) = GetPool H s 0 1"
    by (auto simp: GetPool_pair)
  with assms pair show thesis
    by (auto simp: AddLiquidity_Execute_def run_simps Let_def not_less split: prod.splits
        dest!: add_unat intro: that)
qed

lemma mintedShares_fair:
  assumes "mintedShares H p v w = Inr n" and "p_TotalLP p \<noteq> 0"
  shows "unat n * unat (p_Reserve0 p) \<le> unat v * unat (p_TotalLP p)"
    and "unat n * unat (p_Reserve1 p) \<le> unat w * unat (p_TotalLP p)"
proof -
  from assms obtain l0 l1 where l0: "mulDiv v (p_TotalLP p) (p_Reserve0 p) = Inr l0"
    and l1: "mulDiv w (p_TotalLP p) (p_Reserve1 p) = Inr l1" and n: "n = min l0 l1"
    by (auto simp: mintedShares_def minU64_min split: if_splits sum.splits)
  have "unat n \<le> unat l0" "unat n \<le> unat l1" by (simp_all add: n word_le_nat_alt [symmetric])
  then show "unat n * unat (p_Reserve0 p) \<le> unat v * unat (p_TotalLP p)"
    and "unat n * unat (p_Reserve1 p) \<le> unat w * unat (p_TotalLP p)"
    using mulDiv_le(1) [OF l0] mulDiv_le(1) [OF l1] by (meson mult_le_mono1 order_trans)+
qed

lemma mintedShares_first:
  assumes "mintedShares H p v w = Inr n" and "p_TotalLP p = 0"
  shows "(unat n)\<^sup>2 \<le> unat v * unat w" and "unat v * unat w < (unat n + 1)\<^sup>2"
proof -
  from assms obtain k where k: "smath_Mul H v w = Inr k" and n: "intSqrt k = Inr n"
    by (auto simp: mintedShares_def split: sum.splits)
  then have "k \<noteq> - 1" using intSqrt_max_panics by auto
  with n k show "(unat n)\<^sup>2 \<le> unat v * unat w" and "unat v * unat w < (unat n + 1)\<^sup>2"
    using intSqrt_spec [of k] by (auto dest!: mul_unat)
qed

lemma econ_AddLiquidity:
  assumes "AddLiquidity_Execute H a actor s = (Inr r, t)" and "pool_wf H s"
  shows "econ_step (economy_of H s) (economy_of H t) \<and> pool_wf H t"
  using assms(1)
proof (elim AddLiquidity_run)
  fix p :: Pool and v w n r0 r1 lp k m x u0 u1 u2
  let ?q = "p\<lparr>p_Reserve0 := r0, p_Reserve1 := r1, p_TotalLP := lp\<rparr>"
  assume pair: "al_Asset0 a = 0 \<and> al_Asset1 a = 1 \<or> al_Asset0 a = 1 \<and> al_Asset1 a = 0"
    and nz: "al_Amount0 a \<noteq> 0" "al_Amount1 a \<noteq> 0" and p: "GetPool H s 0 1 = Inr p"
    and amounts: "mapPairAmounts (al_Asset0 a) (al_Asset1 a) (al_Amount0 a) (al_Amount1 a) p = Inr (v, w)"
    and sub: "subAssetBalance H actor (al_Asset0 a) (al_Amount0 a) s = (Inr k, u0)"
      "subAssetBalance H actor (al_Asset1 a) (al_Amount1 a) u0 = (Inr m, u1)"
    and n: "mintedShares H p v w = Inr n" "n \<noteq> 0"
    and sums: "unat r0 = unat (p_Reserve0 p) + unat v" "unat r1 = unat (p_Reserve1 p) + unat w"
      "unat lp = unat (p_TotalLP p) + unat n"
    and put: "PutPool H ?q u1 = (Inr (), u2)"
      "AddLPBalance H (p_Asset0 p) (p_Asset1 p) actor n u2 = (Inr x, t)"
  have ok: "pool_ok p" using pool_wfD [OF assms(2) p] .
  then have as: "p_Asset0 p = 0" "p_Asset1 p = 1" by (auto simp: pool_ok_def)
  have debit: "unat v \<le> eVeil (economy_of H s) actor \<and> unat w \<le> eVai (economy_of H s) actor
    \<and> economy_of H u1 = debit_vai actor (unat w) (debit_veil actor (unat v) (economy_of H s))
    \<and> v \<noteq> 0 \<and> w \<noteq> 0"
    using pair amounts sub nz by (auto simp: mapPairAmounts_def as debits_commute econ_ops dest!: subAsset_econ)
  have end_state: "economy_of H t = credit_shares actor (unat n) (set_pool ?q
      (debit_vai actor (unat w) (debit_veil actor (unat v) (economy_of H s))))"
    using econ_AddLPBalance [of actor n u2 x t] econ_PutPool [OF put(1)] put(2) debit as by simp
  have fair: "unat (p_Reserve0 p) * unat (p_TotalLP ?q) \<le> unat (p_Reserve0 ?q) * unat (p_TotalLP p)"
    "unat (p_Reserve1 p) * unat (p_TotalLP ?q) \<le> unat (p_Reserve1 ?q) * unat (p_TotalLP p)"
    if "p_TotalLP p \<noteq> 0"
    using mintedShares_fair [OF n(1) that] by (simp_all add: sums deposit_no_dilution)
  have "econ_step (economy_of H s) (economy_of H t)"
    unfolding end_state
    by (rule econ_step.deposit [where p = p]) (use debit p n sums fair in \<open>auto simp: economy_fields unat_gt_0\<close>)
  moreover have "pool_wf H t"
    using ok by (simp add: pool_wf_economy end_state econ_ops pool_ok_def)
  ultimately show ?thesis ..
qed

lemma RemoveLiquidity_run:
  assumes "RemoveLiquidity_Execute H a actor s = (Inr r, t)"
  obtains p v w m0 m1 r0 r1 lp x k m u0 u1 u2 where
    "rl_Asset0 a = 0 \<and> rl_Asset1 a = 1 \<or> rl_Asset0 a = 1 \<and> rl_Asset1 a = 0"
    "rl_LPAmount a \<noteq> 0" "GetPool H s 0 1 = Inr p" "p_TotalLP p \<noteq> 0"
    "p_Reserve0 p \<noteq> 0" "p_Reserve1 p \<noteq> 0"
    "mapPairAmounts (rl_Asset0 a) (rl_Asset1 a) (rl_MinAmount0 a) (rl_MinAmount1 a) p = Inr (m0, m1)"
    "mulDiv (rl_LPAmount a) (p_Reserve0 p) (p_TotalLP p) = Inr v"
    "mulDiv (rl_LPAmount a) (p_Reserve1 p) (p_TotalLP p) = Inr w"
    "v \<noteq> 0" "w \<noteq> 0" "m0 \<le> v" "m1 \<le> w"
    "unat v \<le> unat (p_Reserve0 p) \<and> unat r0 = unat (p_Reserve0 p) - unat v"
    "unat w \<le> unat (p_Reserve1 p) \<and> unat r1 = unat (p_Reserve1 p) - unat w"
    "unat (rl_LPAmount a) \<le> unat (p_TotalLP p) \<and> unat lp = unat (p_TotalLP p) - unat (rl_LPAmount a)"
    "PutPool H (p\<lparr>p_Reserve0 := r0, p_Reserve1 := r1, p_TotalLP := lp\<rparr>) s = (Inr (), u0)"
    "SubLPBalance H (p_Asset0 p) (p_Asset1 p) actor (rl_LPAmount a) u0 = (Inr x, u1)"
    "addAssetBalance H actor (p_Asset0 p) v u1 = (Inr k, u2)"
    "addAssetBalance H actor (p_Asset1 p) w u2 = (Inr m, t)"
    "rl_LPBalance r = x" "rl_Reserve0 r = r0" "rl_Reserve1 r = r1" "rl_TotalLP r = lp"
proof -
  from assms have pair: "rl_Asset0 a = 0 \<and> rl_Asset1 a = 1 \<or> rl_Asset0 a = 1 \<and> rl_Asset1 a = 0"
    by (auto simp: RemoveLiquidity_Execute_def run_simps)
  then have "GetPool H s (rl_Asset0 a) (rl_Asset1 a) = GetPool H s 0 1"
    by (auto simp: GetPool_pair)
  with assms pair show thesis
    by (auto simp: RemoveLiquidity_Execute_def run_simps Let_def not_less split: prod.splits
        dest!: sub_unat intro: that)
qed

lemma RemoveLiquidity_outcome:
  assumes "RemoveLiquidity_Execute H a actor s = (Inr r, t)" and "pool_wf H s"
  obtains p q where "GetPool H s 0 1 = Inr p" "pool_ok q"
    "withdrawn (economy_of H s) (economy_of H t) actor (unat (rl_LPAmount a)) p q"
  using assms(1)
proof (elim RemoveLiquidity_run)
  fix p :: Pool and v w r0 r1 lp x k m u0 u1 u2
  let ?q = "p\<lparr>p_Reserve0 := r0, p_Reserve1 := r1, p_TotalLP := lp\<rparr>" and ?n = "rl_LPAmount a"
  assume nz: "?n \<noteq> 0" and p: "GetPool H s 0 1 = Inr p"
    and v: "mulDiv ?n (p_Reserve0 p) (p_TotalLP p) = Inr v"
    and w: "mulDiv ?n (p_Reserve1 p) (p_TotalLP p) = Inr w"
    and diffs: "unat v \<le> unat (p_Reserve0 p) \<and> unat r0 = unat (p_Reserve0 p) - unat v"
      "unat w \<le> unat (p_Reserve1 p) \<and> unat r1 = unat (p_Reserve1 p) - unat w"
      "unat ?n \<le> unat (p_TotalLP p) \<and> unat lp = unat (p_TotalLP p) - unat ?n"
    and put: "PutPool H ?q s = (Inr (), u0)"
    and lp: "SubLPBalance H (p_Asset0 p) (p_Asset1 p) actor ?n u0 = (Inr x, u1)"
    and add: "addAssetBalance H actor (p_Asset0 p) v u1 = (Inr k, u2)"
      "addAssetBalance H actor (p_Asset1 p) w u2 = (Inr m, t)"
  have ok: "pool_ok p" using pool_wfD [OF assms(2) p] .
  then have as: "p_Asset0 p = 0" "p_Asset1 p = 1" by (auto simp: pool_ok_def)
  have e0: "economy_of H u0 = set_pool ?q (economy_of H s)" using econ_PutPool [OF put] as by simp
  have e1: "unat ?n \<le> eShares (economy_of H u0) actor"
    "economy_of H u1 = debit_shares actor (unat ?n) (economy_of H u0)"
    using econ_SubLPBalance [of actor ?n u0 x u1] lp as by auto
  have end_state: "economy_of H t = credit_vai actor (unat w) (credit_veil actor (unat v)
      (debit_shares actor (unat ?n) (set_pool ?q (economy_of H s))))"
    using addAsset_econ(1) [of actor v u1 k u2] addAsset_econ(2) [of actor w u2 m t] add e0 e1 as
    by simp
  have held: "unat ?n \<le> eShares (economy_of H s) actor" using e0 e1(1) by (simp add: econ_ops)
  have "withdrawn (economy_of H s) (economy_of H t) actor (unat ?n) p ?q"
    using nz held diffs v w by (auto simp: withdrawn_def end_state mulDiv_Inr unat_gt_0)
  moreover have "pool_ok ?q" using ok by (simp add: pool_ok_def)
  ultimately show thesis using that p by blast
qed

lemma econ_RemoveLiquidity:
  assumes "RemoveLiquidity_Execute H a actor s = (Inr r, t)" and "pool_wf H s"
  shows "econ_step (economy_of H s) (economy_of H t) \<and> pool_wf H t"
proof -
  obtain p q where p: "GetPool H s 0 1 = Inr p" and ok: "pool_ok q"
    and wd: "withdrawn (economy_of H s) (economy_of H t) actor (unat (rl_LPAmount a)) p q"
    using RemoveLiquidity_outcome [OF assms] .
  have eq: "economy_of H t = credit_vai actor (unat (rl_LPAmount a) * unat (p_Reserve1 p) div unat (p_TotalLP p))
      (credit_veil actor (unat (rl_LPAmount a) * unat (p_Reserve0 p) div unat (p_TotalLP p))
        (debit_shares actor (unat (rl_LPAmount a)) (set_pool q (economy_of H s))))"
    using wd by (simp add: withdrawn_def Let_def)
  have "econ_step (economy_of H s) (economy_of H t)"
    unfolding eq
    by (rule econ_step.withdraw [where p = p])
      (use wd p in \<open>simp_all add: withdrawn_def Let_def economy_fields(4)\<close>)
  moreover have "pool_wf H t"
    using eq ok by (simp add: pool_wf_economy econ_ops)
  ultimately show ?thesis ..
qed

lemma SwapExactIn_run:
  assumes "SwapExactIn_Execute H a actor s = (Inr r, t)"
  obtains p in0 rin rout f den out q n u0 u1 where
    "sw_AssetIn a = 0 \<and> sw_AssetOut a = 1 \<or> sw_AssetIn a = 1 \<and> sw_AssetOut a = 0"
    "sw_AmountIn a \<noteq> 0" "GetPool H s 0 1 = Inr p" "swapSides a p = Inr (in0, rin, rout)"
    "rin \<noteq> 0" "rout \<noteq> 0"
    "subAssetBalance H actor (sw_AssetIn a) (sw_AmountIn a) s = (Inr n, u0)"
    "mulDiv (sw_AmountIn a) (ucast (10000 - p_FeeBips p)) 10000 = Inr f" "f \<noteq> 0"
    "unat den = unat rin + unat f" "mulDiv rout f den = Inr out" "out \<noteq> 0"
    "sw_MinAmountOut a \<le> out" "swapReserves H in0 p (sw_AmountIn a) out = Inr q"
    "PutPool H q u0 = (Inr (), u1)"
    "addAssetBalance H actor (sw_AssetOut a) out u1 = (Inr (sw_ReceiverBalance r), t)"
    "sw_AmountOut r = out" "sw_Reserve0 r = p_Reserve0 q" "sw_Reserve1 r = p_Reserve1 q"
proof -
  from assms have pair: "sw_AssetIn a = 0 \<and> sw_AssetOut a = 1 \<or> sw_AssetIn a = 1 \<and> sw_AssetOut a = 0"
    by (auto simp: SwapExactIn_Execute_def run_simps)
  then have "GetPool H s (sw_AssetIn a) (sw_AssetOut a) = GetPool H s 0 1"
    by (auto simp: GetPool_pair)
  with assms pair show thesis
    by (auto simp: SwapExactIn_Execute_def run_simps not_less split: prod.splits
        dest!: add_unat intro: that)
qed

lemma swapReserves_Inr:
  assumes "swapReserves H in0 p x y = Inr q"
  shows "p_Asset0 q = p_Asset0 p \<and> p_Asset1 q = p_Asset1 p \<and> p_FeeBips q = p_FeeBips p
    \<and> p_TotalLP q = p_TotalLP p
    \<and> (in0 \<longrightarrow> unat (p_Reserve0 q) = unat (p_Reserve0 p) + unat x
         \<and> unat (p_Reserve1 q) + unat y = unat (p_Reserve1 p))
    \<and> (\<not> in0 \<longrightarrow> unat (p_Reserve1 q) = unat (p_Reserve1 p) + unat x
         \<and> unat (p_Reserve0 q) + unat y = unat (p_Reserve0 p))"
  using assms by (auto simp: swapReserves_def split: if_splits sum.splits dest!: add_unat sub_unat)

text \<open>The quote: the fee only lowers the input, and the output leaves the product no smaller.\<close>

lemma swap_quote:
  assumes "mulDiv x (ucast (10000 - fee :: u16)) 10000 = Inr f" and "unat den = unat rin + unat f"
    and "mulDiv rout f den = Inr out" and "rin \<noteq> 0" and "rout \<noteq> 0" and "fee \<le> 1000"
  shows "unat f \<le> unat x" and "unat out < unat rout"
    and "unat rin * unat rout \<le> (unat rin + unat x) * (unat rout - unat out)"
proof -
  have "fee \<le> 10000" using assms(6) by (simp add: word_le_nat_alt)
  then have "unat (10000 - fee) \<le> 10000" by (simp add: unat_sub_exact)
  moreover have "unat (ucast (10000 - fee) :: u64) = unat (10000 - fee)"
    using unsigned_less [of "10000 - fee", where ?'a = nat]
    by (simp add: unsigned_ucast_eq take_bit_nat_eq_self)
  ultimately have "unat x * unat (ucast (10000 - fee) :: u64) \<le> unat x * 10000" by simp
  moreover have "unat f * 10000 \<le> unat x * unat (ucast (10000 - fee) :: u64)"
    using mulDiv_le(1) [OF assms(1)] by simp
  ultimately show fx: "unat f \<le> unat x" by linarith
  have "unat out * (unat rin + unat f) \<le> unat rout * unat f"
    using mulDiv_le(1) [OF assms(3)] assms(2) by simp
  from swap_keeps_product [OF fx this] assms(4,5)
  show "unat out < unat rout"
    and "unat rin * unat rout \<le> (unat rin + unat x) * (unat rout - unat out)"
    by (simp_all add: unat_gt_0)
qed

lemma SwapExactIn_outcome:
  assumes "SwapExactIn_Execute H a actor s = (Inr r, t)" and "pool_wf H s"
  obtains p q where "GetPool H s 0 1 = Inr p" "pool_ok p" "pool_ok q"
    "sw_AmountIn a \<noteq> 0" "sw_AmountOut r \<noteq> 0" "sw_MinAmountOut a \<le> sw_AmountOut r"
    "swapped (economy_of H s) (economy_of H t) actor a (unat (sw_AmountOut r)) p q"
  using assms(1)
proof (elim SwapExactIn_run)
  fix p q :: Pool and in0 rin rout f den out n u0 u1
  assume pair: "sw_AssetIn a = 0 \<and> sw_AssetOut a = 1 \<or> sw_AssetIn a = 1 \<and> sw_AssetOut a = 0"
    and nz: "sw_AmountIn a \<noteq> 0" and p: "GetPool H s 0 1 = Inr p"
    and sides: "swapSides a p = Inr (in0, rin, rout)" and res: "rin \<noteq> 0" "rout \<noteq> 0"
    and sub: "subAssetBalance H actor (sw_AssetIn a) (sw_AmountIn a) s = (Inr n, u0)"
    and quote: "mulDiv (sw_AmountIn a) (ucast (10000 - p_FeeBips p)) 10000 = Inr f"
      "unat den = unat rin + unat f" "mulDiv rout f den = Inr out"
    and out: "out \<noteq> 0" "sw_MinAmountOut a \<le> out" "sw_AmountOut r = out"
    and q: "swapReserves H in0 p (sw_AmountIn a) out = Inr q" and put: "PutPool H q u0 = (Inr (), u1)"
    and add: "addAssetBalance H actor (sw_AssetOut a) out u1 = (Inr (sw_ReceiverBalance r), t)"
  have ok: "pool_ok p" using pool_wfD [OF assms(2) p] .
  then have as: "p_Asset0 p = 0" "p_Asset1 p = 1" and fee: "p_FeeBips p \<le> 1000"
    by (auto simp: pool_ok_def)
  note fair = swap_quote [OF quote res fee]
  note q' = swapReserves_Inr [OF q]
  have okq: "pool_ok q" using ok q' by (simp add: pool_ok_def)
  have e1: "economy_of H u1 = set_pool q (economy_of H u0)" using econ_PutPool [OF put] as q' by simp
  have in0: "in0 \<longleftrightarrow> sw_AssetIn a = 0" "rin = (if in0 then p_Reserve0 p else p_Reserve1 p)"
    "rout = (if in0 then p_Reserve1 p else p_Reserve0 p)" "sw_AssetOut a = (if in0 then 1 else 0)"
    using pair sides as by (auto simp: swapSides_def)
  have r0: "in0 \<Longrightarrow> unat (p_Reserve1 q) = unat (p_Reserve1 p) - unat out"
    and r1: "\<not> in0 \<Longrightarrow> unat (p_Reserve0 q) = unat (p_Reserve0 p) - unat out"
    using q' by auto
  have "swapped (economy_of H s) (economy_of H t) actor a (unat out) p q"
  proof (cases in0)
    case True
    with sub add e1 in0 have "unat (sw_AmountIn a) \<le> eVeil (economy_of H s) actor
      \<and> economy_of H t = credit_vai actor (unat out) (set_pool q
          (debit_veil actor (unat (sw_AmountIn a)) (economy_of H s)))"
      by (auto dest!: subAsset_econ addAsset_econ)
    with True in0 fair res q' r0 show ?thesis by (auto simp: swapped_def simp flip: unat_gt_0)
  next
    case False
    with pair in0 have "sw_AssetIn a = 1" by auto
    with False sub add e1 in0 have "unat (sw_AmountIn a) \<le> eVai (economy_of H s) actor
      \<and> economy_of H t = credit_veil actor (unat out) (set_pool q
          (debit_vai actor (unat (sw_AmountIn a)) (economy_of H s)))"
      by (auto dest!: subAsset_econ addAsset_econ)
    with False in0 fair res q' r1 show ?thesis
      by (auto simp: swapped_def mult.commute simp flip: unat_gt_0)
  qed
  with that [OF p ok okq nz] out show thesis by simp
qed

lemma econ_SwapExactIn:
  assumes "SwapExactIn_Execute H a actor s = (Inr r, t)" and "pool_wf H s"
  shows "econ_step (economy_of H s) (economy_of H t) \<and> pool_wf H t"
  using assms
proof (rule SwapExactIn_outcome)
  fix p q :: Pool
  assume p: "GetPool H s 0 1 = Inr p" and ok: "pool_ok q" and nz: "sw_AmountIn a \<noteq> 0"
    and sw: "swapped (economy_of H s) (economy_of H t) actor a (unat (sw_AmountOut r)) p q"
  have pool: "ePool (economy_of H s) = Some p" using p by (simp add: economy_fields)
  have pos: "0 < unat (sw_AmountIn a)" using nz by (simp add: unat_gt_0)
  have "econ_step (economy_of H s) (economy_of H t)"
    using sw pool pos econ_step.swap_veil_in econ_step.swap_vai_in
    by (auto simp: swapped_def split: if_splits)
  moreover have "pool_wf H t"
    using sw ok by (auto simp: swapped_def pool_wf_economy econ_ops split: if_splits)
  ultimately show ?thesis ..
qed

lemma econ_CreatePool:
  assumes "CreatePool_Execute H a actor s = (Inr r, t)"
  shows "econ_step (economy_of H s) (economy_of H t) \<and> pool_wf H t"
  using assms
proof (elim CreatePool_run)
  let ?p = "\<lparr>p_Asset0 = 0, p_Asset1 = 1, p_FeeBips = cp_FeeBips a, p_Reserve0 = 0, p_Reserve1 = 0,
    p_TotalLP = 0\<rparr>"
  assume none: "GetPool H s 0 1 = Inl ErrPoolNotFound" and put: "PutPool H ?p s = (Inr (), t)"
    and fee: "MinPoolFeeBips \<le> cp_FeeBips a" "cp_FeeBips a \<le> MaxPoolFeeBips"
  have end_state: "economy_of H t = set_pool ?p (economy_of H s)" using econ_PutPool [OF put] by simp
  have "econ_step (economy_of H s) (economy_of H t)"
    unfolding end_state by (rule econ_step.create) (use none in \<open>simp_all add: economy_fields\<close>)
  then show ?thesis using fee by (simp add: pool_wf_economy end_state econ_ops pool_ok_def)
qed

section \<open>Declared keys\<close>

lemma CreatePool_confined:
  assumes "CreatePool_Execute H a actor s = (Inr r, t)"
  shows "confined H (CreatePool_StateKeys H a actor) s t"
  using assms
  by (elim CreatePool_run)
    (auto dest!: market_put_run(5)
      simp: confined_def CreatePool_StateKeys_def Keys_def writable_def key_simps split: if_splits)

lemma pool_keys:
  assumes "mapPairAmounts a b x y p = Inr z"
  shows "PoolKey H (p_Asset0 p) (p_Asset1 p) = PoolKey H a b"
    and "LPBalanceKey H (p_Asset0 p) (p_Asset1 p) actor = LPBalanceKey H a b actor"
  using assms by (auto simp: mapPairAmounts_def key_simps min.commute max.commute split: if_splits)

lemma AddLiquidity_confined:
  assumes "AddLiquidity_Execute H a actor s = (Inr r, t)"
  shows "confined H (AddLiquidity_StateKeys H a actor) s t"
  using assms
proof (elim AddLiquidity_run)
  fix p :: Pool and v w n r0 r1 lp k m x u0 u1 u2
  assume amounts: "mapPairAmounts (al_Asset0 a) (al_Asset1 a) (al_Amount0 a) (al_Amount1 a) p = Inr (v, w)"
    and sub: "subAssetBalance H actor (al_Asset0 a) (al_Amount0 a) s = (Inr k, u0)"
      "subAssetBalance H actor (al_Asset1 a) (al_Amount1 a) u0 = (Inr m, u1)"
    and put: "PutPool H (p\<lparr>p_Reserve0 := r0, p_Reserve1 := r1, p_TotalLP := lp\<rparr>) u1 = (Inr (), u2)"
    and add: "AddLPBalance H (p_Asset0 p) (p_Asset1 p) actor n u2 = (Inr x, t)"
  show ?thesis
    using put AddLPBalance_run [OF add] pool_keys [OF amounts] subAsset_frame [OF sub(1)]
      subAsset_frame [OF sub(2)]
    by (auto simp: PutPool_def confined_def AddLiquidity_StateKeys_def keys_simps split: if_splits
        dest!: insert_get)
qed

lemma RemoveLiquidity_confined:
  assumes "RemoveLiquidity_Execute H a actor s = (Inr r, t)"
  shows "confined H (RemoveLiquidity_StateKeys H a actor) s t"
  using assms
proof (elim RemoveLiquidity_run)
  fix p :: Pool and v w m0 m1 r0 r1 lp x k m u0 u1 u2
  assume mins: "mapPairAmounts (rl_Asset0 a) (rl_Asset1 a) (rl_MinAmount0 a) (rl_MinAmount1 a) p
      = Inr (m0, m1)"
    and put: "PutPool H (p\<lparr>p_Reserve0 := r0, p_Reserve1 := r1, p_TotalLP := lp\<rparr>) s = (Inr (), u0)"
    and sub: "SubLPBalance H (p_Asset0 p) (p_Asset1 p) actor (rl_LPAmount a) u0 = (Inr x, u1)"
    and add: "addAssetBalance H actor (p_Asset0 p) v u1 = (Inr k, u2)"
      "addAssetBalance H actor (p_Asset1 p) w u2 = (Inr m, t)"
  show ?thesis
    using put SubLPBalance_run [OF sub] pool_keys [OF mins] addAsset_frame [OF add(1)]
      addAsset_frame [OF add(2)]
    by (auto simp: PutPool_def confined_def RemoveLiquidity_StateKeys_def keys_simps split: if_splits
        dest!: insert_get)
qed

lemma SwapExactIn_confined:
  assumes "SwapExactIn_Execute H a actor s = (Inr r, t)"
  shows "confined H (SwapExactIn_StateKeys H a actor) s t"
  using assms
proof (elim SwapExactIn_run)
  fix p q :: Pool and in0 rin rout f den out n u0 u1
  assume sides: "swapSides a p = Inr (in0, rin, rout)"
    and sub: "subAssetBalance H actor (sw_AssetIn a) (sw_AmountIn a) s = (Inr n, u0)"
    and q: "swapReserves H in0 p (sw_AmountIn a) out = Inr q" and put: "PutPool H q u0 = (Inr (), u1)"
    and add: "addAssetBalance H actor (sw_AssetOut a) out u1 = (Inr (sw_ReceiverBalance r), t)"
  have key: "PoolKey H (p_Asset0 q) (p_Asset1 q) = PoolKey H (sw_AssetIn a) (sw_AssetOut a)"
    using sides swapReserves_Inr [OF q]
    by (auto simp: swapSides_def key_simps min.commute max.commute split: if_splits)
  show ?thesis
    using put key subAsset_frame [OF sub] addAsset_frame [OF add]
    by (auto simp: PutPool_def confined_def SwapExactIn_StateKeys_def keys_simps split: if_splits
        dest!: insert_get)
qed

end

sublocale host_env \<subseteq> create_pool: declared_action H "CreatePool_StateKeys H"
    "\<lambda>a now actor. CreatePool_Execute H a actor"
  by unfold_locales (rule CreatePool_confined)

sublocale host_env \<subseteq> add_liquidity: declared_action H "AddLiquidity_StateKeys H"
    "\<lambda>a now actor. AddLiquidity_Execute H a actor"
  by unfold_locales (rule AddLiquidity_confined)

sublocale host_env \<subseteq> remove_liquidity: declared_action H "RemoveLiquidity_StateKeys H"
    "\<lambda>a now actor. RemoveLiquidity_Execute H a actor"
  by unfold_locales (rule RemoveLiquidity_confined)

sublocale host_env \<subseteq> swap: declared_action H "SwapExactIn_StateKeys H"
    "\<lambda>a now actor. SwapExactIn_Execute H a actor"
  by unfold_locales (rule SwapExactIn_confined)

section \<open>Properties\<close>

lemma sample_pool_wf: "pool_wf mem_host sample"
  by (simp add: pool_wf_def GetPool_def key_simps run_mem sample_def sample_slots_def pool_ok_def
      sample_pool_def [symmetric]) (simp add: sample_pool_def)

definition sample_swap :: SwapExactIn where
  "sample_swap = \<lparr>sw_AssetIn = AssetVEIL, sw_AssetOut = AssetVAI, sw_AmountIn = 100, sw_MinAmountOut = 300\<rparr>"

lemma sample_swap_run:
  "fst (SwapExactIn_Execute mem_host sample_swap alice sample)
    = Inr \<lparr>sw_AmountOut = 360, sw_ReceiverBalance = 5360, sw_Reserve0 = 1100, sw_Reserve1 = 3640\<rparr>"
  by (simp add: SwapExactIn_Execute_def run_mem_defs sample_defs sample_swap_def validateAssetPair_def
      isSupportedAsset_def swapSides_def subAssetBalance_def addAssetBalance_def mulDiv_def
      swapReserves_def)

text \<open>
  C18: A successful swap keeps the constant product: the product of the reserves does not shrink, the
  shares outstanding are untouched, the pool receives exactly the input and pays exactly the output,
  the caller is debited and credited those amounts, the output side is not emptied, and the
  caller gets at least the minimum asked for.
\<close>

theorem swap_keeps_constant_product:
  assumes "host_env H" and "pool_wf H s" and "SwapExactIn_Execute H a actor s = (Inr r, t)"
  shows "\<exists>p q. GetPool H s AssetVEIL AssetVAI = Inr p \<and> GetPool H t AssetVEIL AssetVAI = Inr q
    \<and> sw_MinAmountOut a \<le> sw_AmountOut r
    \<and> swapped (economy_of H s) (economy_of H t) actor a (unat (sw_AmountOut r)) p q"
proof -
  obtain p q where "GetPool H s 0 1 = Inr p" "sw_MinAmountOut a \<le> sw_AmountOut r"
    and sw: "swapped (economy_of H s) (economy_of H t) actor a (unat (sw_AmountOut r)) p q"
    using host_env.SwapExactIn_outcome [OF assms(1,3,2)] by blast
  moreover from sw have "ePool (economy_of H t) = Some q"
    by (auto simp: swapped_def econ_ops split: if_splits)
  then have "GetPool H t 0 1 = Inr q" by (simp add: economy_fields)
  ultimately show ?thesis by blast
qed

theorem swap_keeps_constant_product_witness:
  "\<exists>p q. GetPool mem_host sample AssetVEIL AssetVAI = Inr p
    \<and> GetPool mem_host (snd (SwapExactIn_Execute mem_host sample_swap alice sample)) AssetVEIL AssetVAI
        = Inr q
    \<and> sw_MinAmountOut sample_swap \<le> 360
    \<and> swapped (economy_of mem_host sample)
        (economy_of mem_host (snd (SwapExactIn_Execute mem_host sample_swap alice sample)))
        alice sample_swap 360 p q"
  using swap_keeps_constant_product [OF mem_host_env sample_pool_wf run_ok [OF sample_swap_run]]
  by simp

text \<open>
  C19: A deposit never dilutes the holders of shares. The first deposit earns the integer square root of
  the product of its amounts; a later deposit earns no more than its part of either reserve.
\<close>

theorem deposit_shares_fair:
  assumes "host_env H" and "mintedShares H pool v w = Inr n"
  shows "if p_TotalLP pool = 0
    then (unat n)\<^sup>2 \<le> unat v * unat w \<and> unat v * unat w < (unat n + 1)\<^sup>2
    else unat (p_Reserve0 pool) * (unat (p_TotalLP pool) + unat n)
          \<le> (unat (p_Reserve0 pool) + unat v) * unat (p_TotalLP pool)
      \<and> unat (p_Reserve1 pool) * (unat (p_TotalLP pool) + unat n)
          \<le> (unat (p_Reserve1 pool) + unat w) * unat (p_TotalLP pool)"
  using host_env.mintedShares_first [OF assms] host_env.mintedShares_fair [OF assms]
  by (simp add: deposit_no_dilution)

theorem deposit_shares_fair_witness:
  "mintedShares mem_host sample_pool 10 20 = Inr 10
    \<and> 1000 * (2000 + unat (10 :: u64)) \<le> (1000 + unat (10 :: u64)) * 2000"
  using deposit_shares_fair [OF mem_host_env, of sample_pool 10 20 10]
  by (simp add: mintedShares_def sample_pool_def mulDiv_def minU64_def)

text \<open>
  The square root divides by zero on the largest word, and a first deposit reaches it: amounts
  whose product is \<open>2^64 - 1\<close> make \<open>AddLiquidity\<close> panic instead of returning an error.
\<close>

theorem first_deposit_can_panic:
  assumes "host_env H" and "p_TotalLP pool = 0" and "unat v * unat w = 2 ^ 64 - 1"
  shows "mintedShares H pool v w = Inl (GoPanic ''integer divide by zero'')"
proof -
  have "smath_Mul H v w = Inr (v * w)"
    using checked_math.mul_fits [OF host_env.axioms(1) [OF assms(1)]] assms(3) by simp
  moreover have "v * w = - 1"
    using assms(3) by (simp add: word_unat_eq_iff unat_word_ariths unat_max_u64)
  ultimately show ?thesis using assms(2) intSqrt_max_panics by (simp add: mintedShares_def)
qed

theorem first_deposit_can_panic_witness:
  "mintedShares mem_host (sample_pool\<lparr>p_TotalLP := 0\<rparr>) 4294967295 4294967297
    = Inl (GoPanic ''integer divide by zero'')"
  using first_deposit_can_panic [OF mem_host_env, of "sample_pool\<lparr>p_TotalLP := 0\<rparr>" 4294967295 4294967297]
  by simp

definition sample_remove :: RemoveLiquidity where
  "sample_remove = \<lparr>rl_Asset0 = AssetVEIL, rl_Asset1 = AssetVAI, rl_LPAmount = 500, rl_MinAmount0 = 1,
     rl_MinAmount1 = 1\<rparr>"

lemma sample_remove_run:
  "fst (RemoveLiquidity_Execute mem_host sample_remove alice sample)
    = Inr \<lparr>rl_Amount0Out = 250, rl_Amount1Out = 1000, rl_LPBalance = 1500, rl_Reserve0 = 750,
        rl_Reserve1 = 3000, rl_TotalLP = 1500\<rparr>"
  by (simp add: RemoveLiquidity_Execute_def run_mem_defs sample_defs sample_remove_def
      validateAssetPair_def isSupportedAsset_def mapPairAmounts_def mapPoolAmountsToPair_def
      addAssetBalance_def mulDiv_def)

text \<open>
  Redeeming shares pays exactly the proportional part of both reserves, rounded down, takes the
  shares from the caller and from the total, and so leaves each remaining share worth at least as
  much of either reserve as before.
\<close>

theorem withdrawal_pro_rata:
  assumes "host_env H" and "pool_wf H s" and "RemoveLiquidity_Execute H a actor s = (Inr r, t)"
  shows "\<exists>p q. GetPool H s AssetVEIL AssetVAI = Inr p \<and> GetPool H t AssetVEIL AssetVAI = Inr q
    \<and> withdrawn (economy_of H s) (economy_of H t) actor (unat (rl_LPAmount a)) p q
    \<and> unat (p_Reserve0 p) * unat (p_TotalLP q) \<le> unat (p_Reserve0 q) * unat (p_TotalLP p)
    \<and> unat (p_Reserve1 p) * unat (p_TotalLP q) \<le> unat (p_Reserve1 q) * unat (p_TotalLP p)"
proof -
  obtain p q where p: "GetPool H s 0 1 = Inr p"
    and wd: "withdrawn (economy_of H s) (economy_of H t) actor (unat (rl_LPAmount a)) p q"
    using host_env.RemoveLiquidity_outcome [OF assms(1,3,2)] .
  from wd have "ePool (economy_of H t) = Some q" by (auto simp: withdrawn_def Let_def econ_ops)
  then have q: "GetPool H t 0 1 = Inr q" by (simp add: economy_fields)
  have fair: "unat r * unat l' \<le> unat r' * unat l"
    if "unat r' + n * unat r div unat l = unat r" "unat l' + n = unat l" for r r' l l' :: u64 and n
    using withdraw_no_dilution [of "n * unat r div unat l" "unat l" n "unat r"] that
    by (metis add_diff_cancel_right' div_times_less_eq_dividend le_add2)
  show ?thesis
    using p q wd by (auto simp: withdrawn_def Let_def intro: fair)
qed

theorem withdrawal_pro_rata_witness:
  "\<exists>p q. GetPool mem_host sample AssetVEIL AssetVAI = Inr p
    \<and> GetPool mem_host (snd (RemoveLiquidity_Execute mem_host sample_remove alice sample))
        AssetVEIL AssetVAI = Inr q
    \<and> unat (p_Reserve0 p) * unat (p_TotalLP q) \<le> unat (p_Reserve0 q) * unat (p_TotalLP p)"
  using withdrawal_pro_rata [OF mem_host_env sample_pool_wf run_ok [OF sample_remove_run]] by blast

end
