(* ===== verification/Go_Std.thy ===== *)
theory Go_Std
  imports Errors "HOL-Library.Signed_Division"
begin

text \<open>
  What the code uses of Go's standard library: \<open>crypto/sha256\<close> (FIPS 180-4, executable),
  \<open>strings.TrimSpace\<close> and the remainder of signed integers.
\<close>

section \<open>SHA-256\<close>

text \<open>The round constants and the initial state of the standard, in decimal.\<close>

definition sha256_K :: "u32 list" where
  "sha256_K =
    [1116352408, 1899447441, 3049323471, 3921009573, 961987163, 1508970993, 2453635748, 2870763221,
     3624381080, 310598401, 607225278, 1426881987, 1925078388, 2162078206, 2614888103, 3248222580,
     3835390401, 4022224774, 264347078, 604807628, 770255983, 1249150122, 1555081692, 1996064986,
     2554220882, 2821834349, 2952996808, 3210313671, 3336571891, 3584528711, 113926993, 338241895,
     666307205, 773529912, 1294757372, 1396182291, 1695183700, 1986661051, 2177026350, 2456956037,
     2730485921, 2820302411, 3259730800, 3345764771, 3516065817, 3600352804, 4094571909, 275423344,
     430227734, 506948616, 659060556, 883997877, 958139571, 1322822218, 1537002063, 1747873779,
     1955562222, 2024104815, 2227730452, 2361852424, 2428436474, 2756734187, 3204031479, 3329325298]"

definition sha256_H0 :: "u32 list" where
  "sha256_H0 =
    [1779033703, 3144134277, 1013904242, 2773480762,
     1359893119, 2600822924, 528734635, 1541459225]"

definition sha_sigma0 :: "u32 \<Rightarrow> u32" where
  "sha_sigma0 x = xor (xor (word_rotr 7 x) (word_rotr 18 x)) (drop_bit 3 x)"

definition sha_sigma1 :: "u32 \<Rightarrow> u32" where
  "sha_sigma1 x = xor (xor (word_rotr 17 x) (word_rotr 19 x)) (drop_bit 10 x)"

definition sha_Sigma0 :: "u32 \<Rightarrow> u32" where
  "sha_Sigma0 x = xor (xor (word_rotr 2 x) (word_rotr 13 x)) (word_rotr 22 x)"

definition sha_Sigma1 :: "u32 \<Rightarrow> u32" where
  "sha_Sigma1 x = xor (xor (word_rotr 6 x) (word_rotr 11 x)) (word_rotr 25 x)"

definition sha_Ch :: "u32 \<Rightarrow> u32 \<Rightarrow> u32 \<Rightarrow> u32" where
  "sha_Ch x y z = xor (and x y) (and (not x) z)"

definition sha_Maj :: "u32 \<Rightarrow> u32 \<Rightarrow> u32 \<Rightarrow> u32" where
  "sha_Maj x y z = xor (xor (and x y) (and x z)) (and y z)"

text \<open>Padding to a multiple of 64 bytes: a one bit, zeros, the length in bits.\<close>

definition sha_pad :: "bytes \<Rightarrow> bytes" where
  "sha_pad m = m @ [0x80] @ replicate (nat ((55 - int (length m)) mod 64)) 0
     @ be_bytes 8 (of_nat (8 * length m) :: u64)"

fun sha_words :: "bytes \<Rightarrow> u32 list" where
  "sha_words (a # b # c # d # rest) = of_be [a, b, c, d] # sha_words rest"
| "sha_words _ = []"

text \<open>The message schedule, kept with the latest word first.\<close>

primrec sha_extend :: "nat \<Rightarrow> u32 list \<Rightarrow> u32 list" where
  "sha_extend 0 ws = ws"
| "sha_extend (Suc n) ws =
     sha_extend n ((sha_sigma1 (ws ! 1) + ws ! 6 + sha_sigma0 (ws ! 14) + ws ! 15) # ws)"

definition sha_schedule :: "bytes \<Rightarrow> u32 list" where
  "sha_schedule block = rev (sha_extend 48 (rev (sha_words block)))"

type_synonym sha_state = "u32 \<times> u32 \<times> u32 \<times> u32 \<times> u32 \<times> u32 \<times> u32 \<times> u32"

definition sha_round :: "sha_state \<Rightarrow> u32 \<times> u32 \<Rightarrow> sha_state" where
  "sha_round st kw = (case (st, kw) of ((a, b, c, d, e, f, g, h), (k, w)) \<Rightarrow>
     let t1 = h + sha_Sigma1 e + sha_Ch e f g + k + w;
         t2 = sha_Sigma0 a + sha_Maj a b c
     in (t1 + t2, a, b, c, d + t1, e, f, g))"

definition sha_block :: "u32 list \<Rightarrow> bytes \<Rightarrow> u32 list" where
  "sha_block hs block =
     (case foldl sha_round (hs ! 0, hs ! 1, hs ! 2, hs ! 3, hs ! 4, hs ! 5, hs ! 6, hs ! 7)
        (zip sha256_K (sha_schedule block)) of
      (a, b, c, d, e, f, g, h) \<Rightarrow> map2 (+) hs [a, b, c, d, e, f, g, h])"

fun sha_blocks :: "u32 list \<Rightarrow> bytes \<Rightarrow> u32 list" where
  "sha_blocks hs m = (if length m < 64 then hs else sha_blocks (sha_block hs (take 64 m)) (drop 64 m))"

declare sha_blocks.simps [simp del]

text \<open>\<open>sha256.Sum256\<close>; the array \<open>[32]byte\<close> it returns is a 256-bit word.\<close>

definition Sum256 :: "bytes \<Rightarrow> Hash32" where
  "Sum256 m = of_be (concat (map (be_bytes 4) (sha_blocks sha256_H0 (sha_pad m))))"

text \<open>Two different messages with the same digest.\<close>

definition sha_collision :: "bytes \<Rightarrow> bytes \<Rightarrow> bool" where
  "sha_collision x y \<longleftrightarrow> x \<noteq> y \<and> Sum256 x = Sum256 y"

section \<open>TrimSpace\<close>

text \<open>The UTF-8 encodings of the characters \<open>unicode.IsSpace\<close> accepts.\<close>

definition space_runes :: "bytes list" where
  "space_runes =
     [[9], [10], [11], [12], [13], [32], [0xC2, 0x85], [0xC2, 0xA0], [0xE1, 0x9A, 0x80],
      [0xE2, 0x80, 0x80], [0xE2, 0x80, 0x81], [0xE2, 0x80, 0x82], [0xE2, 0x80, 0x83],
      [0xE2, 0x80, 0x84], [0xE2, 0x80, 0x85], [0xE2, 0x80, 0x86], [0xE2, 0x80, 0x87],
      [0xE2, 0x80, 0x88], [0xE2, 0x80, 0x89], [0xE2, 0x80, 0x8A], [0xE2, 0x80, 0xA8],
      [0xE2, 0x80, 0xA9], [0xE2, 0x80, 0xAF], [0xE2, 0x81, 0x9F], [0xE3, 0x80, 0x80]]"

function trim_front :: "bytes list \<Rightarrow> bytes \<Rightarrow> bytes" where
  "trim_front ws s =
     (case find (\<lambda>w. w \<noteq> [] \<and> take (length w) s = w) ws of
        None \<Rightarrow> s
      | Some w \<Rightarrow> trim_front ws (drop (length w) s))"
  by pat_completeness auto
termination
proof (relation "measure (\<lambda>(ws, s). length s)")
  fix ws :: "bytes list" and s w
  assume "find (\<lambda>w. w \<noteq> [] \<and> take (length w) s = w) ws = Some w"
  then have "w \<noteq> []" "take (length w) s = w" by (auto simp: find_Some_iff)
  then show "((ws, drop (length w) s), ws, s) \<in> measure (\<lambda>(ws, s). length s)"
    by (cases s) auto
qed simp

declare trim_front.simps [simp del]

definition TrimSpace :: "bytes \<Rightarrow> bytes" where
  "TrimSpace s = rev (trim_front (map rev space_runes) (rev (trim_front space_runes s)))"

lemma trim_front_none:
  "(\<And>w. w \<in> set ws \<Longrightarrow> w \<noteq> [] \<Longrightarrow> take (length w) s \<noteq> w) \<Longrightarrow> trim_front ws s = s"
  by (subst trim_front.simps) (auto simp: find_None_iff find_Some_iff split: option.splits)

lemma trim_front_Nil: "trim_front ws [] = []"
  by (rule trim_front_none) auto

text \<open>A string whose first and last bytes begin and end no space character is not trimmed.\<close>

lemma TrimSpace_id:
  assumes "s \<noteq> []" and "\<And>w. w \<in> set space_runes \<Longrightarrow> hd w \<noteq> hd s"
    and "\<And>w. w \<in> set space_runes \<Longrightarrow> last w \<noteq> last s"
  shows "TrimSpace s = s"
proof -
  have "take (length w) s \<noteq> w" if "w \<in> set space_runes" "w \<noteq> []" for w
  proof
    assume "take (length w) s = w"
    then have "hd w = hd s" using that(2) by (metis hd_take length_greater_0_conv)
    with assms(2) [OF that(1)] show False by simp
  qed
  then have front: "trim_front space_runes s = s" by (intro trim_front_none) auto
  have "take (length w) (rev s) \<noteq> w" if "w \<in> set (map rev space_runes)" "w \<noteq> []" for w
  proof
    assume "take (length w) (rev s) = w"
    then have "hd w = hd (rev s)" using that(2) by (metis hd_take length_greater_0_conv)
    moreover from that(1) obtain v where "w = rev v" "v \<in> set space_runes" by auto
    ultimately show False using assms(1,3) that(2) by (auto simp: hd_rev)
  qed
  then have "trim_front (map rev space_runes) (rev s) = rev s" by (intro trim_front_none) auto
  with front show ?thesis by (simp add: TrimSpace_def)
qed

section \<open>Signed remainder\<close>

text \<open>Go's \<open>a % b\<close> on \<open>int64\<close>: truncated division, with a panic on zero.\<close>

definition go_rem :: "i64 \<Rightarrow> i64 \<Rightarrow> error + i64" where
  "go_rem a b = (if b = 0 then Inl (GoPanic ''integer divide by zero'')
     else Inr (word_of_int (sint a smod sint b)))"

text \<open>A remainder of zero is divisibility: the remainder is representable, so nothing wraps.\<close>

lemma go_rem_zero:
  assumes "go_rem a b = Inr 0"
  shows "sint b dvd sint a"
proof -
  let ?m = "sint a smod sint b"
  have small: "\<bar>k mod \<bar>l\<bar>\<bar> \<le> k" if "0 \<le> k" for k l :: int
    using that zmod_le_nonneg_dividend [of k "\<bar>l\<bar>"] by (cases "l = 0") simp_all
  have "- (2 ^ 63) \<le> sint a" "sint a < 2 ^ 63"
    using sint_greater_eq [of a] sint_lt [of a] by simp_all
  moreover have "\<bar>?m\<bar> \<le> \<bar>sint a\<bar>"
    by (auto simp: signed_modulo_int_def abs_mult sgn_if intro: small)
  ultimately have "\<bar>?m\<bar> \<le> 2 ^ 63" by linarith
  moreover have "2 ^ 64 dvd ?m"
    using assms by (simp add: go_rem_def word_of_int_eq_0_iff split: if_splits)
  ultimately have "?m = 0" using dvd_imp_le_int [of ?m "2 ^ 64"] by fastforce
  then show ?thesis using sdiv_mult_smod_eq [of "sint a" "sint b"] by (metis add.right_neutral dvd_triv_right)
qed

end
