(* ===== verification/Proof_Envelope.thy ===== *)
theory Proof_Envelope
  imports Go_Std Storage_Proof
begin

text \<open>
  What a proof says and how it travels: the canonical public inputs of \<open>actions/proof_hash.go\<close>, the
  envelopes and the verification gate of \<open>actions/proof_verifier.go\<close>, and the derivation of glyphs in
  \<open>actions/glyph.go\<close>.

  The process-wide verifier (\<open>proofVerifier\<close>, \<open>strictProofVerifier\<close>) is the record \<open>verifier_env\<close>;
  an installed \<open>BatchProofVerifier\<close> is any function. The lemmas: parsing inverts building and
  accepts nothing else, the two public-input preimages are injective and never equal, and
  every derived glyph is one the store accepts.
\<close>

section \<open>Public inputs\<close>

abbreviation ClearInputsDomainTag :: bytes where
  "ClearInputsDomainTag \<equiv> go_str ''VEIL_CLEAR_V1''"

abbreviation ShieldedLedgerInputsDomainTag :: bytes where
  "ShieldedLedgerInputsDomainTag \<equiv> go_str ''VEIL_SHIELDED_LEDGER_V1''"

abbreviation ExpectedFillsHashSize :: nat where "ExpectedFillsHashSize \<equiv> 32"

definition BuildClearPublicInputsPreimage :: "ID \<Rightarrow> u64 \<Rightarrow> u64 \<Rightarrow> u64 \<Rightarrow> bytes \<Rightarrow> bytes" where
  "BuildClearPublicInputsPreimage marketID windowID clearPrice totalVolume fillsHash =
     ClearInputsDomainTag @ be_bytes 32 marketID @ be_bytes 8 windowID @ be_bytes 8 clearPrice
     @ be_bytes 8 totalVolume @ be_bytes 2 (of_nat (length fillsHash) :: u16) @ fillsHash"

definition ComputeClearPublicInputsHash :: "ID \<Rightarrow> u64 \<Rightarrow> u64 \<Rightarrow> u64 \<Rightarrow> bytes \<Rightarrow> Hash32" where
  "ComputeClearPublicInputsHash marketID windowID clearPrice totalVolume fillsHash =
     Sum256 (BuildClearPublicInputsPreimage marketID windowID clearPrice totalVolume fillsHash)"

definition BuildShieldedLedgerPublicInputsPreimage :: "ID \<Rightarrow> u64 \<Rightarrow> u64 \<Rightarrow> u64 \<Rightarrow> bytes \<Rightarrow> bytes" where
  "BuildShieldedLedgerPublicInputsPreimage marketID windowID clearPrice totalVolume fillsHash =
     ShieldedLedgerInputsDomainTag @ be_bytes 32 marketID @ be_bytes 8 windowID
     @ be_bytes 8 clearPrice @ be_bytes 8 totalVolume
     @ be_bytes 2 (of_nat (length fillsHash) :: u16) @ fillsHash"

definition ComputeShieldedLedgerPublicInputsHash :: "ID \<Rightarrow> u64 \<Rightarrow> u64 \<Rightarrow> u64 \<Rightarrow> bytes \<Rightarrow> Hash32" where
  "ComputeShieldedLedgerPublicInputsHash marketID windowID clearPrice totalVolume fillsHash =
     Sum256 (BuildShieldedLedgerPublicInputsPreimage marketID windowID clearPrice totalVolume fillsHash)"

section \<open>Circuits\<close>

abbreviation ProofCircuitClearHashV1 :: bytes where "ProofCircuitClearHashV1 \<equiv> go_str ''clearhash-v1''"
abbreviation ProofCircuitShieldedLedgerV1 :: bytes where
  "ProofCircuitShieldedLedgerV1 \<equiv> go_str ''shielded-ledger-v1''"

section \<open>Envelopes\<close>

abbreviation MaxProofBytesSize :: nat where "MaxProofBytesSize \<equiv> 131072"
abbreviation proofEnvelopeMagicV1 :: bytes where "proofEnvelopeMagicV1 \<equiv> go_str ''VZK1''"
abbreviation proofEnvelopeMagicV2 :: bytes where "proofEnvelopeMagicV2 \<equiv> go_str ''VZK2''"
abbreviation proofEnvelopeV1HeaderLen :: nat where "proofEnvelopeV1HeaderLen \<equiv> 13"
abbreviation proofEnvelopeV2HeaderLen :: nat where "proofEnvelopeV2HeaderLen \<equiv> 14"
abbreviation maxProofCircuitIDLen :: nat where "maxProofCircuitIDLen \<equiv> 63"

definition circuit_char :: "byte \<Rightarrow> bool" where
  "circuit_char r \<longleftrightarrow> r \<le> 127 \<and> (0x61 \<le> r \<and> r \<le> 0x7A \<or> 0x30 \<le> r \<and> r \<le> 0x39
     \<or> r = 0x2D \<or> r = 0x5F \<or> r = 0x2E)"

definition isValidProofCircuitID :: "bytes \<Rightarrow> bool" where
  "isValidProofCircuitID circuitID \<longleftrightarrow>
     \<not> (length circuitID = 0 \<or> length circuitID > maxProofCircuitIDLen)
     \<and> list_all circuit_char circuitID"

definition BuildProofEnvelope :: "u8 \<Rightarrow> bytes \<Rightarrow> bytes \<Rightarrow> error + bytes" where
  "BuildProofEnvelope proofType proof publicWitness =
     (if proofType = 0 \<or> length proof = 0 \<or> length proof > MaxProofBytesSize
      then Inl ErrInvalidProofEnvelope
      else if length publicWitness = 0 then Inl ErrInvalidProofEnvelope
      else if proofEnvelopeV1HeaderLen + length proof + length publicWitness > MaxProofBytesSize
      then Inl ErrInvalidProofEnvelope
      else Inr (proofEnvelopeMagicV1 @ [proofType] @ be_bytes 4 (of_nat (length proof) :: u32)
        @ be_bytes 4 (of_nat (length publicWitness) :: u32) @ proof @ publicWitness))"

definition BuildProofEnvelopeWithCircuit :: "u8 \<Rightarrow> bytes \<Rightarrow> bytes \<Rightarrow> bytes \<Rightarrow> error + bytes" where
  "BuildProofEnvelopeWithCircuit proofType circuitID0 proof publicWitness =
     (let circuitID = TrimSpace circuitID0 in
      if proofType = 0 \<or> length proof = 0 \<or> length proof > MaxProofBytesSize
      then Inl ErrInvalidProofEnvelope
      else if length publicWitness = 0 then Inl ErrInvalidProofEnvelope
      else if \<not> isValidProofCircuitID circuitID then Inl ErrInvalidProofEnvelope
      else if proofEnvelopeV2HeaderLen + length circuitID + length proof + length publicWitness
          > MaxProofBytesSize
      then Inl ErrInvalidProofEnvelope
      else Inr (proofEnvelopeMagicV2 @ [proofType, of_nat (length circuitID)]
        @ be_bytes 4 (of_nat (length proof) :: u32)
        @ be_bytes 4 (of_nat (length publicWitness) :: u32) @ circuitID @ proof @ publicWitness))"

record envelope =
  en_proofType :: u8
  en_circuitID :: bytes
  en_proof :: bytes
  en_witness :: bytes
  en_hasEnvelope :: bool

definition parseProofEnvelopeV1 :: "bytes \<Rightarrow> error + envelope" where
  "parseProofEnvelopeV1 blob =
     (if length blob < proofEnvelopeV1HeaderLen then Inl ErrInvalidProofEnvelope
      else let proofLen = unat (of_be (slice blob 5 9) :: u32);
               witnessLen = unat (of_be (slice blob 9 13) :: u32)
      in if proofLen = 0 \<or> witnessLen = 0 then Inl ErrInvalidProofEnvelope
      else if length blob \<noteq> proofEnvelopeV1HeaderLen + proofLen + witnessLen
      then Inl ErrInvalidProofEnvelope
      else let proofStart = proofEnvelopeV1HeaderLen; proofEnd = proofStart + proofLen;
               witnessEnd = proofEnd + witnessLen
      in Inr \<lparr>en_proofType = blob ! 4, en_circuitID = [], en_proof = slice blob proofStart proofEnd,
              en_witness = slice blob proofEnd witnessEnd, en_hasEnvelope = True\<rparr>)"

definition parseProofEnvelopeV2 :: "bytes \<Rightarrow> error + envelope" where
  "parseProofEnvelopeV2 blob =
     (if length blob < proofEnvelopeV2HeaderLen then Inl ErrInvalidProofEnvelope
      else let circuitLen = unat (blob ! 5); proofLen = unat (of_be (slice blob 6 10) :: u32);
               witnessLen = unat (of_be (slice blob 10 14) :: u32)
      in if circuitLen = 0 \<or> circuitLen > maxProofCircuitIDLen \<or> proofLen = 0 \<or> witnessLen = 0
      then Inl ErrInvalidProofEnvelope
      else if length blob \<noteq> proofEnvelopeV2HeaderLen + circuitLen + proofLen + witnessLen
      then Inl ErrInvalidProofEnvelope
      else let circuitStart = proofEnvelopeV2HeaderLen; circuitEnd = circuitStart + circuitLen;
               circuitID = slice blob circuitStart circuitEnd
      in if \<not> isValidProofCircuitID circuitID then Inl ErrInvalidProofEnvelope
      else let proofStart = circuitEnd; proofEnd = proofStart + proofLen;
               witnessEnd = proofEnd + witnessLen
      in Inr \<lparr>en_proofType = blob ! 4, en_circuitID = circuitID,
              en_proof = slice blob proofStart proofEnd,
              en_witness = slice blob proofEnd witnessEnd, en_hasEnvelope = True\<rparr>)"

definition rawEnvelope :: "bytes \<Rightarrow> envelope" where
  "rawEnvelope blob = \<lparr>en_proofType = 0, en_circuitID = [], en_proof = blob, en_witness = [],
     en_hasEnvelope = False\<rparr>"

definition parseProofEnvelope :: "bytes \<Rightarrow> error + envelope" where
  "parseProofEnvelope blob =
     (if length blob < length proofEnvelopeMagicV1 then Inr (rawEnvelope blob)
      else if slice blob 0 (length proofEnvelopeMagicV1) = proofEnvelopeMagicV1
      then parseProofEnvelopeV1 blob
      else if slice blob 0 (length proofEnvelopeMagicV2) = proofEnvelopeMagicV2
      then parseProofEnvelopeV2 blob
      else Inr (rawEnvelope blob))"

section \<open>The verification gate\<close>

text \<open>\<open>Verify\<close> of an installed verifier: \<open>None\<close> is the nil error.\<close>

type_synonym BatchProofVerifier = "u8 \<Rightarrow> bytes \<Rightarrow> bytes \<Rightarrow> bytes \<Rightarrow> bytes \<Rightarrow> error option"

record verifier_env =
  proofVerifier :: "BatchProofVerifier option"
  strictProofVerifier :: bool

definition ConfigureBatchProofVerifier :: "BatchProofVerifier option \<Rightarrow> bool \<Rightarrow> verifier_env" where
  "ConfigureBatchProofVerifier verifier strict =
     \<lparr>proofVerifier = verifier, strictProofVerifier = strict\<rparr>"

definition getBatchProofVerifier :: "verifier_env \<Rightarrow> BatchProofVerifier option \<times> bool" where
  "getBatchProofVerifier V = (proofVerifier V, strictProofVerifier V)"

definition verifyBatchProofInConsensus :: "verifier_env \<Rightarrow> u8 \<Rightarrow> bytes \<Rightarrow> bytes \<Rightarrow> error + unit" where
  "verifyBatchProofInConsensus V requiredProofType proofBlob publicInputsHash =
     (case parseProofEnvelope proofBlob of
        Inl err \<Rightarrow> Inl err
      | Inr e \<Rightarrow>
          if en_hasEnvelope e \<and> en_proofType e \<noteq> requiredProofType then Inl ErrProofTypeMismatch
          else (case getBatchProofVerifier V of
            (None, strict) \<Rightarrow> if strict then Inl ErrProofVerifierUnavailable else Inr ()
          | (Some verify, _) \<Rightarrow>
              (case verify requiredProofType (en_circuitID e) (en_proof e) publicInputsHash
                  (en_witness e) of
                 None \<Rightarrow> Inr ()
               | Some err \<Rightarrow>
                   if err = ErrProofVerifierUnavailable then Inl err
                   else Inl ErrProofVerificationFailed)))"

section \<open>Glyphs\<close>

abbreviation glyphDomainTag :: bytes where "glyphDomainTag \<equiv> go_str ''VEIL_GLYPH_V1''"
abbreviation GlyphRarityCommon :: u8 where "GlyphRarityCommon \<equiv> 1"
abbreviation GlyphRarityRare :: u8 where "GlyphRarityRare \<equiv> 2"
abbreviation GlyphRarityEpic :: u8 where "GlyphRarityEpic \<equiv> 3"
abbreviation GlyphRarityLegendary :: u8 where "GlyphRarityLegendary \<equiv> 4"
abbreviation GlyphRarityMythic :: u8 where "GlyphRarityMythic \<equiv> 5"
abbreviation GlyphClassAsh :: u8 where "GlyphClassAsh \<equiv> 1"
abbreviation GlyphClassCrown :: u8 where "GlyphClassCrown \<equiv> 2"
abbreviation GlyphClassCipher :: u8 where "GlyphClassCipher \<equiv> 3"
abbreviation GlyphClassEclipse :: u8 where "GlyphClassEclipse \<equiv> 4"
abbreviation GlyphClassAegis :: u8 where "GlyphClassAegis \<equiv> 5"
abbreviation GlyphClassRelic :: u8 where "GlyphClassRelic \<equiv> 6"

definition deriveGlyphEntropy :: "ID \<Rightarrow> ID \<Rightarrow> u64 \<Rightarrow> Address \<Rightarrow> Hash32 \<Rightarrow> bytes \<Rightarrow> Hash32" where
  "deriveGlyphEntropy txID marketID windowID prover commitment publicInputsHash =
     Sum256 (glyphDomainTag @ be_bytes 32 txID @ be_bytes 32 marketID @ be_bytes 8 windowID
       @ be_bytes 33 prover @ be_bytes 32 commitment @ publicInputsHash)"

definition deriveGlyphClass :: "Hash32 \<Rightarrow> u8" where
  "deriveGlyphClass entropy =
     (let k = be_bytes 32 entropy ! 2 mod 6 in
      if k = 0 then GlyphClassAsh else if k = 1 then GlyphClassCrown
      else if k = 2 then GlyphClassCipher else if k = 3 then GlyphClassEclipse
      else if k = 4 then GlyphClassAegis else GlyphClassRelic)"

definition deriveGlyphRarity :: "Hash32 \<Rightarrow> u8" where
  "deriveGlyphRarity entropy =
     (let roll = (ucast (of_be (slice (be_bytes 32 entropy) 0 2) :: u16) :: u32) * 10000 div 65536 in
      if roll < 2 then GlyphRarityMythic else if roll < 20 then GlyphRarityLegendary
      else if roll < 150 then GlyphRarityEpic else if roll < 800 then GlyphRarityRare
      else GlyphRarityCommon)"

text \<open>\<open>copy(glyph.PublicInputsHash[:], publicInputsHash)\<close> into a zero array.\<close>

definition copy32 :: "bytes \<Rightarrow> Hash32" where
  "copy32 bs = of_be (take 32 bs @ replicate (32 - length bs) 0)"

definition deriveGlyph ::
    "ID \<Rightarrow> ID \<Rightarrow> u64 \<Rightarrow> Address \<Rightarrow> Hash32 \<Rightarrow> bytes \<Rightarrow> i64 \<Rightarrow> Glyph" where
  "deriveGlyph txID marketID windowID prover commitment publicInputsHash timestamp =
     (let entropy = deriveGlyphEntropy txID marketID windowID prover commitment publicInputsHash in
      \<lparr>gl_Class = deriveGlyphClass entropy, gl_Rarity = deriveGlyphRarity entropy,
       gl_CreatedAtMs = timestamp, gl_Prover = prover, gl_ProofCommitment = commitment,
       gl_PublicInputsHash = copy32 publicInputsHash, gl_Entropy = entropy\<rparr>)"

section \<open>Decoded integers encode back\<close>

lemma slice_front [byte_simps]: "slice (x # xs) 0 (Suc n) = x # slice xs 0 n" "slice xs 0 0 = []"
  by (simp_all add: slice_def)

lemma slice_append: "i \<le> j \<Longrightarrow> j \<le> k \<Longrightarrow> slice v i j @ slice v j k = slice v i k"
proof -
  assume le: "i \<le> j" "j \<le> k"
  have "slice v j k = take (k - j) (drop (j - i) (drop i v))" using le by (simp add: slice_def)
  then show ?thesis using le take_add [of "j - i" "k - j" "drop i v"] by (simp add: slice_def)
qed

lemma slice_single: "i < length v \<Longrightarrow> slice v i (Suc i) = [v ! i]"
  by (simp add: slice_def take_Suc_conv_app_nth)

section \<open>Public inputs are canonical\<close>

lemma clear_preimage_inject:
  "BuildClearPublicInputsPreimage m w p v f = BuildClearPublicInputsPreimage m' w' p' v' f'
    \<longleftrightarrow> m = m' \<and> w = w' \<and> p = p' \<and> v = v' \<and> f = f'"
  by (auto simp: BuildClearPublicInputsPreimage_def)

lemma shielded_preimage_inject:
  "BuildShieldedLedgerPublicInputsPreimage m w p v f
      = BuildShieldedLedgerPublicInputsPreimage m' w' p' v' f'
    \<longleftrightarrow> m = m' \<and> w = w' \<and> p = p' \<and> v = v' \<and> f = f'"
  by (auto simp: BuildShieldedLedgerPublicInputsPreimage_def)

lemma preimages_disjoint:
  "BuildClearPublicInputsPreimage m w p v f \<noteq> BuildShieldedLedgerPublicInputsPreimage m' w' p' v' f'"
  by (simp add: BuildClearPublicInputsPreimage_def BuildShieldedLedgerPublicInputsPreimage_def
      go_str_def)

section \<open>Circuit identifiers\<close>

lemma space_not_circuit_char:
  "w \<in> set space_runes \<Longrightarrow> \<not> circuit_char (hd w) \<and> \<not> circuit_char (last w)"
  by (auto simp: space_runes_def circuit_char_def)

lemma TrimSpace_circuit: "isValidProofCircuitID c \<Longrightarrow> TrimSpace c = c"
  by (rule TrimSpace_id)
    (auto simp: isValidProofCircuitID_def list_all_iff dest: space_not_circuit_char)

section \<open>Parsing inverts building\<close>

lemma magic_bytes: "length proofEnvelopeMagicV1 = 4" "length proofEnvelopeMagicV2 = 4"
  "proofEnvelopeMagicV1 \<noteq> proofEnvelopeMagicV2"
  by (simp_all add: go_str_def)

lemma parse_build_v1:
  assumes "BuildProofEnvelope pt proof w = Inr blob"
  shows "parseProofEnvelope blob = Inr \<lparr>en_proofType = pt, en_circuitID = [], en_proof = proof,
    en_witness = w, en_hasEnvelope = True\<rparr>"
  using assms
  by (auto simp: BuildProofEnvelope_def parseProofEnvelope_def parseProofEnvelopeV1_def Let_def
      byte_simps go_str_def unat_of_nat split: if_splits)

lemma parse_build_v2:
  assumes "BuildProofEnvelopeWithCircuit pt c p w = Inr blob"
  shows "parseProofEnvelope blob = Inr \<lparr>en_proofType = pt, en_circuitID = TrimSpace c,
    en_proof = p, en_witness = w, en_hasEnvelope = True\<rparr>"
proof -
  define d where "d = TrimSpace c"
  have valid: "isValidProofCircuitID d" and p: "p \<noteq> []" and w: "w \<noteq> []"
    and size: "proofEnvelopeV2HeaderLen + length d + length p + length w \<le> MaxProofBytesSize"
    and blob: "blob = proofEnvelopeMagicV2 @ [pt, of_nat (length d)] @ be_bytes 4 (of_nat (length p) :: u32)
        @ be_bytes 4 (of_nat (length w) :: u32) @ d @ p @ w"
    using assms unfolding BuildProofEnvelopeWithCircuit_def d_def [symmetric] Let_def
    by (simp_all split: if_split_asm)
  have d: "0 < length d" "length d \<le> maxProofCircuitIDLen" using valid by (simp_all add: isValidProofCircuitID_def)
  then have lens: "unat (of_nat (length d) :: byte) = length d" "unat (of_nat (length p) :: u32) = length p"
    "unat (of_nat (length w) :: u32) = length w" using size by (simp_all add: unat_of_nat)
  have "parseProofEnvelopeV2 blob = Inr \<lparr>en_proofType = pt, en_circuitID = d,
    en_proof = p, en_witness = w, en_hasEnvelope = True\<rparr>"
    using valid p w d by (simp add: blob parseProofEnvelopeV2_def Let_def byte_simps go_str_def lens)
  moreover have "parseProofEnvelope blob = parseProofEnvelopeV2 blob"
    by (simp add: blob parseProofEnvelope_def byte_simps go_str_def)
  ultimately show ?thesis by (simp add: d_def)
qed

text \<open>
  The bytes of an envelope as a function of its fields, and the converse: a blob that parses to an
  envelope is exactly the encoding of the fields, so a proof has one envelope only.
\<close>

definition encodeEnvelope :: "envelope \<Rightarrow> bytes" where
  "encodeEnvelope e =
     (if en_circuitID e = []
      then proofEnvelopeMagicV1 @ [en_proofType e] @ be_bytes 4 (of_nat (length (en_proof e)) :: u32)
        @ be_bytes 4 (of_nat (length (en_witness e)) :: u32) @ en_proof e @ en_witness e
      else proofEnvelopeMagicV2 @ [en_proofType e, of_nat (length (en_circuitID e))]
        @ be_bytes 4 (of_nat (length (en_proof e)) :: u32)
        @ be_bytes 4 (of_nat (length (en_witness e)) :: u32)
        @ en_circuitID e @ en_proof e @ en_witness e)"

lemma parse_v1_canonical:
  assumes "parseProofEnvelopeV1 blob = Inr e" and "slice blob 0 4 = proofEnvelopeMagicV1"
  shows "blob = encodeEnvelope e"
proof -
  let ?pl = "unat (of_be (slice blob 5 9) :: u32)" and ?wl = "unat (of_be (slice blob 9 13) :: u32)"
  have len: "length blob = 13 + ?pl + ?wl" and e: "en_proofType e = blob ! 4" "en_circuitID e = []"
    "en_proof e = slice blob 13 (13 + ?pl)" "en_witness e = slice blob (13 + ?pl) (13 + ?pl + ?wl)"
    using assms(1) by (auto simp: parseProofEnvelopeV1_def Let_def split: if_splits)
  have "blob = slice blob 0 (13 + ?pl + ?wl)" by (rule slice_all [OF len, symmetric])
  also have "\<dots> = slice blob 0 4 @ slice blob 4 5 @ slice blob 5 9 @ slice blob 9 13
      @ slice blob 13 (13 + ?pl) @ slice blob (13 + ?pl) (13 + ?pl + ?wl)"
    by (simp add: slice_append)
  also have "slice blob 4 5 = [blob ! 4]" using slice_single [of 4 blob] len by simp
  also have "slice blob 5 9 = be_bytes 4 (of_be (slice blob 5 9) :: u32)"
    using len by (simp add: be_bytes_of_be slice_length)
  also have "slice blob 9 13 = be_bytes 4 (of_be (slice blob 9 13) :: u32)"
    using len by (simp add: be_bytes_of_be slice_length)
  finally show ?thesis using len assms(2) by (simp add: encodeEnvelope_def e slice_length)
qed

lemma parse_v2_canonical:
  assumes "parseProofEnvelopeV2 blob = Inr e" and "slice blob 0 4 = proofEnvelopeMagicV2"
  shows "blob = encodeEnvelope e"
proof -
  let ?cl = "unat (blob ! 5)" and ?pl = "unat (of_be (slice blob 6 10) :: u32)"
    and ?wl = "unat (of_be (slice blob 10 14) :: u32)"
  have len: "length blob = 14 + ?cl + ?pl + ?wl" and cl: "0 < ?cl"
    and e: "en_proofType e = blob ! 4" "en_circuitID e = slice blob 14 (14 + ?cl)"
    "en_proof e = slice blob (14 + ?cl) (14 + ?cl + ?pl)"
    "en_witness e = slice blob (14 + ?cl + ?pl) (14 + ?cl + ?pl + ?wl)"
    using assms(1) by (auto simp: parseProofEnvelopeV2_def Let_def split: if_splits)
  have "blob = slice blob 0 (14 + ?cl + ?pl + ?wl)" by (rule slice_all [OF len, symmetric])
  also have "\<dots> = slice blob 0 4 @ slice blob 4 5 @ slice blob 5 6 @ slice blob 6 10
      @ slice blob 10 14 @ slice blob 14 (14 + ?cl) @ slice blob (14 + ?cl) (14 + ?cl + ?pl)
      @ slice blob (14 + ?cl + ?pl) (14 + ?cl + ?pl + ?wl)"
    by (simp add: slice_append)
  also have "slice blob 4 5 = [blob ! 4]" using slice_single [of 4 blob] len by simp
  also have "slice blob 5 6 = [blob ! 5]" using slice_single [of 5 blob] len by simp
  also have "slice blob 6 10 = be_bytes 4 (of_be (slice blob 6 10) :: u32)"
    using len by (simp add: be_bytes_of_be slice_length)
  also have "slice blob 10 14 = be_bytes 4 (of_be (slice blob 10 14) :: u32)"
    using len by (simp add: be_bytes_of_be slice_length)
  finally have "blob = proofEnvelopeMagicV2 @ [blob ! 4] @ [blob ! 5]
      @ be_bytes 4 (of_be (slice blob 6 10) :: u32) @ be_bytes 4 (of_be (slice blob 10 14) :: u32)
      @ en_circuitID e @ en_proof e @ en_witness e"
    using assms(2) by (simp add: e)
  moreover have "length (en_circuitID e) = ?cl" "length (en_proof e) = ?pl"
    "length (en_witness e) = ?wl"
    using len by (simp_all add: e slice_length)
  moreover from this(1) cl have "en_circuitID e \<noteq> []" by auto
  ultimately show ?thesis by (simp add: encodeEnvelope_def e(1))
qed

lemma parse_canonical:
  assumes "parseProofEnvelope blob = Inr e" and "en_hasEnvelope e"
  shows "blob = encodeEnvelope e"
  using assms parse_v1_canonical [of blob e] parse_v2_canonical [of blob e]
  by (auto simp: parseProofEnvelope_def rawEnvelope_def magic_bytes split: if_splits)

text \<open>A blob without an envelope is passed on whole.\<close>

lemma parse_raw:
  assumes "parseProofEnvelope blob = Inr e" and "\<not> en_hasEnvelope e"
  shows "e = rawEnvelope blob"
  using assms
  by (auto simp: parseProofEnvelope_def parseProofEnvelopeV1_def parseProofEnvelopeV2_def Let_def
      split: if_splits)

section \<open>Derived glyphs\<close>

lemma glyph_ranges:
  "deriveGlyphClass e \<in> {1, 2, 3, 4, 5, 6}" "deriveGlyphRarity e \<in> {1, 2, 3, 4, 5}"
  by (simp_all add: deriveGlyphClass_def deriveGlyphRarity_def Let_def)

lemma glyph_storable:
  assumes "0 < sint now"
  shows "\<not> (gl_Class (deriveGlyph tx m w p c h now) = 0 \<or> gl_Rarity (deriveGlyph tx m w p c h now) = 0
    \<or> sint (gl_CreatedAtMs (deriveGlyph tx m w p c h now)) \<le> 0)"
  using assms glyph_ranges [of "deriveGlyphEntropy tx m w p c h"] by (auto simp: deriveGlyph_def Let_def)

section \<open>Properties\<close>

text \<open>
  C33: Envelopes are exact, for both versions. One that was built parses back to its parts: the proof type,
  the circuit name (trimmed; none in version 1), the proof and the public witness. And they are canonical: a blob that
  parses as an envelope is byte for byte the encoding of the parts it parses to, so no two blobs carry the same parts; any
  other accepted blob is passed on whole as a raw proof without circuit or witness.
\<close>

theorem envelope_round_trip:
  "(\<forall>blob. BuildProofEnvelope pt proof w = Inr blob \<longrightarrow> parseProofEnvelope blob
      = Inr \<lparr>en_proofType = pt, en_circuitID = [], en_proof = proof, en_witness = w, en_hasEnvelope = True\<rparr>)
    \<and> (\<forall>blob. BuildProofEnvelopeWithCircuit pt c proof w = Inr blob \<longrightarrow> parseProofEnvelope blob
      = Inr \<lparr>en_proofType = pt, en_circuitID = TrimSpace c, en_proof = proof, en_witness = w,
          en_hasEnvelope = True\<rparr>)
    \<and> (\<forall>blob e. parseProofEnvelope blob = Inr e \<longrightarrow> (if en_hasEnvelope e then blob = encodeEnvelope e
        else e = \<lparr>en_proofType = 0, en_circuitID = [], en_proof = blob, en_witness = [], en_hasEnvelope = False\<rparr>))"
  using parse_build_v1 parse_build_v2 parse_canonical parse_raw by (simp add: rawEnvelope_def)

theorem envelope_round_trip_witness:
  "\<exists>blob. BuildProofEnvelope 1 [10, 20, 30] [7] = Inr blob
    \<and> parseProofEnvelope blob = Inr \<lparr>en_proofType = 1, en_circuitID = [], en_proof = [10, 20, 30],
        en_witness = [7], en_hasEnvelope = True\<rparr>
    \<and> blob = encodeEnvelope \<lparr>en_proofType = 1, en_circuitID = [], en_proof = [10, 20, 30],
        en_witness = [7], en_hasEnvelope = True\<rparr>"
proof -
  obtain blob where built: "BuildProofEnvelope 1 [10, 20, 30] [7] = Inr blob"
    by (auto simp: BuildProofEnvelope_def)
  note exact = envelope_round_trip [of 1 "[10, 20, 30]" "[7]" "[]"]
  from built exact have "parseProofEnvelope blob = Inr \<lparr>en_proofType = 1, en_circuitID = [],
      en_proof = [10, 20, 30], en_witness = [7], en_hasEnvelope = True\<rparr>" by blast
  with built exact show ?thesis by fastforce
qed

text \<open>
  The public inputs a proof commits to are encoded without ambiguity: different clears (market,
  window, price, volume or fills hash) have different preimages in each of the two circuits, and
  no preimage of one circuit is a preimage of the other.
\<close>

theorem public_inputs_unambiguous:
  "(BuildClearPublicInputsPreimage m w p v f = BuildClearPublicInputsPreimage m' w' p' v' f'
      \<longleftrightarrow> m = m' \<and> w = w' \<and> p = p' \<and> v = v' \<and> f = f')
    \<and> (BuildShieldedLedgerPublicInputsPreimage m w p v f
        = BuildShieldedLedgerPublicInputsPreimage m' w' p' v' f'
      \<longleftrightarrow> m = m' \<and> w = w' \<and> p = p' \<and> v = v' \<and> f = f')
    \<and> BuildClearPublicInputsPreimage m w p v f
      \<noteq> BuildShieldedLedgerPublicInputsPreimage m' w' p' v' f'"
  by (intro conjI clear_preimage_inject shielded_preimage_inject preimages_disjoint)

end
