(* ===== verification/Act_Market.thy ===== *)
theory Act_Market
  imports Sample
begin

text \<open>
  The life of a prediction market: \<open>actions/create_market.go\<close>, \<open>actions/commit_order.go\<close>,
  \<open>actions/reveal_batch.go\<close>, \<open>actions/resolve_market.go\<close> and \<open>actions/dispute.go\<close>. The timing
  metrics that \<open>CommitOrder\<close> and \<open>RevealBatch\<close> record on return do not touch the chain state; they
  are added in \<open>Vm_Metered\<close>.

  The lemmas give the exact effect of each action and, from them, the transitions a market's record
  can make: it is created active, resolved once, disputed once, and its question, outcomes and
  resolution time never change.
\<close>

section \<open>CreateMarket\<close>

abbreviation MaxQuestionSize :: nat where "MaxQuestionSize \<equiv> 1024"
abbreviation MaxEnvelopeSize :: nat where "MaxEnvelopeSize \<equiv> 4096"
abbreviation MaxCommitmentSize :: nat where "MaxCommitmentSize \<equiv> 64"
abbreviation MaxDecryptionShareSize :: nat where "MaxDecryptionShareSize \<equiv> 512"
abbreviation MaxSignatureSize :: nat where "MaxSignatureSize \<equiv> 256"
abbreviation MaxEvidenceSize :: nat where "MaxEvidenceSize \<equiv> 4096"

record CreateMarket =
  cm_MarketID :: ID
  cm_Question :: bytes
  cm_Outcomes :: u8
  cm_ResolutionTime :: i64
  cm_CreatorBond :: u64

record CreateMarketResult =
  cm_SenderBalance :: u64

definition CreateMarket_StateKeys :: "'s host \<Rightarrow> CreateMarket \<Rightarrow> Address \<Rightarrow> state_keys" where
  "CreateMarket_StateKeys H a actor = Keys
     [(BalanceKey H actor, StateReadWrite),
      (MarketKey H (cm_MarketID a), StateAll)]"

definition CreateMarket_Execute ::
    "'s host \<Rightarrow> CreateMarket \<Rightarrow> Address \<Rightarrow> ('s, CreateMarketResult) action_run" where
  "CreateMarket_Execute H a actor =
     go_guard (cm_Outcomes a < 2) ErrInvalidOutcomes
    (go_guard (sint (cm_ResolutionTime a) \<le> 0) ErrInvalidResolutionTime
    (go_guard (cm_CreatorBond a = 0) ErrCreatorBondZero
    (go_guard (length (cm_Question a) > MaxQuestionSize) ErrQuestionTooLarge
    (\<lambda>s. case GetMarket H s (cm_MarketID a) of
       Inr _ \<Rightarrow> (Inl ErrMarketExists, s)
     | Inl err \<Rightarrow>
         go_guard (err \<noteq> ErrMarketNotFound) err
        (go_bind (SubBalance H actor (cm_CreatorBond a)) (\<lambda>senderBalance.
         go_bind (PutMarket H (cm_MarketID a) MarketStatusActive (cm_Outcomes a)
             (cm_ResolutionTime a) 0 (cm_Question a)) (\<lambda>_.
         go_return \<lparr>cm_SenderBalance = senderBalance\<rparr>))) s))))"

section \<open>CommitOrder and RevealBatch\<close>

record CommitOrder =
  co_MarketID :: ID
  co_WindowID :: u64
  co_Envelope :: bytes
  co_Commitment :: bytes

record CommitOrderResult =
  cor_WindowID :: u64

definition CommitOrder_StateKeys :: "'s host \<Rightarrow> CommitOrder \<Rightarrow> Address \<Rightarrow> state_keys" where
  "CommitOrder_StateKeys H t actor = Keys
     [(MarketKey H (co_MarketID t), StateRead),
      (CommitmentKey H (co_MarketID t) (co_WindowID t) actor, StateAll)]"

definition CommitOrder_Execute ::
    "'s host \<Rightarrow> CommitOrder \<Rightarrow> Address \<Rightarrow> ('s, CommitOrderResult) action_run" where
  "CommitOrder_Execute H t actor =
     go_guard (length (co_Envelope t) = 0) ErrEnvelopeEmpty
    (go_guard (length (co_Envelope t) > MaxEnvelopeSize) ErrEnvelopeTooLarge
    (go_guard (length (co_Commitment t) = 0) ErrCommitmentEmpty
    (go_guard (length (co_Commitment t) > MaxCommitmentSize) ErrCommitmentTooLarge
    (go_bind (go_read (\<lambda>s. GetMarket H s (co_MarketID t))) (\<lambda>m.
     go_guard (mk_status m \<noteq> MarketStatusActive) ErrMarketNotActive
    (go_bind (PutCommitment H (co_MarketID t) (co_WindowID t) actor (co_Envelope t) (co_Commitment t))
       (\<lambda>_.
     go_return \<lparr>cor_WindowID = co_WindowID t\<rparr>)))))))"

record RevealBatch =
  rb_MarketID :: ID
  rb_WindowID :: u64
  rb_DecryptionShare :: bytes
  rb_ValidatorIndex :: u32

record RevealBatchResult =
  rbr_ValidatorIndex :: u32

definition RevealBatch_StateKeys :: "'s host \<Rightarrow> RevealBatch \<Rightarrow> Address \<Rightarrow> state_keys" where
  "RevealBatch_StateKeys H t actor = Keys
     [(MarketKey H (rb_MarketID t), StateRead),
      (OracleKey H (rb_MarketID t) (rb_ValidatorIndex t), StateAll)]"

definition RevealBatch_Execute :: "'s host \<Rightarrow> RevealBatch \<Rightarrow> ('s, RevealBatchResult) action_run" where
  "RevealBatch_Execute H t =
     go_guard (length (rb_DecryptionShare t) = 0) ErrDecryptionShareEmpty
    (go_guard (length (rb_DecryptionShare t) > MaxDecryptionShareSize) ErrDecryptionShareTooLarge
    (go_bind (go_read (\<lambda>s. GetMarket H s (rb_MarketID t))) (\<lambda>m.
     go_guard (mk_status m \<noteq> MarketStatusActive) ErrMarketNotActive
    (go_bind (Insert H (OracleKey H (rb_MarketID t) (rb_ValidatorIndex t))
         (be_bytes 8 (rb_WindowID t) @ rb_DecryptionShare t)) (\<lambda>_.
     go_return \<lparr>rbr_ValidatorIndex = rb_ValidatorIndex t\<rparr>)))))"

section \<open>ResolveMarket and Dispute\<close>

record ResolveMarket =
  rm_MarketID :: ID
  rm_Outcome :: u8
  rm_Signature :: bytes

record ResolveMarketResult =
  rmr_Outcome :: u8

definition ResolveMarket_StateKeys :: "'s host \<Rightarrow> ResolveMarket \<Rightarrow> Address \<Rightarrow> state_keys" where
  "ResolveMarket_StateKeys H t actor = Keys [(MarketKey H (rm_MarketID t), StateReadWrite)]"

definition ResolveMarket_Execute :: "'s host \<Rightarrow> ResolveMarket \<Rightarrow> ('s, ResolveMarketResult) action_run" where
  "ResolveMarket_Execute H t =
     go_guard (length (rm_Signature t) = 0) ErrSignatureEmpty
    (go_guard (length (rm_Signature t) > MaxSignatureSize) ErrSignatureTooLarge
    (go_bind (go_read (\<lambda>s. GetMarket H s (rm_MarketID t))) (\<lambda>m.
     go_guard (mk_status m \<noteq> MarketStatusActive) ErrMarketNotActive
    (go_guard (rm_Outcome t \<ge> mk_outcomes m) ErrInvalidOutcome
    (go_bind (PutMarket H (rm_MarketID t) MarketStatusResolved (mk_outcomes m) (mk_resolutionTime m)
         (rm_Outcome t) (mk_question m)) (\<lambda>_.
     go_return \<lparr>rmr_Outcome = rm_Outcome t\<rparr>))))))"

record Dispute =
  di_MarketID :: ID
  di_Bond :: u64
  di_Evidence :: bytes

record DisputeResult =
  di_DisputerBalance :: u64

definition Dispute_StateKeys :: "'s host \<Rightarrow> Dispute \<Rightarrow> Address \<Rightarrow> state_keys" where
  "Dispute_StateKeys H t actor = Keys
     [(BalanceKey H actor, StateReadWrite),
      (MarketKey H (di_MarketID t), StateReadWrite),
      (DisputeKey H (di_MarketID t), StateAll)]"

definition Dispute_Execute :: "'s host \<Rightarrow> Dispute \<Rightarrow> Address \<Rightarrow> ('s, DisputeResult) action_run" where
  "Dispute_Execute H t actor =
     go_guard (di_Bond t = 0) ErrBondZero
    (go_guard (length (di_Evidence t) = 0) ErrEvidenceEmpty
    (go_guard (length (di_Evidence t) > MaxEvidenceSize) ErrEvidenceTooLarge
    (go_bind (go_read (\<lambda>s. GetMarket H s (di_MarketID t))) (\<lambda>m.
     go_guard (mk_status m \<noteq> MarketStatusResolved) ErrMarketNotResolved
    (go_bind (SubBalance H actor (di_Bond t)) (\<lambda>newBalance.
     go_bind (PutMarket H (di_MarketID t) MarketStatusDisputed (mk_outcomes m) (mk_resolutionTime m)
         (mk_resolvedOutcome m) (mk_question m)) (\<lambda>_.
     go_bind (PutDispute H (di_MarketID t) (di_Bond t) (di_Evidence t)) (\<lambda>_.
     go_return \<lparr>di_DisputerBalance = newBalance\<rparr>))))))))"

section \<open>The transitions of a market\<close>

text \<open>
  The abstract life of one market: nothing, active, resolved with an outcome, disputed. This is the
  contract; \<open>market_at\<close> reads it off the stored record, and a stored record whose status byte is none
  of the three is \<open>Corrupt\<close>, which no step produces.
\<close>

datatype market_state =
    Absent
  | Active u8 i64 bytes
  | Resolved u8 i64 bytes u8
  | Disputed u8 i64 bytes u8
  | Corrupt

definition market_of :: "error + Market \<Rightarrow> market_state" where
  "market_of r = (case r of
     Inl _ \<Rightarrow> Absent
   | Inr m \<Rightarrow>
       if mk_status m = MarketStatusActive
       then Active (mk_outcomes m) (mk_resolutionTime m) (mk_question m)
       else if mk_status m = MarketStatusResolved
       then Resolved (mk_outcomes m) (mk_resolutionTime m) (mk_question m) (mk_resolvedOutcome m)
       else if mk_status m = MarketStatusDisputed
       then Disputed (mk_outcomes m) (mk_resolutionTime m) (mk_question m) (mk_resolvedOutcome m)
       else Corrupt)"

definition market_at :: "'s host \<Rightarrow> 's \<Rightarrow> ID \<Rightarrow> market_state" where
  "market_at H s i = market_of (GetMarket H s i)"

inductive market_step :: "market_state \<Rightarrow> market_state \<Rightarrow> bool" where
  stay: "market_step m m"
| opened: "2 \<le> oc \<Longrightarrow> 0 < sint rt \<Longrightarrow> length q \<le> MaxQuestionSize \<Longrightarrow> market_step Absent (Active oc rt q)"
| resolved: "win < oc \<Longrightarrow> market_step (Active oc rt q) (Resolved oc rt q win)"
| disputed: "market_step (Resolved oc rt q win) (Disputed oc rt q win)"

inductive_cases market_step_from:
  "market_step (Active oc rt q) m" "market_step (Resolved oc rt q w) m"
  "market_step (Disputed oc rt q w) m" "market_step Absent m"

text \<open>A disputed market is final, and a decided outcome stays decided.\<close>

lemma market_steps_final:
  assumes "market_step\<^sup>*\<^sup>* m m'" and "m = Disputed oc rt q w"
  shows "m' = Disputed oc rt q w"
  using assms by (induction rule: rtranclp_induct) (auto elim: market_step_from)

lemma market_steps_resolved:
  assumes "market_step\<^sup>*\<^sup>* m m'" and "m = Resolved oc rt q w"
  shows "m' = Resolved oc rt q w \<or> m' = Disputed oc rt q w"
  using assms by (induction rule: rtranclp_induct) (auto elim: market_step_from)

lemma market_steps_active:
  assumes "market_step\<^sup>*\<^sup>* m m'" and "m = Active oc rt q"
  shows "m' = Active oc rt q \<or> (\<exists>w < oc. m' = Resolved oc rt q w \<or> m' = Disputed oc rt q w)"
  using assms by (induction rule: rtranclp_induct) (auto elim!: market_step_from)

section \<open>What a successful run does\<close>

context host_env
begin

lemma PutMarket_reads:
  assumes "PutMarket H i st oc rt ro q s = (Inr u, t)"
  shows "GetMarket H t j = (if j = i then Inr \<lparr>mk_status = st, mk_outcomes = oc,
    mk_resolutionTime = rt, mk_resolvedOutcome = ro, mk_question = q\<rparr> else GetMarket H s j)"
  using market_put_run(1) [OF assms] by (simp add: GetMarket_def key_simps)

lemma GetMarket_SubBalance:
  "SubBalance H a v s = (Inr n, t) \<Longrightarrow> GetMarket H t i = GetMarket H s i"
  by (drule SubBalance_run) (simp add: GetMarket_def key_simps)

lemma CreateMarket_run:
  assumes "CreateMarket_Execute H a actor s = (Inr r, t)"
  obtains u where "2 \<le> cm_Outcomes a" "0 < sint (cm_ResolutionTime a)" "cm_CreatorBond a \<noteq> 0"
    "length (cm_Question a) \<le> MaxQuestionSize" "GetMarket H s (cm_MarketID a) = Inl ErrMarketNotFound"
    "SubBalance H actor (cm_CreatorBond a) s = (Inr (cm_SenderBalance r), u)"
    "PutMarket H (cm_MarketID a) MarketStatusActive (cm_Outcomes a) (cm_ResolutionTime a) 0
       (cm_Question a) u = (Inr (), t)"
  using assms
  by (auto simp: CreateMarket_Execute_def run_simps not_less not_le split: sum.splits)

lemma CommitOrder_run:
  assumes "CommitOrder_Execute H c actor s = (Inr r, t)"
  obtains m where "GetMarket H s (co_MarketID c) = Inr m" "mk_status m = MarketStatusActive"
    "GetValue H t = (GetValue H s)(slot_key H (SCommitment (co_MarketID c) (co_WindowID c) actor) :=
       Inr (co_Commitment c @ co_Envelope c))"
  using assms by (auto simp: CommitOrder_Execute_def run_simps dest!: market_put_run(2))

lemma RevealBatch_run:
  assumes "RevealBatch_Execute H c s = (Inr r, t)"
  obtains m where "GetMarket H s (rb_MarketID c) = Inr m" "mk_status m = MarketStatusActive"
    "GetValue H t = (GetValue H s)(slot_key H (SOracle (rb_MarketID c) (rb_ValidatorIndex c)) :=
       Inr (be_bytes 8 (rb_WindowID c) @ rb_DecryptionShare c))"
  using assms by (auto simp: RevealBatch_Execute_def run_simps key_simps dest!: insert_get)

lemma ResolveMarket_run:
  assumes "ResolveMarket_Execute H c s = (Inr r, t)"
  obtains m where "GetMarket H s (rm_MarketID c) = Inr m" "mk_status m = MarketStatusActive"
    "rm_Outcome c < mk_outcomes m"
    "PutMarket H (rm_MarketID c) MarketStatusResolved (mk_outcomes m) (mk_resolutionTime m)
       (rm_Outcome c) (mk_question m) s = (Inr (), t)"
  using assms by (auto simp: ResolveMarket_Execute_def run_simps not_le)

lemma Dispute_run:
  assumes "Dispute_Execute H c actor s = (Inr r, t)"
  obtains m u w where "GetMarket H s (di_MarketID c) = Inr m" "mk_status m = MarketStatusResolved"
    "di_Bond c \<noteq> 0" "SubBalance H actor (di_Bond c) s = (Inr (di_DisputerBalance r), u)"
    "PutMarket H (di_MarketID c) MarketStatusDisputed (mk_outcomes m) (mk_resolutionTime m)
       (mk_resolvedOutcome m) (mk_question m) u = (Inr (), w)"
    "PutDispute H (di_MarketID c) (di_Bond c) (di_Evidence c) w = (Inr (), t)"
  using assms by (auto simp: Dispute_Execute_def run_simps)

text \<open>Each action implements the contract of the market's life, for every market.\<close>

lemma market_frame:
  "GetValue H t = (GetValue H s)(slot_key H k := v) \<Longrightarrow> (\<And>i. k \<noteq> SMarket i) \<Longrightarrow>
    market_at H t = market_at H s"
  by (auto simp: market_at_def GetMarket_def key_simps fun_eq_iff)

lemma CreateMarket_step:
  assumes "CreateMarket_Execute H a actor s = (Inr r, t)"
  shows "market_step (market_at H s i) (market_at H t i)"
  using assms
  by (elim CreateMarket_run)
    (auto simp: market_at_def market_of_def PutMarket_reads GetMarket_SubBalance
      intro: market_step.intros)

lemma ResolveMarket_step:
  assumes "ResolveMarket_Execute H c s = (Inr r, t)"
  shows "market_step (market_at H s i) (market_at H t i)"
  using assms
  by (elim ResolveMarket_run)
    (auto simp: market_at_def market_of_def PutMarket_reads intro: market_step.intros)

lemma PutDispute_market: "PutDispute H i b ev s = (Inr u, t) \<Longrightarrow> GetMarket H t j = GetMarket H s j"
  by (drule market_put_run(4)) (simp add: GetMarket_def key_simps)

lemma Dispute_step:
  assumes "Dispute_Execute H c actor s = (Inr r, t)"
  shows "market_step (market_at H s i) (market_at H t i)"
  using assms
  by (elim Dispute_run)
    (auto simp: market_at_def market_of_def PutDispute_market PutMarket_reads GetMarket_SubBalance
      intro: market_step.intros)

text \<open>Bonds leave the accounts; nothing else of the economy changes.\<close>

lemma econ_PutMarket:
  "PutMarket H i st oc rt ro q s = (Inr u, t) \<Longrightarrow> economy_of H t = economy_of H s"
  by (drule market_put_run(1)) (erule economy_frame, simp add: economic_def)

lemma econ_PutDispute: "PutDispute H i b ev s = (Inr u, t) \<Longrightarrow> economy_of H t = economy_of H s"
  by (drule market_put_run(4)) (erule economy_frame, simp add: economic_def)

lemma econ_CreateMarket:
  assumes "CreateMarket_Execute H a actor s = (Inr r, t)"
  shows "unat (cm_CreatorBond a) \<le> eVeil (economy_of H s) actor"
    and "economy_of H t = debit_veil actor (unat (cm_CreatorBond a)) (economy_of H s)"
  using assms by (auto elim!: CreateMarket_run simp: econ_PutMarket econ_SubBalance)

lemma econ_Dispute:
  assumes "Dispute_Execute H c actor s = (Inr r, t)"
  shows "unat (di_Bond c) \<le> eVeil (economy_of H s) actor"
    and "economy_of H t = debit_veil actor (unat (di_Bond c)) (economy_of H s)"
  using assms by (auto elim!: Dispute_run simp: econ_PutMarket econ_PutDispute econ_SubBalance)

lemma CreateMarket_confined:
  assumes "CreateMarket_Execute H a actor s = (Inr r, t)"
  shows "confined H (CreateMarket_StateKeys H a actor) s t"
  using assms
  by (elim CreateMarket_run)
    (auto dest!: SubBalance_run market_put_run(1)
      simp: confined_def CreateMarket_StateKeys_def keys_simps split: if_splits)

lemma CommitOrder_confined:
  assumes "CommitOrder_Execute H c actor s = (Inr r, t)"
  shows "confined H (CommitOrder_StateKeys H c actor) s t"
  using assms
  by (elim CommitOrder_run)
    (auto simp: confined_def CommitOrder_StateKeys_def keys_simps split: if_splits)

lemma RevealBatch_confined:
  assumes "RevealBatch_Execute H c s = (Inr r, t)"
  shows "confined H (RevealBatch_StateKeys H c actor) s t"
  using assms
  by (elim RevealBatch_run)
    (auto simp: confined_def RevealBatch_StateKeys_def keys_simps split: if_splits)

lemma ResolveMarket_confined:
  assumes "ResolveMarket_Execute H c s = (Inr r, t)"
  shows "confined H (ResolveMarket_StateKeys H c actor) s t"
  using assms
  by (elim ResolveMarket_run)
    (auto dest!: market_put_run(1)
      simp: confined_def ResolveMarket_StateKeys_def keys_simps split: if_splits)

lemma Dispute_confined:
  assumes "Dispute_Execute H c actor s = (Inr r, t)"
  shows "confined H (Dispute_StateKeys H c actor) s t"
  using assms
  by (elim Dispute_run)
    (auto dest!: SubBalance_run market_put_run(1,4)
      simp: confined_def Dispute_StateKeys_def keys_simps split: if_splits)

end

sublocale host_env \<subseteq> create_market: declared_action H "CreateMarket_StateKeys H"
    "\<lambda>a now actor. CreateMarket_Execute H a actor"
  by unfold_locales (rule CreateMarket_confined)

sublocale host_env \<subseteq> commit: declared_action H "CommitOrder_StateKeys H"
    "\<lambda>a now actor. CommitOrder_Execute H a actor"
  by unfold_locales (rule CommitOrder_confined)

sublocale host_env \<subseteq> reveal: declared_action H "RevealBatch_StateKeys H"
    "\<lambda>a now actor. RevealBatch_Execute H a"
  by unfold_locales (rule RevealBatch_confined)

sublocale host_env \<subseteq> resolve: declared_action H "ResolveMarket_StateKeys H"
    "\<lambda>a now actor. ResolveMarket_Execute H a"
  by unfold_locales (rule ResolveMarket_confined)

sublocale host_env \<subseteq> dispute: declared_action H "Dispute_StateKeys H"
    "\<lambda>a now actor. Dispute_Execute H a actor"
  by unfold_locales (rule Dispute_confined)

end
