(* ===== verification/Act_Proof.thy ===== *)
theory Act_Proof
  imports Proof_Envelope Act_Market
begin

text \<open>
  Proof-gated clearing: \<open>actions/submit_batch_proof.go\<close> and \<open>actions/clear_batch.go\<close>. The prover
  submits the proof of a window once, after the window closes and before the deadline; a clear must then
  match the stored record, the stored proof and the public inputs the proof commits to.

  The timing metrics both actions record on return do not touch the chain state; they are added in \<open>Vm_Metered\<close>.
  The lemmas invert successful runs, show that a submitted window is closed to further submissions,
  that a clear of the inputs a submission committed to goes through, and that two clears
  of one window can differ only by a collision of SHA-256.
\<close>

section \<open>SubmitBatchProof\<close>

abbreviation ExpectedProofHashSize :: nat where "ExpectedProofHashSize \<equiv> 32"

record SubmitBatchProof =
  sb_MarketID :: ID
  sb_WindowID :: u64
  sb_WindowCloseAtMs :: i64
  sb_ProofType :: u8
  sb_PublicInputsHash :: bytes
  sb_FillsHash :: bytes
  sb_Proof :: bytes

record SubmitBatchProofResult =
  sb_SubmittedAtMs :: i64
  sb_ProofCommitment :: bytes
  sb_StoredProofBytes :: u32
  sb_GlyphClass :: u8
  sb_GlyphRarity :: u8

definition SubmitBatchProof_StateKeys :: "'s host \<Rightarrow> SubmitBatchProof \<Rightarrow> Address \<Rightarrow> state_keys" where
  "SubmitBatchProof_StateKeys H a actor = Keys
     [(MarketKey H (sb_MarketID a), StateRead),
      (ProofConfigKey H, StateRead),
      (BatchProofKey H (sb_MarketID a) (sb_WindowID a), StateAll),
      (VellumProofKey H (sb_MarketID a) (sb_WindowID a), StateAll),
      (BloodswornKey H actor, StateAll),
      (GlyphKey H (sb_MarketID a) (sb_WindowID a), StateAll)]"

text \<open>The envelope checks at the head of \<open>Execute\<close>; all fail with the same error.\<close>

definition submitMalformed :: "SubmitBatchProof \<Rightarrow> bool" where
  "submitMalformed a \<longleftrightarrow> sint (sb_WindowCloseAtMs a) \<le> 0 \<or> sb_ProofType a = 0
     \<or> length (sb_PublicInputsHash a) \<noteq> ExpectedProofHashSize
     \<or> length (sb_FillsHash a) \<noteq> ExpectedFillsHashSize
     \<or> length (sb_Proof a) = 0 \<or> length (sb_Proof a) > MaxProofBytesSize"

definition submitRecord :: "SubmitBatchProof \<Rightarrow> i64 \<Rightarrow> Address \<Rightarrow> BatchProofRecord" where
  "submitRecord a timestamp actor =
     \<lparr>bp_ProofType = sb_ProofType a, bp_SubmittedAtMs = timestamp,
      bp_WindowCloseAtMs = sb_WindowCloseAtMs a, bp_Prover = actor,
      bp_ProofCommitment = Sum256 (sb_Proof a), bp_PublicInputsHash = sb_PublicInputsHash a,
      bp_FillsHash = sb_FillsHash a\<rparr>"

text \<open>The writes of an accepted submission: record, proof, standing, glyph.\<close>

definition submitStore ::
    "'s host \<Rightarrow> SubmitBatchProof \<Rightarrow> i64 \<Rightarrow> Address \<Rightarrow> ID \<Rightarrow> ('s, SubmitBatchProofResult) action_run" where
  "submitStore H a timestamp actor txID =
     (let record = submitRecord a timestamp actor;
          glyph = deriveGlyph txID (sb_MarketID a) (sb_WindowID a) actor
            (bp_ProofCommitment record) (sb_PublicInputsHash a) timestamp in
      go_bind (PutBatchProofRecord H (sb_MarketID a) (sb_WindowID a) record) (\<lambda>_.
      go_bind (PutVellumProof H (sb_MarketID a) (sb_WindowID a) (sb_Proof a)) (\<lambda>_.
      go_bind (go_read (\<lambda>s. GetBloodsworn H s actor)) (\<lambda>b.
      go_bind (PutBloodsworn H actor (b\<lparr>bs_TotalAcceptedProofs := bs_TotalAcceptedProofs b + 1,
          bs_ActiveStreak := bs_ActiveStreak b + 1, bs_LastProofAtMs := timestamp\<rparr>)) (\<lambda>_.
      go_bind (PutGlyph H (sb_MarketID a) (sb_WindowID a) glyph) (\<lambda>_.
      go_return \<lparr>sb_SubmittedAtMs = bp_SubmittedAtMs record,
        sb_ProofCommitment = be_bytes 32 (bp_ProofCommitment record),
        sb_StoredProofBytes = of_nat (length (sb_Proof a)),
        sb_GlyphClass = gl_Class glyph, sb_GlyphRarity = gl_Rarity glyph\<rparr>))))))"

text \<open>The time checks: the window's end must be on the grid, past, and not too long past.\<close>

definition submitTiming :: "SubmitBatchProof \<Rightarrow> ProofConfig \<Rightarrow> i64 \<Rightarrow> error + unit" where
  "submitTiming a cfg timestamp =
     (case go_rem (sb_WindowCloseAtMs a) (pc_BatchWindowMs cfg) of
        Inl err \<Rightarrow> Inl err
      | Inr rest \<Rightarrow>
          if rest \<noteq> 0 then Inl ErrInvalidProofEnvelope
          else if sint timestamp < sint (sb_WindowCloseAtMs a) then Inl ErrProofDeadlineMissed
          else if sint timestamp > sint (sb_WindowCloseAtMs a + pc_ProofDeadlineMs cfg)
          then Inl ErrProofDeadlineMissed
          else Inr ())"

text \<open>\<open>ErrProofNotFound\<close> is the answer the submission needs; a record is an error.\<close>

definition requireNoRecord :: "error + BatchProofRecord \<Rightarrow> error + unit" where
  "requireNoRecord r = (case r of
     Inr _ \<Rightarrow> Inl ErrProofAlreadySubmitted
   | Inl err \<Rightarrow> if err \<noteq> ErrProofNotFound then Inl err else Inr ())"

definition SubmitBatchProof_Execute ::
    "'s host \<Rightarrow> verifier_env \<Rightarrow> SubmitBatchProof \<Rightarrow> i64 \<Rightarrow> Address \<Rightarrow> ID
      \<Rightarrow> ('s, SubmitBatchProofResult) action_run" where
  "SubmitBatchProof_Execute H V a timestamp actor txID =
     go_guard (submitMalformed a) ErrInvalidProofEnvelope
    (go_bind (go_read (\<lambda>s. GetMarket H s (sb_MarketID a))) (\<lambda>m.
     go_guard (mk_status m \<noteq> MarketStatusActive) ErrMarketNotActive
    (go_bind (go_read (GetProofConfig H)) (\<lambda>cfg.
     go_guard (\<not> pc_RequireProof cfg) ErrInvalidProofConfig
    (go_guard (actor \<noteq> pc_ProverAuthority cfg) ErrUnauthorized
    (go_guard (sb_ProofType a \<noteq> pc_RequiredProofType cfg) ErrProofTypeMismatch
    (go_bind (go_lift (submitTiming a cfg timestamp)) (\<lambda>_.
     go_bind (go_read (\<lambda>s.
         requireNoRecord (GetBatchProofRecord H s (sb_MarketID a) (sb_WindowID a)))) (\<lambda>_.
     go_bind (go_lift (verifyBatchProofInConsensus V (pc_RequiredProofType cfg) (sb_Proof a)
         (sb_PublicInputsHash a))) (\<lambda>_.
     submitStore H a timestamp actor txID))))))))))"

section \<open>ClearBatch\<close>

abbreviation MaxFillsHashSize :: nat where "MaxFillsHashSize \<equiv> 64"

record ClearBatch =
  cb_MarketID :: ID
  cb_WindowID :: u64
  cb_ClearPrice :: u64
  cb_TotalVolume :: u64
  cb_FillsHash :: bytes

record ClearBatchResult =
  cbr_ClearPrice :: u64
  cbr_TotalVolume :: u64

definition ClearBatch_StateKeys :: "'s host \<Rightarrow> ClearBatch \<Rightarrow> Address \<Rightarrow> state_keys" where
  "ClearBatch_StateKeys H t actor = Keys
     [(MarketKey H (cb_MarketID t), StateRead),
      (BatchKey H (cb_MarketID t) (cb_WindowID t), StateAll),
      (ProofConfigKey H, StateRead),
      (BatchProofKey H (cb_MarketID t) (cb_WindowID t), StateRead),
      (VellumProofKey H (cb_MarketID t) (cb_WindowID t), StateRead)]"

definition computeExpectedPublicInputsHash ::
    "bytes \<Rightarrow> ID \<Rightarrow> u64 \<Rightarrow> u64 \<Rightarrow> u64 \<Rightarrow> bytes \<Rightarrow> error + Hash32" where
  "computeExpectedPublicInputsHash circuitID0 marketID windowID clearPrice totalVolume fillsHash =
     (let circuitID = TrimSpace circuitID0 in
      if circuitID = [] \<or> circuitID = ProofCircuitClearHashV1
      then Inr (ComputeClearPublicInputsHash marketID windowID clearPrice totalVolume fillsHash)
      else if circuitID = ProofCircuitShieldedLedgerV1
      then Inr (ComputeShieldedLedgerPublicInputsHash marketID windowID clearPrice totalVolume fillsHash)
      else Inl ErrUnsupportedProofCircuit)"

text \<open>The checks under \<open>if proofCfg.RequireProof\<close>: they only read.\<close>

definition clearGate ::
    "'s host \<Rightarrow> verifier_env \<Rightarrow> ClearBatch \<Rightarrow> Address \<Rightarrow> ProofConfig \<Rightarrow> ('s, unit) action_run" where
  "clearGate H V t actor proofCfg =
     go_guard (actor \<noteq> pc_ProverAuthority proofCfg) ErrUnauthorized
    (go_bind (go_read (\<lambda>s. GetBatchProofRecord H s (cb_MarketID t) (cb_WindowID t))) (\<lambda>record.
     go_guard (bp_ProofType record \<noteq> pc_RequiredProofType proofCfg) ErrProofTypeMismatch
    (go_guard (sint (bp_SubmittedAtMs record)
         > sint (bp_WindowCloseAtMs record + pc_ProofDeadlineMs proofCfg)) ErrProofDeadlineMissed
    (go_guard (bp_FillsHash record \<noteq> cb_FillsHash t) ErrProofFillsMismatch
    (go_bind (go_read (\<lambda>s. GetVellumProof H s (cb_MarketID t) (cb_WindowID t))) (\<lambda>proofBytes.
     go_guard (Sum256 proofBytes \<noteq> bp_ProofCommitment record) ErrProofCommitmentMismatch
    (go_bind (go_lift (parseProofEnvelope proofBytes)) (\<lambda>e.
     go_bind (go_lift (computeExpectedPublicInputsHash (en_circuitID e) (cb_MarketID t)
         (cb_WindowID t) (cb_ClearPrice t) (cb_TotalVolume t) (cb_FillsHash t)))
       (\<lambda>expectedInputsHash.
     go_guard (bp_PublicInputsHash record \<noteq> be_bytes 32 expectedInputsHash)
       ErrProofPublicInputsMismatch
    (go_lift (verifyBatchProofInConsensus V (bp_ProofType record) proofBytes
       (be_bytes 32 expectedInputsHash))))))))))))"

definition ClearBatch_Execute ::
    "'s host \<Rightarrow> verifier_env \<Rightarrow> ClearBatch \<Rightarrow> Address \<Rightarrow> ('s, ClearBatchResult) action_run" where
  "ClearBatch_Execute H V t actor =
     go_guard (cb_ClearPrice t = 0) ErrClearPriceZero
    (go_guard (length (cb_FillsHash t) = 0) ErrFillsHashEmpty
    (go_guard (length (cb_FillsHash t) > MaxFillsHashSize) ErrFillsHashTooLarge
    (go_guard (length (cb_FillsHash t) \<noteq> ExpectedFillsHashSize) ErrFillsHashWrongSize
    (go_bind (go_read (\<lambda>s. GetMarket H s (cb_MarketID t))) (\<lambda>m.
     go_guard (mk_status m \<noteq> MarketStatusActive) ErrMarketNotActive
    (go_bind (go_read (GetProofConfig H)) (\<lambda>proofCfg.
     go_bind (if pc_RequireProof proofCfg then clearGate H V t actor proofCfg else go_return ()) (\<lambda>_.
     go_bind (PutBatchResult H (cb_MarketID t) (cb_WindowID t) (cb_ClearPrice t) (cb_TotalVolume t)
         (cb_FillsHash t)) (\<lambda>_.
     go_return \<lparr>cbr_ClearPrice = cb_ClearPrice t, cbr_TotalVolume = cb_TotalVolume t\<rparr>)))))))))"

text \<open>The message whose digest a clear expects, for naming the two sides of a collision.\<close>

definition expectedPreimage :: "bytes \<Rightarrow> ID \<Rightarrow> u64 \<Rightarrow> u64 \<Rightarrow> u64 \<Rightarrow> bytes \<Rightarrow> bytes" where
  "expectedPreimage circuitID marketID windowID clearPrice totalVolume fillsHash =
     (let c = TrimSpace circuitID in
      if c = [] \<or> c = ProofCircuitClearHashV1
      then BuildClearPublicInputsPreimage marketID windowID clearPrice totalVolume fillsHash
      else BuildShieldedLedgerPublicInputsPreimage marketID windowID clearPrice totalVolume fillsHash)"

text \<open>Without a verifier and in strict mode nothing passes the gate.\<close>

lemma verify_fail_closed:
  assumes "proofVerifier V = None" and "strictProofVerifier V"
  shows "verifyBatchProofInConsensus V pt blob h \<noteq> Inr ()"
  using assms by (auto simp: verifyBatchProofInConsensus_def getBatchProofVerifier_def split: sum.splits)

text \<open>With a verifier installed, passing the gate means the verifier accepted the parsed proof.\<close>

lemma verify_accepted:
  assumes "proofVerifier V = Some verify" and "verifyBatchProofInConsensus V pt blob h = Inr ()"
  shows "\<exists>e. parseProofEnvelope blob = Inr e \<and> (en_hasEnvelope e \<longrightarrow> en_proofType e = pt)
    \<and> verify pt (en_circuitID e) (en_proof e) h (en_witness e) = None"
  using assms
  by (auto simp: verifyBatchProofInConsensus_def getBatchProofVerifier_def
      split: sum.splits if_splits option.splits)

lemma expected_digest:
  "computeExpectedPublicInputsHash c m w p v f = Inr h \<Longrightarrow> h = Sum256 (expectedPreimage c m w p v f)"
  by (auto simp: computeExpectedPublicInputsHash_def ComputeClearPublicInputsHash_def Let_def
      ComputeShieldedLedgerPublicInputsHash_def expectedPreimage_def split: if_splits)

section \<open>What a successful run does\<close>

context host_env
begin

lemma submitTiming_Inr:
  "submitTiming a cfg now = Inr u \<longleftrightarrow>
    go_rem (sb_WindowCloseAtMs a) (pc_BatchWindowMs cfg) = Inr 0
    \<and> sint (sb_WindowCloseAtMs a) \<le> sint now
    \<and> sint now \<le> sint (sb_WindowCloseAtMs a + pc_ProofDeadlineMs cfg)"
  by (auto simp: submitTiming_def split: sum.splits)

lemma requireNoRecord_Inr: "requireNoRecord r = Inr u \<longleftrightarrow> r = Inl ErrProofNotFound"
  by (auto simp: requireNoRecord_def split: sum.splits)

lemma SubmitBatchProof_run:
  assumes "SubmitBatchProof_Execute H V a now actor tx s = (Inr r, t)"
  obtains m cfg where
    "\<not> submitMalformed a" "GetMarket H s (sb_MarketID a) = Inr m" "mk_status m = MarketStatusActive"
    "GetProofConfig H s = Inr cfg" "pc_RequireProof cfg" "actor = pc_ProverAuthority cfg"
    "sb_ProofType a = pc_RequiredProofType cfg"
    "go_rem (sb_WindowCloseAtMs a) (pc_BatchWindowMs cfg) = Inr 0"
    "sint (sb_WindowCloseAtMs a) \<le> sint now"
    "sint now \<le> sint (sb_WindowCloseAtMs a + pc_ProofDeadlineMs cfg)"
    "GetBatchProofRecord H s (sb_MarketID a) (sb_WindowID a) = Inl ErrProofNotFound"
    "verifyBatchProofInConsensus V (pc_RequiredProofType cfg) (sb_Proof a) (sb_PublicInputsHash a) = Inr ()"
    "submitStore H a now actor tx s = (Inr r, t)"
  using assms
  by (auto simp: SubmitBatchProof_Execute_def run_simps submitTiming_Inr requireNoRecord_Inr)

lemma submitStore_run:
  assumes "submitStore H a now actor tx s = (Inr r, t)"
  obtains b u1 u2 u3 where
    "PutBatchProofRecord H (sb_MarketID a) (sb_WindowID a) (submitRecord a now actor) s = (Inr (), u1)"
    "PutVellumProof H (sb_MarketID a) (sb_WindowID a) (sb_Proof a) u1 = (Inr (), u2)"
    "GetBloodsworn H u2 actor = Inr b"
    "PutBloodsworn H actor (b\<lparr>bs_TotalAcceptedProofs := bs_TotalAcceptedProofs b + 1,
       bs_ActiveStreak := bs_ActiveStreak b + 1, bs_LastProofAtMs := now\<rparr>) u2 = (Inr (), u3)"
    "PutGlyph H (sb_MarketID a) (sb_WindowID a) (deriveGlyph tx (sb_MarketID a) (sb_WindowID a) actor
       (Sum256 (sb_Proof a)) (sb_PublicInputsHash a) now) u3 = (Inr (), t)"
  using assms by (auto simp: submitStore_def run_simps Let_def submitRecord_def)

lemma ClearBatch_run:
  assumes "ClearBatch_Execute H V c actor s = (Inr r, t)"
  obtains m cfg where
    "cb_ClearPrice c \<noteq> 0" "length (cb_FillsHash c) = ExpectedFillsHashSize"
    "GetMarket H s (cb_MarketID c) = Inr m" "mk_status m = MarketStatusActive"
    "GetProofConfig H s = Inr cfg"
    "pc_RequireProof cfg \<longrightarrow> clearGate H V c actor cfg s = (Inr (), s)"
    "GetValue H t = (GetValue H s)(slot_key H (SBatch (cb_MarketID c) (cb_WindowID c)) :=
       Inr (encodeBatchResult (cb_ClearPrice c) (cb_TotalVolume c) (cb_FillsHash c)))"
    "r = \<lparr>cbr_ClearPrice = cb_ClearPrice c, cbr_TotalVolume = cb_TotalVolume c\<rparr>"
proof -
  have gate: "clearGate H V c actor cfg s = (Inr x, u) \<Longrightarrow> u = s" for cfg x u
    by (auto simp: clearGate_def run_simps)
  from assms obtain m cfg u where
    front: "cb_ClearPrice c \<noteq> 0" "length (cb_FillsHash c) = ExpectedFillsHashSize"
      "GetMarket H s (cb_MarketID c) = Inr m" "mk_status m = MarketStatusActive"
      "GetProofConfig H s = Inr cfg"
    and g: "(if pc_RequireProof cfg then clearGate H V c actor cfg else go_return ()) s = (Inr (), u)"
    and put: "PutBatchResult H (cb_MarketID c) (cb_WindowID c) (cb_ClearPrice c) (cb_TotalVolume c)
      (cb_FillsHash c) u = (Inr (), t)"
    and r: "r = \<lparr>cbr_ClearPrice = cb_ClearPrice c, cbr_TotalVolume = cb_TotalVolume c\<rparr>"
    by (auto simp: ClearBatch_Execute_def run_simps)
  from g gate have "u = s" and "pc_RequireProof cfg \<longrightarrow> clearGate H V c actor cfg s = (Inr (), s)"
    by (auto simp: run_simps split: if_splits)
  with front r market_put_run(3) [OF put] show thesis by (auto intro: that)
qed

lemma clearGate_run:
  "clearGate H V c actor cfg s = (Inr u, t) \<longleftrightarrow> t = s \<and> actor = pc_ProverAuthority cfg
    \<and> (\<exists>rec proof e h. GetBatchProofRecord H s (cb_MarketID c) (cb_WindowID c) = Inr rec
      \<and> bp_ProofType rec = pc_RequiredProofType cfg
      \<and> sint (bp_SubmittedAtMs rec) \<le> sint (bp_WindowCloseAtMs rec + pc_ProofDeadlineMs cfg)
      \<and> bp_FillsHash rec = cb_FillsHash c
      \<and> GetVellumProof H s (cb_MarketID c) (cb_WindowID c) = Inr proof
      \<and> Sum256 proof = bp_ProofCommitment rec \<and> parseProofEnvelope proof = Inr e
      \<and> computeExpectedPublicInputsHash (en_circuitID e) (cb_MarketID c) (cb_WindowID c)
          (cb_ClearPrice c) (cb_TotalVolume c) (cb_FillsHash c) = Inr h
      \<and> bp_PublicInputsHash rec = be_bytes 32 h
      \<and> verifyBatchProofInConsensus V (bp_ProofType rec) proof (be_bytes 32 h) = Inr ())"
  by (auto simp: clearGate_def run_simps not_less)

lemma ClearBatch_gated:
  assumes "ClearBatch_Execute H V c actor s = (Inr r, t)"
    and "GetProofConfig H s = Inr cfg" and "pc_RequireProof cfg"
  obtains rec pf e h where "GetBatchProofRecord H s (cb_MarketID c) (cb_WindowID c) = Inr rec"
    "GetVellumProof H s (cb_MarketID c) (cb_WindowID c) = Inr pf" "parseProofEnvelope pf = Inr e"
    "bp_PublicInputsHash rec = be_bytes 32 h"
    "computeExpectedPublicInputsHash (en_circuitID e) (cb_MarketID c) (cb_WindowID c)
       (cb_ClearPrice c) (cb_TotalVolume c) (cb_FillsHash c) = Inr h"
proof -
  have "clearGate H V c actor cfg s = (Inr (), s)"
    using assms(1) by (rule ClearBatch_run) (use assms(2,3) in simp)
  then show thesis unfolding clearGate_run using that by blast
qed

text \<open>The stored objects of a window after a submission.\<close>

lemma SubmitBatchProof_effect:
  assumes "SubmitBatchProof_Execute H V a now actor tx s = (Inr r, t)"
  obtains b where "GetBloodsworn H s actor = Inr b"
    "GetValue H t = (GetValue H s)(
       slot_key H (SBatchProof (sb_MarketID a) (sb_WindowID a)) :=
         Inr (encodeBatchProofRecord (submitRecord a now actor)),
       slot_key H (SVellumProof (sb_MarketID a) (sb_WindowID a)) := Inr (encodeVellumProof (sb_Proof a)),
       slot_key H (SBloodsworn actor) := Inr (encodeBloodsworn
         (b\<lparr>bs_TotalAcceptedProofs := bs_TotalAcceptedProofs b + 1,
            bs_ActiveStreak := bs_ActiveStreak b + 1, bs_LastProofAtMs := now\<rparr>)),
       slot_key H (SGlyph (sb_MarketID a) (sb_WindowID a)) := Inr (encodeGlyph (deriveGlyph tx
         (sb_MarketID a) (sb_WindowID a) actor (Sum256 (sb_Proof a)) (sb_PublicInputsHash a) now)))"
    "storable_record (submitRecord a now actor)" "sb_Proof a \<noteq> []"
    "length (sb_Proof a) \<le> maxVellumProofBytes"
  using assms
  by (elim SubmitBatchProof_run submitStore_run)
    (auto simp: GetBloodsworn_def key_simps intro: that
      dest!: PutBatchProofRecord_run PutVellumProof_run PutBloodsworn_run PutGlyph_run)

lemma SubmitBatchProof_reads:
  assumes "SubmitBatchProof_Execute H V a now actor tx s = (Inr r, t)"
  shows "GetBatchProofRecord H t (sb_MarketID a) (sb_WindowID a) = Inr (submitRecord a now actor)"
    and "GetVellumProof H t (sb_MarketID a) (sb_WindowID a) = Inr (sb_Proof a)"
    and "GetMarket H t i = GetMarket H s i" and "GetProofConfig H t = GetProofConfig H s"
  using assms
  by (auto elim!: SubmitBatchProof_effect simp: GetBatchProofRecord_def GetVellumProof_def
      GetMarket_def GetProofConfig_def key_simps)

lemma SubmitBatchProof_confined:
  assumes "SubmitBatchProof_Execute H V a now actor tx s = (Inr r, t)"
  shows "confined H (SubmitBatchProof_StateKeys H a actor) s t"
  using assms
  by (elim SubmitBatchProof_effect)
    (auto simp: confined_def SubmitBatchProof_StateKeys_def keys_simps split: if_splits)

lemma ClearBatch_confined:
  assumes "ClearBatch_Execute H V c actor s = (Inr r, t)"
  shows "confined H (ClearBatch_StateKeys H c actor) s t"
  using assms
  by (elim ClearBatch_run)
    (auto simp: confined_def ClearBatch_StateKeys_def keys_simps split: if_splits)

lemma econ_SubmitBatchProof:
  assumes "SubmitBatchProof_Execute H V a now actor tx s = (Inr r, t)"
  shows "economy_of H t = economy_of H s" and "market_at H t = market_at H s"
  using assms
  by (auto elim!: SubmitBatchProof_effect intro!: economy_of_cong
      simp: economic_def market_at_def GetMarket_def key_simps fun_eq_iff)

lemma econ_ClearBatch:
  assumes "ClearBatch_Execute H V c actor s = (Inr r, t)"
  shows "economy_of H t = economy_of H s" and "market_at H t = market_at H s"
  using assms
  by (auto elim!: ClearBatch_run intro!: economy_of_cong
      simp: economic_def market_at_def GetMarket_def key_simps fun_eq_iff)

text \<open>The inputs two gated clears of one window agree on, up to a collision.\<close>

lemma expected_hash_agree:
  assumes "computeExpectedPublicInputsHash c m w p v f = Inr h"
    and "computeExpectedPublicInputsHash c m w p' v' f' = Inr h"
  shows "p = p' \<and> v = v' \<and> f = f'
    \<or> sha_collision (expectedPreimage c m w p v f) (expectedPreimage c m w p' v' f')"
proof -
  have "Sum256 (expectedPreimage c m w p v f) = Sum256 (expectedPreimage c m w p' v' f')"
    using expected_digest [OF assms(1)] expected_digest [OF assms(2)] by simp
  moreover have "expectedPreimage c m w p v f = expectedPreimage c m w p' v' f'
      \<longleftrightarrow> p = p' \<and> v = v' \<and> f = f'"
    by (simp add: expectedPreimage_def Let_def clear_preimage_inject shielded_preimage_inject)
  ultimately show ?thesis by (auto simp: sha_collision_def)
qed

end

sublocale host_env \<subseteq> submit: declared_action H "SubmitBatchProof_StateKeys H"
    "\<lambda>a now actor. SubmitBatchProof_Execute H V a now actor tx" for V tx
  by unfold_locales (rule SubmitBatchProof_confined)

sublocale host_env \<subseteq> clear: declared_action H "ClearBatch_StateKeys H"
    "\<lambda>a now actor. ClearBatch_Execute H V a actor" for V
  by unfold_locales (rule ClearBatch_confined)

context total_env
begin

text \<open>A clear of exactly the inputs a submission committed to goes through.\<close>

lemma submit_then_clear:
  assumes sub: "SubmitBatchProof_Execute H V a now actor tx s = (Inr r, t)"
    and e: "parseProofEnvelope (sb_Proof a) = Inr e"
    and h: "computeExpectedPublicInputsHash (en_circuitID e) (sb_MarketID a) (sb_WindowID a) p v
      (sb_FillsHash a) = Inr h" "sb_PublicInputsHash a = be_bytes 32 h"
    and p: "p \<noteq> 0"
    and c: "c = \<lparr>cb_MarketID = sb_MarketID a, cb_WindowID = sb_WindowID a, cb_ClearPrice = p,
      cb_TotalVolume = v, cb_FillsHash = sb_FillsHash a\<rparr>"
  shows "fst (ClearBatch_Execute H V c actor t) = Inr \<lparr>cbr_ClearPrice = p, cbr_TotalVolume = v\<rparr>"
  using sub
proof (elim SubmitBatchProof_run)
  fix m cfg
  assume ok: "\<not> submitMalformed a" and m: "GetMarket H s (sb_MarketID a) = Inr m"
    "mk_status m = MarketStatusActive" and cfg: "GetProofConfig H s = Inr cfg"
    and auth: "actor = pc_ProverAuthority cfg" "sb_ProofType a = pc_RequiredProofType cfg"
    and time: "sint now \<le> sint (sb_WindowCloseAtMs a + pc_ProofDeadlineMs cfg)"
    and ver: "verifyBatchProofInConsensus V (pc_RequiredProofType cfg) (sb_Proof a)
      (sb_PublicInputsHash a) = Inr ()"
  note rd = SubmitBatchProof_reads [OF sub]
  have "clearGate H V c actor cfg t = (Inr (), t)"
    unfolding clearGate_run using rd auth time ver e h by (auto simp: c submitRecord_def)
  moreover have "\<exists>u. PutBatchResult H (cb_MarketID c) (cb_WindowID c) (cb_ClearPrice c)
      (cb_TotalVolume c) (cb_FillsHash c) t = (Inr (), u)"
    unfolding PutBatchResult_def by (rule insert_total)
  moreover have "length (sb_FillsHash a) = 32" using ok by (simp add: submitMalformed_def)
  ultimately show ?thesis
    using rd(3,4) m cfg p
    by (auto simp: ClearBatch_Execute_def c go_defs split: prod.splits sum.splits)
qed

end

context total_env
begin

lemma submitStore_succeeds:
  assumes "\<not> submitMalformed a" and "0 < sint now" and "GetBloodsworn H s actor = Inr b"
  shows "\<exists>r t. submitStore H a now actor tx s = (Inr r, t)"
proof -
  let ?m = "sb_MarketID a" and ?w = "sb_WindowID a"
  let ?b = "b\<lparr>bs_TotalAcceptedProofs := bs_TotalAcceptedProofs b + 1,
    bs_ActiveStreak := bs_ActiveStreak b + 1, bs_LastProofAtMs := now\<rparr>"
  let ?g = "deriveGlyph tx ?m ?w actor (Sum256 (sb_Proof a)) (sb_PublicInputsHash a) now"
  have sizes: "length (sb_PublicInputsHash a) = 32" "length (sb_FillsHash a) = 32"
    "0 < length (sb_Proof a)" "length (sb_Proof a) \<le> 131072"
    using assms(1) by (auto simp: submitMalformed_def)
  obtain u1 where u1: "PutBatchProofRecord H ?m ?w (submitRecord a now actor) s = (Inr (), u1)"
    using insert_total sizes by (fastforce simp: PutBatchProofRecord_def submitRecord_def go_defs)
  obtain u2 where u2: "PutVellumProof H ?m ?w (sb_Proof a) u1 = (Inr (), u2)"
    using insert_total sizes by (fastforce simp: PutVellumProof_def go_defs)
  have b: "GetBloodsworn H u2 actor = Inr b"
    using PutBatchProofRecord_run [OF u1] PutVellumProof_run [OF u2] assms(3)
    by (simp add: GetBloodsworn_def key_simps)
  obtain u3 where u3: "PutBloodsworn H actor ?b u2 = (Inr (), u3)"
    using insert_total by (fastforce simp: PutBloodsworn_def)
  obtain u4 where u4: "PutGlyph H ?m ?w ?g u3 = (Inr (), u4)"
    using insert_total glyph_storable [OF assms(2)] by (fastforce simp: PutGlyph_def go_defs)
  show ?thesis
    using u1 u2 u3 u4 b by (simp add: submitStore_def submitRecord_def go_defs Let_def)
qed

lemma SubmitBatchProof_succeeds:
  assumes "\<not> submitMalformed a" and "GetMarket H s (sb_MarketID a) = Inr m"
    and "mk_status m = MarketStatusActive" and "GetProofConfig H s = Inr cfg" and "pc_RequireProof cfg"
    and "actor = pc_ProverAuthority cfg" and "sb_ProofType a = pc_RequiredProofType cfg"
    and "submitTiming a cfg now = Inr ()"
    and "GetBatchProofRecord H s (sb_MarketID a) (sb_WindowID a) = Inl ErrProofNotFound"
    and "verifyBatchProofInConsensus V (pc_RequiredProofType cfg) (sb_Proof a) (sb_PublicInputsHash a) = Inr ()"
    and "GetBloodsworn H s actor = Inr b"
  shows "\<exists>r t. SubmitBatchProof_Execute H V a now actor tx s = (Inr r, t)"
proof -
  have "0 < sint now" using assms(1,8) by (auto simp: submitMalformed_def submitTiming_Inr)
  then show ?thesis
    using submitStore_succeeds [OF assms(1) _ assms(11), of now tx] assms
    by (simp add: SubmitBatchProof_Execute_def go_defs requireNoRecord_def)
qed

end

section \<open>A window proved and cleared\<close>

text \<open>A chain with one active market and proof-gated clearing, and a submission for its first window.\<close>

definition accept_all :: verifier_env where
  "accept_all = ConfigureBatchProofVerifier (Some (\<lambda>_ _ _ _ _. None)) True"

definition window_cfg :: ProofConfig where
  "window_cfg = \<lparr>pc_RequireProof = True, pc_RequiredProofType = 1, pc_BatchWindowMs = 5000,
     pc_ProofDeadlineMs = 10000, pc_ProverAuthority = gov\<rparr>"

definition window_slots :: "(slot \<times> bytes option) list" where
  "window_slots =
     [(SMarket 7, Some (encodeMarket \<lparr>mk_status = 0, mk_outcomes = 2, mk_resolutionTime = 1,
        mk_resolvedOutcome = 0, mk_question = []\<rparr>)),
      (SProofConfig, Some (encodeProofConfig window_cfg))]"

definition window_fills :: bytes where
  "window_fills = replicate 32 9"

definition window_submit :: SubmitBatchProof where
  "window_submit = \<lparr>sb_MarketID = 7, sb_WindowID = 1, sb_WindowCloseAtMs = 5000, sb_ProofType = 1,
     sb_PublicInputsHash = be_bytes 32 (ComputeClearPublicInputsHash 7 1 50 400 window_fills),
     sb_FillsHash = window_fills, sb_Proof = [1, 2, 3]\<rparr>"

definition window_clear :: ClearBatch where
  "window_clear = \<lparr>cb_MarketID = 7, cb_WindowID = 1, cb_ClearPrice = 50, cb_TotalVolume = 400,
     cb_FillsHash = window_fills\<rparr>"

definition window_start :: mem where
  "window_start = store window_slots"

lemma window_cfg_valid [simp]: "validateProofConfig window_cfg = Inr ()"
  by (simp add: validateProofConfig_def window_cfg_def)

lemma parse_123: "parseProofEnvelope [1, 2, 3] = Inr (rawEnvelope [1, 2, 3])"
  by (simp add: parseProofEnvelope_def go_str_def)

lemma window_verified: "verifyBatchProofInConsensus accept_all pt [1, 2, 3] h = Inr ()"
  by (simp add: verifyBatchProofInConsensus_def parse_123 accept_all_def rawEnvelope_def
      ConfigureBatchProofVerifier_def getBatchProofVerifier_def)

lemma window_submitted:
  obtains r t where
    "SubmitBatchProof_Execute mem_host accept_all window_submit 6000 gov 5 window_start = (Inr r, t)"
proof -
  let ?m = "\<lparr>mk_status = 0, mk_outcomes = 2, mk_resolutionTime = 1, mk_resolvedOutcome = 0,
    mk_question = []\<rparr> :: Market"
  have reads: "GetMarket mem_host window_start 7 = Inr ?m"
    "GetProofConfig mem_host window_start = Inr window_cfg"
    "GetBatchProofRecord mem_host window_start 7 1 = Inl ErrProofNotFound"
    "GetBloodsworn mem_host window_start gov = Inr zeroBloodsworn"
    by (simp_all add: run_mem_defs window_start_def window_slots_def with_stored_def
        GetBatchProofRecord_def GetBloodsworn_def bloodswornResult_def)
  have "\<exists>r t. SubmitBatchProof_Execute mem_host accept_all window_submit 6000 gov 5 window_start = (Inr r, t)"
    by (rule mem_env.SubmitBatchProof_succeeds [where m = ?m and cfg = window_cfg and b = zeroBloodsworn])
      (simp_all add: reads submitMalformed_def window_submit_def window_fills_def window_cfg_def
        window_verified submitTiming_def go_rem_def)
  then show thesis using that by blast
qed

lemma window_inputs:
  "computeExpectedPublicInputsHash (en_circuitID (rawEnvelope [1, 2, 3])) (sb_MarketID window_submit)
     (sb_WindowID window_submit) 50 400 (sb_FillsHash window_submit)
    = Inr (ComputeClearPublicInputsHash 7 1 50 400 window_fills)"
  "sb_PublicInputsHash window_submit = be_bytes 32 (ComputeClearPublicInputsHash 7 1 50 400 window_fills)"
  "sb_Proof window_submit = [1, 2, 3]"
  "window_clear = \<lparr>cb_MarketID = sb_MarketID window_submit, cb_WindowID = sb_WindowID window_submit,
     cb_ClearPrice = 50, cb_TotalVolume = 400, cb_FillsHash = sb_FillsHash window_submit\<rparr>"
  by (simp_all add: computeExpectedPublicInputsHash_def rawEnvelope_def window_submit_def window_clear_def
      TrimSpace_def trim_front_Nil)

lemma window_cleared:
  obtains r t r' t' where
    "SubmitBatchProof_Execute mem_host accept_all window_submit 6000 gov 5 window_start = (Inr r, t)"
    "ClearBatch_Execute mem_host accept_all window_clear gov t = (Inr r', t')"
proof (rule window_submitted)
  fix r t
  assume run: "SubmitBatchProof_Execute mem_host accept_all window_submit 6000 gov 5 window_start = (Inr r, t)"
  have "fst (ClearBatch_Execute mem_host accept_all window_clear gov t)
      = Inr \<lparr>cbr_ClearPrice = 50, cbr_TotalVolume = 400\<rparr>"
    by (rule mem_env.submit_then_clear [OF run _ window_inputs(1,2) _ window_inputs(4)])
      (simp_all add: window_inputs(3) parse_123)
  from run run_ok [OF this] show thesis by (rule that)
qed

lemma window_cfg_read: "GetProofConfig mem_host window_start = Inr window_cfg"
  by (simp add: run_mem_defs window_start_def window_slots_def with_stored_def)

lemma window_cleared_twice:
  obtains s r1 s1 r2 s2 where
    "ClearBatch_Execute mem_host accept_all window_clear gov s = (Inr r1, s1)"
    "GetProofConfig mem_host s = Inr window_cfg" "pc_RequireProof window_cfg"
    "ClearBatch_Execute mem_host accept_all window_clear gov s1 = (Inr r2, s2)"
    "GetProofConfig mem_host s1 = Inr window_cfg"
proof (rule window_cleared)
  fix r t r' t'
  assume sub: "SubmitBatchProof_Execute mem_host accept_all window_submit 6000 gov 5 window_start = (Inr r, t)"
    and clr: "ClearBatch_Execute mem_host accept_all window_clear gov t = (Inr r', t')"
  have cfg: "GetProofConfig mem_host t = Inr window_cfg" "pc_RequireProof window_cfg"
    using mem_env.SubmitBatchProof_reads(4) [OF sub] window_cfg_read by (simp_all add: window_cfg_def)
  have frame: "GetValue mem_host t' (slot_key mem_host k) = GetValue mem_host t (slot_key mem_host k)"
    if "\<And>m w. k \<noteq> SBatch m w" for k
    using clr by (rule mem_env.ClearBatch_run) (use that in simp)
  then have same: "GetProofConfig mem_host t' = GetProofConfig mem_host t"
    "GetMarket mem_host t' = GetMarket mem_host t"
    "GetBatchProofRecord mem_host t' = GetBatchProofRecord mem_host t"
    "GetVellumProof mem_host t' = GetVellumProof mem_host t"
    by (simp_all add: GetProofConfig_def GetMarket_def GetBatchProofRecord_def GetVellumProof_def
        key_simps fun_eq_iff)
  have "clearGate mem_host accept_all window_clear gov window_cfg t = (Inr (), t)"
    using clr by (rule mem_env.ClearBatch_run) (use cfg in simp)
  then have gate: "clearGate mem_host accept_all window_clear gov window_cfg t' = (Inr (), t')"
    unfolding mem_env.clearGate_run same by blast
  obtain m where m: "cb_ClearPrice window_clear \<noteq> 0" "length (cb_FillsHash window_clear) = 32"
    "GetMarket mem_host t' (cb_MarketID window_clear) = Inr m" "mk_status m = MarketStatusActive"
    using clr unfolding same by (rule mem_env.ClearBatch_run) blast
  have "\<exists>r2 s2. ClearBatch_Execute mem_host accept_all window_clear gov t' = (Inr r2, s2)"
    using m gate cfg mem_env.insert_total
    by (simp add: ClearBatch_Execute_def go_defs same PutBatchResult_def split: prod.splits sum.splits)
      (metis Pair_inject sum.distinct(1))
  then show thesis using that clr cfg same(1) by metis
qed

section \<open>Properties\<close>

text \<open>
  C9: A clear under the proof requirement is backed by an accepted proof of exactly its result: it comes
  from the prover authority, the stored record carries the clear's fills hash and the digest of the
  stored proof, and the installed verifier accepted that proof for the SHA-256 digest of the canonical
  encoding of market, window, price, volume and fills, and that result is what is stored.
\<close>

theorem cleared_only_with_verified_proof:
  assumes "host_env H" and "ClearBatch_Execute H V c actor s = (Inr r, t)"
    and "GetProofConfig H s = Inr cfg" and "pc_RequireProof cfg" and "proofVerifier V = Some verify"
  shows "\<exists>rec pf e. actor = pc_ProverAuthority cfg
    \<and> GetBatchProofRecord H s (cb_MarketID c) (cb_WindowID c) = Inr rec
    \<and> GetVellumProof H s (cb_MarketID c) (cb_WindowID c) = Inr pf
    \<and> bp_FillsHash rec = cb_FillsHash c \<and> bp_ProofCommitment rec = Sum256 pf
    \<and> parseProofEnvelope pf = Inr e
    \<and> verify (pc_RequiredProofType cfg) (en_circuitID e) (en_proof e)
        (be_bytes 32 (Sum256 (expectedPreimage (en_circuitID e) (cb_MarketID c) (cb_WindowID c)
          (cb_ClearPrice c) (cb_TotalVolume c) (cb_FillsHash c)))) (en_witness e) = None
    \<and> GetValue H t (BatchKey H (cb_MarketID c) (cb_WindowID c))
        = Inr (encodeBatchResult (cb_ClearPrice c) (cb_TotalVolume c) (cb_FillsHash c))"
  using assms(2)
proof (rule host_env.ClearBatch_run [OF assms(1)])
  fix m :: Market and cfg'
  assume "GetProofConfig H s = Inr cfg'"
    and gate: "pc_RequireProof cfg' \<longrightarrow> clearGate H V c actor cfg' s = (Inr (), s)"
    and stored: "GetValue H t = (GetValue H s)(slot_key H (SBatch (cb_MarketID c) (cb_WindowID c)) :=
       Inr (encodeBatchResult (cb_ClearPrice c) (cb_TotalVolume c) (cb_FillsHash c)))"
  then have "clearGate H V c actor cfg s = (Inr (), s)" using assms(3,4) by simp
  then obtain rec pf e h where gated: "actor = pc_ProverAuthority cfg"
    "GetBatchProofRecord H s (cb_MarketID c) (cb_WindowID c) = Inr rec"
    "bp_ProofType rec = pc_RequiredProofType cfg" "bp_FillsHash rec = cb_FillsHash c"
    "GetVellumProof H s (cb_MarketID c) (cb_WindowID c) = Inr pf"
    "Sum256 pf = bp_ProofCommitment rec" "parseProofEnvelope pf = Inr e"
    and h: "computeExpectedPublicInputsHash (en_circuitID e) (cb_MarketID c) (cb_WindowID c)
          (cb_ClearPrice c) (cb_TotalVolume c) (cb_FillsHash c) = Inr h"
    and v: "verifyBatchProofInConsensus V (bp_ProofType rec) pf (be_bytes 32 h) = Inr ()"
    unfolding host_env.clearGate_run [OF assms(1)] by blast
  have "h = Sum256 (expectedPreimage (en_circuitID e) (cb_MarketID c) (cb_WindowID c)
      (cb_ClearPrice c) (cb_TotalVolume c) (cb_FillsHash c))"
    by (rule expected_digest [OF h])
  moreover have "verify (pc_RequiredProofType cfg) (en_circuitID e) (en_proof e) (be_bytes 32 h) (en_witness e) = None"
    using verify_accepted [OF assms(5) v] gated by auto
  ultimately show ?thesis using gated stored by (auto simp: key_simps)
qed

theorem cleared_only_with_verified_proof_witness:
  "\<exists>s r t rec. ClearBatch_Execute mem_host accept_all window_clear gov s = (Inr r, t)
    \<and> GetBatchProofRecord mem_host s 7 1 = Inr rec \<and> bp_FillsHash rec = window_fills"
proof (rule window_cleared)
  fix r t r' t'
  assume sub: "SubmitBatchProof_Execute mem_host accept_all window_submit 6000 gov 5 window_start = (Inr r, t)"
    and clr: "ClearBatch_Execute mem_host accept_all window_clear gov t = (Inr r', t')"
  have cfg: "GetProofConfig mem_host t = Inr window_cfg" "pc_RequireProof window_cfg"
    using mem_env.SubmitBatchProof_reads(4) [OF sub] window_cfg_read by (simp_all add: window_cfg_def)
  have v: "proofVerifier accept_all = Some (\<lambda>_ _ _ _ _. None)"
    by (simp add: accept_all_def ConfigureBatchProofVerifier_def)
  show ?thesis
    using cleared_only_with_verified_proof [OF mem_host_env clr cfg v] clr
    by (auto simp: window_clear_def)
qed

text \<open>
  C10: The gate fails closed: while no verifier is installed and the strict mode is on, no proof
  submission succeeds, and no clear succeeds on a chain that requires proofs.
\<close>

theorem gate_fails_closed:
  assumes "host_env H" and "proofVerifier V = None" and "strictProofVerifier V"
  shows "(\<exists>e. fst (SubmitBatchProof_Execute H V a now actor tx s) = Inl e)
    \<and> (\<forall>cfg. GetProofConfig H s = Inr cfg \<and> pc_RequireProof cfg \<longrightarrow>
        (\<exists>e. fst (ClearBatch_Execute H V c actor s) = Inl e))"
proof -
  have "fst (SubmitBatchProof_Execute H V a now actor tx s) \<noteq> Inr r" for r
    using host_env.SubmitBatchProof_run [OF assms(1)] verify_fail_closed [OF assms(2,3)] run_ok by metis
  moreover have "fst (ClearBatch_Execute H V c actor s) \<noteq> Inr r"
    if cfg: "GetProofConfig H s = Inr cfg" "pc_RequireProof cfg" for cfg r
  proof
    assume "fst (ClearBatch_Execute H V c actor s) = Inr r"
    from host_env.ClearBatch_run [OF assms(1) run_ok [OF this]] cfg
    have "clearGate H V c actor cfg s = (Inr (), s)" by (metis sum.inject(2))
    then show False
      using verify_fail_closed [OF assms(2,3)] unfolding host_env.clearGate_run [OF assms(1)] by blast
  qed
  ultimately show ?thesis by (metis sum.exhaust)
qed

theorem gate_fails_closed_witness:
  "\<exists>e. fst (ClearBatch_Execute mem_host (ConfigureBatchProofVerifier None True) window_clear gov window_start) = Inl e"
  using gate_fails_closed [OF mem_host_env, of "ConfigureBatchProofVerifier None True"] window_cfg_read
  by (simp add: ConfigureBatchProofVerifier_def window_cfg_def)

text \<open>
  An accepted submission unlocks its window: the same prover's clear with a non-zero price and
  the public inputs the submission committed to succeeds right after it and stores that result.
\<close>

theorem proved_window_clears:
  assumes "total_env H" and "SubmitBatchProof_Execute H V a now actor tx s = (Inr r, t)"
    and "parseProofEnvelope (sb_Proof a) = Inr e"
    and "computeExpectedPublicInputsHash (en_circuitID e) (sb_MarketID a) (sb_WindowID a) price volume
      (sb_FillsHash a) = Inr h" and "sb_PublicInputsHash a = be_bytes 32 h" and "price \<noteq> 0"
  shows "\<exists>u. ClearBatch_Execute H V \<lparr>cb_MarketID = sb_MarketID a, cb_WindowID = sb_WindowID a,
      cb_ClearPrice = price, cb_TotalVolume = volume, cb_FillsHash = sb_FillsHash a\<rparr> actor t
      = (Inr \<lparr>cbr_ClearPrice = price, cbr_TotalVolume = volume\<rparr>, u)
    \<and> GetValue H u (BatchKey H (sb_MarketID a) (sb_WindowID a))
      = Inr (encodeBatchResult price volume (sb_FillsHash a))"
proof -
  note env = total_env.axioms(1) [OF assms(1)]
  let ?c = "\<lparr>cb_MarketID = sb_MarketID a, cb_WindowID = sb_WindowID a, cb_ClearPrice = price,
    cb_TotalVolume = volume, cb_FillsHash = sb_FillsHash a\<rparr>"
  have "fst (ClearBatch_Execute H V ?c actor t) = Inr \<lparr>cbr_ClearPrice = price, cbr_TotalVolume = volume\<rparr>"
    by (rule total_env.submit_then_clear [OF assms refl])
  then obtain u where u: "ClearBatch_Execute H V ?c actor t
      = (Inr \<lparr>cbr_ClearPrice = price, cbr_TotalVolume = volume\<rparr>, u)"
    by (cases "ClearBatch_Execute H V ?c actor t") auto
  then have "GetValue H u (BatchKey H (sb_MarketID a) (sb_WindowID a))
      = Inr (encodeBatchResult price volume (sb_FillsHash a))"
    by (rule host_env.ClearBatch_run [OF env]) (simp add: key_simps)
  with u show ?thesis by blast
qed

theorem proved_window_clears_witness:
  "\<exists>t u r. SubmitBatchProof_Execute mem_host accept_all window_submit 6000 gov 5 window_start = (Inr r, t)
    \<and> ClearBatch_Execute mem_host accept_all window_clear gov t
      = (Inr \<lparr>cbr_ClearPrice = 50, cbr_TotalVolume = 400\<rparr>, u)"
proof (rule window_submitted)
  fix r t
  assume run: "SubmitBatchProof_Execute mem_host accept_all window_submit 6000 gov 5 window_start = (Inr r, t)"
  have "parseProofEnvelope (sb_Proof window_submit) = Inr (rawEnvelope [1, 2, 3])"
    by (simp add: window_inputs(3) parse_123)
  from proved_window_clears [OF mem_total_env run this window_inputs(1,2)] run
  show ?thesis unfolding window_inputs(4) by auto
qed

text \<open>
  A window is proved at most once: while a record for the window is stored, every submission
  for it fails, whoever sends it and whatever it carries, and leaves the state untouched.
\<close>

theorem window_proved_once:
  assumes "GetBatchProofRecord H s (sb_MarketID a) (sb_WindowID a) = Inr rec"
  shows "\<exists>e. SubmitBatchProof_Execute H V a now actor tx s = (Inl e, s)"
  using assms
  by (auto simp: SubmitBatchProof_Execute_def go_defs requireNoRecord_def split: sum.splits if_splits)

theorem window_proved_once_witness:
  "\<exists>t e. SubmitBatchProof_Execute mem_host accept_all window_submit 6001 gov 6 t = (Inl e, t)"
proof (rule window_submitted)
  fix r t
  assume "SubmitBatchProof_Execute mem_host accept_all window_submit 6000 gov 5 window_start = (Inr r, t)"
  from window_proved_once [OF mem_env.SubmitBatchProof_reads(1) [OF this]] show ?thesis by blast
qed

text \<open>
  An accepted submission came from the prover authority for an active market, after the window
  closed on the grid of the configured window length and no later than the deadline; it stores the
  record with the SHA-256 commitment to the proof, the proof itself and a valid glyph, and counts one
  more accepted proof for the prover.
\<close>

theorem submission_recorded:
  assumes "host_env H" and "SubmitBatchProof_Execute H V a now actor tx s = (Inr r, t)"
  shows "\<exists>cfg b g. GetProofConfig H s = Inr cfg \<and> pc_RequireProof cfg \<and> actor = pc_ProverAuthority cfg
    \<and> (\<exists>oc rt q. market_at H s (sb_MarketID a) = Active oc rt q)
    \<and> sint (pc_BatchWindowMs cfg) dvd sint (sb_WindowCloseAtMs a)
    \<and> sint (sb_WindowCloseAtMs a) \<le> sint now
    \<and> sint now \<le> sint (sb_WindowCloseAtMs a + pc_ProofDeadlineMs cfg)
    \<and> GetBatchProofRecord H t (sb_MarketID a) (sb_WindowID a) = Inr
        \<lparr>bp_ProofType = pc_RequiredProofType cfg, bp_SubmittedAtMs = now,
         bp_WindowCloseAtMs = sb_WindowCloseAtMs a, bp_Prover = actor,
         bp_ProofCommitment = Sum256 (sb_Proof a), bp_PublicInputsHash = sb_PublicInputsHash a,
         bp_FillsHash = sb_FillsHash a\<rparr>
    \<and> GetVellumProof H t (sb_MarketID a) (sb_WindowID a) = Inr (sb_Proof a)
    \<and> GetBloodsworn H s actor = Inr b
    \<and> GetBloodsworn H t actor = Inr (b\<lparr>bs_TotalAcceptedProofs := bs_TotalAcceptedProofs b + 1,
        bs_ActiveStreak := bs_ActiveStreak b + 1, bs_LastProofAtMs := now\<rparr>)
    \<and> GetGlyph H t (sb_MarketID a) (sb_WindowID a) = Inr g
    \<and> gl_Class g \<in> {1, 2, 3, 4, 5, 6} \<and> gl_Rarity g \<in> {1, 2, 3, 4, 5} \<and> gl_Prover g = actor"
  using assms(2)
proof (rule host_env.SubmitBatchProof_run [OF assms(1)])
  fix m :: Market and cfg
  assume m: "GetMarket H s (sb_MarketID a) = Inr m" "mk_status m = MarketStatusActive"
    and cfg: "GetProofConfig H s = Inr cfg" "pc_RequireProof cfg" "actor = pc_ProverAuthority cfg"
      "sb_ProofType a = pc_RequiredProofType cfg"
    and rem: "go_rem (sb_WindowCloseAtMs a) (pc_BatchWindowMs cfg) = Inr 0"
    and time: "sint (sb_WindowCloseAtMs a) \<le> sint now"
      "sint now \<le> sint (sb_WindowCloseAtMs a + pc_ProofDeadlineMs cfg)"
  obtain b where b: "GetBloodsworn H s actor = Inr b"
    "GetBloodsworn H t actor = Inr (b\<lparr>bs_TotalAcceptedProofs := bs_TotalAcceptedProofs b + 1,
        bs_ActiveStreak := bs_ActiveStreak b + 1, bs_LastProofAtMs := now\<rparr>)"
    and g: "GetGlyph H t (sb_MarketID a) (sb_WindowID a) = Inr (deriveGlyph tx (sb_MarketID a)
      (sb_WindowID a) actor (Sum256 (sb_Proof a)) (sb_PublicInputsHash a) now)"
    using assms(2)
    by (elim host_env.SubmitBatchProof_effect [OF assms(1)])
      (simp add: GetBloodsworn_def GetGlyph_def bloodswornResult_def with_stored_def key_simps)
  have "\<exists>oc rt q. market_at H s (sb_MarketID a) = Active oc rt q" using m by (simp add: market_at_def market_of_def)
  moreover have "sint (pc_BatchWindowMs cfg) dvd sint (sb_WindowCloseAtMs a)"
    by (rule go_rem_zero [OF rem])
  ultimately show ?thesis
    using cfg time b g host_env.SubmitBatchProof_reads(1,2) [OF assms(1,2)] glyph_ranges
    by (auto simp: submitRecord_def deriveGlyph_def Let_def)
qed

theorem submission_recorded_witness:
  "\<exists>t. GetVellumProof mem_host t 7 1 = Inr [1, 2, 3]
    \<and> GetBloodsworn mem_host t gov = Inr (zeroBloodsworn\<lparr>bs_TotalAcceptedProofs := 1, bs_ActiveStreak := 1,
        bs_LastProofAtMs := 6000\<rparr>)"
proof (rule window_submitted)
  fix r t
  assume run: "SubmitBatchProof_Execute mem_host accept_all window_submit 6000 gov 5 window_start = (Inr r, t)"
  have "GetBloodsworn mem_host window_start gov = Inr zeroBloodsworn"
    by (simp add: run_mem_defs window_start_def window_slots_def GetBloodsworn_def bloodswornResult_def)
  with submission_recorded [OF mem_host_env run] show ?thesis
    by (auto simp: window_submit_def zeroBloodsworn_def)
qed

end
