(* ===== verification/Vm.thy ===== *)
theory Vm
  imports Act_Transfer Act_Vai Act_Treasury Act_Amm Act_Proof
begin

text \<open>
  The virtual machine: the actions registered in \<open>vm/vm.go\<close> under the type identifiers of
  \<open>consts/types.go\<close>, dispatched as the interface \<open>chain.Action\<close> does, and the steps a chain takes.

  A step is a successful action or the charge of a fee through \<open>BalanceHandler.Deduct\<close>. An action that
  returns an error is no step: HyperSDK discards its writes. The theorems of this theory are the
  invariants of every reachable state: each step is a step of the economy, so VEIL is
  never created, VAI in circulation equals the recorded debt, shares equal what the pool issued,
  and markets move along their life only.
\<close>

section \<open>Actions\<close>

datatype action =
    ATransfer Transfer
  | ACreateMarket CreateMarket
  | ACommitOrder CommitOrder
  | ARevealBatch RevealBatch
  | AClearBatch ClearBatch
  | AResolveMarket ResolveMarket
  | ADispute Dispute
  | ARouteFees RouteFees
  | AReleaseCOLTranche ReleaseCOLTranche
  | AMintVAI MintVAI
  | ABurnVAI BurnVAI
  | ACreatePool CreatePool
  | AAddLiquidity AddLiquidity
  | ARemoveLiquidity RemoveLiquidity
  | ASwapExactIn SwapExactIn
  | AUpdateReserveState UpdateReserveState
  | ASetRiskParams SetRiskParams
  | ASubmitBatchProof SubmitBatchProof
  | ASetProofConfig SetProofConfig

primrec GetTypeID :: "action \<Rightarrow> u8" where
  "GetTypeID (ATransfer a) = 0"
| "GetTypeID (ACreateMarket a) = 1"
| "GetTypeID (ACommitOrder a) = 2"
| "GetTypeID (ARevealBatch a) = 3"
| "GetTypeID (AClearBatch a) = 4"
| "GetTypeID (AResolveMarket a) = 5"
| "GetTypeID (ADispute a) = 6"
| "GetTypeID (ARouteFees a) = 7"
| "GetTypeID (AReleaseCOLTranche a) = 8"
| "GetTypeID (AMintVAI a) = 9"
| "GetTypeID (ABurnVAI a) = 10"
| "GetTypeID (ACreatePool a) = 11"
| "GetTypeID (AAddLiquidity a) = 12"
| "GetTypeID (ARemoveLiquidity a) = 13"
| "GetTypeID (ASwapExactIn a) = 14"
| "GetTypeID (AUpdateReserveState a) = 15"
| "GetTypeID (ASetRiskParams a) = 16"
| "GetTypeID (ASubmitBatchProof a) = 17"
| "GetTypeID (ASetProofConfig a) = 18"

primrec StateKeys :: "'s host \<Rightarrow> Address \<Rightarrow> action \<Rightarrow> state_keys" where
  "StateKeys H actor (ATransfer a) = Transfer_StateKeys H a actor"
| "StateKeys H actor (ACreateMarket a) = CreateMarket_StateKeys H a actor"
| "StateKeys H actor (ACommitOrder a) = CommitOrder_StateKeys H a actor"
| "StateKeys H actor (ARevealBatch a) = RevealBatch_StateKeys H a actor"
| "StateKeys H actor (AClearBatch a) = ClearBatch_StateKeys H a actor"
| "StateKeys H actor (AResolveMarket a) = ResolveMarket_StateKeys H a actor"
| "StateKeys H actor (ADispute a) = Dispute_StateKeys H a actor"
| "StateKeys H actor (ARouteFees a) = RouteFees_StateKeys H a actor"
| "StateKeys H actor (AReleaseCOLTranche a) = ReleaseCOLTranche_StateKeys H a actor"
| "StateKeys H actor (AMintVAI a) = MintVAI_StateKeys H a actor"
| "StateKeys H actor (ABurnVAI a) = BurnVAI_StateKeys H a actor"
| "StateKeys H actor (ACreatePool a) = CreatePool_StateKeys H a actor"
| "StateKeys H actor (AAddLiquidity a) = AddLiquidity_StateKeys H a actor"
| "StateKeys H actor (ARemoveLiquidity a) = RemoveLiquidity_StateKeys H a actor"
| "StateKeys H actor (ASwapExactIn a) = SwapExactIn_StateKeys H a actor"
| "StateKeys H actor (AUpdateReserveState a) = UpdateReserveState_StateKeys H a actor"
| "StateKeys H actor (ASetRiskParams a) = SetRiskParams_StateKeys H a actor"
| "StateKeys H actor (ASubmitBatchProof a) = SubmitBatchProof_StateKeys H a actor"
| "StateKeys H actor (ASetProofConfig a) = SetProofConfig_StateKeys H a actor"

text \<open>The typed result is dropped here: it is returned to the sender and is not part of the state.\<close>

definition run_only :: "('s, 'r) action_run \<Rightarrow> ('s, unit) action_run" where
  "run_only m = go_bind m (\<lambda>_. go_return ())"

lemma run_only_run [run_simps]: "run_only m s = (Inr u, t) \<longleftrightarrow> (\<exists>r. m s = (Inr r, t))"
  by (auto simp: run_only_def run_simps)

primrec Execute ::
    "'s host \<Rightarrow> verifier_env \<Rightarrow> i64 \<Rightarrow> Address \<Rightarrow> ID \<Rightarrow> action \<Rightarrow> ('s, unit) action_run" where
  "Execute H V timestamp actor txID (ATransfer a) =
     run_only (Transfer_Execute H a actor)"
| "Execute H V timestamp actor txID (ACreateMarket a) =
     run_only (CreateMarket_Execute H a actor)"
| "Execute H V timestamp actor txID (ACommitOrder a) =
     run_only (CommitOrder_Execute H a actor)"
| "Execute H V timestamp actor txID (ARevealBatch a) =
     run_only (RevealBatch_Execute H a)"
| "Execute H V timestamp actor txID (AClearBatch a) =
     run_only (ClearBatch_Execute H V a actor)"
| "Execute H V timestamp actor txID (AResolveMarket a) =
     run_only (ResolveMarket_Execute H a)"
| "Execute H V timestamp actor txID (ADispute a) =
     run_only (Dispute_Execute H a actor)"
| "Execute H V timestamp actor txID (ARouteFees a) =
     run_only (RouteFees_Execute H a actor)"
| "Execute H V timestamp actor txID (AReleaseCOLTranche a) =
     run_only (ReleaseCOLTranche_Execute H a timestamp actor)"
| "Execute H V timestamp actor txID (AMintVAI a) =
     run_only (MintVAI_Execute H a timestamp actor)"
| "Execute H V timestamp actor txID (ABurnVAI a) =
     run_only (BurnVAI_Execute H a actor)"
| "Execute H V timestamp actor txID (ACreatePool a) =
     run_only (CreatePool_Execute H a actor)"
| "Execute H V timestamp actor txID (AAddLiquidity a) =
     run_only (AddLiquidity_Execute H a actor)"
| "Execute H V timestamp actor txID (ARemoveLiquidity a) =
     run_only (RemoveLiquidity_Execute H a actor)"
| "Execute H V timestamp actor txID (ASwapExactIn a) =
     run_only (SwapExactIn_Execute H a actor)"
| "Execute H V timestamp actor txID (AUpdateReserveState a) =
     run_only (UpdateReserveState_Execute H a actor)"
| "Execute H V timestamp actor txID (ASetRiskParams a) =
     run_only (SetRiskParams_Execute H a actor)"
| "Execute H V timestamp actor txID (ASubmitBatchProof a) =
     run_only (SubmitBatchProof_Execute H V a timestamp actor txID)"
| "Execute H V timestamp actor txID (ASetProofConfig a) =
     run_only (SetProofConfig_Execute H a actor)"

section \<open>Steps of the chain\<close>

inductive vm_step :: "'s host \<Rightarrow> verifier_env \<Rightarrow> 's \<Rightarrow> 's \<Rightarrow> bool" for H V where
  act: "Execute H V timestamp actor txID a s = (Inr (), t) \<Longrightarrow> vm_step H V s t"
| charge: "Deduct H sponsor fee s = (Inr (), t) \<Longrightarrow> vm_step H V s t"

text \<open>The chain states a state can lead to.\<close>

abbreviation vm_reach :: "'s host \<Rightarrow> verifier_env \<Rightarrow> 's \<Rightarrow> 's \<Rightarrow> bool" where
  "vm_reach H V \<equiv> (vm_step H V)\<^sup>*\<^sup>*"

section \<open>What a run is measured by\<close>

text \<open>The debt is within the ceiling and the epoch's mints within their limit.\<close>

definition vai_capped :: "'s host \<Rightarrow> 's \<Rightarrow> bool" where
  "vai_capped H s = (case (GetVAIConfig H s, GetVAIState H s) of
     (Inr cfg, Inr st) \<Rightarrow> vs_TotalDebt st \<le> vc_DebtCeiling cfg \<and> vs_EpochMinted st \<le> vc_EpochMintLimit cfg
   | _ \<Rightarrow> True)"

text \<open>One vault state leads to another by releases only.\<close>

definition vault_moves :: "TreasuryState \<Rightarrow> TreasuryState \<Rightarrow> bool" where
  "vault_moves a b \<longleftrightarrow> unat (ts_Locked b) \<le> unat (ts_Locked a)
     \<and> unat (ts_Locked b) + unat (ts_Live b) = unat (ts_Locked a) + unat (ts_Live a)
     \<and> unat (ts_Locked b) + unat (ts_Released b) = unat (ts_Locked a) + unat (ts_Released a)"

section \<open>Every action keeps to its declared keys\<close>

context host_env
begin

lemmas action_confined = Transfer_confined CreateMarket_confined CommitOrder_confined
  RevealBatch_confined ClearBatch_confined ResolveMarket_confined Dispute_confined
  RouteFees_confined ReleaseCOLTranche_confined MintVAI_confined BurnVAI_confined
  CreatePool_confined AddLiquidity_confined RemoveLiquidity_confined SwapExactIn_confined
  UpdateReserveState_confined SetRiskParams_confined SubmitBatchProof_confined
  SetProofConfig_confined

lemma Execute_confined:
  "Execute H V now actor tx a s = (Inr (), t) \<Longrightarrow> confined H (StateKeys H actor a) s t"
  by (cases a) (auto simp: run_simps intro: action_confined)

text \<open>What an action does not declare for writing it does not change.\<close>

lemma Execute_frame:
  assumes "Execute H V now actor tx a s = (Inr (), t)" and "\<not> writable (StateKeys H actor a) k"
  shows "GetValue H t k = GetValue H s k"
  using Execute_confined [OF assms(1)] assms(2) by (simp add: confined_def)

lemmas action_keys = Transfer_StateKeys_def CreateMarket_StateKeys_def CommitOrder_StateKeys_def
  RevealBatch_StateKeys_def ClearBatch_StateKeys_def ResolveMarket_StateKeys_def
  Dispute_StateKeys_def RouteFees_StateKeys_def ReleaseCOLTranche_StateKeys_def
  MintVAI_StateKeys_def BurnVAI_StateKeys_def CreatePool_StateKeys_def
  AddLiquidity_StateKeys_def RemoveLiquidity_StateKeys_def SwapExactIn_StateKeys_def
  UpdateReserveState_StateKeys_def SetRiskParams_StateKeys_def SubmitBatchProof_StateKeys_def
  SetProofConfig_StateKeys_def

section \<open>Every step is a step of the economy\<close>

lemma quiet_economy:
  assumes "confined H K s t" and "\<And>k. economic k \<Longrightarrow> \<not> writable K (slot_key H k)"
  shows "economy_of H t = economy_of H s"
  using assms by (intro economy_of_cong) (auto simp: confined_def)

lemma pool_wf_confined:
  assumes "confined H K s t" and "\<not> writable K (slot_key H (SPool 0 1))" and "pool_wf H s"
  shows "pool_wf H t"
  using assms by (simp add: pool_wf_def confined_def GetPool_def key_simps)

lemma quiet_keys:
  assumes "economic k"
  shows "\<not> writable (CommitOrder_StateKeys H a1 actor) (slot_key H k)"
    "\<not> writable (RevealBatch_StateKeys H a2 actor) (slot_key H k)"
    "\<not> writable (ClearBatch_StateKeys H a3 actor) (slot_key H k)"
    "\<not> writable (ResolveMarket_StateKeys H a4 actor) (slot_key H k)"
    "\<not> writable (ReleaseCOLTranche_StateKeys H a5 actor) (slot_key H k)"
    "\<not> writable (UpdateReserveState_StateKeys H a6 actor) (slot_key H k)"
    "\<not> writable (SetRiskParams_StateKeys H a7 actor) (slot_key H k)"
    "\<not> writable (SubmitBatchProof_StateKeys H a8 actor) (slot_key H k)"
    "\<not> writable (SetProofConfig_StateKeys H a9 actor) (slot_key H k)"
  using assms by (cases k; simp add: economic_def action_keys keys_simps)+

lemma ePool_ops [simp]:
  "ePool (credit_veil a v e) = ePool e" "ePool (debit_veil a v e) = ePool e"
  "ePool (set_fees f e) = ePool e"
  by (simp_all add: econ_ops)

lemma Execute_economy:
  assumes "Execute H V now actor tx a s = (Inr (), t)" and "pool_wf H s"
  shows "econ_step (economy_of H s) (economy_of H t) \<and> pool_wf H t"
proof -
  have quiet: "econ_step (economy_of H s) (economy_of H t) \<and> pool_wf H t"
    if "\<And>k. economic k \<Longrightarrow> \<not> writable (StateKeys H actor a) (slot_key H k)"
  proof -
    have "economy_of H t = economy_of H s"
      by (rule quiet_economy [OF Execute_confined [OF assms(1)] that])
    with assms(2) show ?thesis by (simp add: econ_step.idle pool_wf_economy)
  qed
  note wf = pool_wf_confined [OF Execute_confined [OF assms(1)] _ assms(2)]
  show ?thesis
  proof (cases a)
    case (ATransfer x)
    with assms(1) obtain r where "Transfer_Execute H x actor s = (Inr r, t)" by (auto simp: run_simps)
    then show ?thesis using econ_Transfer assms(2) by (metis econ_step.pay ePool_ops pool_wf_economy)
  next
    case (ACreateMarket x)
    with assms(1) obtain r where "CreateMarket_Execute H x actor s = (Inr r, t)" by (auto simp: run_simps)
    then show ?thesis using econ_CreateMarket assms(2) by (metis econ_step.bond ePool_ops pool_wf_economy)
  next
    case (ADispute x)
    with assms(1) obtain r where "Dispute_Execute H x actor s = (Inr r, t)" by (auto simp: run_simps)
    then show ?thesis using econ_Dispute assms(2) by (metis econ_step.bond ePool_ops pool_wf_economy)
  next
    case (ARouteFees x)
    with assms(1) obtain r where "RouteFees_Execute H x actor s = (Inr r, t)" by (auto simp: run_simps)
    then show ?thesis
      using econ_RouteFees assms(2) by (metis econ_step.route ePool_ops pool_wf_economy)
  next
    case (AMintVAI x)
    with assms(1) have "econ_step (economy_of H s) (economy_of H t)"
      by (auto simp: run_simps dest: econ_MintVAI)
    then show ?thesis using wf AMintVAI by (simp add: MintVAI_StateKeys_def keys_simps)
  next
    case (ABurnVAI x)
    with assms(1) have "econ_step (economy_of H s) (economy_of H t)"
      by (auto simp: run_simps dest: econ_BurnVAI)
    then show ?thesis using wf ABurnVAI by (simp add: BurnVAI_StateKeys_def keys_simps)
  next
    case (ACreatePool x)
    then show ?thesis using assms by (auto simp: run_simps dest: econ_CreatePool)
  next
    case (AAddLiquidity x)
    then show ?thesis using assms by (auto simp: run_simps dest: econ_AddLiquidity)
  next
    case (ARemoveLiquidity x)
    then show ?thesis using assms by (auto simp: run_simps dest: econ_RemoveLiquidity)
  next
    case (ASwapExactIn x)
    then show ?thesis using assms by (auto simp: run_simps dest: econ_SwapExactIn)
  qed (simp_all add: quiet quiet_keys)
qed

lemma vm_step_economy:
  assumes "vm_step H V s t" and "pool_wf H s"
  shows "econ_step (economy_of H s) (economy_of H t) \<and> pool_wf H t"
  using assms
proof (cases rule: vm_step.cases)
  case (charge sponsor fee)
  then obtain n where "SubBalance H sponsor fee s = (Inr n, t)" by (auto simp: Deduct_def run_simps)
  then show ?thesis using econ_SubBalance assms(2) by (metis econ_step.bond ePool_ops pool_wf_economy)
qed (rule Execute_economy)

text \<open>The simulation, for runs of any length.\<close>

lemma vm_reach_economy:
  assumes "vm_reach H V s t" and "pool_wf H s"
  shows "econ_step\<^sup>*\<^sup>* (economy_of H s) (economy_of H t) \<and> pool_wf H t"
  using assms
proof (induction rule: rtranclp_induct)
  case (step y z)
  then show ?case using vm_step_economy by (meson rtranclp.rtrancl_into_rtrancl)
qed simp

section \<open>Every step is a step of each market's life\<close>

lemma Execute_market:
  assumes "Execute H V now actor tx a s = (Inr (), t)"
  shows "market_step (market_at H s i) (market_at H t i)"
proof -
  have quiet: "market_step (market_at H s i) (market_at H t i)"
    if "\<not> writable (StateKeys H actor a) (slot_key H (SMarket i))"
    using Execute_frame [OF assms that]
    by (simp add: market_at_def GetMarket_def key_simps market_step.stay)
  show ?thesis
  proof (cases a)
    case (ACreateMarket x)
    then show ?thesis using assms by (auto simp: run_simps dest: CreateMarket_step)
  next
    case (AResolveMarket x)
    then show ?thesis using assms by (auto simp: run_simps dest: ResolveMarket_step)
  next
    case (ADispute x)
    then show ?thesis using assms by (auto simp: run_simps dest: Dispute_step)
  qed (use quiet in \<open>simp_all add: action_keys keys_simps\<close>)
qed

lemma vm_step_market:
  assumes "vm_step H V s t"
  shows "market_step (market_at H s i) (market_at H t i)"
  using assms
proof (cases rule: vm_step.cases)
  case (charge sponsor fee)
  then obtain n where "SubBalance H sponsor fee s = (Inr n, t)" by (auto simp: Deduct_def run_simps)
  then show ?thesis by (simp add: market_at_def GetMarket_SubBalance market_step.stay)
qed (rule Execute_market)

lemma vm_reach_market:
  assumes "vm_reach H V s t"
  shows "market_step\<^sup>*\<^sup>* (market_at H s i) (market_at H t i)"
  using assms
  by (induction rule: rtranclp_induct)
    (auto intro: rtranclp.rtrancl_into_rtrancl vm_step_market)

section \<open>Windows with a proof\<close>

text \<open>The record and the proof of a window, once stored, are never changed again.\<close>

lemma vm_step_record:
  assumes "vm_step H V s t" and "GetBatchProofRecord H s m w = Inr rec"
  shows "GetBatchProofRecord H t m w = Inr rec \<and> GetVellumProof H t m w = GetVellumProof H s m w"
  using assms(1)
proof (cases rule: vm_step.cases)
  case (act now actor tx a)
  have frame: "GetBatchProofRecord H t m w = Inr rec \<and> GetVellumProof H t m w = GetVellumProof H s m w"
    if "\<not> writable (StateKeys H actor a) (slot_key H (SBatchProof m w))"
      "\<not> writable (StateKeys H actor a) (slot_key H (SVellumProof m w))"
    using Execute_frame [OF act that(1)] Execute_frame [OF act that(2)] assms(2)
    by (simp add: GetBatchProofRecord_def GetVellumProof_def key_simps)
  show ?thesis
  proof (cases a)
    case (ASubmitBatchProof x)
    then obtain r where "SubmitBatchProof_Execute H V x now actor tx s = (Inr r, t)"
      using act by (auto simp: run_simps)
    then have "(sb_MarketID x, sb_WindowID x) \<noteq> (m, w)"
      using assms(2) by (auto elim: SubmitBatchProof_run)
    with ASubmitBatchProof show ?thesis
      by (intro frame) (auto simp: SubmitBatchProof_StateKeys_def keys_simps)
  qed (use frame in \<open>simp_all add: action_keys keys_simps\<close>)
next
  case (charge sponsor fee)
  then obtain n where "SubBalance H sponsor fee s = (Inr n, t)" by (auto simp: Deduct_def run_simps)
  then show ?thesis
    using assms(2) by (auto dest!: SubBalance_run simp: GetBatchProofRecord_def GetVellumProof_def key_simps)
qed

lemma vm_reach_record:
  assumes "vm_reach H V s t" and "GetBatchProofRecord H s m w = Inr rec"
  shows "GetBatchProofRecord H t m w = Inr rec \<and> GetVellumProof H t m w = GetVellumProof H s m w"
  using assms by (induction rule: rtranclp_induct) (auto dest!: vm_step_record)

section \<open>Caps and vaults along a run\<close>

lemma charge_frame:
  assumes "Deduct H sponsor fee s = (Inr (), t)" and "\<And>a. k \<noteq> SBalance a"
  shows "GetValue H t (slot_key H k) = GetValue H s (slot_key H k)"
  using assms by (auto simp: Deduct_def run_simps key_simps dest!: SubBalance_run)

text \<open>A slot no action declares for writing keeps its value through every step.\<close>

lemma vm_step_frame:
  assumes "vm_step H V s t" and "\<And>a. k \<noteq> SBalance a"
    and "\<And>actor a. \<not> writable (StateKeys H actor a) (slot_key H k)"
  shows "GetValue H t (slot_key H k) = GetValue H s (slot_key H k)"
  using assms(1)
proof (cases rule: vm_step.cases)
  case (act now actor tx a)
  then show ?thesis using Execute_frame assms(3) by blast
next
  case (charge sponsor fee)
  then show ?thesis using charge_frame assms(2) by blast
qed

lemma config_not_writable:
  "\<not> writable (StateKeys H actor a) (slot_key H SVAIConfig)"
  "\<not> writable (StateKeys H actor a) (slot_key H STreasuryConfig)"
  "\<not> writable (StateKeys H actor a) (slot_key H SFeeRouterConfig)"
  by (cases a; simp add: action_keys keys_simps)+

lemma vm_step_configs:
  assumes "vm_step H V s t"
  shows "GetVAIConfig H t = GetVAIConfig H s" and "GetTreasuryConfig H t = GetTreasuryConfig H s"
    and "GetFeeRouterConfig H t = GetFeeRouterConfig H s"
  using vm_step_frame [OF assms _ config_not_writable(1)]
    vm_step_frame [OF assms _ config_not_writable(2)] vm_step_frame [OF assms _ config_not_writable(3)]
  by (simp_all add: config_get_defs key_simps)

lemma vm_reach_configs:
  assumes "vm_reach H V s t"
  shows "GetVAIConfig H t = GetVAIConfig H s" and "GetTreasuryConfig H t = GetTreasuryConfig H s"
    and "GetFeeRouterConfig H t = GetFeeRouterConfig H s"
  using assms by (induction rule: rtranclp_induct) (simp_all add: vm_step_configs)

lemma vm_step_caps:
  assumes "vm_step H V s t" and "vai_capped H s"
  shows "vai_capped H t"
  using assms(1)
proof (cases rule: vm_step.cases)
  case (act now actor tx a)
  note cfg = vm_step_configs(1) [OF assms(1)]
  have quiet: "vai_capped H t" if "\<not> writable (StateKeys H actor a) (slot_key H SVAIState)"
    using Execute_frame [OF act that] cfg assms(2)
    by (simp add: vai_capped_def GetVAIState_def key_simps)
  show ?thesis
  proof (cases a)
    case (AMintVAI m)
    then obtain r where "MintVAI_Execute H m now actor s = (Inr r, t)" using act by (auto simp: run_simps)
    then show ?thesis using cfg by (elim MintVAI_effect) (auto simp: vai_capped_def)
  next
    case (ABurnVAI b)
    then obtain r where run: "BurnVAI_Execute H b actor s = (Inr r, t)"
      using act by (auto simp: run_simps)
    then obtain st where st: "GetVAIState H s = Inr st" by (elim BurnVAI_run)
    from BurnVAI_effect [OF run st] cfg assms(2) st show ?thesis
      by (auto simp: vai_capped_def word_le_nat_alt unat_sub_exact split: sum.splits)
  qed (use quiet in \<open>simp_all add: action_keys keys_simps\<close>)
next
  case (charge sponsor fee)
  then show ?thesis
    using charge_frame [of sponsor fee s t] assms(2)
    by (simp add: vai_capped_def GetVAIState_def GetVAIConfig_def key_simps)
qed

lemma vm_reach_caps: "vm_reach H V s t \<Longrightarrow> vai_capped H s \<Longrightarrow> vai_capped H t"
  by (induction rule: rtranclp_induct) (auto intro: vm_step_caps)

text \<open>The vault: what leaves the locked amount becomes live and is counted as released.\<close>

lemma vm_step_vault:
  assumes "vm_step H V s t" and "GetTreasuryState H s = Inr a"
  shows "\<exists>b. GetTreasuryState H t = Inr b \<and> vault_moves a b"
  using assms(1)
proof (cases rule: vm_step.cases)
  case (act now actor tx x)
  have quiet: ?thesis if "\<not> writable (StateKeys H actor x) (slot_key H STreasuryState)"
    using Execute_frame [OF act that] assms(2)
    by (simp add: vault_moves_def GetTreasuryState_def key_simps)
  show ?thesis
  proof (cases x)
    case (AReleaseCOLTranche y)
    then obtain r where "ReleaseCOLTranche_Execute H y now actor s = (Inr r, t)"
      using act by (auto simp: run_simps)
    then show ?thesis
      by (elim ReleaseCOLTranche_run)
        (use assms(2) in \<open>auto simp: vault_moves_def unat_sub_exact word_le_nat_alt
          dest!: PutTreasuryState_reads\<close>)
  qed (use quiet in \<open>simp_all add: action_keys keys_simps\<close>)
next
  case (charge sponsor fee)
  then show ?thesis
    using charge_frame [of sponsor fee s t] assms(2)
    by (simp add: vault_moves_def GetTreasuryState_def key_simps)
qed

lemma vm_reach_vault:
  assumes "vm_reach H V s t" and "GetTreasuryState H s = Inr a"
  shows "\<exists>b. GetTreasuryState H t = Inr b \<and> vault_moves a b"
  using assms
proof (induction rule: rtranclp_induct)
  case (step y z)
  then obtain b c where "vault_moves a b" "GetTreasuryState H z = Inr c" "vault_moves b c"
    using vm_step_vault by blast
  then show ?case by (auto simp: vault_moves_def)
qed (simp add: vault_moves_def)

section \<open>Disputes\<close>

text \<open>
  The dispute record shares its key with the decryption share of validator \<open>0xFFFFFFFF\<close>; it is safe
  because shares are accepted for active markets only and a disputed market stays disputed.
\<close>

lemma vm_step_dispute:
  assumes "vm_step H V s t" and "market_at H s i = Disputed oc rt q w"
  shows "GetValue H t (DisputeKey H i) = GetValue H s (DisputeKey H i)"
  using assms(1)
proof (cases rule: vm_step.cases)
  case (act now actor tx x)
  have quiet: ?thesis if "\<not> writable (StateKeys H actor x) (slot_key H (SOracle i 0xFFFFFFFF))"
    using Execute_frame [OF act that] by (simp add: key_simps)
  show ?thesis
  proof (cases x)
    case (ARevealBatch c)
    then obtain r where "RevealBatch_Execute H c s = (Inr r, t)" using act by (auto simp: run_simps)
    then have "rb_MarketID c \<noteq> i"
      using assms(2) by (auto elim!: RevealBatch_run simp: market_at_def market_of_def)
    then show ?thesis using quiet ARevealBatch by (auto simp: action_keys keys_simps)
  next
    case (ADispute c)
    then obtain r where "Dispute_Execute H c actor s = (Inr r, t)" using act by (auto simp: run_simps)
    then have "di_MarketID c \<noteq> i"
      using assms(2) by (auto elim!: Dispute_run simp: market_at_def market_of_def)
    then show ?thesis using quiet ADispute by (auto simp: action_keys keys_simps)
  qed (use quiet in \<open>simp_all add: action_keys keys_simps\<close>)
next
  case (charge sponsor fee)
  then show ?thesis using charge_frame [of sponsor fee s t] by (simp add: key_simps)
qed

lemma vm_reach_dispute:
  assumes "vm_reach H V s t" and "market_at H s i = Disputed oc rt q w"
  shows "GetValue H t (DisputeKey H i) = GetValue H s (DisputeKey H i)"
  using assms
proof (induction rule: rtranclp_induct)
  case (step y z)
  then have "market_at H y i = Disputed oc rt q w"
    using vm_reach_market market_steps_final by blast
  with step show ?case using vm_step_dispute by metis
qed simp

end

end
