(* ===== verification/Codec.thy ===== *)
theory Codec
  imports Errors
begin

text \<open>
  The wire format of actions and results. Every struct of \<open>actions/\<close> has the same four pieces of
  code: \<open>Bytes\<close> packs the type identifier and hands the struct to \<open>codec.LinearCodec\<close>, and
  \<open>Unmarshal...\<close> checks the identifier and lets the codec fill a struct; result structs do the same
  with the error ignored and the identifier skipped.

  The codec and its packer belong to HyperSDK and avalanchego. They are the record \<open>linear_codec\<close>,
  an argument of every definition that uses them. The codec works by reflection over the fields tagged
  \<open>serialize:"true"\<close> in the order of their declaration, so a struct is presented to it as the list
  of its field values (\<open>shape\<close>). The locale \<open>codec_env\<close> states what is documented of it: fields are
  written in order, integers big-endian at their width, fixed arrays as they are, slices behind a 32-bit length,
  and a write that would exceed the packer's \<open>MaxSize\<close> is an error.
  \<open>mem_codec\<close> is a codec of this kind, with a decoder of its own.
\<close>

section \<open>Field values and kinds\<close>

datatype field =
    FByte (fByte: u8)
  | FU16 (fU16: u16)
  | FU32 (fU32: u32)
  | FU64 (fU64: u64)
  | FI64 (fI64: i64)
  | FBool (fBool: bool)
  | FID (fID: ID)
  | FAddress (fAddress: Address)
  | FBytes (fBytes: bytes)

datatype kind = KByte | KU16 | KU32 | KU64 | KI64 | KBool | KID | KAddress | KBytes

primrec kind_of :: "field \<Rightarrow> kind" where
  "kind_of (FByte w) = KByte"
| "kind_of (FU16 w) = KU16"
| "kind_of (FU32 w) = KU32"
| "kind_of (FU64 w) = KU64"
| "kind_of (FI64 w) = KI64"
| "kind_of (FBool b) = KBool"
| "kind_of (FID i) = KID"
| "kind_of (FAddress a) = KAddress"
| "kind_of (FBytes bs) = KBytes"

primrec wire_field :: "field \<Rightarrow> bytes" where
  "wire_field (FByte w) = [w]"
| "wire_field (FU16 w) = be_bytes 2 w"
| "wire_field (FU32 w) = be_bytes 4 w"
| "wire_field (FU64 w) = be_bytes 8 w"
| "wire_field (FI64 w) = be_bytes 8 w"
| "wire_field (FBool b) = [if b then 1 else 0]"
| "wire_field (FID i) = be_bytes 32 i"
| "wire_field (FAddress a) = be_bytes 33 a"
| "wire_field (FBytes bs) = be_bytes 4 (of_nat (length bs) :: u32) @ bs"

definition wire :: "field list \<Rightarrow> bytes" where
  "wire fs = concat (map wire_field fs)"

primrec field_size :: "field \<Rightarrow> nat" where
  "field_size (FByte w) = 1"
| "field_size (FU16 w) = 2"
| "field_size (FU32 w) = 4"
| "field_size (FU64 w) = 8"
| "field_size (FI64 w) = 8"
| "field_size (FBool b) = 1"
| "field_size (FID i) = 32"
| "field_size (FAddress a) = 33"
| "field_size (FBytes bs) = 4 + length bs"

definition wire_size :: "field list \<Rightarrow> nat" where
  "wire_size fs = sum_list (map field_size fs)"

lemma wire_simps [simp]: "wire [] = []" "wire (f # fs) = wire_field f @ wire fs"
  by (simp_all add: wire_def)

lemma wire_size_simps [simp]: "wire_size [] = 0" "wire_size (f # fs) = field_size f + wire_size fs"
  by (simp_all add: wire_size_def)

lemma length_wire_field [simp]: "length (wire_field f) = field_size f"
  by (cases f) auto

lemma length_wire [simp]: "length (wire fs) = wire_size fs"
  by (induction fs) auto

section \<open>The packer and the codec\<close>

text \<open>\<open>wrappers.Packer\<close>: the bytes packed so far and the largest size they may reach.\<close>

record packer =
  pk_Bytes :: bytes
  pk_MaxSize :: nat

record linear_codec =
  PackByte :: "byte \<Rightarrow> packer \<Rightarrow> packer"
  MarshalInto :: "field list \<Rightarrow> packer \<Rightarrow> error option \<times> packer"
  UnmarshalFrom :: "kind list \<Rightarrow> bytes \<Rightarrow> error + field list"

text \<open>A struct type: the kinds of its fields, their values and the struct the values make.\<close>

record 'a shape =
  sh_kinds :: "kind list"
  sh_fields :: "'a \<Rightarrow> field list"
  sh_fill :: "field list \<Rightarrow> 'a"

section \<open>The code every struct repeats\<close>

text \<open>\<open>Bytes\<close> of an action: a marshalling error is a panic.\<close>

definition marshalAction :: "linear_codec \<Rightarrow> nat \<Rightarrow> u8 \<Rightarrow> field list \<Rightarrow> error + bytes" where
  "marshalAction C maxSize typeID fs =
     (case MarshalInto C fs (PackByte C typeID \<lparr>pk_Bytes = [], pk_MaxSize = maxSize\<rparr>) of
        (None, p) \<Rightarrow> Inr (pk_Bytes p)
      | (Some err, p) \<Rightarrow> Inl (GoPanic ''marshal''))"

text \<open>\<open>Bytes\<close> of a result: \<open>_ = codec.LinearCodec.MarshalInto(t, p)\<close>.\<close>

definition marshalResult :: "linear_codec \<Rightarrow> nat \<Rightarrow> u8 \<Rightarrow> field list \<Rightarrow> bytes" where
  "marshalResult C maxSize typeID fs =
     pk_Bytes (snd (MarshalInto C fs (PackByte C typeID \<lparr>pk_Bytes = [], pk_MaxSize = maxSize\<rparr>)))"

text \<open>\<open>UnmarshalX\<close> up to the checks some actions add: the empty input, the wrong identifier, the codec.\<close>

definition unmarshalAction ::
    "linear_codec \<Rightarrow> error \<Rightarrow> error \<Rightarrow> u8 \<Rightarrow> 'a shape \<Rightarrow> bytes \<Rightarrow> error + 'a" where
  "unmarshalAction C emptyErr typeErr typeID S bs =
     (case bs of
        [] \<Rightarrow> Inl emptyErr
      | b # rest \<Rightarrow>
          if b \<noteq> typeID then Inl typeErr
          else (case UnmarshalFrom C (sh_kinds S) rest of
                  Inl err \<Rightarrow> Inl err
                | Inr fs \<Rightarrow> Inr (sh_fill S fs)))"

text \<open>\<open>if c { return nil, err }\<close> after a decoding.\<close>

definition unmarshalCheck :: "('a \<Rightarrow> bool) \<Rightarrow> error \<Rightarrow> error + 'a \<Rightarrow> error + 'a" where
  "unmarshalCheck bad err r = (case r of Inl e \<Rightarrow> Inl e | Inr a \<Rightarrow> if bad a then Inl err else Inr a)"

text \<open>\<open>UnmarshalXResult\<close>: the identifier is skipped unread, \<open>b[1:]\<close> of no bytes panics.\<close>

definition unmarshalResult :: "linear_codec \<Rightarrow> 'a shape \<Rightarrow> bytes \<Rightarrow> error + 'a" where
  "unmarshalResult C S bs =
     (case bs of
        [] \<Rightarrow> Inl (GoPanic ''slice bounds out of range'')
      | _ # rest \<Rightarrow>
          (case UnmarshalFrom C (sh_kinds S) rest of
             Inl err \<Rightarrow> Inl err
           | Inr fs \<Rightarrow> Inr (sh_fill S fs)))"

section \<open>What the code relies on\<close>

locale codec_env =
  fixes C :: linear_codec
  assumes pack_byte: "length (pk_Bytes p) < pk_MaxSize p
      \<Longrightarrow> PackByte C b p = p\<lparr>pk_Bytes := pk_Bytes p @ [b]\<rparr>"
    and marshal_fits: "length (pk_Bytes p) + wire_size fs \<le> pk_MaxSize p
      \<Longrightarrow> MarshalInto C fs p = (None, p\<lparr>pk_Bytes := pk_Bytes p @ wire fs\<rparr>)"
    and marshal_full: "pk_MaxSize p < length (pk_Bytes p) + wire_size fs
      \<Longrightarrow> \<exists>e q. MarshalInto C fs p = (Some e, q)"
    and unmarshal_wire: "wire_size fs < 2 ^ 31
      \<Longrightarrow> UnmarshalFrom C (map kind_of fs) (wire fs) = Inr fs"
    and unmarshal_kinds: "UnmarshalFrom C ks bs = Inr fs \<Longrightarrow> map kind_of fs = ks"
begin

lemma marshalAction_fits:
  "1 + wire_size fs \<le> maxSize \<Longrightarrow> marshalAction C maxSize typeID fs = Inr (typeID # wire fs)"
  by (simp add: marshalAction_def pack_byte marshal_fits)

lemma marshalAction_full:
  assumes "0 < maxSize" and "maxSize < 1 + wire_size fs"
  shows "marshalAction C maxSize typeID fs = Inl (GoPanic ''marshal'')"
proof -
  let ?p = "\<lparr>pk_Bytes = [typeID], pk_MaxSize = maxSize\<rparr>"
  obtain e q where "MarshalInto C fs ?p = (Some e, q)"
    using marshal_full [of ?p fs] assms by auto
  with assms show ?thesis by (simp add: marshalAction_def pack_byte)
qed

lemma marshalAction_iff:
  assumes "0 < maxSize"
  shows "marshalAction C maxSize typeID fs = Inr bs
    \<longleftrightarrow> 1 + wire_size fs \<le> maxSize \<and> bs = typeID # wire fs"
  using marshalAction_fits [of fs maxSize typeID] marshalAction_full [OF assms, of fs typeID]
  by (cases "1 + wire_size fs \<le> maxSize") auto

lemma marshalResult_fits:
  "1 + wire_size fs \<le> maxSize \<Longrightarrow> marshalResult C maxSize typeID fs = typeID # wire fs"
  by (simp add: marshalResult_def pack_byte marshal_fits)

end

text \<open>A struct is what its field values make of it.\<close>

locale struct_shape =
  fixes S :: "'a shape"
  assumes fill_fields [simp]: "sh_fill S (sh_fields S a) = a"
    and kinds_fields [simp]: "map kind_of (sh_fields S a) = sh_kinds S"
begin

lemma fields_inject: "sh_fields S a = sh_fields S b \<Longrightarrow> a = b"
  by (metis fill_fields)

end

text \<open>
  An action type: its \<open>Bytes\<close> and \<open>Unmarshal\<close> are the shared code with its own size, identifier and
  errors, and \<open>bad\<close> is what its \<open>Unmarshal\<close> refuses besides.
\<close>

locale action_codec = codec_env C + struct_shape S
  for C :: linear_codec and S :: "'a shape" +
  fixes maxSize :: nat and typeID :: u8 and emptyErr typeErr badErr :: error
    and bad :: "'a \<Rightarrow> bool" and to_bytes :: "'a \<Rightarrow> error + bytes" and of_bytes :: "bytes \<Rightarrow> error + 'a"
  assumes to_bytes_eq: "to_bytes a = marshalAction C maxSize typeID (sh_fields S a)"
    and of_bytes_eq: "of_bytes bs = unmarshalCheck bad badErr
      (unmarshalAction C emptyErr typeErr typeID S bs)"
    and max_small: "maxSize < 2 ^ 31" and max_pos: "0 < maxSize"
begin

lemma to_bytes_iff:
  "to_bytes a = Inr bs
    \<longleftrightarrow> 1 + wire_size (sh_fields S a) \<le> maxSize \<and> bs = typeID # wire (sh_fields S a)"
  by (simp only: to_bytes_eq marshalAction_iff [OF max_pos])

lemma roundtrip:
  assumes "1 + wire_size (sh_fields S a) \<le> maxSize" and "\<not> bad a"
  shows "of_bytes (typeID # wire (sh_fields S a)) = Inr a"
proof -
  have "wire_size (sh_fields S a) < 2 ^ 31" using assms(1) max_small by simp
  from unmarshal_wire [OF this] assms(2) show ?thesis
    by (simp add: of_bytes_eq unmarshalCheck_def unmarshalAction_def)
qed

lemma accepted:
  assumes "of_bytes bs = Inr a"
  shows "bs \<noteq> [] \<and> hd bs = typeID \<and> \<not> bad a"
  using assms by (auto simp: of_bytes_eq unmarshalCheck_def unmarshalAction_def
      split: list.splits sum.splits if_splits)

lemma rejected:
  "of_bytes [] = Inl emptyErr" "b \<noteq> typeID \<Longrightarrow> of_bytes (b # rest) = Inl typeErr"
  by (simp_all add: of_bytes_eq unmarshalCheck_def unmarshalAction_def)

end

locale result_codec = codec_env C + struct_shape S
  for C :: linear_codec and S :: "'a shape" +
  fixes maxSize :: nat and typeID :: u8
    and to_bytes :: "'a \<Rightarrow> bytes" and of_bytes :: "bytes \<Rightarrow> error + 'a"
  assumes to_bytes_eq: "to_bytes a = marshalResult C maxSize typeID (sh_fields S a)"
    and of_bytes_eq: "of_bytes bs = unmarshalResult C S bs"
    and max_small: "maxSize < 2 ^ 31"
begin

lemma to_bytes_fits:
  "1 + wire_size (sh_fields S a) \<le> maxSize \<Longrightarrow> to_bytes a = typeID # wire (sh_fields S a)"
  by (simp add: to_bytes_eq marshalResult_fits)

lemma of_bytes_fits:
  assumes "1 + wire_size (sh_fields S a) \<le> maxSize"
  shows "of_bytes (b # wire (sh_fields S a)) = Inr a"
proof -
  have "wire_size (sh_fields S a) < 2 ^ 31" using assms max_small by simp
  from unmarshal_wire [OF this] show ?thesis by (simp add: of_bytes_eq unmarshalResult_def)
qed

end

section \<open>A codec of this kind\<close>

definition short :: "error + 'a" where
  "short = Inl (HostError ''insufficient length'')"

text \<open>Read one field off the front of the bytes.\<close>

definition unwire_fixed :: "nat \<Rightarrow> (bytes \<Rightarrow> field) \<Rightarrow> bytes \<Rightarrow> error + (field \<times> bytes)" where
  "unwire_fixed n f bs = (if length bs < n then short else Inr (f (take n bs), drop n bs))"

primrec unwire_field :: "kind \<Rightarrow> bytes \<Rightarrow> error + (field \<times> bytes)" where
  "unwire_field KByte bs = unwire_fixed 1 (\<lambda>v. FByte (hd v)) bs"
| "unwire_field KU16 bs = unwire_fixed 2 (\<lambda>v. FU16 (of_be v)) bs"
| "unwire_field KU32 bs = unwire_fixed 4 (\<lambda>v. FU32 (of_be v)) bs"
| "unwire_field KU64 bs = unwire_fixed 8 (\<lambda>v. FU64 (of_be v)) bs"
| "unwire_field KI64 bs = unwire_fixed 8 (\<lambda>v. FI64 (of_be v)) bs"
| "unwire_field KBool bs = unwire_fixed 1 (\<lambda>v. FBool (hd v \<noteq> 0)) bs"
| "unwire_field KID bs = unwire_fixed 32 (\<lambda>v. FID (of_be v)) bs"
| "unwire_field KAddress bs = unwire_fixed 33 (\<lambda>v. FAddress (of_be v)) bs"
| "unwire_field KBytes bs = (if length bs < 4 then short
     else unwire_fixed (unat (of_be (take 4 bs) :: u32)) FBytes (drop 4 bs))"

primrec unwire :: "kind list \<Rightarrow> bytes \<Rightarrow> error + field list" where
  "unwire [] bs = Inr []"
| "unwire (k # ks) bs =
     (case unwire_field k bs of Inl e \<Rightarrow> Inl e
      | Inr (f, rest) \<Rightarrow> (case unwire ks rest of Inl e \<Rightarrow> Inl e | Inr fs \<Rightarrow> Inr (f # fs)))"

definition mem_codec :: linear_codec where
  "mem_codec = \<lparr>
     PackByte = (\<lambda>b p. if length (pk_Bytes p) < pk_MaxSize p then p\<lparr>pk_Bytes := pk_Bytes p @ [b]\<rparr> else p),
     MarshalInto = (\<lambda>fs p. if length (pk_Bytes p) + wire_size fs \<le> pk_MaxSize p
       then (None, p\<lparr>pk_Bytes := pk_Bytes p @ wire fs\<rparr>)
       else (Some (HostError ''insufficient length''), p)),
     UnmarshalFrom = unwire\<rparr>"

lemma unwire_fixed_append: "length xs = n \<Longrightarrow> unwire_fixed n f (xs @ ys) = Inr (f xs, ys)"
  by (auto simp: unwire_fixed_def)

lemma unwire_wire_field:
  "field_size f < 2 ^ 31 \<Longrightarrow> unwire_field (kind_of f) (wire_field f @ rest) = Inr (f, rest)"
proof (cases f)
  case (FBytes bs)
  assume "field_size f < 2 ^ 31"
  with FBytes have "unat (of_nat (length bs) :: u32) = length bs"
    by (simp add: unat_of_nat)
  with FBytes show ?thesis by (simp add: unwire_fixed_append)
next
  case (FByte w)
  then show ?thesis using unwire_fixed_append [of "[w]" 1] by simp
next
  case (FBool b)
  then show ?thesis using unwire_fixed_append [of "[if b then 1 else 0]" 1] by simp
qed (simp_all add: unwire_fixed_append)

lemma unwire_wire: "wire_size fs < 2 ^ 31 \<Longrightarrow> unwire (map kind_of fs) (wire fs @ rest) = Inr fs"
  by (induction fs arbitrary: rest) (simp_all add: unwire_wire_field)

lemma unwire_field_kind: "unwire_field k bs = Inr (f, rest) \<Longrightarrow> kind_of f = k"
  by (cases k) (auto simp: unwire_fixed_def short_def split: if_splits)

lemma unwire_kinds: "unwire ks bs = Inr fs \<Longrightarrow> map kind_of fs = ks"
  by (induction ks arbitrary: bs fs)
    (auto simp: unwire_field_kind split: sum.splits)

interpretation mem_codec: codec_env mem_codec
  using unwire_wire [where rest = "[]"]
  by unfold_locales (auto simp: mem_codec_def dest: unwire_kinds)

end
