(* ===== verification/Codec_Actions.thy ===== *)
theory Codec_Actions
  imports Codec Act_Transfer Act_Vai Act_Treasury Act_Amm Act_Proof
begin

text \<open>
  The encoding of the actions: for every struct of \<open>actions/\<close> its fields in the order of the source,
  its largest size, \<open>Bytes\<close> and \<open>Unmarshal\<close>. Each pair meets the contract \<open>action_codec\<close> over every codec
  that meets \<open>codec_env\<close>: decoding inverts encoding, encoding panics exactly when the struct is too large, and
  decoding refuses no bytes, another action's bytes and, for \<open>Transfer\<close> and \<open>CreateMarket\<close>, a memo or a question
  over the limit.
\<close>

section \<open>Type identifiers, consts/types.go\<close>

abbreviation TransferID :: u8 where "TransferID \<equiv> 0"
abbreviation CreateMarketID :: u8 where "CreateMarketID \<equiv> 1"
abbreviation CommitOrderID :: u8 where "CommitOrderID \<equiv> 2"
abbreviation RevealBatchID :: u8 where "RevealBatchID \<equiv> 3"
abbreviation ClearBatchID :: u8 where "ClearBatchID \<equiv> 4"
abbreviation ResolveMarketID :: u8 where "ResolveMarketID \<equiv> 5"
abbreviation DisputeID :: u8 where "DisputeID \<equiv> 6"
abbreviation RouteFeesID :: u8 where "RouteFeesID \<equiv> 7"
abbreviation ReleaseCOLTrancheID :: u8 where "ReleaseCOLTrancheID \<equiv> 8"
abbreviation MintVAIID :: u8 where "MintVAIID \<equiv> 9"
abbreviation BurnVAIID :: u8 where "BurnVAIID \<equiv> 10"
abbreviation CreatePoolID :: u8 where "CreatePoolID \<equiv> 11"
abbreviation AddLiquidityID :: u8 where "AddLiquidityID \<equiv> 12"
abbreviation RemoveLiquidityID :: u8 where "RemoveLiquidityID \<equiv> 13"
abbreviation SwapExactInID :: u8 where "SwapExactInID \<equiv> 14"
abbreviation UpdateReserveStateID :: u8 where "UpdateReserveStateID \<equiv> 15"
abbreviation SetRiskParamsID :: u8 where "SetRiskParamsID \<equiv> 16"
abbreviation SubmitBatchProofID :: u8 where "SubmitBatchProofID \<equiv> 17"
abbreviation SetProofConfigID :: u8 where "SetProofConfigID \<equiv> 18"

lemma check_simps:
  "unmarshalCheck (\<lambda>_. False) e r = r"
  by (simp add: unmarshalCheck_def split: sum.splits)

section \<open>Actions\<close>

subsection \<open>\<open>actions/transfer.go\<close>\<close>

abbreviation MaxTransferSize :: nat where "MaxTransferSize \<equiv> 1024"

definition Transfer_shape :: "Transfer shape" where
  "Transfer_shape = \<lparr>
     sh_kinds = [KAddress, KU64, KBytes],
     sh_fields = (\<lambda>a. [FAddress (tr_To a), FU64 (tr_Value a), FBytes (tr_Memo a)]),
     sh_fill = (\<lambda>fs. \<lparr>tr_To = fAddress (fs ! 0), tr_Value = fU64 (fs ! 1),
                       tr_Memo = fBytes (fs ! 2)\<rparr>)\<rparr>"

definition Transfer_Bytes :: "linear_codec \<Rightarrow> Transfer \<Rightarrow> error + bytes" where
  "Transfer_Bytes C a = marshalAction C MaxTransferSize TransferID (sh_fields Transfer_shape a)"

definition UnmarshalTransfer :: "linear_codec \<Rightarrow> bytes \<Rightarrow> error + Transfer" where
  "UnmarshalTransfer C bs = unmarshalCheck (\<lambda>a. length (tr_Memo a) > MaxMemoSize) ErrOutputMemoTooLarge
     (unmarshalAction C ErrUnmarshalEmptyTransfer
     (Err ''unexpected transfer typeID'') TransferID Transfer_shape bs)"

sublocale codec_env \<subseteq> transfer: action_codec C Transfer_shape MaxTransferSize TransferID
    ErrUnmarshalEmptyTransfer "Err ''unexpected transfer typeID''"
    ErrOutputMemoTooLarge "\<lambda>a. length (tr_Memo a) > MaxMemoSize" "Transfer_Bytes C" "UnmarshalTransfer C"
  by unfold_locales (simp_all add: Transfer_shape_def Transfer_Bytes_def UnmarshalTransfer_def check_simps)

subsection \<open>\<open>actions/create_market.go\<close>\<close>

abbreviation MaxCreateMarketSize :: nat where "MaxCreateMarketSize \<equiv> 4096"

definition CreateMarket_shape :: "CreateMarket shape" where
  "CreateMarket_shape = \<lparr>
     sh_kinds = [KID, KBytes, KByte, KI64, KU64],
     sh_fields = (\<lambda>a. [FID (cm_MarketID a), FBytes (cm_Question a), FByte (cm_Outcomes a),
                       FI64 (cm_ResolutionTime a), FU64 (cm_CreatorBond a)]),
     sh_fill = (\<lambda>fs. \<lparr>cm_MarketID = fID (fs ! 0), cm_Question = fBytes (fs ! 1),
                       cm_Outcomes = fByte (fs ! 2), cm_ResolutionTime = fI64 (fs ! 3),
                       cm_CreatorBond = fU64 (fs ! 4)\<rparr>)\<rparr>"

definition CreateMarket_Bytes :: "linear_codec \<Rightarrow> CreateMarket \<Rightarrow> error + bytes" where
  "CreateMarket_Bytes C a = marshalAction C MaxCreateMarketSize CreateMarketID (sh_fields CreateMarket_shape a)"

definition UnmarshalCreateMarket :: "linear_codec \<Rightarrow> bytes \<Rightarrow> error + CreateMarket" where
  "UnmarshalCreateMarket C bs = unmarshalCheck (\<lambda>a. length (cm_Question a) > MaxQuestionSize) ErrQuestionTooLarge
     (unmarshalAction C ErrUnmarshalEmptyCreateMarket
     (Err ''unexpected create_market typeID'') CreateMarketID CreateMarket_shape bs)"

sublocale codec_env \<subseteq> create_market: action_codec C CreateMarket_shape MaxCreateMarketSize CreateMarketID
    ErrUnmarshalEmptyCreateMarket "Err ''unexpected create_market typeID''"
    ErrQuestionTooLarge "\<lambda>a. length (cm_Question a) > MaxQuestionSize" "CreateMarket_Bytes C" "UnmarshalCreateMarket C"
  by unfold_locales (simp_all add: CreateMarket_shape_def CreateMarket_Bytes_def UnmarshalCreateMarket_def check_simps)

subsection \<open>\<open>actions/commit_order.go\<close>\<close>

abbreviation MaxCommitOrderSize :: nat where "MaxCommitOrderSize \<equiv> 8192"

definition CommitOrder_shape :: "CommitOrder shape" where
  "CommitOrder_shape = \<lparr>
     sh_kinds = [KID, KU64, KBytes, KBytes],
     sh_fields = (\<lambda>a. [FID (co_MarketID a), FU64 (co_WindowID a), FBytes (co_Envelope a),
                       FBytes (co_Commitment a)]),
     sh_fill = (\<lambda>fs. \<lparr>co_MarketID = fID (fs ! 0), co_WindowID = fU64 (fs ! 1),
                       co_Envelope = fBytes (fs ! 2), co_Commitment = fBytes (fs ! 3)\<rparr>)\<rparr>"

definition CommitOrder_Bytes :: "linear_codec \<Rightarrow> CommitOrder \<Rightarrow> error + bytes" where
  "CommitOrder_Bytes C a = marshalAction C MaxCommitOrderSize CommitOrderID (sh_fields CommitOrder_shape a)"

definition UnmarshalCommitOrder :: "linear_codec \<Rightarrow> bytes \<Rightarrow> error + CommitOrder" where
  "UnmarshalCommitOrder C bs = unmarshalAction C ErrUnmarshalEmptyCommitOrder
     (Err ''unexpected commit_order typeID'') CommitOrderID CommitOrder_shape bs"

sublocale codec_env \<subseteq> commit_order: action_codec C CommitOrder_shape MaxCommitOrderSize CommitOrderID
    ErrUnmarshalEmptyCommitOrder "Err ''unexpected commit_order typeID''"
    ErrUnmarshalEmptyCommitOrder "\<lambda>_. False" "CommitOrder_Bytes C" "UnmarshalCommitOrder C"
  by unfold_locales (simp_all add: CommitOrder_shape_def CommitOrder_Bytes_def UnmarshalCommitOrder_def check_simps)

subsection \<open>\<open>actions/reveal_batch.go\<close>\<close>

abbreviation MaxRevealBatchSize :: nat where "MaxRevealBatchSize \<equiv> 2048"

definition RevealBatch_shape :: "RevealBatch shape" where
  "RevealBatch_shape = \<lparr>
     sh_kinds = [KID, KU64, KBytes, KU32],
     sh_fields = (\<lambda>a. [FID (rb_MarketID a), FU64 (rb_WindowID a), FBytes (rb_DecryptionShare a),
                       FU32 (rb_ValidatorIndex a)]),
     sh_fill = (\<lambda>fs. \<lparr>rb_MarketID = fID (fs ! 0), rb_WindowID = fU64 (fs ! 1),
                       rb_DecryptionShare = fBytes (fs ! 2),
                       rb_ValidatorIndex = fU32 (fs ! 3)\<rparr>)\<rparr>"

definition RevealBatch_Bytes :: "linear_codec \<Rightarrow> RevealBatch \<Rightarrow> error + bytes" where
  "RevealBatch_Bytes C a = marshalAction C MaxRevealBatchSize RevealBatchID (sh_fields RevealBatch_shape a)"

definition UnmarshalRevealBatch :: "linear_codec \<Rightarrow> bytes \<Rightarrow> error + RevealBatch" where
  "UnmarshalRevealBatch C bs = unmarshalAction C ErrUnmarshalEmptyRevealBatch
     (Err ''unexpected reveal_batch typeID'') RevealBatchID RevealBatch_shape bs"

sublocale codec_env \<subseteq> reveal_batch: action_codec C RevealBatch_shape MaxRevealBatchSize RevealBatchID
    ErrUnmarshalEmptyRevealBatch "Err ''unexpected reveal_batch typeID''"
    ErrUnmarshalEmptyRevealBatch "\<lambda>_. False" "RevealBatch_Bytes C" "UnmarshalRevealBatch C"
  by unfold_locales (simp_all add: RevealBatch_shape_def RevealBatch_Bytes_def UnmarshalRevealBatch_def check_simps)

subsection \<open>\<open>actions/clear_batch.go\<close>\<close>

abbreviation MaxClearBatchSize :: nat where "MaxClearBatchSize \<equiv> 2048"

definition ClearBatch_shape :: "ClearBatch shape" where
  "ClearBatch_shape = \<lparr>
     sh_kinds = [KID, KU64, KU64, KU64, KBytes],
     sh_fields = (\<lambda>a. [FID (cb_MarketID a), FU64 (cb_WindowID a), FU64 (cb_ClearPrice a),
                       FU64 (cb_TotalVolume a), FBytes (cb_FillsHash a)]),
     sh_fill = (\<lambda>fs. \<lparr>cb_MarketID = fID (fs ! 0), cb_WindowID = fU64 (fs ! 1),
                       cb_ClearPrice = fU64 (fs ! 2), cb_TotalVolume = fU64 (fs ! 3),
                       cb_FillsHash = fBytes (fs ! 4)\<rparr>)\<rparr>"

definition ClearBatch_Bytes :: "linear_codec \<Rightarrow> ClearBatch \<Rightarrow> error + bytes" where
  "ClearBatch_Bytes C a = marshalAction C MaxClearBatchSize ClearBatchID (sh_fields ClearBatch_shape a)"

definition UnmarshalClearBatch :: "linear_codec \<Rightarrow> bytes \<Rightarrow> error + ClearBatch" where
  "UnmarshalClearBatch C bs = unmarshalAction C ErrUnmarshalEmptyClearBatch
     (Err ''unexpected clear_batch typeID'') ClearBatchID ClearBatch_shape bs"

sublocale codec_env \<subseteq> clear_batch: action_codec C ClearBatch_shape MaxClearBatchSize ClearBatchID
    ErrUnmarshalEmptyClearBatch "Err ''unexpected clear_batch typeID''"
    ErrUnmarshalEmptyClearBatch "\<lambda>_. False" "ClearBatch_Bytes C" "UnmarshalClearBatch C"
  by unfold_locales (simp_all add: ClearBatch_shape_def ClearBatch_Bytes_def UnmarshalClearBatch_def check_simps)

subsection \<open>\<open>actions/resolve_market.go\<close>\<close>

abbreviation MaxResolveMarketSize :: nat where "MaxResolveMarketSize \<equiv> 2048"

definition ResolveMarket_shape :: "ResolveMarket shape" where
  "ResolveMarket_shape = \<lparr>
     sh_kinds = [KID, KByte, KBytes],
     sh_fields = (\<lambda>a. [FID (rm_MarketID a), FByte (rm_Outcome a), FBytes (rm_Signature a)]),
     sh_fill = (\<lambda>fs. \<lparr>rm_MarketID = fID (fs ! 0), rm_Outcome = fByte (fs ! 1),
                       rm_Signature = fBytes (fs ! 2)\<rparr>)\<rparr>"

definition ResolveMarket_Bytes :: "linear_codec \<Rightarrow> ResolveMarket \<Rightarrow> error + bytes" where
  "ResolveMarket_Bytes C a = marshalAction C MaxResolveMarketSize ResolveMarketID (sh_fields ResolveMarket_shape a)"

definition UnmarshalResolveMarket :: "linear_codec \<Rightarrow> bytes \<Rightarrow> error + ResolveMarket" where
  "UnmarshalResolveMarket C bs = unmarshalAction C ErrUnmarshalEmptyResolveMarket
     (Err ''unexpected resolve_market typeID'') ResolveMarketID ResolveMarket_shape bs"

sublocale codec_env \<subseteq> resolve_market: action_codec C ResolveMarket_shape MaxResolveMarketSize ResolveMarketID
    ErrUnmarshalEmptyResolveMarket "Err ''unexpected resolve_market typeID''"
    ErrUnmarshalEmptyResolveMarket "\<lambda>_. False" "ResolveMarket_Bytes C" "UnmarshalResolveMarket C"
  by unfold_locales (simp_all add: ResolveMarket_shape_def ResolveMarket_Bytes_def UnmarshalResolveMarket_def check_simps)

subsection \<open>\<open>actions/dispute.go\<close>\<close>

abbreviation MaxDisputeSize :: nat where "MaxDisputeSize \<equiv> 8192"

definition Dispute_shape :: "Dispute shape" where
  "Dispute_shape = \<lparr>
     sh_kinds = [KID, KU64, KBytes],
     sh_fields = (\<lambda>a. [FID (di_MarketID a), FU64 (di_Bond a), FBytes (di_Evidence a)]),
     sh_fill = (\<lambda>fs. \<lparr>di_MarketID = fID (fs ! 0), di_Bond = fU64 (fs ! 1),
                       di_Evidence = fBytes (fs ! 2)\<rparr>)\<rparr>"

definition Dispute_Bytes :: "linear_codec \<Rightarrow> Dispute \<Rightarrow> error + bytes" where
  "Dispute_Bytes C a = marshalAction C MaxDisputeSize DisputeID (sh_fields Dispute_shape a)"

definition UnmarshalDispute :: "linear_codec \<Rightarrow> bytes \<Rightarrow> error + Dispute" where
  "UnmarshalDispute C bs = unmarshalAction C ErrUnmarshalEmptyDispute
     (Err ''unexpected dispute typeID'') DisputeID Dispute_shape bs"

sublocale codec_env \<subseteq> dispute: action_codec C Dispute_shape MaxDisputeSize DisputeID
    ErrUnmarshalEmptyDispute "Err ''unexpected dispute typeID''"
    ErrUnmarshalEmptyDispute "\<lambda>_. False" "Dispute_Bytes C" "UnmarshalDispute C"
  by unfold_locales (simp_all add: Dispute_shape_def Dispute_Bytes_def UnmarshalDispute_def check_simps)

subsection \<open>\<open>actions/route_fees.go\<close>\<close>

abbreviation MaxRouteFeesSize :: nat where "MaxRouteFeesSize \<equiv> 256"

definition RouteFees_shape :: "RouteFees shape" where
  "RouteFees_shape = \<lparr>
     sh_kinds = [KU64],
     sh_fields = (\<lambda>a. [FU64 (rf_Amount a)]),
     sh_fill = (\<lambda>fs. \<lparr>rf_Amount = fU64 (fs ! 0)\<rparr>)\<rparr>"

definition RouteFees_Bytes :: "linear_codec \<Rightarrow> RouteFees \<Rightarrow> error + bytes" where
  "RouteFees_Bytes C a = marshalAction C MaxRouteFeesSize RouteFeesID (sh_fields RouteFees_shape a)"

definition UnmarshalRouteFees :: "linear_codec \<Rightarrow> bytes \<Rightarrow> error + RouteFees" where
  "UnmarshalRouteFees C bs = unmarshalAction C ErrUnmarshalEmptyRouteFees
     (Err ''unexpected route_fees typeID'') RouteFeesID RouteFees_shape bs"

sublocale codec_env \<subseteq> route_fees: action_codec C RouteFees_shape MaxRouteFeesSize RouteFeesID
    ErrUnmarshalEmptyRouteFees "Err ''unexpected route_fees typeID''"
    ErrUnmarshalEmptyRouteFees "\<lambda>_. False" "RouteFees_Bytes C" "UnmarshalRouteFees C"
  by unfold_locales (simp_all add: RouteFees_shape_def RouteFees_Bytes_def UnmarshalRouteFees_def check_simps)

subsection \<open>\<open>actions/release_col_tranche.go\<close>\<close>

abbreviation MaxReleaseCOLTrancheSize :: nat where "MaxReleaseCOLTrancheSize \<equiv> 256"

definition ReleaseCOLTranche_shape :: "ReleaseCOLTranche shape" where
  "ReleaseCOLTranche_shape = \<lparr>
     sh_kinds = [KU64],
     sh_fields = (\<lambda>a. [FU64 (rt_Amount a)]),
     sh_fill = (\<lambda>fs. \<lparr>rt_Amount = fU64 (fs ! 0)\<rparr>)\<rparr>"

definition ReleaseCOLTranche_Bytes :: "linear_codec \<Rightarrow> ReleaseCOLTranche \<Rightarrow> error + bytes" where
  "ReleaseCOLTranche_Bytes C a = marshalAction C MaxReleaseCOLTrancheSize ReleaseCOLTrancheID (sh_fields ReleaseCOLTranche_shape a)"

definition UnmarshalReleaseCOLTranche :: "linear_codec \<Rightarrow> bytes \<Rightarrow> error + ReleaseCOLTranche" where
  "UnmarshalReleaseCOLTranche C bs = unmarshalAction C ErrUnmarshalEmptyReleaseCOLTranche
     (Err ''unexpected release_col_tranche typeID'') ReleaseCOLTrancheID ReleaseCOLTranche_shape bs"

sublocale codec_env \<subseteq> release_col_tranche: action_codec C ReleaseCOLTranche_shape MaxReleaseCOLTrancheSize ReleaseCOLTrancheID
    ErrUnmarshalEmptyReleaseCOLTranche "Err ''unexpected release_col_tranche typeID''"
    ErrUnmarshalEmptyReleaseCOLTranche "\<lambda>_. False" "ReleaseCOLTranche_Bytes C" "UnmarshalReleaseCOLTranche C"
  by unfold_locales (simp_all add: ReleaseCOLTranche_shape_def ReleaseCOLTranche_Bytes_def UnmarshalReleaseCOLTranche_def check_simps)

subsection \<open>\<open>actions/mint_vai.go\<close>\<close>

abbreviation MaxMintVAISize :: nat where "MaxMintVAISize \<equiv> 512"

definition MintVAI_shape :: "MintVAI shape" where
  "MintVAI_shape = \<lparr>
     sh_kinds = [KAddress, KU64],
     sh_fields = (\<lambda>a. [FAddress (mv_To a), FU64 (mv_Amount a)]),
     sh_fill = (\<lambda>fs. \<lparr>mv_To = fAddress (fs ! 0), mv_Amount = fU64 (fs ! 1)\<rparr>)\<rparr>"

definition MintVAI_Bytes :: "linear_codec \<Rightarrow> MintVAI \<Rightarrow> error + bytes" where
  "MintVAI_Bytes C a = marshalAction C MaxMintVAISize MintVAIID (sh_fields MintVAI_shape a)"

definition UnmarshalMintVAI :: "linear_codec \<Rightarrow> bytes \<Rightarrow> error + MintVAI" where
  "UnmarshalMintVAI C bs = unmarshalAction C ErrUnmarshalEmptyMintVAI
     (Err ''unexpected mint_vai typeID'') MintVAIID MintVAI_shape bs"

sublocale codec_env \<subseteq> mint_vai: action_codec C MintVAI_shape MaxMintVAISize MintVAIID
    ErrUnmarshalEmptyMintVAI "Err ''unexpected mint_vai typeID''"
    ErrUnmarshalEmptyMintVAI "\<lambda>_. False" "MintVAI_Bytes C" "UnmarshalMintVAI C"
  by unfold_locales (simp_all add: MintVAI_shape_def MintVAI_Bytes_def UnmarshalMintVAI_def check_simps)

subsection \<open>\<open>actions/burn_vai.go\<close>\<close>

abbreviation MaxBurnVAISize :: nat where "MaxBurnVAISize \<equiv> 256"

definition BurnVAI_shape :: "BurnVAI shape" where
  "BurnVAI_shape = \<lparr>
     sh_kinds = [KU64],
     sh_fields = (\<lambda>a. [FU64 (bv_Amount a)]),
     sh_fill = (\<lambda>fs. \<lparr>bv_Amount = fU64 (fs ! 0)\<rparr>)\<rparr>"

definition BurnVAI_Bytes :: "linear_codec \<Rightarrow> BurnVAI \<Rightarrow> error + bytes" where
  "BurnVAI_Bytes C a = marshalAction C MaxBurnVAISize BurnVAIID (sh_fields BurnVAI_shape a)"

definition UnmarshalBurnVAI :: "linear_codec \<Rightarrow> bytes \<Rightarrow> error + BurnVAI" where
  "UnmarshalBurnVAI C bs = unmarshalAction C ErrUnmarshalEmptyBurnVAI
     (Err ''unexpected burn_vai typeID'') BurnVAIID BurnVAI_shape bs"

sublocale codec_env \<subseteq> burn_vai: action_codec C BurnVAI_shape MaxBurnVAISize BurnVAIID
    ErrUnmarshalEmptyBurnVAI "Err ''unexpected burn_vai typeID''"
    ErrUnmarshalEmptyBurnVAI "\<lambda>_. False" "BurnVAI_Bytes C" "UnmarshalBurnVAI C"
  by unfold_locales (simp_all add: BurnVAI_shape_def BurnVAI_Bytes_def UnmarshalBurnVAI_def check_simps)

subsection \<open>\<open>actions/create_pool.go\<close>\<close>

abbreviation MaxCreatePoolSize :: nat where "MaxCreatePoolSize \<equiv> 256"

definition CreatePool_shape :: "CreatePool shape" where
  "CreatePool_shape = \<lparr>
     sh_kinds = [KByte, KByte, KU16],
     sh_fields = (\<lambda>a. [FByte (cp_Asset0 a), FByte (cp_Asset1 a), FU16 (cp_FeeBips a)]),
     sh_fill = (\<lambda>fs. \<lparr>cp_Asset0 = fByte (fs ! 0), cp_Asset1 = fByte (fs ! 1),
                       cp_FeeBips = fU16 (fs ! 2)\<rparr>)\<rparr>"

definition CreatePool_Bytes :: "linear_codec \<Rightarrow> CreatePool \<Rightarrow> error + bytes" where
  "CreatePool_Bytes C a = marshalAction C MaxCreatePoolSize CreatePoolID (sh_fields CreatePool_shape a)"

definition UnmarshalCreatePool :: "linear_codec \<Rightarrow> bytes \<Rightarrow> error + CreatePool" where
  "UnmarshalCreatePool C bs = unmarshalAction C ErrUnmarshalEmptyCreatePool
     (Err ''unexpected create_pool typeID'') CreatePoolID CreatePool_shape bs"

sublocale codec_env \<subseteq> create_pool: action_codec C CreatePool_shape MaxCreatePoolSize CreatePoolID
    ErrUnmarshalEmptyCreatePool "Err ''unexpected create_pool typeID''"
    ErrUnmarshalEmptyCreatePool "\<lambda>_. False" "CreatePool_Bytes C" "UnmarshalCreatePool C"
  by unfold_locales (simp_all add: CreatePool_shape_def CreatePool_Bytes_def UnmarshalCreatePool_def check_simps)

subsection \<open>\<open>actions/add_liquidity.go\<close>\<close>

abbreviation MaxAddLiquiditySize :: nat where "MaxAddLiquiditySize \<equiv> 512"

definition AddLiquidity_shape :: "AddLiquidity shape" where
  "AddLiquidity_shape = \<lparr>
     sh_kinds = [KByte, KByte, KU64, KU64, KU64],
     sh_fields = (\<lambda>a. [FByte (al_Asset0 a), FByte (al_Asset1 a), FU64 (al_Amount0 a),
                       FU64 (al_Amount1 a), FU64 (al_MinLP a)]),
     sh_fill = (\<lambda>fs. \<lparr>al_Asset0 = fByte (fs ! 0), al_Asset1 = fByte (fs ! 1),
                       al_Amount0 = fU64 (fs ! 2), al_Amount1 = fU64 (fs ! 3),
                       al_MinLP = fU64 (fs ! 4)\<rparr>)\<rparr>"

definition AddLiquidity_Bytes :: "linear_codec \<Rightarrow> AddLiquidity \<Rightarrow> error + bytes" where
  "AddLiquidity_Bytes C a = marshalAction C MaxAddLiquiditySize AddLiquidityID (sh_fields AddLiquidity_shape a)"

definition UnmarshalAddLiquidity :: "linear_codec \<Rightarrow> bytes \<Rightarrow> error + AddLiquidity" where
  "UnmarshalAddLiquidity C bs = unmarshalAction C (Err ''cannot unmarshal empty bytes as add_liquidity'')
     (Err ''unexpected add_liquidity typeID'') AddLiquidityID AddLiquidity_shape bs"

sublocale codec_env \<subseteq> add_liquidity: action_codec C AddLiquidity_shape MaxAddLiquiditySize AddLiquidityID
    "Err ''cannot unmarshal empty bytes as add_liquidity''" "Err ''unexpected add_liquidity typeID''"
    "Err ''cannot unmarshal empty bytes as add_liquidity''" "\<lambda>_. False" "AddLiquidity_Bytes C" "UnmarshalAddLiquidity C"
  by unfold_locales (simp_all add: AddLiquidity_shape_def AddLiquidity_Bytes_def UnmarshalAddLiquidity_def check_simps)

subsection \<open>\<open>actions/remove_liquidity.go\<close>\<close>

abbreviation MaxRemoveLiquiditySize :: nat where "MaxRemoveLiquiditySize \<equiv> 512"

definition RemoveLiquidity_shape :: "RemoveLiquidity shape" where
  "RemoveLiquidity_shape = \<lparr>
     sh_kinds = [KByte, KByte, KU64, KU64, KU64],
     sh_fields = (\<lambda>a. [FByte (rl_Asset0 a), FByte (rl_Asset1 a), FU64 (rl_LPAmount a),
                       FU64 (rl_MinAmount0 a), FU64 (rl_MinAmount1 a)]),
     sh_fill = (\<lambda>fs. \<lparr>rl_Asset0 = fByte (fs ! 0), rl_Asset1 = fByte (fs ! 1),
                       rl_LPAmount = fU64 (fs ! 2), rl_MinAmount0 = fU64 (fs ! 3),
                       rl_MinAmount1 = fU64 (fs ! 4)\<rparr>)\<rparr>"

definition RemoveLiquidity_Bytes :: "linear_codec \<Rightarrow> RemoveLiquidity \<Rightarrow> error + bytes" where
  "RemoveLiquidity_Bytes C a = marshalAction C MaxRemoveLiquiditySize RemoveLiquidityID (sh_fields RemoveLiquidity_shape a)"

definition UnmarshalRemoveLiquidity :: "linear_codec \<Rightarrow> bytes \<Rightarrow> error + RemoveLiquidity" where
  "UnmarshalRemoveLiquidity C bs = unmarshalAction C (Err ''cannot unmarshal empty bytes as remove_liquidity'')
     (Err ''unexpected remove_liquidity typeID'') RemoveLiquidityID RemoveLiquidity_shape bs"

sublocale codec_env \<subseteq> remove_liquidity: action_codec C RemoveLiquidity_shape MaxRemoveLiquiditySize RemoveLiquidityID
    "Err ''cannot unmarshal empty bytes as remove_liquidity''" "Err ''unexpected remove_liquidity typeID''"
    "Err ''cannot unmarshal empty bytes as remove_liquidity''" "\<lambda>_. False" "RemoveLiquidity_Bytes C" "UnmarshalRemoveLiquidity C"
  by unfold_locales (simp_all add: RemoveLiquidity_shape_def RemoveLiquidity_Bytes_def UnmarshalRemoveLiquidity_def check_simps)

subsection \<open>\<open>actions/swap_exact_in.go\<close>\<close>

abbreviation MaxSwapExactInSize :: nat where "MaxSwapExactInSize \<equiv> 256"

definition SwapExactIn_shape :: "SwapExactIn shape" where
  "SwapExactIn_shape = \<lparr>
     sh_kinds = [KByte, KByte, KU64, KU64],
     sh_fields = (\<lambda>a. [FByte (sw_AssetIn a), FByte (sw_AssetOut a), FU64 (sw_AmountIn a),
                       FU64 (sw_MinAmountOut a)]),
     sh_fill = (\<lambda>fs. \<lparr>sw_AssetIn = fByte (fs ! 0), sw_AssetOut = fByte (fs ! 1),
                       sw_AmountIn = fU64 (fs ! 2), sw_MinAmountOut = fU64 (fs ! 3)\<rparr>)\<rparr>"

definition SwapExactIn_Bytes :: "linear_codec \<Rightarrow> SwapExactIn \<Rightarrow> error + bytes" where
  "SwapExactIn_Bytes C a = marshalAction C MaxSwapExactInSize SwapExactInID (sh_fields SwapExactIn_shape a)"

definition UnmarshalSwapExactIn :: "linear_codec \<Rightarrow> bytes \<Rightarrow> error + SwapExactIn" where
  "UnmarshalSwapExactIn C bs = unmarshalAction C (Err ''cannot unmarshal empty bytes as swap_exact_in'')
     (Err ''unexpected swap_exact_in typeID'') SwapExactInID SwapExactIn_shape bs"

sublocale codec_env \<subseteq> swap_exact_in: action_codec C SwapExactIn_shape MaxSwapExactInSize SwapExactInID
    "Err ''cannot unmarshal empty bytes as swap_exact_in''" "Err ''unexpected swap_exact_in typeID''"
    "Err ''cannot unmarshal empty bytes as swap_exact_in''" "\<lambda>_. False" "SwapExactIn_Bytes C" "UnmarshalSwapExactIn C"
  by unfold_locales (simp_all add: SwapExactIn_shape_def SwapExactIn_Bytes_def UnmarshalSwapExactIn_def check_simps)

subsection \<open>\<open>actions/update_reserve_state.go\<close>\<close>

abbreviation MaxUpdateReserveStateSize :: nat where "MaxUpdateReserveStateSize \<equiv> 256"

definition UpdateReserveState_shape :: "UpdateReserveState shape" where
  "UpdateReserveState_shape = \<lparr>
     sh_kinds = [KU64, KU64],
     sh_fields = (\<lambda>a. [FU64 (ur_ExogenousReserve a), FU64 (ur_VAIBuffer a)]),
     sh_fill = (\<lambda>fs. \<lparr>ur_ExogenousReserve = fU64 (fs ! 0), ur_VAIBuffer = fU64 (fs ! 1)\<rparr>)\<rparr>"

definition UpdateReserveState_Bytes :: "linear_codec \<Rightarrow> UpdateReserveState \<Rightarrow> error + bytes" where
  "UpdateReserveState_Bytes C a = marshalAction C MaxUpdateReserveStateSize UpdateReserveStateID (sh_fields UpdateReserveState_shape a)"

definition UnmarshalUpdateReserveState :: "linear_codec \<Rightarrow> bytes \<Rightarrow> error + UpdateReserveState" where
  "UnmarshalUpdateReserveState C bs = unmarshalAction C ErrUnmarshalEmptyUpdateReserveState
     (Err ''unexpected update_reserve_state typeID'') UpdateReserveStateID UpdateReserveState_shape bs"

sublocale codec_env \<subseteq> update_reserve_state: action_codec C UpdateReserveState_shape MaxUpdateReserveStateSize UpdateReserveStateID
    ErrUnmarshalEmptyUpdateReserveState "Err ''unexpected update_reserve_state typeID''"
    ErrUnmarshalEmptyUpdateReserveState "\<lambda>_. False" "UpdateReserveState_Bytes C" "UnmarshalUpdateReserveState C"
  by unfold_locales (simp_all add: UpdateReserveState_shape_def UpdateReserveState_Bytes_def UnmarshalUpdateReserveState_def check_simps)

subsection \<open>\<open>actions/set_risk_params.go\<close>\<close>

abbreviation MaxSetRiskParamsSize :: nat where "MaxSetRiskParamsSize \<equiv> 256"

definition SetRiskParams_shape :: "SetRiskParams shape" where
  "SetRiskParams_shape = \<lparr>
     sh_kinds = [KU32, KU16, KU16, KU16, KU16, KU16, KU16],
     sh_fields = (\<lambda>a. [FU32 (sr_BackingFloorBips a), FU16 (sr_VEILLtvBips a),
                       FU16 (sr_WVEILLtvBips a), FU16 (sr_WSVEILLtvBips a),
                       FU16 (sr_VEILHaircutBips a), FU16 (sr_WVEILHaircutBips a),
                       FU16 (sr_WSVEILHaircutBips a)]),
     sh_fill = (\<lambda>fs. \<lparr>sr_BackingFloorBips = fU32 (fs ! 0), sr_VEILLtvBips = fU16 (fs ! 1),
                       sr_WVEILLtvBips = fU16 (fs ! 2), sr_WSVEILLtvBips = fU16 (fs ! 3),
                       sr_VEILHaircutBips = fU16 (fs ! 4), sr_WVEILHaircutBips = fU16 (fs ! 5),
                       sr_WSVEILHaircutBips = fU16 (fs ! 6)\<rparr>)\<rparr>"

definition SetRiskParams_Bytes :: "linear_codec \<Rightarrow> SetRiskParams \<Rightarrow> error + bytes" where
  "SetRiskParams_Bytes C a = marshalAction C MaxSetRiskParamsSize SetRiskParamsID (sh_fields SetRiskParams_shape a)"

definition UnmarshalSetRiskParams :: "linear_codec \<Rightarrow> bytes \<Rightarrow> error + SetRiskParams" where
  "UnmarshalSetRiskParams C bs = unmarshalAction C ErrUnmarshalEmptySetRiskParams
     (Err ''unexpected set_risk_params typeID'') SetRiskParamsID SetRiskParams_shape bs"

sublocale codec_env \<subseteq> set_risk_params: action_codec C SetRiskParams_shape MaxSetRiskParamsSize SetRiskParamsID
    ErrUnmarshalEmptySetRiskParams "Err ''unexpected set_risk_params typeID''"
    ErrUnmarshalEmptySetRiskParams "\<lambda>_. False" "SetRiskParams_Bytes C" "UnmarshalSetRiskParams C"
  by unfold_locales (simp_all add: SetRiskParams_shape_def SetRiskParams_Bytes_def UnmarshalSetRiskParams_def check_simps)

subsection \<open>\<open>actions/submit_batch_proof.go\<close>\<close>

abbreviation MaxSubmitBatchProofSize :: nat where "MaxSubmitBatchProofSize \<equiv> 131072 + 4096"

definition SubmitBatchProof_shape :: "SubmitBatchProof shape" where
  "SubmitBatchProof_shape = \<lparr>
     sh_kinds = [KID, KU64, KI64, KByte, KBytes, KBytes, KBytes],
     sh_fields = (\<lambda>a. [FID (sb_MarketID a), FU64 (sb_WindowID a), FI64 (sb_WindowCloseAtMs a),
                       FByte (sb_ProofType a), FBytes (sb_PublicInputsHash a),
                       FBytes (sb_FillsHash a), FBytes (sb_Proof a)]),
     sh_fill = (\<lambda>fs. \<lparr>sb_MarketID = fID (fs ! 0), sb_WindowID = fU64 (fs ! 1),
                       sb_WindowCloseAtMs = fI64 (fs ! 2), sb_ProofType = fByte (fs ! 3),
                       sb_PublicInputsHash = fBytes (fs ! 4), sb_FillsHash = fBytes (fs ! 5),
                       sb_Proof = fBytes (fs ! 6)\<rparr>)\<rparr>"

definition SubmitBatchProof_Bytes :: "linear_codec \<Rightarrow> SubmitBatchProof \<Rightarrow> error + bytes" where
  "SubmitBatchProof_Bytes C a = marshalAction C MaxSubmitBatchProofSize SubmitBatchProofID (sh_fields SubmitBatchProof_shape a)"

definition UnmarshalSubmitBatchProof :: "linear_codec \<Rightarrow> bytes \<Rightarrow> error + SubmitBatchProof" where
  "UnmarshalSubmitBatchProof C bs = unmarshalAction C ErrUnmarshalEmptySubmitBatchProof
     (Err ''unexpected submit_batch_proof typeID'') SubmitBatchProofID SubmitBatchProof_shape bs"

sublocale codec_env \<subseteq> submit_batch_proof: action_codec C SubmitBatchProof_shape MaxSubmitBatchProofSize SubmitBatchProofID
    ErrUnmarshalEmptySubmitBatchProof "Err ''unexpected submit_batch_proof typeID''"
    ErrUnmarshalEmptySubmitBatchProof "\<lambda>_. False" "SubmitBatchProof_Bytes C" "UnmarshalSubmitBatchProof C"
  by unfold_locales (simp_all add: SubmitBatchProof_shape_def SubmitBatchProof_Bytes_def UnmarshalSubmitBatchProof_def check_simps)

subsection \<open>\<open>actions/set_proof_config.go\<close>\<close>

abbreviation MaxSetProofConfigSize :: nat where "MaxSetProofConfigSize \<equiv> 256"

definition SetProofConfig_shape :: "SetProofConfig shape" where
  "SetProofConfig_shape = \<lparr>
     sh_kinds = [KBool, KByte, KI64, KI64, KAddress],
     sh_fields = (\<lambda>a. [FBool (sp_RequireProof a), FByte (sp_RequiredProofType a),
                       FI64 (sp_BatchWindowMs a), FI64 (sp_ProofDeadlineMs a),
                       FAddress (sp_ProverAuthority a)]),
     sh_fill = (\<lambda>fs. \<lparr>sp_RequireProof = fBool (fs ! 0), sp_RequiredProofType = fByte (fs ! 1),
                       sp_BatchWindowMs = fI64 (fs ! 2), sp_ProofDeadlineMs = fI64 (fs ! 3),
                       sp_ProverAuthority = fAddress (fs ! 4)\<rparr>)\<rparr>"

definition SetProofConfig_Bytes :: "linear_codec \<Rightarrow> SetProofConfig \<Rightarrow> error + bytes" where
  "SetProofConfig_Bytes C a = marshalAction C MaxSetProofConfigSize SetProofConfigID (sh_fields SetProofConfig_shape a)"

definition UnmarshalSetProofConfig :: "linear_codec \<Rightarrow> bytes \<Rightarrow> error + SetProofConfig" where
  "UnmarshalSetProofConfig C bs = unmarshalAction C ErrUnmarshalEmptySetProofConfig
     (Err ''unexpected set_proof_config typeID'') SetProofConfigID SetProofConfig_shape bs"

sublocale codec_env \<subseteq> set_proof_config: action_codec C SetProofConfig_shape MaxSetProofConfigSize SetProofConfigID
    ErrUnmarshalEmptySetProofConfig "Err ''unexpected set_proof_config typeID''"
    ErrUnmarshalEmptySetProofConfig "\<lambda>_. False" "SetProofConfig_Bytes C" "UnmarshalSetProofConfig C"
  by unfold_locales (simp_all add: SetProofConfig_shape_def SetProofConfig_Bytes_def UnmarshalSetProofConfig_def check_simps)

end
