(* ===== verification/Codec_Results.thy ===== *)
theory Codec_Results
  imports Codec_Actions
begin

text \<open>
  The encoding of the results \<open>Execute\<close> returns: \<open>Bytes\<close> ignores the codec's error and
  \<open>Unmarshal...Result\<close> skips the identifier without reading it. Each pair meets \<open>result_codec\<close>: a result
  that fits its packer decodes to itself.
\<close>

section \<open>Results\<close>

definition TransferResult_shape :: "TransferResult shape" where
  "TransferResult_shape = \<lparr>
     sh_kinds = [KU64, KU64],
     sh_fields = (\<lambda>r. [FU64 (tr_SenderBalance r), FU64 (tr_ReceiverBalance r)]),
     sh_fill = (\<lambda>fs. \<lparr>tr_SenderBalance = fU64 (fs ! 0),
                       tr_ReceiverBalance = fU64 (fs ! 1)\<rparr>)\<rparr>"

definition TransferResult_Bytes :: "linear_codec \<Rightarrow> TransferResult \<Rightarrow> bytes" where
  "TransferResult_Bytes C r = marshalResult C MaxTransferSize TransferID (sh_fields TransferResult_shape r)"

definition UnmarshalTransferResult :: "linear_codec \<Rightarrow> bytes \<Rightarrow> error + TransferResult" where
  "UnmarshalTransferResult C bs = unmarshalResult C TransferResult_shape bs"

sublocale codec_env \<subseteq> transfer_result: result_codec C TransferResult_shape MaxTransferSize TransferID
    "TransferResult_Bytes C" "UnmarshalTransferResult C"
  by unfold_locales (simp_all add: TransferResult_shape_def TransferResult_Bytes_def UnmarshalTransferResult_def)

definition CreateMarketResult_shape :: "CreateMarketResult shape" where
  "CreateMarketResult_shape = \<lparr>
     sh_kinds = [KU64],
     sh_fields = (\<lambda>r. [FU64 (cm_SenderBalance r)]),
     sh_fill = (\<lambda>fs. \<lparr>cm_SenderBalance = fU64 (fs ! 0)\<rparr>)\<rparr>"

definition CreateMarketResult_Bytes :: "linear_codec \<Rightarrow> CreateMarketResult \<Rightarrow> bytes" where
  "CreateMarketResult_Bytes C r = marshalResult C MaxCreateMarketSize CreateMarketID (sh_fields CreateMarketResult_shape r)"

definition UnmarshalCreateMarketResult :: "linear_codec \<Rightarrow> bytes \<Rightarrow> error + CreateMarketResult" where
  "UnmarshalCreateMarketResult C bs = unmarshalResult C CreateMarketResult_shape bs"

sublocale codec_env \<subseteq> create_market_result: result_codec C CreateMarketResult_shape MaxCreateMarketSize CreateMarketID
    "CreateMarketResult_Bytes C" "UnmarshalCreateMarketResult C"
  by unfold_locales (simp_all add: CreateMarketResult_shape_def CreateMarketResult_Bytes_def UnmarshalCreateMarketResult_def)

definition CommitOrderResult_shape :: "CommitOrderResult shape" where
  "CommitOrderResult_shape = \<lparr>
     sh_kinds = [KU64],
     sh_fields = (\<lambda>r. [FU64 (cor_WindowID r)]),
     sh_fill = (\<lambda>fs. \<lparr>cor_WindowID = fU64 (fs ! 0)\<rparr>)\<rparr>"

definition CommitOrderResult_Bytes :: "linear_codec \<Rightarrow> CommitOrderResult \<Rightarrow> bytes" where
  "CommitOrderResult_Bytes C r = marshalResult C MaxCommitOrderSize CommitOrderID (sh_fields CommitOrderResult_shape r)"

definition UnmarshalCommitOrderResult :: "linear_codec \<Rightarrow> bytes \<Rightarrow> error + CommitOrderResult" where
  "UnmarshalCommitOrderResult C bs = unmarshalResult C CommitOrderResult_shape bs"

sublocale codec_env \<subseteq> commit_order_result: result_codec C CommitOrderResult_shape MaxCommitOrderSize CommitOrderID
    "CommitOrderResult_Bytes C" "UnmarshalCommitOrderResult C"
  by unfold_locales (simp_all add: CommitOrderResult_shape_def CommitOrderResult_Bytes_def UnmarshalCommitOrderResult_def)

definition RevealBatchResult_shape :: "RevealBatchResult shape" where
  "RevealBatchResult_shape = \<lparr>
     sh_kinds = [KU32],
     sh_fields = (\<lambda>r. [FU32 (rbr_ValidatorIndex r)]),
     sh_fill = (\<lambda>fs. \<lparr>rbr_ValidatorIndex = fU32 (fs ! 0)\<rparr>)\<rparr>"

definition RevealBatchResult_Bytes :: "linear_codec \<Rightarrow> RevealBatchResult \<Rightarrow> bytes" where
  "RevealBatchResult_Bytes C r = marshalResult C MaxRevealBatchSize RevealBatchID (sh_fields RevealBatchResult_shape r)"

definition UnmarshalRevealBatchResult :: "linear_codec \<Rightarrow> bytes \<Rightarrow> error + RevealBatchResult" where
  "UnmarshalRevealBatchResult C bs = unmarshalResult C RevealBatchResult_shape bs"

sublocale codec_env \<subseteq> reveal_batch_result: result_codec C RevealBatchResult_shape MaxRevealBatchSize RevealBatchID
    "RevealBatchResult_Bytes C" "UnmarshalRevealBatchResult C"
  by unfold_locales (simp_all add: RevealBatchResult_shape_def RevealBatchResult_Bytes_def UnmarshalRevealBatchResult_def)

definition ClearBatchResult_shape :: "ClearBatchResult shape" where
  "ClearBatchResult_shape = \<lparr>
     sh_kinds = [KU64, KU64],
     sh_fields = (\<lambda>r. [FU64 (cbr_ClearPrice r), FU64 (cbr_TotalVolume r)]),
     sh_fill = (\<lambda>fs. \<lparr>cbr_ClearPrice = fU64 (fs ! 0), cbr_TotalVolume = fU64 (fs ! 1)\<rparr>)\<rparr>"

definition ClearBatchResult_Bytes :: "linear_codec \<Rightarrow> ClearBatchResult \<Rightarrow> bytes" where
  "ClearBatchResult_Bytes C r = marshalResult C MaxClearBatchSize ClearBatchID (sh_fields ClearBatchResult_shape r)"

definition UnmarshalClearBatchResult :: "linear_codec \<Rightarrow> bytes \<Rightarrow> error + ClearBatchResult" where
  "UnmarshalClearBatchResult C bs = unmarshalResult C ClearBatchResult_shape bs"

sublocale codec_env \<subseteq> clear_batch_result: result_codec C ClearBatchResult_shape MaxClearBatchSize ClearBatchID
    "ClearBatchResult_Bytes C" "UnmarshalClearBatchResult C"
  by unfold_locales (simp_all add: ClearBatchResult_shape_def ClearBatchResult_Bytes_def UnmarshalClearBatchResult_def)

definition ResolveMarketResult_shape :: "ResolveMarketResult shape" where
  "ResolveMarketResult_shape = \<lparr>
     sh_kinds = [KByte],
     sh_fields = (\<lambda>r. [FByte (rmr_Outcome r)]),
     sh_fill = (\<lambda>fs. \<lparr>rmr_Outcome = fByte (fs ! 0)\<rparr>)\<rparr>"

definition ResolveMarketResult_Bytes :: "linear_codec \<Rightarrow> ResolveMarketResult \<Rightarrow> bytes" where
  "ResolveMarketResult_Bytes C r = marshalResult C MaxResolveMarketSize ResolveMarketID (sh_fields ResolveMarketResult_shape r)"

definition UnmarshalResolveMarketResult :: "linear_codec \<Rightarrow> bytes \<Rightarrow> error + ResolveMarketResult" where
  "UnmarshalResolveMarketResult C bs = unmarshalResult C ResolveMarketResult_shape bs"

sublocale codec_env \<subseteq> resolve_market_result: result_codec C ResolveMarketResult_shape MaxResolveMarketSize ResolveMarketID
    "ResolveMarketResult_Bytes C" "UnmarshalResolveMarketResult C"
  by unfold_locales (simp_all add: ResolveMarketResult_shape_def ResolveMarketResult_Bytes_def UnmarshalResolveMarketResult_def)

definition DisputeResult_shape :: "DisputeResult shape" where
  "DisputeResult_shape = \<lparr>
     sh_kinds = [KU64],
     sh_fields = (\<lambda>r. [FU64 (di_DisputerBalance r)]),
     sh_fill = (\<lambda>fs. \<lparr>di_DisputerBalance = fU64 (fs ! 0)\<rparr>)\<rparr>"

definition DisputeResult_Bytes :: "linear_codec \<Rightarrow> DisputeResult \<Rightarrow> bytes" where
  "DisputeResult_Bytes C r = marshalResult C MaxDisputeSize DisputeID (sh_fields DisputeResult_shape r)"

definition UnmarshalDisputeResult :: "linear_codec \<Rightarrow> bytes \<Rightarrow> error + DisputeResult" where
  "UnmarshalDisputeResult C bs = unmarshalResult C DisputeResult_shape bs"

sublocale codec_env \<subseteq> dispute_result: result_codec C DisputeResult_shape MaxDisputeSize DisputeID
    "DisputeResult_Bytes C" "UnmarshalDisputeResult C"
  by unfold_locales (simp_all add: DisputeResult_shape_def DisputeResult_Bytes_def UnmarshalDisputeResult_def)

definition RouteFeesResult_shape :: "RouteFeesResult shape" where
  "RouteFeesResult_shape = \<lparr>
     sh_kinds = [KU64, KU64, KU64, KU64],
     sh_fields = (\<lambda>r. [FU64 (rf_SenderBalance r), FU64 (rf_MSRBBudget r), FU64 (rf_COLBudget r),
                       FU64 (rf_OpsBudget r)]),
     sh_fill = (\<lambda>fs. \<lparr>rf_SenderBalance = fU64 (fs ! 0), rf_MSRBBudget = fU64 (fs ! 1),
                       rf_COLBudget = fU64 (fs ! 2), rf_OpsBudget = fU64 (fs ! 3)\<rparr>)\<rparr>"

definition RouteFeesResult_Bytes :: "linear_codec \<Rightarrow> RouteFeesResult \<Rightarrow> bytes" where
  "RouteFeesResult_Bytes C r = marshalResult C MaxRouteFeesSize RouteFeesID (sh_fields RouteFeesResult_shape r)"

definition UnmarshalRouteFeesResult :: "linear_codec \<Rightarrow> bytes \<Rightarrow> error + RouteFeesResult" where
  "UnmarshalRouteFeesResult C bs = unmarshalResult C RouteFeesResult_shape bs"

sublocale codec_env \<subseteq> route_fees_result: result_codec C RouteFeesResult_shape MaxRouteFeesSize RouteFeesID
    "RouteFeesResult_Bytes C" "UnmarshalRouteFeesResult C"
  by unfold_locales (simp_all add: RouteFeesResult_shape_def RouteFeesResult_Bytes_def UnmarshalRouteFeesResult_def)

definition ReleaseCOLTrancheResult_shape :: "ReleaseCOLTrancheResult shape" where
  "ReleaseCOLTrancheResult_shape = \<lparr>
     sh_kinds = [KU64, KU64, KU64],
     sh_fields = (\<lambda>r. [FU64 (rt_Locked r), FU64 (rt_Live r), FU64 (rt_Released r)]),
     sh_fill = (\<lambda>fs. \<lparr>rt_Locked = fU64 (fs ! 0), rt_Live = fU64 (fs ! 1),
                       rt_Released = fU64 (fs ! 2)\<rparr>)\<rparr>"

definition ReleaseCOLTrancheResult_Bytes :: "linear_codec \<Rightarrow> ReleaseCOLTrancheResult \<Rightarrow> bytes" where
  "ReleaseCOLTrancheResult_Bytes C r = marshalResult C MaxReleaseCOLTrancheSize ReleaseCOLTrancheID (sh_fields ReleaseCOLTrancheResult_shape r)"

definition UnmarshalReleaseCOLTrancheResult :: "linear_codec \<Rightarrow> bytes \<Rightarrow> error + ReleaseCOLTrancheResult" where
  "UnmarshalReleaseCOLTrancheResult C bs = unmarshalResult C ReleaseCOLTrancheResult_shape bs"

sublocale codec_env \<subseteq> release_col_tranche_result: result_codec C ReleaseCOLTrancheResult_shape MaxReleaseCOLTrancheSize ReleaseCOLTrancheID
    "ReleaseCOLTrancheResult_Bytes C" "UnmarshalReleaseCOLTrancheResult C"
  by unfold_locales (simp_all add: ReleaseCOLTrancheResult_shape_def ReleaseCOLTrancheResult_Bytes_def UnmarshalReleaseCOLTrancheResult_def)

definition MintVAIResult_shape :: "MintVAIResult shape" where
  "MintVAIResult_shape = \<lparr>
     sh_kinds = [KU64, KU64],
     sh_fields = (\<lambda>r. [FU64 (mv_ToBalance r), FU64 (mv_TotalDebt r)]),
     sh_fill = (\<lambda>fs. \<lparr>mv_ToBalance = fU64 (fs ! 0), mv_TotalDebt = fU64 (fs ! 1)\<rparr>)\<rparr>"

definition MintVAIResult_Bytes :: "linear_codec \<Rightarrow> MintVAIResult \<Rightarrow> bytes" where
  "MintVAIResult_Bytes C r = marshalResult C MaxMintVAISize MintVAIID (sh_fields MintVAIResult_shape r)"

definition UnmarshalMintVAIResult :: "linear_codec \<Rightarrow> bytes \<Rightarrow> error + MintVAIResult" where
  "UnmarshalMintVAIResult C bs = unmarshalResult C MintVAIResult_shape bs"

sublocale codec_env \<subseteq> mint_vai_result: result_codec C MintVAIResult_shape MaxMintVAISize MintVAIID
    "MintVAIResult_Bytes C" "UnmarshalMintVAIResult C"
  by unfold_locales (simp_all add: MintVAIResult_shape_def MintVAIResult_Bytes_def UnmarshalMintVAIResult_def)

definition BurnVAIResult_shape :: "BurnVAIResult shape" where
  "BurnVAIResult_shape = \<lparr>
     sh_kinds = [KU64, KU64],
     sh_fields = (\<lambda>r. [FU64 (bv_ActorBalance r), FU64 (bv_TotalDebt r)]),
     sh_fill = (\<lambda>fs. \<lparr>bv_ActorBalance = fU64 (fs ! 0), bv_TotalDebt = fU64 (fs ! 1)\<rparr>)\<rparr>"

definition BurnVAIResult_Bytes :: "linear_codec \<Rightarrow> BurnVAIResult \<Rightarrow> bytes" where
  "BurnVAIResult_Bytes C r = marshalResult C MaxBurnVAISize BurnVAIID (sh_fields BurnVAIResult_shape r)"

definition UnmarshalBurnVAIResult :: "linear_codec \<Rightarrow> bytes \<Rightarrow> error + BurnVAIResult" where
  "UnmarshalBurnVAIResult C bs = unmarshalResult C BurnVAIResult_shape bs"

sublocale codec_env \<subseteq> burn_vai_result: result_codec C BurnVAIResult_shape MaxBurnVAISize BurnVAIID
    "BurnVAIResult_Bytes C" "UnmarshalBurnVAIResult C"
  by unfold_locales (simp_all add: BurnVAIResult_shape_def BurnVAIResult_Bytes_def UnmarshalBurnVAIResult_def)

definition CreatePoolResult_shape :: "CreatePoolResult shape" where
  "CreatePoolResult_shape = \<lparr>
     sh_kinds = [KByte, KByte, KU16],
     sh_fields = (\<lambda>r. [FByte (cpr_Asset0 r), FByte (cpr_Asset1 r), FU16 (cpr_FeeBips r)]),
     sh_fill = (\<lambda>fs. \<lparr>cpr_Asset0 = fByte (fs ! 0), cpr_Asset1 = fByte (fs ! 1),
                       cpr_FeeBips = fU16 (fs ! 2)\<rparr>)\<rparr>"

definition CreatePoolResult_Bytes :: "linear_codec \<Rightarrow> CreatePoolResult \<Rightarrow> bytes" where
  "CreatePoolResult_Bytes C r = marshalResult C MaxCreatePoolSize CreatePoolID (sh_fields CreatePoolResult_shape r)"

definition UnmarshalCreatePoolResult :: "linear_codec \<Rightarrow> bytes \<Rightarrow> error + CreatePoolResult" where
  "UnmarshalCreatePoolResult C bs = unmarshalResult C CreatePoolResult_shape bs"

sublocale codec_env \<subseteq> create_pool_result: result_codec C CreatePoolResult_shape MaxCreatePoolSize CreatePoolID
    "CreatePoolResult_Bytes C" "UnmarshalCreatePoolResult C"
  by unfold_locales (simp_all add: CreatePoolResult_shape_def CreatePoolResult_Bytes_def UnmarshalCreatePoolResult_def)

definition AddLiquidityResult_shape :: "AddLiquidityResult shape" where
  "AddLiquidityResult_shape = \<lparr>
     sh_kinds = [KU64, KU64, KU64, KU64, KU64],
     sh_fields = (\<lambda>r. [FU64 (al_MintedLP r), FU64 (al_LPBalance r), FU64 (al_Reserve0 r),
                       FU64 (al_Reserve1 r), FU64 (al_TotalLP r)]),
     sh_fill = (\<lambda>fs. \<lparr>al_MintedLP = fU64 (fs ! 0), al_LPBalance = fU64 (fs ! 1),
                       al_Reserve0 = fU64 (fs ! 2), al_Reserve1 = fU64 (fs ! 3),
                       al_TotalLP = fU64 (fs ! 4)\<rparr>)\<rparr>"

definition AddLiquidityResult_Bytes :: "linear_codec \<Rightarrow> AddLiquidityResult \<Rightarrow> bytes" where
  "AddLiquidityResult_Bytes C r = marshalResult C MaxAddLiquiditySize AddLiquidityID (sh_fields AddLiquidityResult_shape r)"

definition UnmarshalAddLiquidityResult :: "linear_codec \<Rightarrow> bytes \<Rightarrow> error + AddLiquidityResult" where
  "UnmarshalAddLiquidityResult C bs = unmarshalResult C AddLiquidityResult_shape bs"

sublocale codec_env \<subseteq> add_liquidity_result: result_codec C AddLiquidityResult_shape MaxAddLiquiditySize AddLiquidityID
    "AddLiquidityResult_Bytes C" "UnmarshalAddLiquidityResult C"
  by unfold_locales (simp_all add: AddLiquidityResult_shape_def AddLiquidityResult_Bytes_def UnmarshalAddLiquidityResult_def)

definition RemoveLiquidityResult_shape :: "RemoveLiquidityResult shape" where
  "RemoveLiquidityResult_shape = \<lparr>
     sh_kinds = [KU64, KU64, KU64, KU64, KU64, KU64],
     sh_fields = (\<lambda>r. [FU64 (rl_Amount0Out r), FU64 (rl_Amount1Out r), FU64 (rl_LPBalance r),
                       FU64 (rl_Reserve0 r), FU64 (rl_Reserve1 r), FU64 (rl_TotalLP r)]),
     sh_fill = (\<lambda>fs. \<lparr>rl_Amount0Out = fU64 (fs ! 0), rl_Amount1Out = fU64 (fs ! 1),
                       rl_LPBalance = fU64 (fs ! 2), rl_Reserve0 = fU64 (fs ! 3),
                       rl_Reserve1 = fU64 (fs ! 4), rl_TotalLP = fU64 (fs ! 5)\<rparr>)\<rparr>"

definition RemoveLiquidityResult_Bytes :: "linear_codec \<Rightarrow> RemoveLiquidityResult \<Rightarrow> bytes" where
  "RemoveLiquidityResult_Bytes C r = marshalResult C MaxRemoveLiquiditySize RemoveLiquidityID (sh_fields RemoveLiquidityResult_shape r)"

definition UnmarshalRemoveLiquidityResult :: "linear_codec \<Rightarrow> bytes \<Rightarrow> error + RemoveLiquidityResult" where
  "UnmarshalRemoveLiquidityResult C bs = unmarshalResult C RemoveLiquidityResult_shape bs"

sublocale codec_env \<subseteq> remove_liquidity_result: result_codec C RemoveLiquidityResult_shape MaxRemoveLiquiditySize RemoveLiquidityID
    "RemoveLiquidityResult_Bytes C" "UnmarshalRemoveLiquidityResult C"
  by unfold_locales (simp_all add: RemoveLiquidityResult_shape_def RemoveLiquidityResult_Bytes_def UnmarshalRemoveLiquidityResult_def)

definition SwapExactInResult_shape :: "SwapExactInResult shape" where
  "SwapExactInResult_shape = \<lparr>
     sh_kinds = [KU64, KU64, KU64, KU64],
     sh_fields = (\<lambda>r. [FU64 (sw_AmountOut r), FU64 (sw_ReceiverBalance r), FU64 (sw_Reserve0 r),
                       FU64 (sw_Reserve1 r)]),
     sh_fill = (\<lambda>fs. \<lparr>sw_AmountOut = fU64 (fs ! 0), sw_ReceiverBalance = fU64 (fs ! 1),
                       sw_Reserve0 = fU64 (fs ! 2), sw_Reserve1 = fU64 (fs ! 3)\<rparr>)\<rparr>"

definition SwapExactInResult_Bytes :: "linear_codec \<Rightarrow> SwapExactInResult \<Rightarrow> bytes" where
  "SwapExactInResult_Bytes C r = marshalResult C MaxSwapExactInSize SwapExactInID (sh_fields SwapExactInResult_shape r)"

definition UnmarshalSwapExactInResult :: "linear_codec \<Rightarrow> bytes \<Rightarrow> error + SwapExactInResult" where
  "UnmarshalSwapExactInResult C bs = unmarshalResult C SwapExactInResult_shape bs"

sublocale codec_env \<subseteq> swap_exact_in_result: result_codec C SwapExactInResult_shape MaxSwapExactInSize SwapExactInID
    "SwapExactInResult_Bytes C" "UnmarshalSwapExactInResult C"
  by unfold_locales (simp_all add: SwapExactInResult_shape_def SwapExactInResult_Bytes_def UnmarshalSwapExactInResult_def)

definition UpdateReserveStateResult_shape :: "UpdateReserveStateResult shape" where
  "UpdateReserveStateResult_shape = \<lparr>
     sh_kinds = [KU64, KU64],
     sh_fields = (\<lambda>r. [FU64 (urr_ExogenousReserve r), FU64 (urr_VAIBuffer r)]),
     sh_fill = (\<lambda>fs. \<lparr>urr_ExogenousReserve = fU64 (fs ! 0),
                       urr_VAIBuffer = fU64 (fs ! 1)\<rparr>)\<rparr>"

definition UpdateReserveStateResult_Bytes :: "linear_codec \<Rightarrow> UpdateReserveStateResult \<Rightarrow> bytes" where
  "UpdateReserveStateResult_Bytes C r = marshalResult C MaxUpdateReserveStateSize UpdateReserveStateID (sh_fields UpdateReserveStateResult_shape r)"

definition UnmarshalUpdateReserveStateResult :: "linear_codec \<Rightarrow> bytes \<Rightarrow> error + UpdateReserveStateResult" where
  "UnmarshalUpdateReserveStateResult C bs = unmarshalResult C UpdateReserveStateResult_shape bs"

sublocale codec_env \<subseteq> update_reserve_state_result: result_codec C UpdateReserveStateResult_shape MaxUpdateReserveStateSize UpdateReserveStateID
    "UpdateReserveStateResult_Bytes C" "UnmarshalUpdateReserveStateResult C"
  by unfold_locales (simp_all add: UpdateReserveStateResult_shape_def UpdateReserveStateResult_Bytes_def UnmarshalUpdateReserveStateResult_def)

definition SetRiskParamsResult_shape :: "SetRiskParamsResult shape" where
  "SetRiskParamsResult_shape = \<lparr>
     sh_kinds = [KU32, KU16, KU16, KU16, KU16, KU16, KU16],
     sh_fields = (\<lambda>r. [FU32 (srr_BackingFloorBips r), FU16 (srr_VEILLtvBips r),
                       FU16 (srr_WVEILLtvBips r), FU16 (srr_WSVEILLtvBips r),
                       FU16 (srr_VEILHaircutBips r), FU16 (srr_WVEILHaircutBips r),
                       FU16 (srr_WSVEILHaircutBips r)]),
     sh_fill = (\<lambda>fs. \<lparr>srr_BackingFloorBips = fU32 (fs ! 0), srr_VEILLtvBips = fU16 (fs ! 1),
                       srr_WVEILLtvBips = fU16 (fs ! 2), srr_WSVEILLtvBips = fU16 (fs ! 3),
                       srr_VEILHaircutBips = fU16 (fs ! 4), srr_WVEILHaircutBips = fU16 (fs ! 5),
                       srr_WSVEILHaircutBips = fU16 (fs ! 6)\<rparr>)\<rparr>"

definition SetRiskParamsResult_Bytes :: "linear_codec \<Rightarrow> SetRiskParamsResult \<Rightarrow> bytes" where
  "SetRiskParamsResult_Bytes C r = marshalResult C MaxSetRiskParamsSize SetRiskParamsID (sh_fields SetRiskParamsResult_shape r)"

definition UnmarshalSetRiskParamsResult :: "linear_codec \<Rightarrow> bytes \<Rightarrow> error + SetRiskParamsResult" where
  "UnmarshalSetRiskParamsResult C bs = unmarshalResult C SetRiskParamsResult_shape bs"

sublocale codec_env \<subseteq> set_risk_params_result: result_codec C SetRiskParamsResult_shape MaxSetRiskParamsSize SetRiskParamsID
    "SetRiskParamsResult_Bytes C" "UnmarshalSetRiskParamsResult C"
  by unfold_locales (simp_all add: SetRiskParamsResult_shape_def SetRiskParamsResult_Bytes_def UnmarshalSetRiskParamsResult_def)

definition SubmitBatchProofResult_shape :: "SubmitBatchProofResult shape" where
  "SubmitBatchProofResult_shape = \<lparr>
     sh_kinds = [KI64, KBytes, KU32, KByte, KByte],
     sh_fields = (\<lambda>r. [FI64 (sb_SubmittedAtMs r), FBytes (sb_ProofCommitment r),
                       FU32 (sb_StoredProofBytes r), FByte (sb_GlyphClass r),
                       FByte (sb_GlyphRarity r)]),
     sh_fill = (\<lambda>fs. \<lparr>sb_SubmittedAtMs = fI64 (fs ! 0), sb_ProofCommitment = fBytes (fs ! 1),
                       sb_StoredProofBytes = fU32 (fs ! 2), sb_GlyphClass = fByte (fs ! 3),
                       sb_GlyphRarity = fByte (fs ! 4)\<rparr>)\<rparr>"

definition SubmitBatchProofResult_Bytes :: "linear_codec \<Rightarrow> SubmitBatchProofResult \<Rightarrow> bytes" where
  "SubmitBatchProofResult_Bytes C r = marshalResult C MaxSubmitBatchProofSize SubmitBatchProofID (sh_fields SubmitBatchProofResult_shape r)"

definition UnmarshalSubmitBatchProofResult :: "linear_codec \<Rightarrow> bytes \<Rightarrow> error + SubmitBatchProofResult" where
  "UnmarshalSubmitBatchProofResult C bs = unmarshalResult C SubmitBatchProofResult_shape bs"

sublocale codec_env \<subseteq> submit_batch_proof_result: result_codec C SubmitBatchProofResult_shape MaxSubmitBatchProofSize SubmitBatchProofID
    "SubmitBatchProofResult_Bytes C" "UnmarshalSubmitBatchProofResult C"
  by unfold_locales (simp_all add: SubmitBatchProofResult_shape_def SubmitBatchProofResult_Bytes_def UnmarshalSubmitBatchProofResult_def)

definition SetProofConfigResult_shape :: "SetProofConfigResult shape" where
  "SetProofConfigResult_shape = \<lparr>
     sh_kinds = [KBool, KByte, KI64, KI64, KAddress],
     sh_fields = (\<lambda>r. [FBool (spr_RequireProof r), FByte (spr_RequiredProofType r),
                       FI64 (spr_BatchWindowMs r), FI64 (spr_ProofDeadlineMs r),
                       FAddress (spr_ProverAuthority r)]),
     sh_fill = (\<lambda>fs. \<lparr>spr_RequireProof = fBool (fs ! 0), spr_RequiredProofType = fByte (fs ! 1),
                       spr_BatchWindowMs = fI64 (fs ! 2), spr_ProofDeadlineMs = fI64 (fs ! 3),
                       spr_ProverAuthority = fAddress (fs ! 4)\<rparr>)\<rparr>"

definition SetProofConfigResult_Bytes :: "linear_codec \<Rightarrow> SetProofConfigResult \<Rightarrow> bytes" where
  "SetProofConfigResult_Bytes C r = marshalResult C MaxSetProofConfigSize SetProofConfigID (sh_fields SetProofConfigResult_shape r)"

definition UnmarshalSetProofConfigResult :: "linear_codec \<Rightarrow> bytes \<Rightarrow> error + SetProofConfigResult" where
  "UnmarshalSetProofConfigResult C bs = unmarshalResult C SetProofConfigResult_shape bs"

sublocale codec_env \<subseteq> set_proof_config_result: result_codec C SetProofConfigResult_shape MaxSetProofConfigSize SetProofConfigID
    "SetProofConfigResult_Bytes C" "UnmarshalSetProofConfigResult C"
  by unfold_locales (simp_all add: SetProofConfigResult_shape_def SetProofConfigResult_Bytes_def UnmarshalSetProofConfigResult_def)

end
