(* ===== verification/Vm_Codec.thy ===== *)
theory Vm_Codec
  imports Vm Codec_Results
begin

text \<open>
  What leaves and enters the virtual machine as bytes: the parsers \<open>vm/vm.go\<close> registers for actions and
  for results, and \<open>Execute\<close> with the encoded result it returns.

  \<open>codec.TypeParser\<close> is HyperSDK's: \<open>Register\<close> adds a decoder under a type identifier and
  \<open>Unmarshal\<close> hands the input to the decoder registered under its first byte. The registrations are the lists
  \<open>ActionParser\<close> and \<open>OutputParser\<close>, the dispatch is a parameter, its contract the locale \<open>type_parser\<close>.
\<close>

section \<open>Actions as bytes\<close>

primrec Action_Bytes :: "linear_codec \<Rightarrow> action \<Rightarrow> error + bytes" where
  "Action_Bytes C (ATransfer a) = Transfer_Bytes C a"
| "Action_Bytes C (ACreateMarket a) = CreateMarket_Bytes C a"
| "Action_Bytes C (ACommitOrder a) = CommitOrder_Bytes C a"
| "Action_Bytes C (ARevealBatch a) = RevealBatch_Bytes C a"
| "Action_Bytes C (AClearBatch a) = ClearBatch_Bytes C a"
| "Action_Bytes C (AResolveMarket a) = ResolveMarket_Bytes C a"
| "Action_Bytes C (ADispute a) = Dispute_Bytes C a"
| "Action_Bytes C (ARouteFees a) = RouteFees_Bytes C a"
| "Action_Bytes C (AReleaseCOLTranche a) = ReleaseCOLTranche_Bytes C a"
| "Action_Bytes C (AMintVAI a) = MintVAI_Bytes C a"
| "Action_Bytes C (ABurnVAI a) = BurnVAI_Bytes C a"
| "Action_Bytes C (ACreatePool a) = CreatePool_Bytes C a"
| "Action_Bytes C (AAddLiquidity a) = AddLiquidity_Bytes C a"
| "Action_Bytes C (ARemoveLiquidity a) = RemoveLiquidity_Bytes C a"
| "Action_Bytes C (ASwapExactIn a) = SwapExactIn_Bytes C a"
| "Action_Bytes C (AUpdateReserveState a) = UpdateReserveState_Bytes C a"
| "Action_Bytes C (ASetRiskParams a) = SetRiskParams_Bytes C a"
| "Action_Bytes C (ASubmitBatchProof a) = SubmitBatchProof_Bytes C a"
| "Action_Bytes C (ASetProofConfig a) = SetProofConfig_Bytes C a"

text \<open>A decoder of one action type as a decoder of actions.\<close>

definition decodes :: "('a \<Rightarrow> 'b) \<Rightarrow> (bytes \<Rightarrow> error + 'a) \<Rightarrow> bytes \<Rightarrow> error + 'b" where
  "decodes mk f bs = (case f bs of Inl e \<Rightarrow> Inl e | Inr x \<Rightarrow> Inr (mk x))"

definition ActionParser :: "linear_codec \<Rightarrow> (u8 \<times> (bytes \<Rightarrow> error + action)) list" where
  "ActionParser C = [
     (TransferID, decodes ATransfer (UnmarshalTransfer C)),
     (CreateMarketID, decodes ACreateMarket (UnmarshalCreateMarket C)),
     (CommitOrderID, decodes ACommitOrder (UnmarshalCommitOrder C)),
     (RevealBatchID, decodes ARevealBatch (UnmarshalRevealBatch C)),
     (ClearBatchID, decodes AClearBatch (UnmarshalClearBatch C)),
     (ResolveMarketID, decodes AResolveMarket (UnmarshalResolveMarket C)),
     (DisputeID, decodes ADispute (UnmarshalDispute C)),
     (RouteFeesID, decodes ARouteFees (UnmarshalRouteFees C)),
     (ReleaseCOLTrancheID, decodes AReleaseCOLTranche (UnmarshalReleaseCOLTranche C)),
     (MintVAIID, decodes AMintVAI (UnmarshalMintVAI C)),
     (BurnVAIID, decodes ABurnVAI (UnmarshalBurnVAI C)),
     (CreatePoolID, decodes ACreatePool (UnmarshalCreatePool C)),
     (AddLiquidityID, decodes AAddLiquidity (UnmarshalAddLiquidity C)),
     (RemoveLiquidityID, decodes ARemoveLiquidity (UnmarshalRemoveLiquidity C)),
     (SwapExactInID, decodes ASwapExactIn (UnmarshalSwapExactIn C)),
     (UpdateReserveStateID, decodes AUpdateReserveState (UnmarshalUpdateReserveState C)),
     (SetRiskParamsID, decodes ASetRiskParams (UnmarshalSetRiskParams C)),
     (SubmitBatchProofID, decodes ASubmitBatchProof (UnmarshalSubmitBatchProof C)),
     (SetProofConfigID, decodes ASetProofConfig (UnmarshalSetProofConfig C))]"

section \<open>Results as bytes\<close>

datatype action_result =
    RTransfer TransferResult
  | RCreateMarket CreateMarketResult
  | RCommitOrder CommitOrderResult
  | RRevealBatch RevealBatchResult
  | RClearBatch ClearBatchResult
  | RResolveMarket ResolveMarketResult
  | RDispute DisputeResult
  | RRouteFees RouteFeesResult
  | RReleaseCOLTranche ReleaseCOLTrancheResult
  | RMintVAI MintVAIResult
  | RBurnVAI BurnVAIResult
  | RCreatePool CreatePoolResult
  | RAddLiquidity AddLiquidityResult
  | RRemoveLiquidity RemoveLiquidityResult
  | RSwapExactIn SwapExactInResult
  | RUpdateReserveState UpdateReserveStateResult
  | RSetRiskParams SetRiskParamsResult
  | RSubmitBatchProof SubmitBatchProofResult
  | RSetProofConfig SetProofConfigResult

primrec Output_Bytes :: "linear_codec \<Rightarrow> action_result \<Rightarrow> bytes" where
  "Output_Bytes C (RTransfer r) = TransferResult_Bytes C r"
| "Output_Bytes C (RCreateMarket r) = CreateMarketResult_Bytes C r"
| "Output_Bytes C (RCommitOrder r) = CommitOrderResult_Bytes C r"
| "Output_Bytes C (RRevealBatch r) = RevealBatchResult_Bytes C r"
| "Output_Bytes C (RClearBatch r) = ClearBatchResult_Bytes C r"
| "Output_Bytes C (RResolveMarket r) = ResolveMarketResult_Bytes C r"
| "Output_Bytes C (RDispute r) = DisputeResult_Bytes C r"
| "Output_Bytes C (RRouteFees r) = RouteFeesResult_Bytes C r"
| "Output_Bytes C (RReleaseCOLTranche r) = ReleaseCOLTrancheResult_Bytes C r"
| "Output_Bytes C (RMintVAI r) = MintVAIResult_Bytes C r"
| "Output_Bytes C (RBurnVAI r) = BurnVAIResult_Bytes C r"
| "Output_Bytes C (RCreatePool r) = CreatePoolResult_Bytes C r"
| "Output_Bytes C (RAddLiquidity r) = AddLiquidityResult_Bytes C r"
| "Output_Bytes C (RRemoveLiquidity r) = RemoveLiquidityResult_Bytes C r"
| "Output_Bytes C (RSwapExactIn r) = SwapExactInResult_Bytes C r"
| "Output_Bytes C (RUpdateReserveState r) = UpdateReserveStateResult_Bytes C r"
| "Output_Bytes C (RSetRiskParams r) = SetRiskParamsResult_Bytes C r"
| "Output_Bytes C (RSubmitBatchProof r) = SubmitBatchProofResult_Bytes C r"
| "Output_Bytes C (RSetProofConfig r) = SetProofConfigResult_Bytes C r"

definition OutputParser :: "linear_codec \<Rightarrow> (u8 \<times> (bytes \<Rightarrow> error + action_result)) list" where
  "OutputParser C = [
     (TransferID, decodes RTransfer (UnmarshalTransferResult C)),
     (CreateMarketID, decodes RCreateMarket (UnmarshalCreateMarketResult C)),
     (CommitOrderID, decodes RCommitOrder (UnmarshalCommitOrderResult C)),
     (RevealBatchID, decodes RRevealBatch (UnmarshalRevealBatchResult C)),
     (ClearBatchID, decodes RClearBatch (UnmarshalClearBatchResult C)),
     (ResolveMarketID, decodes RResolveMarket (UnmarshalResolveMarketResult C)),
     (DisputeID, decodes RDispute (UnmarshalDisputeResult C)),
     (RouteFeesID, decodes RRouteFees (UnmarshalRouteFeesResult C)),
     (ReleaseCOLTrancheID, decodes RReleaseCOLTranche (UnmarshalReleaseCOLTrancheResult C)),
     (MintVAIID, decodes RMintVAI (UnmarshalMintVAIResult C)),
     (BurnVAIID, decodes RBurnVAI (UnmarshalBurnVAIResult C)),
     (CreatePoolID, decodes RCreatePool (UnmarshalCreatePoolResult C)),
     (AddLiquidityID, decodes RAddLiquidity (UnmarshalAddLiquidityResult C)),
     (RemoveLiquidityID, decodes RRemoveLiquidity (UnmarshalRemoveLiquidityResult C)),
     (SwapExactInID, decodes RSwapExactIn (UnmarshalSwapExactInResult C)),
     (UpdateReserveStateID, decodes RUpdateReserveState (UnmarshalUpdateReserveStateResult C)),
     (SetRiskParamsID, decodes RSetRiskParams (UnmarshalSetRiskParamsResult C)),
     (SubmitBatchProofID, decodes RSubmitBatchProof (UnmarshalSubmitBatchProofResult C)),
     (SetProofConfigID, decodes RSetProofConfig (UnmarshalSetProofConfigResult C))]"

definition run_to :: "('r \<Rightarrow> 'b) \<Rightarrow> ('s, 'r) action_run \<Rightarrow> ('s, 'b) action_run" where
  "run_to f m = go_bind m (\<lambda>r. go_return (f r))"

lemma run_to_run [run_simps]: "run_to f m s = (Inr y, t) \<longleftrightarrow> (\<exists>r. m s = (Inr r, t) \<and> y = f r)"
  by (auto simp: run_to_def run_simps)

primrec Execute_typed ::
    "'s host \<Rightarrow> verifier_env \<Rightarrow> i64 \<Rightarrow> Address \<Rightarrow> ID \<Rightarrow> action \<Rightarrow> ('s, action_result) action_run" where
  "Execute_typed H V timestamp actor txID (ATransfer a) =
     run_to RTransfer (Transfer_Execute H a actor)"
| "Execute_typed H V timestamp actor txID (ACreateMarket a) =
     run_to RCreateMarket (CreateMarket_Execute H a actor)"
| "Execute_typed H V timestamp actor txID (ACommitOrder a) =
     run_to RCommitOrder (CommitOrder_Execute H a actor)"
| "Execute_typed H V timestamp actor txID (ARevealBatch a) =
     run_to RRevealBatch (RevealBatch_Execute H a)"
| "Execute_typed H V timestamp actor txID (AClearBatch a) =
     run_to RClearBatch (ClearBatch_Execute H V a actor)"
| "Execute_typed H V timestamp actor txID (AResolveMarket a) =
     run_to RResolveMarket (ResolveMarket_Execute H a)"
| "Execute_typed H V timestamp actor txID (ADispute a) =
     run_to RDispute (Dispute_Execute H a actor)"
| "Execute_typed H V timestamp actor txID (ARouteFees a) =
     run_to RRouteFees (RouteFees_Execute H a actor)"
| "Execute_typed H V timestamp actor txID (AReleaseCOLTranche a) =
     run_to RReleaseCOLTranche (ReleaseCOLTranche_Execute H a timestamp actor)"
| "Execute_typed H V timestamp actor txID (AMintVAI a) =
     run_to RMintVAI (MintVAI_Execute H a timestamp actor)"
| "Execute_typed H V timestamp actor txID (ABurnVAI a) =
     run_to RBurnVAI (BurnVAI_Execute H a actor)"
| "Execute_typed H V timestamp actor txID (ACreatePool a) =
     run_to RCreatePool (CreatePool_Execute H a actor)"
| "Execute_typed H V timestamp actor txID (AAddLiquidity a) =
     run_to RAddLiquidity (AddLiquidity_Execute H a actor)"
| "Execute_typed H V timestamp actor txID (ARemoveLiquidity a) =
     run_to RRemoveLiquidity (RemoveLiquidity_Execute H a actor)"
| "Execute_typed H V timestamp actor txID (ASwapExactIn a) =
     run_to RSwapExactIn (SwapExactIn_Execute H a actor)"
| "Execute_typed H V timestamp actor txID (AUpdateReserveState a) =
     run_to RUpdateReserveState (UpdateReserveState_Execute H a actor)"
| "Execute_typed H V timestamp actor txID (ASetRiskParams a) =
     run_to RSetRiskParams (SetRiskParams_Execute H a actor)"
| "Execute_typed H V timestamp actor txID (ASubmitBatchProof a) =
     run_to RSubmitBatchProof (SubmitBatchProof_Execute H V a timestamp actor txID)"
| "Execute_typed H V timestamp actor txID (ASetProofConfig a) =
     run_to RSetProofConfig (SetProofConfig_Execute H a actor)"

text \<open>\<open>return result.Bytes(), nil\<close>.\<close>

definition Execute_bytes ::
    "linear_codec \<Rightarrow> 's host \<Rightarrow> verifier_env \<Rightarrow> i64 \<Rightarrow> Address \<Rightarrow> ID \<Rightarrow> action \<Rightarrow> ('s, bytes) action_run" where
  "Execute_bytes C H V timestamp actor txID a =
     run_to (Output_Bytes C) (Execute_typed H V timestamp actor txID a)"

lemma Execute_typed_iff:
  "Execute H V now actor tx a s = (Inr (), t) \<longleftrightarrow> (\<exists>r. Execute_typed H V now actor tx a s = (Inr r, t))"
  by (cases a) (auto simp: run_simps)

section \<open>The dispatch\<close>

locale type_parser =
  fixes parse :: "(u8 \<times> (bytes \<Rightarrow> error + 'a)) list \<Rightarrow> bytes \<Rightarrow> error + 'a"
  assumes dispatch: "map_of ps b = Some f \<Longrightarrow> parse ps (b # bs) = f (b # bs)"
    and unregistered: "map_of ps b = None \<Longrightarrow> \<exists>e. parse ps (b # bs) = Inl e"
    and no_bytes: "\<exists>e. parse ps [] = Inl e"
begin

lemma parsed:
  assumes "parse ps bs = Inr x"
  obtains b rest f where "bs = b # rest" and "map_of ps b = Some f" and "f bs = Inr x"
proof (cases bs)
  case Nil
  then show thesis using assms no_bytes [of ps] by auto
next
  case (Cons b rest)
  then obtain f where f: "map_of ps b = Some f"
    using assms unregistered [of ps b rest] by (cases "map_of ps b") auto
  then have "f bs = Inr x" using assms dispatch [OF f] Cons by simp
  with Cons f that show thesis by blast
qed

end

fun first_byte_parser :: "(u8 \<times> (bytes \<Rightarrow> error + 'a)) list \<Rightarrow> bytes \<Rightarrow> error + 'a" where
  "first_byte_parser ps [] = Inl (HostError ''insufficient length'')"
| "first_byte_parser ps (b # bs) = (case map_of ps b of
     None \<Rightarrow> Inl (HostError ''no decoder registered'') | Some f \<Rightarrow> f (b # bs))"

interpretation first_byte: type_parser first_byte_parser
  by unfold_locales auto

section \<open>Every executed action fits its encoding\<close>

text \<open>The struct behind an action, for statements about all of them.\<close>

primrec action_fields :: "action \<Rightarrow> field list" where
  "action_fields (ATransfer a) = sh_fields Transfer_shape a"
| "action_fields (ACreateMarket a) = sh_fields CreateMarket_shape a"
| "action_fields (ACommitOrder a) = sh_fields CommitOrder_shape a"
| "action_fields (ARevealBatch a) = sh_fields RevealBatch_shape a"
| "action_fields (AClearBatch a) = sh_fields ClearBatch_shape a"
| "action_fields (AResolveMarket a) = sh_fields ResolveMarket_shape a"
| "action_fields (ADispute a) = sh_fields Dispute_shape a"
| "action_fields (ARouteFees a) = sh_fields RouteFees_shape a"
| "action_fields (AReleaseCOLTranche a) = sh_fields ReleaseCOLTranche_shape a"
| "action_fields (AMintVAI a) = sh_fields MintVAI_shape a"
| "action_fields (ABurnVAI a) = sh_fields BurnVAI_shape a"
| "action_fields (ACreatePool a) = sh_fields CreatePool_shape a"
| "action_fields (AAddLiquidity a) = sh_fields AddLiquidity_shape a"
| "action_fields (ARemoveLiquidity a) = sh_fields RemoveLiquidity_shape a"
| "action_fields (ASwapExactIn a) = sh_fields SwapExactIn_shape a"
| "action_fields (AUpdateReserveState a) = sh_fields UpdateReserveState_shape a"
| "action_fields (ASetRiskParams a) = sh_fields SetRiskParams_shape a"
| "action_fields (ASubmitBatchProof a) = sh_fields SubmitBatchProof_shape a"
| "action_fields (ASetProofConfig a) = sh_fields SetProofConfig_shape a"

primrec MaxActionSize :: "action \<Rightarrow> nat" where
  "MaxActionSize (ATransfer a) = MaxTransferSize"
| "MaxActionSize (ACreateMarket a) = MaxCreateMarketSize"
| "MaxActionSize (ACommitOrder a) = MaxCommitOrderSize"
| "MaxActionSize (ARevealBatch a) = MaxRevealBatchSize"
| "MaxActionSize (AClearBatch a) = MaxClearBatchSize"
| "MaxActionSize (AResolveMarket a) = MaxResolveMarketSize"
| "MaxActionSize (ADispute a) = MaxDisputeSize"
| "MaxActionSize (ARouteFees a) = MaxRouteFeesSize"
| "MaxActionSize (AReleaseCOLTranche a) = MaxReleaseCOLTrancheSize"
| "MaxActionSize (AMintVAI a) = MaxMintVAISize"
| "MaxActionSize (ABurnVAI a) = MaxBurnVAISize"
| "MaxActionSize (ACreatePool a) = MaxCreatePoolSize"
| "MaxActionSize (AAddLiquidity a) = MaxAddLiquiditySize"
| "MaxActionSize (ARemoveLiquidity a) = MaxRemoveLiquiditySize"
| "MaxActionSize (ASwapExactIn a) = MaxSwapExactInSize"
| "MaxActionSize (AUpdateReserveState a) = MaxUpdateReserveStateSize"
| "MaxActionSize (ASetRiskParams a) = MaxSetRiskParamsSize"
| "MaxActionSize (ASubmitBatchProof a) = MaxSubmitBatchProofSize"
| "MaxActionSize (ASetProofConfig a) = MaxSetProofConfigSize"

text \<open>What \<open>Unmarshal\<close> asks of a decoded struct.\<close>

fun decodable :: "action \<Rightarrow> bool" where
  "decodable (ATransfer a) = (length (tr_Memo a) \<le> MaxMemoSize)"
| "decodable (ACreateMarket a) = (length (cm_Question a) \<le> MaxQuestionSize)"
| "decodable _ = True"

lemmas action_shape_defs = Transfer_shape_def CreateMarket_shape_def CommitOrder_shape_def RevealBatch_shape_def
  ClearBatch_shape_def ResolveMarket_shape_def Dispute_shape_def RouteFees_shape_def
  ReleaseCOLTranche_shape_def MintVAI_shape_def BurnVAI_shape_def CreatePool_shape_def
  AddLiquidity_shape_def RemoveLiquidity_shape_def SwapExactIn_shape_def
  UpdateReserveState_shape_def SetRiskParams_shape_def SubmitBatchProof_shape_def
  SetProofConfig_shape_def

lemmas result_shape_defs = TransferResult_shape_def CreateMarketResult_shape_def CommitOrderResult_shape_def
  RevealBatchResult_shape_def ClearBatchResult_shape_def ResolveMarketResult_shape_def
  DisputeResult_shape_def RouteFeesResult_shape_def ReleaseCOLTrancheResult_shape_def
  MintVAIResult_shape_def BurnVAIResult_shape_def CreatePoolResult_shape_def
  AddLiquidityResult_shape_def RemoveLiquidityResult_shape_def SwapExactInResult_shape_def
  UpdateReserveStateResult_shape_def SetRiskParamsResult_shape_def
  SubmitBatchProofResult_shape_def SetProofConfigResult_shape_def

lemmas execute_defs = Transfer_Execute_def CreateMarket_Execute_def CommitOrder_Execute_def RevealBatch_Execute_def
  ClearBatch_Execute_def ResolveMarket_Execute_def Dispute_Execute_def RouteFees_Execute_def
  ReleaseCOLTranche_Execute_def MintVAI_Execute_def BurnVAI_Execute_def CreatePool_Execute_def
  AddLiquidity_Execute_def RemoveLiquidity_Execute_def SwapExactIn_Execute_def
  UpdateReserveState_Execute_def SetRiskParams_Execute_def SubmitBatchProof_Execute_def
  SetProofConfig_Execute_def

lemma executed_decodable: "Execute H V now actor tx a s = (Inr (), t) \<Longrightarrow> decodable a"
  by (cases a) (auto simp: run_simps Transfer_Execute_def CreateMarket_Execute_def)

lemma executed_fits:
  "Execute H V now actor tx a s = (Inr (), t) \<Longrightarrow> 1 + wire_size (action_fields a) \<le> MaxActionSize a"
  by (cases a) (auto simp: run_simps action_shape_defs Transfer_Execute_def CreateMarket_Execute_def
      CommitOrder_Execute_def RevealBatch_Execute_def ClearBatch_Execute_def ResolveMarket_Execute_def
      Dispute_Execute_def SubmitBatchProof_Execute_def submitMalformed_def)

lemma MaxActionSize_small: "MaxActionSize a < 2 ^ 31"
  by (cases a) simp_all

lemma same_type_kinds:
  "GetTypeID a = GetTypeID b \<Longrightarrow> map kind_of (action_fields a) = map kind_of (action_fields b)"
  by (cases a; cases b) (simp_all add: action_shape_defs)

text \<open>Every struct is determined by its fields.\<close>

lemma same_type_fields:
  "GetTypeID a = GetTypeID b \<Longrightarrow> action_fields a = action_fields b \<Longrightarrow> a = b"
  by (cases a; cases b) (simp_all add: action_shape_defs)

text \<open>The one slice in a result is the commitment to a proof, a hash.\<close>

fun result_sized :: "action_result \<Rightarrow> bool" where
  "result_sized (RSubmitBatchProof r) = (length (sb_ProofCommitment r) = 32)"
| "result_sized _ = True"

primrec result_fields :: "action_result \<Rightarrow> field list" where
  "result_fields (RTransfer r) = sh_fields TransferResult_shape r"
| "result_fields (RCreateMarket r) = sh_fields CreateMarketResult_shape r"
| "result_fields (RCommitOrder r) = sh_fields CommitOrderResult_shape r"
| "result_fields (RRevealBatch r) = sh_fields RevealBatchResult_shape r"
| "result_fields (RClearBatch r) = sh_fields ClearBatchResult_shape r"
| "result_fields (RResolveMarket r) = sh_fields ResolveMarketResult_shape r"
| "result_fields (RDispute r) = sh_fields DisputeResult_shape r"
| "result_fields (RRouteFees r) = sh_fields RouteFeesResult_shape r"
| "result_fields (RReleaseCOLTranche r) = sh_fields ReleaseCOLTrancheResult_shape r"
| "result_fields (RMintVAI r) = sh_fields MintVAIResult_shape r"
| "result_fields (RBurnVAI r) = sh_fields BurnVAIResult_shape r"
| "result_fields (RCreatePool r) = sh_fields CreatePoolResult_shape r"
| "result_fields (RAddLiquidity r) = sh_fields AddLiquidityResult_shape r"
| "result_fields (RRemoveLiquidity r) = sh_fields RemoveLiquidityResult_shape r"
| "result_fields (RSwapExactIn r) = sh_fields SwapExactInResult_shape r"
| "result_fields (RUpdateReserveState r) = sh_fields UpdateReserveStateResult_shape r"
| "result_fields (RSetRiskParams r) = sh_fields SetRiskParamsResult_shape r"
| "result_fields (RSubmitBatchProof r) = sh_fields SubmitBatchProofResult_shape r"
| "result_fields (RSetProofConfig r) = sh_fields SetProofConfigResult_shape r"

primrec MaxResultSize :: "action_result \<Rightarrow> nat" where
  "MaxResultSize (RTransfer r) = MaxTransferSize"
| "MaxResultSize (RCreateMarket r) = MaxCreateMarketSize"
| "MaxResultSize (RCommitOrder r) = MaxCommitOrderSize"
| "MaxResultSize (RRevealBatch r) = MaxRevealBatchSize"
| "MaxResultSize (RClearBatch r) = MaxClearBatchSize"
| "MaxResultSize (RResolveMarket r) = MaxResolveMarketSize"
| "MaxResultSize (RDispute r) = MaxDisputeSize"
| "MaxResultSize (RRouteFees r) = MaxRouteFeesSize"
| "MaxResultSize (RReleaseCOLTranche r) = MaxReleaseCOLTrancheSize"
| "MaxResultSize (RMintVAI r) = MaxMintVAISize"
| "MaxResultSize (RBurnVAI r) = MaxBurnVAISize"
| "MaxResultSize (RCreatePool r) = MaxCreatePoolSize"
| "MaxResultSize (RAddLiquidity r) = MaxAddLiquiditySize"
| "MaxResultSize (RRemoveLiquidity r) = MaxRemoveLiquiditySize"
| "MaxResultSize (RSwapExactIn r) = MaxSwapExactInSize"
| "MaxResultSize (RUpdateReserveState r) = MaxUpdateReserveStateSize"
| "MaxResultSize (RSetRiskParams r) = MaxSetRiskParamsSize"
| "MaxResultSize (RSubmitBatchProof r) = MaxSubmitBatchProofSize"
| "MaxResultSize (RSetProofConfig r) = MaxSetProofConfigSize"

lemma result_fits: "result_sized r \<Longrightarrow> 1 + wire_size (result_fields r) \<le> MaxResultSize r"
  by (cases r) (simp_all add: result_shape_defs)

lemma executed_sized: "Execute_typed H V now actor tx a s = (Inr r, t) \<Longrightarrow> result_sized r"
  by (cases a) (auto simp: run_simps SubmitBatchProof_Execute_def submitStore_def Let_def)

context codec_env
begin

lemma Action_Bytes_iff:
  "Action_Bytes C a = Inr bs \<longleftrightarrow>
     1 + wire_size (action_fields a) \<le> MaxActionSize a \<and> bs = GetTypeID a # wire (action_fields a)"
  by (cases a) (simp_all only: Action_Bytes.simps action_fields.simps MaxActionSize.simps GetTypeID.simps
      transfer.to_bytes_iff create_market.to_bytes_iff commit_order.to_bytes_iff
      reveal_batch.to_bytes_iff clear_batch.to_bytes_iff resolve_market.to_bytes_iff
      dispute.to_bytes_iff route_fees.to_bytes_iff release_col_tranche.to_bytes_iff
      mint_vai.to_bytes_iff burn_vai.to_bytes_iff create_pool.to_bytes_iff add_liquidity.to_bytes_iff
      remove_liquidity.to_bytes_iff swap_exact_in.to_bytes_iff update_reserve_state.to_bytes_iff
      set_risk_params.to_bytes_iff submit_batch_proof.to_bytes_iff set_proof_config.to_bytes_iff)

lemma unmarshal_wire_inject:
  assumes "wire fs = wire gs" and "map kind_of fs = map kind_of gs"
    and "wire_size fs < 2 ^ 31" and "wire_size gs < 2 ^ 31"
  shows "fs = gs"
  using unmarshal_wire [OF assms(3)] unmarshal_wire [OF assms(4)] assms(1,2) by (metis sum.inject(2))

lemma Action_Bytes_inject:
  assumes "Action_Bytes C a = Inr bs" and "Action_Bytes C b = Inr bs"
  shows "a = b"
proof -
  have eq: "GetTypeID a = GetTypeID b" "wire (action_fields a) = wire (action_fields b)"
    and small: "wire_size (action_fields a) < 2 ^ 31" "wire_size (action_fields b) < 2 ^ 31"
    using assms MaxActionSize_small [of a] MaxActionSize_small [of b]
    by (simp_all add: Action_Bytes_iff)
  have "map kind_of (action_fields a) = map kind_of (action_fields b)"
    using eq(1) by (rule same_type_kinds)
  then have "action_fields a = action_fields b"
    using unmarshal_wire_inject eq(2) small by blast
  with eq(1) show ?thesis by (rule same_type_fields)
qed

end

text \<open>The decoder registered for an action reads back what the action encodes to.\<close>

locale wire_env = codec_env C + actions: type_parser parse_action + results: type_parser parse_result
  for C :: linear_codec
    and parse_action :: "(u8 \<times> (bytes \<Rightarrow> error + action)) list \<Rightarrow> bytes \<Rightarrow> error + action"
    and parse_result :: "(u8 \<times> (bytes \<Rightarrow> error + action_result)) list \<Rightarrow> bytes \<Rightarrow> error + action_result"
begin

lemma action_dispatch:
  "parse_action (ActionParser C) (GetTypeID a # bs) = (case a of
     ATransfer _ \<Rightarrow> decodes ATransfer (UnmarshalTransfer C) (GetTypeID a # bs)
   | ACreateMarket _ \<Rightarrow> decodes ACreateMarket (UnmarshalCreateMarket C) (GetTypeID a # bs)
   | ACommitOrder _ \<Rightarrow> decodes ACommitOrder (UnmarshalCommitOrder C) (GetTypeID a # bs)
   | ARevealBatch _ \<Rightarrow> decodes ARevealBatch (UnmarshalRevealBatch C) (GetTypeID a # bs)
   | AClearBatch _ \<Rightarrow> decodes AClearBatch (UnmarshalClearBatch C) (GetTypeID a # bs)
   | AResolveMarket _ \<Rightarrow> decodes AResolveMarket (UnmarshalResolveMarket C) (GetTypeID a # bs)
   | ADispute _ \<Rightarrow> decodes ADispute (UnmarshalDispute C) (GetTypeID a # bs)
   | ARouteFees _ \<Rightarrow> decodes ARouteFees (UnmarshalRouteFees C) (GetTypeID a # bs)
   | AReleaseCOLTranche _ \<Rightarrow> decodes AReleaseCOLTranche (UnmarshalReleaseCOLTranche C) (GetTypeID a # bs)
   | AMintVAI _ \<Rightarrow> decodes AMintVAI (UnmarshalMintVAI C) (GetTypeID a # bs)
   | ABurnVAI _ \<Rightarrow> decodes ABurnVAI (UnmarshalBurnVAI C) (GetTypeID a # bs)
   | ACreatePool _ \<Rightarrow> decodes ACreatePool (UnmarshalCreatePool C) (GetTypeID a # bs)
   | AAddLiquidity _ \<Rightarrow> decodes AAddLiquidity (UnmarshalAddLiquidity C) (GetTypeID a # bs)
   | ARemoveLiquidity _ \<Rightarrow> decodes ARemoveLiquidity (UnmarshalRemoveLiquidity C) (GetTypeID a # bs)
   | ASwapExactIn _ \<Rightarrow> decodes ASwapExactIn (UnmarshalSwapExactIn C) (GetTypeID a # bs)
   | AUpdateReserveState _ \<Rightarrow> decodes AUpdateReserveState (UnmarshalUpdateReserveState C) (GetTypeID a # bs)
   | ASetRiskParams _ \<Rightarrow> decodes ASetRiskParams (UnmarshalSetRiskParams C) (GetTypeID a # bs)
   | ASubmitBatchProof _ \<Rightarrow> decodes ASubmitBatchProof (UnmarshalSubmitBatchProof C) (GetTypeID a # bs)
   | ASetProofConfig _ \<Rightarrow> decodes ASetProofConfig (UnmarshalSetProofConfig C) (GetTypeID a # bs))"
  by (cases a) (simp_all add: ActionParser_def actions.dispatch)

lemma action_roundtrip:
  assumes "decodable a" and "Action_Bytes C a = Inr bs"
  shows "parse_action (ActionParser C) bs = Inr a"
proof -
  have fits: "1 + wire_size (action_fields a) \<le> MaxActionSize a"
    and bs: "bs = GetTypeID a # wire (action_fields a)"
    using assms(2) by (simp_all only: Action_Bytes_iff)
  from fits assms(1) show ?thesis
    unfolding bs action_dispatch
    by (cases a) (simp_all add: decodes_def
        transfer.roundtrip create_market.roundtrip commit_order.roundtrip reveal_batch.roundtrip
      clear_batch.roundtrip resolve_market.roundtrip dispute.roundtrip route_fees.roundtrip
      release_col_tranche.roundtrip mint_vai.roundtrip burn_vai.roundtrip create_pool.roundtrip
      add_liquidity.roundtrip remove_liquidity.roundtrip swap_exact_in.roundtrip
      update_reserve_state.roundtrip set_risk_params.roundtrip submit_batch_proof.roundtrip
      set_proof_config.roundtrip)
qed

lemma action_parsed:
  assumes "parse_action (ActionParser C) bs = Inr a"
  shows "bs \<noteq> [] \<and> hd bs = GetTypeID a \<and> decodable a"
proof -
  obtain b rest f where bs: "bs = b # rest" and f: "map_of (ActionParser C) b = Some f" "f bs = Inr a"
    using actions.parsed [OF assms] .
  from f show ?thesis
    by (auto simp: ActionParser_def decodes_def bs split: if_splits sum.splits
        dest!: transfer.accepted create_market.accepted commit_order.accepted reveal_batch.accepted
        clear_batch.accepted resolve_market.accepted dispute.accepted route_fees.accepted
        release_col_tranche.accepted mint_vai.accepted burn_vai.accepted create_pool.accepted
        add_liquidity.accepted remove_liquidity.accepted swap_exact_in.accepted
        update_reserve_state.accepted set_risk_params.accepted submit_batch_proof.accepted
        set_proof_config.accepted)
qed

lemma result_roundtrip:
  assumes "result_sized r"
  shows "parse_result (OutputParser C) (Output_Bytes C r) = Inr r"
  using result_fits [OF assms]
  by (cases r) (simp_all add: OutputParser_def results.dispatch decodes_def
      transfer_result.to_bytes_fits transfer_result.of_bytes_fits create_market_result.to_bytes_fits
      create_market_result.of_bytes_fits commit_order_result.to_bytes_fits
      commit_order_result.of_bytes_fits reveal_batch_result.to_bytes_fits
      reveal_batch_result.of_bytes_fits clear_batch_result.to_bytes_fits
      clear_batch_result.of_bytes_fits resolve_market_result.to_bytes_fits
      resolve_market_result.of_bytes_fits dispute_result.to_bytes_fits dispute_result.of_bytes_fits
      route_fees_result.to_bytes_fits route_fees_result.of_bytes_fits
      release_col_tranche_result.to_bytes_fits release_col_tranche_result.of_bytes_fits
      mint_vai_result.to_bytes_fits mint_vai_result.of_bytes_fits burn_vai_result.to_bytes_fits
      burn_vai_result.of_bytes_fits create_pool_result.to_bytes_fits create_pool_result.of_bytes_fits
      add_liquidity_result.to_bytes_fits add_liquidity_result.of_bytes_fits
      remove_liquidity_result.to_bytes_fits remove_liquidity_result.of_bytes_fits
      swap_exact_in_result.to_bytes_fits swap_exact_in_result.of_bytes_fits
      update_reserve_state_result.to_bytes_fits update_reserve_state_result.of_bytes_fits
      set_risk_params_result.to_bytes_fits set_risk_params_result.of_bytes_fits
      submit_batch_proof_result.to_bytes_fits submit_batch_proof_result.of_bytes_fits
      set_proof_config_result.to_bytes_fits set_proof_config_result.of_bytes_fits)

end

interpretation mem_wire: wire_env mem_codec first_byte_parser first_byte_parser
  by unfold_locales

lemma mem_wire_env: "wire_env mem_codec first_byte_parser first_byte_parser"
  by unfold_locales

section \<open>Properties\<close>

text \<open>
  C23: Every action the chain executes successfully encodes without a panic, within the size its file
  allows, and the decoder registered for its type identifier reads back the same action. The limits that
  \<open>Execute\<close> puts on memo, question, envelope, share, signature, evidence, hashes and proof are what makes the encoding fit.
\<close>

theorem executed_actions_read_back:
  assumes "wire_env C pa pr" and "Execute H V now actor tx a s = (Inr (), t)"
  shows "\<exists>bs. Action_Bytes C a = Inr bs \<and> length bs \<le> MaxActionSize a
    \<and> pa (ActionParser C) bs = Inr a"
proof (intro exI conjI)
  let ?bs = "GetTypeID a # wire (action_fields a)"
  have codec: "codec_env C" using assms(1) by (simp add: wire_env_def)
  note fits = executed_fits [OF assms(2)]
  show bytes: "Action_Bytes C a = Inr ?bs"
    using fits by (simp only: codec_env.Action_Bytes_iff [OF codec])
  show "length ?bs \<le> MaxActionSize a" using fits by simp
  show "pa (ActionParser C) ?bs = Inr a"
    using wire_env.action_roundtrip [OF assms(1) executed_decodable [OF assms(2)] bytes] .
qed

theorem executed_actions_read_back_witness:
  "\<exists>bs. Action_Bytes mem_codec (ASubmitBatchProof window_submit) = Inr bs
    \<and> first_byte_parser (ActionParser mem_codec) bs = Inr (ASubmitBatchProof window_submit)"
proof (rule window_submitted)
  fix r t
  assume "SubmitBatchProof_Execute mem_host accept_all window_submit 6000 gov 5 window_start = (Inr r, t)"
  then have "Execute mem_host accept_all 6000 gov 5 (ASubmitBatchProof window_submit) window_start
      = (Inr (), t)"
    by (simp add: run_simps)
  from executed_actions_read_back [OF mem_wire_env this] show ?thesis by blast
qed

text \<open>
  What a client decodes from the bytes \<open>Execute\<close> returns is the result the action computed: the
  encoding of a result never loses the error it ignores, because every result fits its packer.
\<close>

theorem results_read_back:
  assumes "wire_env C pa pr" and "Execute_bytes C H V now actor tx a s = (Inr bs, t)"
  shows "\<exists>r. Execute_typed H V now actor tx a s = (Inr r, t) \<and> pr (OutputParser C) bs = Inr r"
proof -
  obtain r where r: "Execute_typed H V now actor tx a s = (Inr r, t)" "bs = Output_Bytes C r"
    using assms(2) by (auto simp: Execute_bytes_def run_simps)
  then show ?thesis
    using wire_env.result_roundtrip [OF assms(1) executed_sized [OF r(1)]] by blast
qed

theorem results_read_back_witness:
  "\<exists>bs t r. Execute_bytes mem_codec mem_host accept_all 6000 gov 5 (ASubmitBatchProof window_submit)
        window_start = (Inr bs, t)
    \<and> first_byte_parser (OutputParser mem_codec) bs = Inr (RSubmitBatchProof r)"
proof (rule window_submitted)
  fix r t
  assume "SubmitBatchProof_Execute mem_host accept_all window_submit 6000 gov 5 window_start = (Inr r, t)"
  then have typed: "Execute_typed mem_host accept_all 6000 gov 5 (ASubmitBatchProof window_submit)
      window_start = (Inr (RSubmitBatchProof r), t)"
    by (simp add: run_simps)
  then have "Execute_bytes mem_codec mem_host accept_all 6000 gov 5 (ASubmitBatchProof window_submit)
      window_start = (Inr (SubmitBatchProofResult_Bytes mem_codec r), t)"
    by (simp add: Execute_bytes_def run_simps)
  with results_read_back [OF mem_wire_env this] typed show ?thesis by auto
qed

text \<open>
  The encoding of actions is unambiguous: two actions with the same bytes are the same action, of the
  same type and equal in every field, so a signature over the bytes covers exactly one action.
\<close>

theorem action_bytes_unambiguous:
  assumes "codec_env C" and "Action_Bytes C a = Inr bs" and "Action_Bytes C b = Inr bs"
  shows "a = b"
  using codec_env.Action_Bytes_inject [OF assms] .

theorem action_bytes_unambiguous_witness:
  "Action_Bytes mem_codec (ATransfer sample_transfer)
    \<noteq> Action_Bytes mem_codec (ATransfer (sample_transfer\<lparr>tr_Memo := []\<rparr>))"
proof
  let ?a = "ATransfer sample_transfer" and ?b = "ATransfer (sample_transfer\<lparr>tr_Memo := []\<rparr>)"
  assume eq: "Action_Bytes mem_codec ?a = Action_Bytes mem_codec ?b"
  have a: "Action_Bytes mem_codec ?a = Inr (GetTypeID ?a # wire (action_fields ?a))"
    by (subst mem_codec.Action_Bytes_iff) (simp add: Transfer_shape_def sample_transfer_def)
  have "?a = ?b"
    by (rule action_bytes_unambiguous [OF mem_codec.codec_env_axioms a a [unfolded eq]])
  then show False by (simp add: sample_transfer_def)
qed

text \<open>
  Whatever bytes a peer sends, an action that comes out of the registered decoders has the type its first
  byte announces, and a memo or a question over the limit is refused while decoding. No bytes and
  bytes of an unregistered type give an error.
\<close>

theorem parsed_actions_are_what_they_announce:
  assumes "wire_env C pa pr"
  shows "(pa (ActionParser C) bs = Inr a \<longrightarrow> bs \<noteq> [] \<and> hd bs = GetTypeID a
      \<and> (\<forall>x. a = ATransfer x \<longrightarrow> length (tr_Memo x) \<le> MaxMemoSize)
      \<and> (\<forall>x. a = ACreateMarket x \<longrightarrow> length (cm_Question x) \<le> MaxQuestionSize))
    \<and> (bs = [] \<or> 18 < hd bs \<longrightarrow> (\<exists>e. pa (ActionParser C) bs = Inl e))"
proof -
  have "\<exists>e. pa (ActionParser C) bs = Inl e" if "bs = [] \<or> 18 < hd bs"
  proof (cases "pa (ActionParser C) bs")
    case (Inr x)
    then have "bs \<noteq> [] \<and> hd bs = GetTypeID x"
      using wire_env.action_parsed [OF assms] by blast
    moreover have "GetTypeID x \<le> 18" by (cases x) simp_all
    ultimately show ?thesis using that by auto
  qed simp
  moreover have "decodable a" "bs \<noteq> []" "hd bs = GetTypeID a" if "pa (ActionParser C) bs = Inr a"
    using wire_env.action_parsed [OF assms that] by simp_all
  ultimately show ?thesis by fastforce
qed

theorem parsed_actions_are_what_they_announce_witness:
  "\<exists>e. first_byte_parser (ActionParser mem_codec) [19, 0] = Inl e"
  using parsed_actions_are_what_they_announce [OF mem_wire_env, of "[19, 0]" "ATransfer sample_transfer"]
  by simp

end
