(* ===== verification/Zk_Circuits.thy ===== *)
theory Zk_Circuits
  imports Proof_Envelope
begin

text \<open>
  \<open>zk/clearhash_circuit.go\<close> and \<open>zk/shielded_ledger_circuit.go\<close>: the statements that proofs prove.

  \<open>Define\<close> emits constraints into gnark's frontend; here it returns whether an assignment meets every
  constraint it emits. A \<open>uints.U8\<close> of an assignment is a byte. The SHA-256 gadget and the field of the
  frontend are parameters (\<open>frontend_api\<close>); \<open>circuit_lib\<close> states that the gadget computes SHA-256 and that the field is
  larger than the sum of 32 bytes. The theorem: an assignment for the shielded ledger exists and is satisfied exactly
  for the preimages \<open>BuildShieldedLedgerPublicInputsPreimage\<close> builds from non-zero inputs, with their digest.
\<close>

record frontend_api =
  api_Modulus :: nat
  sha2_New :: "error + (bytes \<Rightarrow> bytes)"
  uints_New :: "error + unit"

section \<open>The clear-hash circuit\<close>

abbreviation ClearHashPreimageLen :: nat where "ClearHashPreimageLen \<equiv> 103"
abbreviation ClearHashDigestLen :: nat where "ClearHashDigestLen \<equiv> 32"

record ClearHashCircuit =
  ch_Preimage :: bytes
  ch_Digest :: bytes

text \<open>The hash of the private preimage against the public digest, as both circuits end.\<close>

definition assertDigest :: "(bytes \<Rightarrow> bytes) \<Rightarrow> bytes \<Rightarrow> bytes \<Rightarrow> error + bool" where
  "assertDigest h preimage digest =
     (let sum = h preimage in
      if length sum \<noteq> 32 then Inl (Err ''unexpected digest size'')
      else Inr (list_all2 (\<lambda>d s. d = s) digest sum))"

definition ClearHashCircuit_Define :: "frontend_api \<Rightarrow> ClearHashCircuit \<Rightarrow> error + bool" where
  "ClearHashCircuit_Define A c =
     (case sha2_New A of
        Inl err \<Rightarrow> Inl err
      | Inr h \<Rightarrow> (case uints_New A of
          Inl err \<Rightarrow> Inl err
        | Inr _ \<Rightarrow> assertDigest h (ch_Preimage c) (ch_Digest c)))"

definition NewClearHashAssignment :: "bytes \<Rightarrow> bytes \<Rightarrow> error + ClearHashCircuit" where
  "NewClearHashAssignment preimage digest =
     (if length preimage \<noteq> ClearHashPreimageLen then Inl (Err ''invalid clear-hash preimage size'')
      else if length digest \<noteq> ClearHashDigestLen then Inl (Err ''invalid clear-hash digest size'')
      else Inr \<lparr>ch_Preimage = preimage, ch_Digest = digest\<rparr>)"

section \<open>The shielded-ledger circuit\<close>

abbreviation ShieldedLedgerDomainTagLen :: nat where "ShieldedLedgerDomainTagLen \<equiv> 23"
abbreviation ShieldedLedgerMarketIDOffset :: nat where
  "ShieldedLedgerMarketIDOffset \<equiv> 23"
abbreviation ShieldedLedgerWindowIDOffset :: nat where
  "ShieldedLedgerWindowIDOffset \<equiv> 55"
abbreviation ShieldedLedgerClearPriceOffset :: nat where
  "ShieldedLedgerClearPriceOffset \<equiv> 63"
abbreviation ShieldedLedgerTotalVolOffset :: nat where
  "ShieldedLedgerTotalVolOffset \<equiv> 71"
abbreviation ShieldedLedgerFillsHashLenOffset :: nat where
  "ShieldedLedgerFillsHashLenOffset \<equiv> 79"
abbreviation ShieldedLedgerFillsHashOffset :: nat where
  "ShieldedLedgerFillsHashOffset \<equiv> 81"
abbreviation ShieldedLedgerPreimageLen :: nat where
  "ShieldedLedgerPreimageLen \<equiv> 113"
abbreviation ShieldedLedgerDigestLen :: nat where "ShieldedLedgerDigestLen \<equiv> 32"

record ShieldedLedgerCircuitV1 =
  sl_Preimage :: bytes
  sl_Digest :: bytes

definition assertLiteralBytes :: "bytes \<Rightarrow> bytes \<Rightarrow> error + bool" where
  "assertLiteralBytes got want =
     (if length got \<noteq> length want then Inl (Err ''literal length mismatch'')
      else Inr (list_all2 (\<lambda>g w. g = w) got want))"

text \<open>\<open>api.AssertIsEqual(api.IsZero(sum), 0)\<close> over the sum of the bytes in the field.\<close>

definition assertByteSliceNonZero :: "frontend_api \<Rightarrow> bytes \<Rightarrow> bool" where
  "assertByteSliceNonZero A b \<longleftrightarrow> foldl (\<lambda>sum x. (sum + unat x) mod api_Modulus A) 0 b \<noteq> 0"

definition ShieldedLedgerCircuitV1_Define :: "frontend_api \<Rightarrow> ShieldedLedgerCircuitV1 \<Rightarrow> error + bool" where
  "ShieldedLedgerCircuitV1_Define A c =
     (case sha2_New A of
        Inl err \<Rightarrow> Inl err
      | Inr h \<Rightarrow> (case uints_New A of
          Inl err \<Rightarrow> Inl err
        | Inr _ \<Rightarrow>
     (let pre = sl_Preimage c in
      case assertLiteralBytes (slice pre 0 ShieldedLedgerDomainTagLen) ShieldedLedgerInputsDomainTag of
        Inl err \<Rightarrow> Inl err
      | Inr tagOk \<Rightarrow>
     (case assertLiteralBytes (slice pre ShieldedLedgerFillsHashLenOffset ShieldedLedgerFillsHashOffset)
          [0x00, of_nat ExpectedFillsHashSize] of
        Inl err \<Rightarrow> Inl err
      | Inr lenOk \<Rightarrow>
     (case assertDigest h pre (sl_Digest c) of
        Inl err \<Rightarrow> Inl err
      | Inr digestOk \<Rightarrow>
          Inr (tagOk \<and> lenOk
            \<and> assertByteSliceNonZero A (slice pre ShieldedLedgerMarketIDOffset ShieldedLedgerWindowIDOffset)
            \<and> assertByteSliceNonZero A (slice pre ShieldedLedgerWindowIDOffset ShieldedLedgerClearPriceOffset)
            \<and> assertByteSliceNonZero A (slice pre ShieldedLedgerClearPriceOffset ShieldedLedgerTotalVolOffset)
            \<and> assertByteSliceNonZero A (slice pre ShieldedLedgerTotalVolOffset ShieldedLedgerFillsHashLenOffset)
            \<and> assertByteSliceNonZero A (slice pre ShieldedLedgerFillsHashOffset ShieldedLedgerPreimageLen)
            \<and> digestOk))))))"

definition NewShieldedLedgerAssignment :: "bytes \<Rightarrow> bytes \<Rightarrow> error + ShieldedLedgerCircuitV1" where
  "NewShieldedLedgerAssignment preimage digest =
     (if length preimage \<noteq> ShieldedLedgerPreimageLen
      then Inl (Err ''invalid shielded-ledger preimage size'')
      else if length digest \<noteq> ShieldedLedgerDigestLen
      then Inl (Err ''invalid shielded-ledger digest size'')
      else Inr \<lparr>sl_Preimage = preimage, sl_Digest = digest\<rparr>)"

section \<open>What the circuits accept\<close>

lemma sum_list_bytes_le: "sum_list (map unat (b :: bytes)) \<le> 255 * length b"
proof (induction b)
  case (Cons x b)
  have "unat x \<le> 255" using unsigned_less [of x, where ?'a = nat] by simp
  with Cons show ?case by simp
qed simp

lemma zero_bytes_iff: "sum_list (map unat (b :: bytes)) = 0 \<longleftrightarrow> b = replicate (length b) 0"
  by (induction b) (auto simp: unat_eq_zero)

locale circuit_lib =
  fixes A :: frontend_api
  assumes gadget: "sha2_New A = Inr (\<lambda>m. be_bytes 32 (Sum256 m))"
    and uints: "uints_New A = Inr ()"
    and field_large: "32 * 255 < api_Modulus A"
begin

lemma byte_sum:
  fixes b :: bytes
  assumes "length b \<le> 32"
  shows "foldl (\<lambda>sum x. (sum + unat x) mod api_Modulus A) 0 b = sum_list (map unat b)"
  using assms
proof (induction b rule: rev_induct)
  case (snoc x b)
  have "sum_list (map unat (b @ [x])) < api_Modulus A"
    using sum_list_bytes_le [of "b @ [x]"] snoc.prems field_large by simp
  with snoc show ?case by simp
qed simp

lemma nonzero_iff:
  assumes "length b \<le> 32"
  shows "assertByteSliceNonZero A b \<longleftrightarrow> b \<noteq> replicate (length b) 0"
  using zero_bytes_iff [of b] by (simp only: assertByteSliceNonZero_def byte_sum [OF assms])

lemma nonzero_word:
  assumes "LENGTH('a) = 8 * n" and "n \<le> 32"
  shows "assertByteSliceNonZero A (be_bytes n (w :: 'a::len word)) \<longleftrightarrow> w \<noteq> 0"
  using assms nonzero_iff [of "be_bytes n w"] be_bytes_inject [OF assms(1), of w 0]
  by (simp add: be_bytes_zero)

lemma clear_satisfied:
  "length digest = 32 \<Longrightarrow> ClearHashCircuit_Define A \<lparr>ch_Preimage = pre, ch_Digest = digest\<rparr> = Inr True
    \<longleftrightarrow> digest = be_bytes 32 (Sum256 pre)"
  by (auto simp: ClearHashCircuit_Define_def gadget uints assertDigest_def list.rel_eq)

lemma shielded_satisfied:
  assumes "length pre = ShieldedLedgerPreimageLen" and "length digest = 32"
  shows "ShieldedLedgerCircuitV1_Define A \<lparr>sl_Preimage = pre, sl_Digest = digest\<rparr> = Inr True
    \<longleftrightarrow> slice pre 0 23 = ShieldedLedgerInputsDomainTag \<and> slice pre 79 81 = [0, 32]
      \<and> assertByteSliceNonZero A (slice pre 23 55) \<and> assertByteSliceNonZero A (slice pre 55 63)
      \<and> assertByteSliceNonZero A (slice pre 63 71) \<and> assertByteSliceNonZero A (slice pre 71 79)
      \<and> assertByteSliceNonZero A (slice pre 81 113) \<and> digest = be_bytes 32 (Sum256 pre)"
proof -
  have "length (slice pre 0 23) = length ShieldedLedgerInputsDomainTag" "length (slice pre 79 81) = 2"
    using assms(1) by (simp_all add: slice_length go_str_def)
  then show ?thesis
    by (simp add: ShieldedLedgerCircuitV1_Define_def gadget uints assertDigest_def assertLiteralBytes_def
        list.rel_eq)
qed

end

lemma hash_len_bytes: "be_bytes 2 (32 :: u16) = [0, 32]"
  by code_simp

text \<open>A shielded-ledger preimage read field by field.\<close>

lemma shielded_fields:
  fixes m :: ID and w p v :: u64
  assumes "length f = 32"
  defines "pre \<equiv> BuildShieldedLedgerPublicInputsPreimage m w p v f"
  shows "length pre = ShieldedLedgerPreimageLen"
    and "slice pre 0 23 = ShieldedLedgerInputsDomainTag" and "slice pre 23 55 = be_bytes 32 m"
    and "slice pre 55 63 = be_bytes 8 w" and "slice pre 63 71 = be_bytes 8 p"
    and "slice pre 71 79 = be_bytes 8 v" and "slice pre 79 81 = [0, 32]" and "slice pre 81 113 = f"
proof -
  have tag: "length ShieldedLedgerInputsDomainTag = 23" by (simp add: go_str_def)
  let ?rest4 = "be_bytes 2 (32 :: u16) @ f"
  let ?rest3 = "be_bytes 8 v @ ?rest4"
  let ?rest2 = "be_bytes 8 p @ ?rest3"
  let ?rest1 = "be_bytes 8 w @ ?rest2"
  let ?rest0 = "be_bytes 32 m @ ?rest1"
  have pre: "pre = ShieldedLedgerInputsDomainTag @ ?rest0"
    using assms(1) by (simp only: pre_def BuildShieldedLedgerPublicInputsPreimage_def of_nat_numeral)
  show "length pre = ShieldedLedgerPreimageLen" using assms(1) tag by (simp add: pre)
  show "slice pre 0 23 = ShieldedLedgerInputsDomainTag"
    unfolding pre by (rule slice_take_append [OF tag])
  have at: "slice pre i j = slice ?rest0 (i - 23) (j - 23)" if "23 \<le> i" for i j
    using that tag by (simp only: pre slice_drop_append)
  show "slice pre 23 55 = be_bytes 32 m" by (simp add: at slice_take_append)
  show "slice pre 55 63 = be_bytes 8 w" by (simp add: at slice_drop_append slice_take_append)
  show "slice pre 63 71 = be_bytes 8 p" by (simp add: at slice_drop_append slice_take_append)
  show "slice pre 71 79 = be_bytes 8 v" by (simp add: at slice_drop_append slice_take_append)
  show "slice pre 79 81 = [0, 32]"
    by (simp add: at slice_drop_append slice_take_append flip: hash_len_bytes)
  show "slice pre 81 113 = f" using assms(1) by (simp add: at slice_drop_append slice_all)
qed

lemma shielded_split:
  assumes "length pre = ShieldedLedgerPreimageLen"
    and "slice pre 0 23 = ShieldedLedgerInputsDomainTag" and "slice pre 79 81 = [0, 32]"
  shows "pre = BuildShieldedLedgerPublicInputsPreimage (of_be (slice pre 23 55)) (of_be (slice pre 55 63))
    (of_be (slice pre 63 71)) (of_be (slice pre 71 79)) (slice pre 81 113)"
proof -
  have "pre = slice pre 0 23 @ slice pre 23 55 @ slice pre 55 63 @ slice pre 63 71 @ slice pre 71 79
      @ slice pre 79 81 @ slice pre 81 113"
    using assms(1) by (simp add: slice_append slice_all)
  moreover have "be_bytes 32 (of_be (slice pre 23 55) :: ID) = slice pre 23 55"
    "be_bytes 8 (of_be (slice pre 55 63) :: u64) = slice pre 55 63"
    "be_bytes 8 (of_be (slice pre 63 71) :: u64) = slice pre 63 71"
    "be_bytes 8 (of_be (slice pre 71 79) :: u64) = slice pre 71 79"
    by (rule be_bytes_of_be; simp add: slice_length assms(1))+
  moreover have "length (slice pre 81 113) = 32" using assms(1) by (simp add: slice_length)
  ultimately show ?thesis
    using assms(2,3) by (simp add: BuildShieldedLedgerPublicInputsPreimage_def hash_len_bytes)
qed

context circuit_lib
begin

lemma shielded_built_satisfied:
  assumes "length f = 32" and "m \<noteq> 0" and "w \<noteq> 0" and "p \<noteq> 0" and "v \<noteq> 0" and "f \<noteq> replicate 32 0"
  shows "ShieldedLedgerCircuitV1_Define A \<lparr>sl_Preimage = BuildShieldedLedgerPublicInputsPreimage m w p v f,
    sl_Digest = be_bytes 32 (Sum256 (BuildShieldedLedgerPublicInputsPreimage m w p v f))\<rparr> = Inr True"
proof -
  note fields = shielded_fields [OF assms(1), of m w p v]
  have len: "length (be_bytes 32 (Sum256 (BuildShieldedLedgerPublicInputsPreimage m w p v f))) = 32" by simp
  show ?thesis
    unfolding shielded_satisfied [OF fields(1) len] fields
    using assms by (simp add: nonzero_word nonzero_iff [of f])
qed

end

definition gnark_like :: frontend_api where
  "gnark_like = \<lparr>api_Modulus = 8161, sha2_New = Inr (\<lambda>m. be_bytes 32 (Sum256 m)), uints_New = Inr ()\<rparr>"

interpretation gnark_like: circuit_lib gnark_like
  by unfold_locales (simp_all add: gnark_like_def)

section \<open>Properties\<close>

text \<open>
  C12: The shielded-ledger circuit accepts exactly what the chain computes: an assignment of a preimage and a digest is
  made and satisfies every constraint if and only if the preimage is the one the chain builds for some clear with
  a non-zero market, window, price and volume and a non-zero 32-byte fills hash, and the digest is its SHA-256.
\<close>

theorem shielded_circuit_exact:
  assumes "circuit_lib A"
  shows "(\<exists>c. NewShieldedLedgerAssignment pre digest = Inr c \<and> ShieldedLedgerCircuitV1_Define A c = Inr True)
    \<longleftrightarrow> (\<exists>m w p v f. pre = BuildShieldedLedgerPublicInputsPreimage m w p v f \<and> length f = 32
      \<and> m \<noteq> 0 \<and> w \<noteq> 0 \<and> p \<noteq> 0 \<and> v \<noteq> 0 \<and> f \<noteq> replicate 32 0
      \<and> digest = be_bytes 32 (ComputeShieldedLedgerPublicInputsHash m w p v f))"
    (is "?made \<longleftrightarrow> ?built")
proof
  note word = circuit_lib.nonzero_word [OF assms] and zero = circuit_lib.nonzero_iff [OF assms]
  assume ?made
  then have len: "length pre = ShieldedLedgerPreimageLen" "length digest = 32"
    and sat: "ShieldedLedgerCircuitV1_Define A \<lparr>sl_Preimage = pre, sl_Digest = digest\<rparr> = Inr True"
    by (auto simp: NewShieldedLedgerAssignment_def split: if_splits)
  note facts = sat [unfolded circuit_lib.shielded_satisfied [OF assms len]]
  let ?m = "of_be (slice pre 23 55) :: ID" and ?f = "slice pre 81 113"
  let ?w = "of_be (slice pre 55 63) :: u64" and ?p = "of_be (slice pre 63 71) :: u64"
  let ?v = "of_be (slice pre 71 79) :: u64"
  have pre: "pre = BuildShieldedLedgerPublicInputsPreimage ?m ?w ?p ?v ?f"
    using shielded_split [OF len(1)] facts by blast
  have f: "length ?f = 32" using len(1) by (simp add: slice_length)
  note fields = shielded_fields [OF f, of ?m ?w ?p ?v, folded pre]
  have "?m \<noteq> 0" "?w \<noteq> 0" "?p \<noteq> 0" "?v \<noteq> 0"
    using facts fields(3-6) word [of 32 ?m] word [of 8 ?w] word [of 8 ?p] word [of 8 ?v] by simp_all
  moreover have "?f \<noteq> replicate 32 0" using facts f zero [of ?f] by simp
  moreover have "digest = be_bytes 32 (ComputeShieldedLedgerPublicInputsHash ?m ?w ?p ?v ?f)"
    using facts by (simp only: ComputeShieldedLedgerPublicInputsHash_def pre [symmetric])
  ultimately show ?built using pre f by blast
next
  assume ?built
  then obtain m :: ID and w p v :: u64 and f where
    pre: "pre = BuildShieldedLedgerPublicInputsPreimage m w p v f" and f: "length f = 32"
    and nz: "m \<noteq> 0" "w \<noteq> 0" "p \<noteq> 0" "v \<noteq> 0" "f \<noteq> replicate 32 0"
    and digest: "digest = be_bytes 32 (ComputeShieldedLedgerPublicInputsHash m w p v f)" by blast
  have digest': "digest = be_bytes 32 (Sum256 pre)"
    by (simp add: digest ComputeShieldedLedgerPublicInputsHash_def pre)
  then have "length digest = 32" by simp
  moreover have "length pre = ShieldedLedgerPreimageLen" unfolding pre by (rule shielded_fields(1) [OF f])
  moreover have "ShieldedLedgerCircuitV1_Define A \<lparr>sl_Preimage = pre, sl_Digest = digest\<rparr> = Inr True"
    unfolding digest' pre by (rule circuit_lib.shielded_built_satisfied [OF assms f nz])
  ultimately show ?made by (simp add: NewShieldedLedgerAssignment_def)
qed

theorem shielded_circuit_exact_witness:
  "\<exists>c. NewShieldedLedgerAssignment (BuildShieldedLedgerPublicInputsPreimage 7 1 50 400 (replicate 32 9))
      (be_bytes 32 (ComputeShieldedLedgerPublicInputsHash 7 1 50 400 (replicate 32 9))) = Inr c
    \<and> ShieldedLedgerCircuitV1_Define gnark_like c = Inr True"
  unfolding shielded_circuit_exact [OF gnark_like.circuit_lib_axioms]
  by (rule exI [of _ 7], rule exI [of _ 1], rule exI [of _ 50], rule exI [of _ 400],
      rule exI [of _ "replicate 32 9"]) simp

end
