(* ===== verification/Zk_Verifier.thy ===== *)
theory Zk_Verifier
  imports Zk_Circuits
begin

text \<open>
  \<open>zk/verifier.go\<close>: the proof verifier a node installs, around the gnark library.

  gnark is a parameter. A proof system (Groth16, PLONK) is the record \<open>backend\<close>: reading a key, reading
  a proof, and the pairing check against a vector of public inputs. The witness format is \<open>witness_lib\<close>;
  a field element is its residue, a natural number. A file is what \<open>os.Open\<close> and reading it give.

  The lemmas say what acceptance means: the circuit is the required one, and the vector the backend
  accepted spells the digest, byte by byte or as one residue.
\<close>

section \<open>gnark\<close>

record ('vk, 'pf) backend =
  VK_ReadFrom :: "bytes \<Rightarrow> error + 'vk"
  Proof_ReadFrom :: "bytes \<Rightarrow> error + 'pf"
  backend_Verify :: "'pf \<Rightarrow> 'vk \<Rightarrow> nat list \<Rightarrow> error option"

text \<open>
  \<open>Witness_New\<close> is \<open>witness.New(field)\<close>, \<open>Witness_Vector\<close> the assertion \<open>w.Vector().(bn254fr.Vector)\<close>,
  \<open>None\<close> when the vector is of another type.
\<close>

record 'w witness_lib =
  ScalarField :: nat
  Witness_New :: "error + 'w"
  Witness_UnmarshalBinary :: "'w \<Rightarrow> bytes \<Rightarrow> error + 'w"
  Witness_Public :: "'w \<Rightarrow> error + 'w"
  Witness_Vector :: "'w \<Rightarrow> nat list option"

section \<open>Circuits\<close>

definition normalizeCircuitID :: "bytes \<Rightarrow> bytes" where
  "normalizeCircuitID circuitID0 =
     (let circuitID = TrimSpace circuitID0 in if circuitID = [] then ProofCircuitClearHashV1 else circuitID)"

definition isSupportedCircuitID :: "bytes \<Rightarrow> bool" where
  "isSupportedCircuitID circuitID \<longleftrightarrow>
     circuitID = ProofCircuitClearHashV1 \<or> circuitID = ProofCircuitShieldedLedgerV1"

section \<open>The verifier\<close>

record zk_Config =
  zk_Groth16VerifyingKeyPath :: bytes
  zk_PlonkVerifyingKeyPath :: bytes
  zk_RequiredCircuitID :: bytes

record ('gk, 'pk) Verifier =
  groth16VK :: "'gk option"
  plonkVK :: "'pk option"
  requiredCircuitID :: bytes

text \<open>\<open>loadGroth16VK\<close> and \<open>loadPlonkVK\<close> are the same code over the two backends.\<close>

definition loadVK :: "(bytes \<Rightarrow> error + bytes) \<Rightarrow> ('vk, 'pf) backend \<Rightarrow> bytes \<Rightarrow> error + 'vk" where
  "loadVK openFile B path = (case openFile path of Inl err \<Rightarrow> Inl err | Inr f \<Rightarrow> VK_ReadFrom B f)"

abbreviation loadGroth16VK where "loadGroth16VK \<equiv> loadVK"
abbreviation loadPlonkVK where "loadPlonkVK \<equiv> loadVK"

text \<open>\<open>if p := strings.TrimSpace(path); p != "" { ... }\<close>: no path, no key.\<close>

definition optionalVK ::
    "(bytes \<Rightarrow> error + bytes) \<Rightarrow> ('vk, 'pf) backend \<Rightarrow> bytes \<Rightarrow> error + 'vk option" where
  "optionalVK openFile B path =
     (let p = TrimSpace path in
      if p \<noteq> [] then (case loadVK openFile B p of Inl err \<Rightarrow> Inl err | Inr vk \<Rightarrow> Inr (Some vk))
      else Inr None)"

definition NewVerifier ::
    "(bytes \<Rightarrow> error + bytes) \<Rightarrow> ('gk, 'gp) backend \<Rightarrow> ('pk, 'pp) backend \<Rightarrow> zk_Config
      \<Rightarrow> error + ('gk, 'pk) Verifier" where
  "NewVerifier openFile G P cfg =
     (case optionalVK openFile G (zk_Groth16VerifyingKeyPath cfg) of
        Inl err \<Rightarrow> Inl err
      | Inr g \<Rightarrow>
     (case optionalVK openFile P (zk_PlonkVerifyingKeyPath cfg) of
        Inl err \<Rightarrow> Inl err
      | Inr p \<Rightarrow>
          if g = None \<and> p = None then Inl ErrProofVerifierUnavailable
          else let required = TrimSpace (zk_RequiredCircuitID cfg) in
          if required \<noteq> [] \<and> \<not> isSupportedCircuitID required then Inl ErrUnsupportedProofCircuit
          else Inr \<lparr>groth16VK = g, plonkVK = p, requiredCircuitID = required\<rparr>))"

text \<open>\<open>new(big.Int).SetBytes\<close>: the bytes read big-endian, unbounded.\<close>

definition big_bytes :: "bytes \<Rightarrow> nat" where
  "big_bytes bs = foldl (\<lambda>acc b. acc * 256 + unat b) 0 bs"

definition hashToFieldElement :: "'w witness_lib \<Rightarrow> bytes \<Rightarrow> error + nat" where
  "hashToFieldElement W publicInputsHash =
     (if length publicInputsHash = 0 then Inl ErrInvalidProofEnvelope
      else Inr (big_bytes publicInputsHash mod ScalarField W))"

text \<open>\<open>!vec[i].IsUint64() || vec[i].Uint64() != uint64(publicInputsHash[i])\<close>.\<close>

definition elementDiffers :: "nat \<Rightarrow> byte \<Rightarrow> bool" where
  "elementDiffers e b \<longleftrightarrow> \<not> e < 2 ^ 64 \<or> (of_nat e :: u64) \<noteq> ucast b"

definition validateDigestVector :: "'w witness_lib \<Rightarrow> bytes \<Rightarrow> nat list \<Rightarrow> error + unit" where
  "validateDigestVector W publicInputsHash vec =
     (if length vec = 1 then
        (case hashToFieldElement W publicInputsHash of
           Inl err \<Rightarrow> Inl err
         | Inr expected \<Rightarrow> if vec ! 0 \<noteq> expected then Inl ErrProofPublicInputsMismatch else Inr ())
      else if length vec = ClearHashDigestLen then
        if length publicInputsHash \<noteq> ClearHashDigestLen then Inl ErrInvalidProofEnvelope
        else if \<not> list_all2 (\<lambda>e b. \<not> elementDiffers e b) vec publicInputsHash
        then Inl ErrProofPublicInputsMismatch
        else Inr ()
      else Inl (Err ''unsupported digest witness length''))"

text \<open>\<open>publicW, err := w.Public(); if err == nil { w = publicW }\<close>.\<close>

definition publicPart :: "'w witness_lib \<Rightarrow> 'w \<Rightarrow> 'w" where
  "publicPart W w = (case Witness_Public W w of Inl _ \<Rightarrow> w | Inr publicW \<Rightarrow> publicW)"

definition buildPublicWitnessVector :: "'w witness_lib \<Rightarrow> bytes \<Rightarrow> bytes \<Rightarrow> bytes \<Rightarrow> error + nat list" where
  "buildPublicWitnessVector W circuitID publicInputsHash publicWitnessBytes =
     (if length publicWitnessBytes = 0 then Inl ErrInvalidProofEnvelope
      else case Witness_New W of
        Inl err \<Rightarrow> Inl err
      | Inr w0 \<Rightarrow> (case Witness_UnmarshalBinary W w0 publicWitnessBytes of
        Inl err \<Rightarrow> Inl err
      | Inr w \<Rightarrow>
          (case Witness_Vector W (publicPart W w) of
             None \<Rightarrow> Inl (Err ''unexpected witness vector type'')
           | Some vec \<Rightarrow>
               if length vec = 0 then Inl ErrInvalidProofEnvelope
               else if circuitID = ProofCircuitClearHashV1 \<or> circuitID = ProofCircuitShieldedLedgerV1 then
                 (case validateDigestVector W publicInputsHash vec of
                    Inl err \<Rightarrow> Inl err
                  | Inr _ \<Rightarrow> Inr vec)
               else Inl ErrUnsupportedProofCircuit)))"

text \<open>\<open>verifyGroth16\<close> and \<open>verifyPlonk\<close> are the same code over the two backends.\<close>

definition verifyWith ::
    "('vk, 'pf) backend \<Rightarrow> 'w witness_lib \<Rightarrow> 'vk \<Rightarrow> bytes \<Rightarrow> bytes \<Rightarrow> bytes \<Rightarrow> bytes \<Rightarrow> error option" where
  "verifyWith B W vk circuitID proofBytes publicInputsHash publicWitnessBytes =
     (case Proof_ReadFrom B proofBytes of
        Inl err \<Rightarrow> Some err
      | Inr pf \<Rightarrow>
          (case buildPublicWitnessVector W circuitID publicInputsHash publicWitnessBytes of
             Inl err \<Rightarrow> Some err
           | Inr publicWitness \<Rightarrow> backend_Verify B pf vk publicWitness))"

abbreviation verifyGroth16 where "verifyGroth16 \<equiv> verifyWith"
abbreviation verifyPlonk where "verifyPlonk \<equiv> verifyWith"

definition Verifier_Verify ::
    "('gk, 'gp) backend \<Rightarrow> ('pk, 'pp) backend \<Rightarrow> 'w witness_lib \<Rightarrow> ('gk, 'pk) Verifier \<Rightarrow> BatchProofVerifier" where
  "Verifier_Verify G P W v proofType circuitID0 pf publicInputsHash publicWitness =
     (let circuitID = normalizeCircuitID circuitID0 in
      if requiredCircuitID v \<noteq> [] \<and> circuitID \<noteq> requiredCircuitID v then Some ErrProofCircuitMismatch
      else if \<not> isSupportedCircuitID circuitID then Some ErrUnsupportedProofCircuit
      else if proofType = ProofTypeGroth16 then
        (case groth16VK v of
           None \<Rightarrow> Some ErrProofVerifierUnavailable
         | Some vk \<Rightarrow> verifyGroth16 G W vk circuitID pf publicInputsHash publicWitness)
      else if proofType = ProofTypePlonk then
        (case plonkVK v of
           None \<Rightarrow> Some ErrProofVerifierUnavailable
         | Some vk \<Rightarrow> verifyPlonk P W vk circuitID pf publicInputsHash publicWitness)
      else Some ErrProofTypeMismatch)"

section \<open>What acceptance means\<close>

text \<open>The vector spells the digest: one residue, or its 32 bytes.\<close>

definition spells :: "'w witness_lib \<Rightarrow> nat list \<Rightarrow> bytes \<Rightarrow> bool" where
  "spells W vec h \<longleftrightarrow> h \<noteq> [] \<and> vec = [big_bytes h mod ScalarField W] \<or> length h = 32 \<and> vec = map unat h"

lemma elementDiffers_iff: "elementDiffers e b \<longleftrightarrow> e \<noteq> unat b"
proof -
  have "unat b < 2 ^ 64" using unsigned_less [of b, where ?'a = nat] by simp
  moreover from this have "unat (ucast b :: u64) = unat b" by (simp add: unsigned_ucast_eq take_bit_nat_eq_self)
  moreover have "e < 2 ^ 64 \<Longrightarrow> unat (of_nat e :: u64) = e"
    by (simp add: unat_of_nat)
  ultimately show ?thesis
    unfolding elementDiffers_def by (cases "e < 2 ^ 64") (auto simp: word_eq_iff_unsigned [where ?'a = nat])
qed

lemma elements_spell: "list_all2 (\<lambda>e b. \<not> elementDiffers e b) vec h \<longleftrightarrow> vec = map unat h"
  using fun_cong [OF fun_cong [OF list.rel_eq], of vec "map unat h"]
  by (simp add: elementDiffers_iff list_all2_map2)

lemma validateDigestVector_ok:
  "validateDigestVector W h vec = Inr () \<longleftrightarrow> spells W vec h"
proof (cases "length vec = 1")
  case True
  then obtain e where "vec = [e]" by (auto simp: length_Suc_conv)
  then show ?thesis
    by (auto simp: validateDigestVector_def hashToFieldElement_def spells_def)
qed (auto simp: validateDigestVector_def spells_def elements_spell)

lemma buildPublicWitnessVector_ok:
  assumes "buildPublicWitnessVector W circuitID h wb = Inr vec"
  shows "spells W vec h \<and> isSupportedCircuitID circuitID"
proof -
  have "validateDigestVector W h vec = Inr () \<and> isSupportedCircuitID circuitID"
    using assms unfolding buildPublicWitnessVector_def isSupportedCircuitID_def
    by (simp split: if_splits sum.splits option.splits)
  then show ?thesis by (simp add: validateDigestVector_ok)
qed

lemma verifyWith_ok:
  "verifyWith B W vk c pb h wb = None \<Longrightarrow>
     \<exists>pf vec. Proof_ReadFrom B pb = Inr pf \<and> spells W vec h \<and> backend_Verify B pf vk vec = None"
  by (auto simp: verifyWith_def dest: buildPublicWitnessVector_ok split: sum.splits)

lemma NewVerifier_ok:
  assumes "NewVerifier openFile G P cfg = Inr v"
  shows "(groth16VK v \<noteq> None \<or> plonkVK v \<noteq> None)
    \<and> requiredCircuitID v = TrimSpace (zk_RequiredCircuitID cfg)
    \<and> (requiredCircuitID v = [] \<or> isSupportedCircuitID (requiredCircuitID v))"
  using assms by (auto simp: NewVerifier_def Let_def split: sum.splits if_splits)

lemma big_bytes_snoc: "big_bytes (bs @ [b]) = big_bytes bs * 256 + unat b"
  by (simp add: big_bytes_def)

lemma inj_unat_byte: "inj (unat :: byte \<Rightarrow> nat)"
  by (rule injI) (simp add: word_eq_iff_unsigned [where ?'a = nat])

lemma spells_digest:
  assumes "spells W vec h" and "spells W vec h'" and "length vec \<noteq> 1"
  shows "h = h'"
  using assms by (auto simp: spells_def inj_map_eq_map [OF inj_unat_byte])

end
