(* ===== verification/Vm_Config.thy ===== *)
theory Vm_Config
  imports Zk_Verifier
begin

text \<open>
  \<open>vm/option.go\<close>: how a node chooses its proof verifier when it starts.

  The operating system is a parameter, the record \<open>os_env\<close>: environment variables, the files that are read,
  whether a path exists. The process-wide verifier of \<open>actions/proof_verifier.go\<close> is the \<open>verifier_env\<close> that
  \<open>installBatchProofVerifier\<close> replaces. The theorems follow the configuration into consensus: with a verifier
  installed, an accepted proof is one gnark accepted for the digest in question under the configured key.
\<close>

section \<open>The environment\<close>

record os_env =
  os_Getenv :: "bytes \<Rightarrow> bytes"
  os_ReadFile :: "bytes \<Rightarrow> error + bytes"
  os_Exists :: "bytes \<Rightarrow> bool"

text \<open>\<open>strings.Split(s, "\x00")\<close>.\<close>

fun split_nul :: "bytes \<Rightarrow> bytes list" where
  "split_nul [] = [[]]"
| "split_nul (b # bs) =
     (if b = 0 then [] # split_nul bs
      else case split_nul bs of e # es \<Rightarrow> (b # e) # es | [] \<Rightarrow> [[b]])"

definition HasPrefix :: "bytes \<Rightarrow> bytes \<Rightarrow> bool" where
  "HasPrefix s p \<longleftrightarrow> take (length p) s = p"

text \<open>
  \<open>strings.ToLower\<close> on ASCII. The result is only compared with words over the letters a, e, f, l, n, o, r,
  s, t, u, y, and no other character lower-cases to one of these.
\<close>

definition lower_byte :: "byte \<Rightarrow> byte" where
  "lower_byte b = (if 0x41 \<le> b \<and> b \<le> 0x5A then b + 32 else b)"

definition ToLower :: "bytes \<Rightarrow> bytes" where
  "ToLower s = map lower_byte s"

definition getParentProcessEnv :: "os_env \<Rightarrow> bytes \<Rightarrow> bytes option" where
  "getParentProcessEnv E name =
     (case os_ReadFile E (go_str ''/proc/1/environ'') of
        Inl _ \<Rightarrow> None
      | Inr blob \<Rightarrow>
          if length blob = 0 then None
          else let target = name @ go_str ''='' in
            (case find (\<lambda>entry. HasPrefix entry target) (split_nul blob) of
               None \<Rightarrow> None
             | Some entry \<Rightarrow>
                 let v = TrimSpace (drop (length target) entry) in
                 if v = [] then None else Some v))"

definition getEnv :: "os_env \<Rightarrow> bytes \<Rightarrow> bytes option" where
  "getEnv E name =
     (let v = TrimSpace (os_Getenv E name) in
      if v = [] then getParentProcessEnv E name else Some v)"

definition parseEnvBool :: "os_env \<Rightarrow> bytes \<Rightarrow> bool option" where
  "parseEnvBool E name =
     (case getEnv E name of
        None \<Rightarrow> None
      | Some v \<Rightarrow>
          if ToLower v \<in> set (map go_str [''1'', ''true'', ''t'', ''yes'', ''y'', ''on'']) then Some True
          else if ToLower v \<in> set (map go_str [''0'', ''false'', ''f'', ''no'', ''n'', ''off'']) then Some False
          else None)"

section \<open>The configuration\<close>

record ZKVerifierConfig =
  zc_Enabled :: bool
  zc_Strict :: bool
  zc_Groth16VerifyingKeyPath :: bytes
  zc_PlonkVerifyingKeyPath :: bytes
  zc_RequiredCircuitID :: bytes

record vm_Config =
  vc_Enabled :: bool
  vc_ZK :: ZKVerifierConfig

definition NewDefaultZKVerifierConfig :: ZKVerifierConfig where
  "NewDefaultZKVerifierConfig = \<lparr>zc_Enabled = False, zc_Strict = False,
     zc_Groth16VerifyingKeyPath = [], zc_PlonkVerifyingKeyPath = [], zc_RequiredCircuitID = []\<rparr>"

definition NewDefaultConfig :: vm_Config where
  "NewDefaultConfig = \<lparr>vc_Enabled = True, vc_ZK = NewDefaultZKVerifierConfig\<rparr>"

definition defaultLocalGroth16VKPath :: bytes where
  "defaultLocalGroth16VKPath = go_str ''/root/.avalanchego/zk/groth16_clearhash_vk.bin''"

definition or_env :: "'a option \<Rightarrow> 'a \<Rightarrow> 'a" where
  "or_env v x = (case v of Some y \<Rightarrow> y | None \<Rightarrow> x)"

text \<open>The overrides from the environment, one after the other.\<close>

definition overrideZKConfig :: "os_env \<Rightarrow> ZKVerifierConfig \<Rightarrow> ZKVerifierConfig" where
  "overrideZKConfig E cfg = cfg\<lparr>
     zc_Enabled := or_env (parseEnvBool E (go_str ''VEIL_ZK_VERIFIER_ENABLED'')) (zc_Enabled cfg),
     zc_Strict := or_env (parseEnvBool E (go_str ''VEIL_ZK_VERIFIER_STRICT'')) (zc_Strict cfg),
     zc_Groth16VerifyingKeyPath :=
       or_env (getEnv E (go_str ''VEIL_ZK_GROTH16_VK_PATH'')) (zc_Groth16VerifyingKeyPath cfg),
     zc_PlonkVerifyingKeyPath :=
       or_env (getEnv E (go_str ''VEIL_ZK_PLONK_VK_PATH'')) (zc_PlonkVerifyingKeyPath cfg),
     zc_RequiredCircuitID :=
       or_env (getEnv E (go_str ''VEIL_ZK_REQUIRED_CIRCUIT_ID'')) (zc_RequiredCircuitID cfg)\<rparr>"

text \<open>The fallback to the local fixture key.\<close>

definition fallbackZKConfig :: "os_env \<Rightarrow> ZKVerifierConfig \<Rightarrow> ZKVerifierConfig" where
  "fallbackZKConfig E cfg =
     (if \<not> zc_Enabled cfg \<and> TrimSpace (zc_Groth16VerifyingKeyPath cfg) = []
         \<and> TrimSpace (zc_PlonkVerifyingKeyPath cfg) = [] \<and> os_Exists E defaultLocalGroth16VKPath
      then cfg\<lparr>zc_Enabled := True, zc_Strict := True,
             zc_Groth16VerifyingKeyPath := defaultLocalGroth16VKPath,
             zc_RequiredCircuitID := (if TrimSpace (zc_RequiredCircuitID cfg) = []
               then ProofCircuitClearHashV1 else zc_RequiredCircuitID cfg)\<rparr>
      else cfg)"

definition resolveZKConfig :: "os_env \<Rightarrow> ZKVerifierConfig \<Rightarrow> ZKVerifierConfig" where
  "resolveZKConfig E cfg = fallbackZKConfig E (overrideZKConfig E cfg)"

section \<open>Installing the verifier\<close>

text \<open>An error leaves the process without a change of its verifier, and the node does not start.\<close>

definition installBatchProofVerifier ::
    "os_env \<Rightarrow> ('gk, 'gp) backend \<Rightarrow> ('pk, 'pp) backend \<Rightarrow> 'w witness_lib \<Rightarrow> ZKVerifierConfig
      \<Rightarrow> (verifier_env, unit) action_run" where
  "installBatchProofVerifier E G P W cfg V =
     (if \<not> zc_Enabled cfg then (Inr (), ConfigureBatchProofVerifier None (zc_Strict cfg))
      else case NewVerifier (os_ReadFile E) G P
          \<lparr>zk_Groth16VerifyingKeyPath = zc_Groth16VerifyingKeyPath cfg,
           zk_PlonkVerifyingKeyPath = zc_PlonkVerifyingKeyPath cfg,
           zk_RequiredCircuitID = zc_RequiredCircuitID cfg\<rparr> of
        Inl err \<Rightarrow> (Inl err, V)
      | Inr verifier \<Rightarrow>
          (Inr (), ConfigureBatchProofVerifier (Some (Verifier_Verify G P W verifier)) (zc_Strict cfg)))"

text \<open>\<open>With\<close>: the option function of the VM. The result is whether the JSON-RPC API is served.\<close>

definition With_option ::
    "os_env \<Rightarrow> ('gk, 'gp) backend \<Rightarrow> ('pk, 'pp) backend \<Rightarrow> 'w witness_lib \<Rightarrow> vm_Config
      \<Rightarrow> (verifier_env, bool) action_run" where
  "With_option E G P W config =
     go_bind (installBatchProofVerifier E G P W (resolveZKConfig E (vc_ZK config))) (\<lambda>_.
     go_return (vc_Enabled config))"


section \<open>What the configuration means for consensus\<close>

text \<open>
  gnark accepted the proof of an envelope, under the key in the file at \<open>path\<close>, for a vector that
  spells the digest.
\<close>

definition verified_by ::
    "os_env \<Rightarrow> ('vk, 'pf) backend \<Rightarrow> 'w witness_lib \<Rightarrow> bytes \<Rightarrow> envelope \<Rightarrow> bytes \<Rightarrow> bool" where
  "verified_by E B W path e h \<longleftrightarrow> (\<exists>vk pf vec. loadVK (os_ReadFile E) B (TrimSpace path) = Inr vk
     \<and> Proof_ReadFrom B (en_proof e) = Inr pf \<and> spells W vec h \<and> backend_Verify B pf vk vec = None)"

lemma verified_byI:
  assumes "loadVK (os_ReadFile E) B (TrimSpace path) = Inr vk"
    and "verifyWith B W vk c (en_proof e) h wb = None"
  shows "verified_by E B W path e h"
  using assms(1) verifyWith_ok [OF assms(2)] unfolding verified_by_def by blast

lemma optionalVK_Some: "optionalVK openFile B path = Inr (Some vk) \<Longrightarrow> loadVK openFile B (TrimSpace path) = Inr vk"
  by (auto simp: optionalVK_def Let_def split: if_splits sum.splits)

lemma NewVerifier_keys:
  assumes "NewVerifier openFile G P cfg = Inr v"
  shows "groth16VK v = Some g \<Longrightarrow> loadVK openFile G (TrimSpace (zk_Groth16VerifyingKeyPath cfg)) = Inr g"
    and "plonkVK v = Some p \<Longrightarrow> loadVK openFile P (TrimSpace (zk_PlonkVerifyingKeyPath cfg)) = Inr p"
  using assms
  by (auto simp: NewVerifier_def Let_def intro!: optionalVK_Some split: sum.splits if_splits)

lemma Verifier_Verify_ok:
  assumes "Verifier_Verify G P W v pt c pb h wb = None"
  shows "(requiredCircuitID v = [] \<or> normalizeCircuitID c = requiredCircuitID v)
    \<and> (pt = ProofTypeGroth16
        \<and> (\<exists>vk. groth16VK v = Some vk \<and> verifyWith G W vk (normalizeCircuitID c) pb h wb = None)
      \<or> pt = ProofTypePlonk
        \<and> (\<exists>vk. plonkVK v = Some vk \<and> verifyWith P W vk (normalizeCircuitID c) pb h wb = None))"
  using assms by (auto simp: Verifier_Verify_def Let_def split: if_splits option.splits)

lemma gate_with_verifier:
  assumes "verifyBatchProofInConsensus \<lparr>proofVerifier = Some verify, strictProofVerifier = b\<rparr> pt blob h = Inr ()"
  shows "\<exists>e. parseProofEnvelope blob = Inr e
    \<and> verify pt (en_circuitID e) (en_proof e) h (en_witness e) = None"
  using assms
  by (auto simp: verifyBatchProofInConsensus_def getBatchProofVerifier_def
      split: sum.splits if_splits option.splits)

text \<open>A system with no variable set, for the node's own process or its parent.\<close>

definition bare_env :: "os_env \<Rightarrow> bool" where
  "bare_env E \<longleftrightarrow> (\<forall>n. getEnv E n = None)"

lemma resolve_bare: "bare_env E \<Longrightarrow> resolveZKConfig E cfg = fallbackZKConfig E cfg"
  by (simp add: resolveZKConfig_def overrideZKConfig_def bare_env_def parseEnvBool_def or_env_def)

lemma TrimSpace_Nil [simp]: "TrimSpace [] = []"
  by (simp add: TrimSpace_def trim_front_Nil)

section \<open>Properties\<close>

text \<open>
  C11: Once a node runs with its verifier enabled, a proof that passes the consensus gate was accepted by gnark under
  the verifying key of the configured file, for a public input vector that spells exactly the digest the
  chain asked about, and for the circuit the configuration requires. A proof type without a key never passes.
\<close>

theorem accepted_proof_was_verified:
  assumes "installBatchProofVerifier E G P W cfg V0 = (Inr (), V)" and "zc_Enabled cfg"
    and "verifyBatchProofInConsensus V pt blob h = Inr ()"
  shows "\<exists>e. parseProofEnvelope blob = Inr e
    \<and> (TrimSpace (zc_RequiredCircuitID cfg) = []
        \<or> normalizeCircuitID (en_circuitID e) = TrimSpace (zc_RequiredCircuitID cfg))
    \<and> (pt = ProofTypeGroth16 \<and> verified_by E G W (zc_Groth16VerifyingKeyPath cfg) e h
        \<or> pt = ProofTypePlonk \<and> verified_by E P W (zc_PlonkVerifyingKeyPath cfg) e h)"
proof -
  obtain v where v: "NewVerifier (os_ReadFile E) G P
      \<lparr>zk_Groth16VerifyingKeyPath = zc_Groth16VerifyingKeyPath cfg,
       zk_PlonkVerifyingKeyPath = zc_PlonkVerifyingKeyPath cfg,
       zk_RequiredCircuitID = zc_RequiredCircuitID cfg\<rparr> = Inr v"
    and V: "V = \<lparr>proofVerifier = Some (Verifier_Verify G P W v), strictProofVerifier = zc_Strict cfg\<rparr>"
    using assms(1,2)
    by (auto simp: installBatchProofVerifier_def ConfigureBatchProofVerifier_def split: sum.splits)
  obtain e where e: "parseProofEnvelope blob = Inr e"
    and ok: "Verifier_Verify G P W v pt (en_circuitID e) (en_proof e) h (en_witness e) = None"
    using gate_with_verifier assms(3) V by blast
  have circuit: "TrimSpace (zc_RequiredCircuitID cfg) = []
      \<or> normalizeCircuitID (en_circuitID e) = TrimSpace (zc_RequiredCircuitID cfg)"
    using Verifier_Verify_ok [OF ok] NewVerifier_ok [OF v] by auto
  have "pt = ProofTypeGroth16 \<and> verified_by E G W (zc_Groth16VerifyingKeyPath cfg) e h
      \<or> pt = ProofTypePlonk \<and> verified_by E P W (zc_PlonkVerifyingKeyPath cfg) e h"
    using Verifier_Verify_ok [OF ok] NewVerifier_keys [OF v] 
    by (auto intro: verified_byI)
  with e circuit show ?thesis by blast
qed

definition sample_backend :: "(bytes, bytes) backend" where
  "sample_backend = \<lparr>VK_ReadFrom = Inr, Proof_ReadFrom = Inr,
     backend_Verify = (\<lambda>pf vk vec. if pf = vk then None else Some (HostError ''invalid proof''))\<rparr>"

definition sample_witness_lib :: "bytes witness_lib" where
  "sample_witness_lib = \<lparr>ScalarField = 1009, Witness_New = Inr [],
     Witness_UnmarshalBinary = (\<lambda>w bs. Inr bs), Witness_Public = Inr,
     Witness_Vector = (\<lambda>w. Some (map unat w))\<rparr>"

definition sample_os :: os_env where
  "sample_os = \<lparr>os_Getenv = (\<lambda>_. []),
     os_ReadFile = (\<lambda>p. if p = go_str ''vk'' then Inr [9] else Inl (HostError ''no such file'')),
     os_Exists = (\<lambda>_. False)\<rparr>"

definition sample_zk_config :: ZKVerifierConfig where
  "sample_zk_config = NewDefaultZKVerifierConfig\<lparr>zc_Enabled := True, zc_Strict := True,
     zc_Groth16VerifyingKeyPath := go_str ''vk''\<rparr>"

definition sample_blob :: bytes where
  "sample_blob = go_str ''VZK1'' @ [1, 0, 0, 0, 1, 0, 0, 0, 1, 9, 7]"

definition sample_installed :: verifier_env where
  "sample_installed = snd (installBatchProofVerifier sample_os sample_backend sample_backend
     sample_witness_lib sample_zk_config (ConfigureBatchProofVerifier None False))"

lemma sample_install:
  "installBatchProofVerifier sample_os sample_backend sample_backend sample_witness_lib sample_zk_config
     (ConfigureBatchProofVerifier None False) = (Inr (), sample_installed)"
proof -
  have "fst (installBatchProofVerifier sample_os sample_backend sample_backend sample_witness_lib
      sample_zk_config (ConfigureBatchProofVerifier None False)) = Inr ()"
    by code_simp
  then show ?thesis by (simp add: sample_installed_def prod_eq_iff)
qed

theorem accepted_proof_was_verified_witness:
  "\<exists>e. parseProofEnvelope sample_blob = Inr e
    \<and> verified_by sample_os sample_backend sample_witness_lib (go_str ''vk'') e [7]"
proof -
  have "zc_Enabled sample_zk_config" "zc_Groth16VerifyingKeyPath sample_zk_config = go_str ''vk''"
    by (simp_all add: sample_zk_config_def)
  moreover have "verifyBatchProofInConsensus sample_installed 1 sample_blob [7] = Inr ()"
    by code_simp
  ultimately show ?thesis using accepted_proof_was_verified [OF sample_install] by fastforce
qed

text \<open>
  C32: What a node does whose configuration nobody touched. If the local fixture key is present it starts only with
  a verifier installed and in strict mode; if it is absent the node starts with an open gate, which
  accepts every blob that is no envelope and every well-formed envelope of the required type, whatever the digest.
\<close>

theorem untouched_node_gate:
  assumes "bare_env E"
  shows "(os_Exists E defaultLocalGroth16VKPath \<longrightarrow>
        With_option E G P W NewDefaultConfig V0 = (Inr served, V) \<longrightarrow>
        proofVerifier V \<noteq> None \<and> strictProofVerifier V)
    \<and> (\<not> os_Exists E defaultLocalGroth16VKPath \<longrightarrow>
        (\<exists>V. With_option E G P W NewDefaultConfig V0 = (Inr True, V)
          \<and> verifyBatchProofInConsensus V pt blob h = (case parseProofEnvelope blob of
              Inl err \<Rightarrow> Inl err
            | Inr e \<Rightarrow> if en_hasEnvelope e \<and> en_proofType e \<noteq> pt then Inl ErrProofTypeMismatch else Inr ())))"
proof (intro conjI impI)
  let ?cfg = "resolveZKConfig E NewDefaultZKVerifierConfig"
  {
    assume "os_Exists E defaultLocalGroth16VKPath"
      and run: "With_option E G P W NewDefaultConfig V0 = (Inr served, V)"
    then have "zc_Enabled ?cfg \<and> zc_Strict ?cfg"
      by (simp add: resolve_bare [OF assms] fallbackZKConfig_def NewDefaultZKVerifierConfig_def)
    with run show "proofVerifier V \<noteq> None" "strictProofVerifier V"
      by (auto simp: With_option_def run_simps NewDefaultConfig_def installBatchProofVerifier_def
          ConfigureBatchProofVerifier_def split: sum.splits)
  }
  assume "\<not> os_Exists E defaultLocalGroth16VKPath"
  then have "?cfg = NewDefaultZKVerifierConfig"
    by (simp add: resolve_bare [OF assms] fallbackZKConfig_def)
  then have "With_option E G P W NewDefaultConfig V0 = (Inr True, ConfigureBatchProofVerifier None False)"
    by (simp add: With_option_def NewDefaultConfig_def installBatchProofVerifier_def go_defs
        NewDefaultZKVerifierConfig_def)
  then show "\<exists>V. With_option E G P W NewDefaultConfig V0 = (Inr True, V)
      \<and> verifyBatchProofInConsensus V pt blob h = (case parseProofEnvelope blob of
          Inl err \<Rightarrow> Inl err
        | Inr e \<Rightarrow> if en_hasEnvelope e \<and> en_proofType e \<noteq> pt then Inl ErrProofTypeMismatch else Inr ())"
    by (auto simp: verifyBatchProofInConsensus_def getBatchProofVerifier_def
        ConfigureBatchProofVerifier_def split: sum.splits)
qed

theorem untouched_node_gate_witness:
  "\<exists>V. With_option sample_os sample_backend sample_backend sample_witness_lib NewDefaultConfig
        (ConfigureBatchProofVerifier None True) = (Inr True, V)
    \<and> verifyBatchProofInConsensus V 1 [1, 2, 3] (replicate 32 0) = Inr ()"
proof -
  have bare: "bare_env sample_os"
    by (simp add: bare_env_def getEnv_def getParentProcessEnv_def sample_os_def go_str_def)
  have raw: "parseProofEnvelope [1, 2, 3] = Inr (rawEnvelope [1, 2, 3])"
    by (simp add: parseProofEnvelope_def go_str_def)
  have "\<not> os_Exists sample_os defaultLocalGroth16VKPath" by (simp add: sample_os_def)
  with untouched_node_gate [OF bare, of sample_backend sample_backend sample_witness_lib
      "ConfigureBatchProofVerifier None True" _ _ 1 "[1, 2, 3]" "replicate 32 0"]
  show ?thesis by (auto simp: raw rawEnvelope_def)
qed

end
