(* ===== verification/Genesis.thy ===== *)
theory Genesis
  imports Vm
begin

text \<open>
  \<open>genesis/genesis.go\<close>: the token allocations and the tokenomics of a new chain, their defaults and
  validation, and the state they initialize. The allocations are credited by HyperSDK's
  \<open>DefaultGenesis.InitializeState\<close>, which is a parameter; the locale \<open>base_genesis\<close> says what it
  does with them. Decoding the genesis JSON in \<open>Factory.Load\<close> and the state's branch factor and
  rules, which are handed to HyperSDK unread, are left out.

  The lemmas: defaults are filled in once and for all, a successful initialization stores
  validated configurations, and the economy it creates holds the allocations and nothing else.
\<close>

section \<open>Data\<close>

record Tokenomics =
  tk_TotalSupply :: u64
  tk_Governance :: Address
  tk_Operations :: Address
  tk_MintAuthority :: Address
  tk_COLVaultLocked :: u64
  tk_COLVaultLive :: u64
  tk_MaxReleaseBips :: u16
  tk_ReleaseEpochSeconds :: i64
  tk_FeeRouterMSRBBips :: u16
  tk_FeeRouterCOLBips :: u16
  tk_FeeRouterOpsBips :: u16
  tk_VAIDebtCeiling :: u64
  tk_VAIEpochMintLimit :: u64
  tk_VAIMintEpochSeconds :: i64
  tk_BackingFloorBips :: u32
  tk_VEILLtvBips :: u16
  tk_WVEILLtvBips :: u16
  tk_WSVEILLtvBips :: u16
  tk_VEILHaircutBips :: u16
  tk_WVEILHaircutBips :: u16
  tk_WSVEILHaircutBips :: u16
  tk_ExogenousReserveInit :: u64
  tk_VAIBufferInit :: u64
  tk_RequireBatchProof :: bool
  tk_RequiredProofType :: u8
  tk_BatchWindowMs :: i64
  tk_ProofDeadlineMs :: i64
  tk_ProverAuthority :: Address

record CustomAllocation =
  ca_Address :: Address
  ca_Balance :: u64

record Genesis =
  ge_CustomAllocation :: "CustomAllocation list"
  ge_Tokenomics :: "Tokenomics option"

section \<open>Defaults\<close>

text \<open>\<open>if x == 0 { x = d }\<close>; the fields are set independently of one another.\<close>

definition or_default :: "'a::zero \<Rightarrow> 'a \<Rightarrow> 'a" where
  "or_default x d = (if x = 0 then d else x)"

definition defaultAddresses :: "CustomAllocation list \<Rightarrow> Tokenomics \<Rightarrow> Tokenomics" where
  "defaultAddresses allocs t = (case allocs of
     [] \<Rightarrow> t
   | a # _ \<Rightarrow> t\<lparr>tk_Governance := or_default (tk_Governance t) (ca_Address a),
                tk_Operations := or_default (tk_Operations t) (ca_Address a),
                tk_MintAuthority := or_default (tk_MintAuthority t) (ca_Address a)\<rparr>)"

definition defaultFeeRouter :: "Tokenomics \<Rightarrow> Tokenomics" where
  "defaultFeeRouter t =
     (if tk_FeeRouterMSRBBips t = 0 \<and> tk_FeeRouterCOLBips t = 0 \<and> tk_FeeRouterOpsBips t = 0
      then t\<lparr>tk_FeeRouterMSRBBips := 7000, tk_FeeRouterCOLBips := 2000, tk_FeeRouterOpsBips := 1000\<rparr>
      else t)"

definition defaultTreasury :: "Tokenomics \<Rightarrow> Tokenomics" where
  "defaultTreasury t =
     t\<lparr>tk_MaxReleaseBips := or_default (tk_MaxReleaseBips t) 15,
       tk_ReleaseEpochSeconds := or_default (tk_ReleaseEpochSeconds t) 86400,
       tk_VAIMintEpochSeconds := or_default (tk_VAIMintEpochSeconds t) 3600,
       tk_VAIEpochMintLimit := or_default (tk_VAIEpochMintLimit t) (tk_VAIDebtCeiling t)\<rparr>"

definition defaultRisk :: "Tokenomics \<Rightarrow> Tokenomics" where
  "defaultRisk t =
     t\<lparr>tk_BackingFloorBips := or_default (tk_BackingFloorBips t) 10000,
       tk_VEILLtvBips := or_default (tk_VEILLtvBips t) 3000,
       tk_WVEILLtvBips := or_default (tk_WVEILLtvBips t) 3500,
       tk_WSVEILLtvBips := 0,
       tk_VEILHaircutBips := or_default (tk_VEILHaircutBips t) 6000,
       tk_WVEILHaircutBips := or_default (tk_WVEILHaircutBips t) 5500,
       tk_WSVEILHaircutBips := or_default (tk_WSVEILHaircutBips t) 10000,
       tk_ExogenousReserveInit := or_default (tk_ExogenousReserveInit t) (tk_VAIDebtCeiling t)\<rparr>"

definition defaultProof :: "Tokenomics \<Rightarrow> Tokenomics" where
  "defaultProof t =
     t\<lparr>tk_RequireBatchProof := (tk_RequiredProofType t = 0 \<or> tk_RequireBatchProof t),
       tk_RequiredProofType := or_default (tk_RequiredProofType t) ProofTypeGroth16,
       tk_BatchWindowMs := or_default (tk_BatchWindowMs t) 5000,
       tk_ProofDeadlineMs := or_default (tk_ProofDeadlineMs t) 10000,
       tk_ProverAuthority := or_default (tk_ProverAuthority t) (tk_Governance t)\<rparr>"

definition applyTokenomicsDefaults :: "Genesis \<Rightarrow> Genesis" where
  "applyTokenomicsDefaults g = (case ge_Tokenomics g of
     None \<Rightarrow> g
   | Some t \<Rightarrow> g\<lparr>ge_Tokenomics := Some (defaultProof (defaultRisk (defaultTreasury
       (defaultFeeRouter (defaultAddresses (ge_CustomAllocation g) t)))))\<rparr>)"

section \<open>Validation\<close>

primrec allocationSum :: "'s host \<Rightarrow> u64 \<Rightarrow> CustomAllocation list \<Rightarrow> error + u64" where
  "allocationSum H allocSum [] = Inr allocSum"
| "allocationSum H allocSum (alloc # rest) = (case smath_Add H allocSum (ca_Balance alloc) of
     Inl err \<Rightarrow> Inl err
   | Inr nxt \<Rightarrow> allocationSum H nxt rest)"

text \<open>The parameter checks of \<open>validateTokenomics\<close>, then the supply.\<close>

definition validateParameters :: "Tokenomics \<Rightarrow> error + unit" where
  "validateParameters t =
     (if sint (tk_ReleaseEpochSeconds t) \<le> 0 then Inl ErrInvalidTokenomicsConfig
      else if tk_MaxReleaseBips t = 0 \<or> ucast (tk_MaxReleaseBips t) > bipsDenominator
      then Inl ErrInvalidTokenomicsConfig
      else if sint (tk_VAIMintEpochSeconds t) \<le> 0 then Inl ErrInvalidTokenomicsConfig
      else if tk_VAIDebtCeiling t = 0 then Inl ErrInvalidTokenomicsConfig
      else if tk_VAIEpochMintLimit t = 0 \<or> tk_VAIEpochMintLimit t > tk_VAIDebtCeiling t
      then Inl ErrInvalidTokenomicsConfig
      else if tk_BackingFloorBips t = 0 then Inl ErrInvalidRiskConfig
      else if tk_WSVEILLtvBips t \<noteq> 0 then Inl ErrInvalidRiskConfig
      else if ucast (tk_VEILLtvBips t) > bipsDenominator \<or> ucast (tk_WVEILLtvBips t) > bipsDenominator
        \<or> ucast (tk_WSVEILLtvBips t) > bipsDenominator then Inl ErrInvalidRiskConfig
      else if ucast (tk_VEILHaircutBips t) > bipsDenominator
        \<or> ucast (tk_WVEILHaircutBips t) > bipsDenominator
        \<or> ucast (tk_WSVEILHaircutBips t) > bipsDenominator then Inl ErrInvalidRiskConfig
      else if tk_RequiredProofType t \<noteq> ProofTypeGroth16 \<and> tk_RequiredProofType t \<noteq> ProofTypePlonk
      then Inl ErrInvalidProofConfig
      else if sint (tk_BatchWindowMs t) \<le> 0 \<or> sint (tk_ProofDeadlineMs t) \<le> 0
      then Inl ErrInvalidProofConfig
      else if tk_ProverAuthority t = 0 then Inl ErrInvalidProofConfig
      else if (ucast (tk_FeeRouterMSRBBips t) + ucast (tk_FeeRouterCOLBips t)
          + ucast (tk_FeeRouterOpsBips t) :: u64) \<noteq> bipsDenominator then Inl ErrInvalidFeeRouterConfig
      else Inr ())"

definition validateTokenomics :: "'s host \<Rightarrow> CustomAllocation list \<Rightarrow> Tokenomics \<Rightarrow> error + unit" where
  "validateTokenomics H allocs t = (case validateParameters t of
     Inl err \<Rightarrow> Inl err
   | Inr _ \<Rightarrow> (case allocationSum H 0 allocs of
       Inl err \<Rightarrow> Inl err
     | Inr allocSum \<Rightarrow> (case smath_Add H allocSum (tk_COLVaultLocked t) of
         Inl err \<Rightarrow> Inl err
       | Inr total1 \<Rightarrow> (case smath_Add H total1 (tk_COLVaultLive t) of
           Inl err \<Rightarrow> Inl err
         | Inr total2 \<Rightarrow>
             if tk_TotalSupply t \<noteq> 0 \<and> total2 \<noteq> tk_TotalSupply t then Inl ErrInvalidTokenomicsConfig
             else Inr ()))))"

section \<open>InitializeState\<close>

definition treasuryConfigOf :: "Tokenomics \<Rightarrow> TreasuryConfig" where
  "treasuryConfigOf t = \<lparr>tc_Governance = tk_Governance t, tc_Operations = tk_Operations t,
     tc_MaxReleaseBips = tk_MaxReleaseBips t, tc_ReleaseEpochSeconds = tk_ReleaseEpochSeconds t\<rparr>"

definition treasuryStateOf :: "Tokenomics \<Rightarrow> TreasuryState" where
  "treasuryStateOf t = \<lparr>ts_Locked = tk_COLVaultLocked t, ts_Live = tk_COLVaultLive t,
     ts_Released = 0, ts_LastReleaseUnix = 0\<rparr>"

definition feeRouterConfigOf :: "Tokenomics \<Rightarrow> FeeRouterConfig" where
  "feeRouterConfigOf t = \<lparr>fc_MSRBBips = tk_FeeRouterMSRBBips t, fc_COLBips = tk_FeeRouterCOLBips t,
     fc_OpsBips = tk_FeeRouterOpsBips t\<rparr>"

definition vaiConfigOf :: "Tokenomics \<Rightarrow> VAIConfig" where
  "vaiConfigOf t = \<lparr>vc_MintAuthority = tk_MintAuthority t, vc_DebtCeiling = tk_VAIDebtCeiling t,
     vc_EpochMintLimit = tk_VAIEpochMintLimit t, vc_MintEpochSeconds = tk_VAIMintEpochSeconds t\<rparr>"

definition riskConfigOf :: "Tokenomics \<Rightarrow> RiskConfig" where
  "riskConfigOf t = \<lparr>rc_BackingFloorBips = tk_BackingFloorBips t, rc_VEILLtvBips = tk_VEILLtvBips t,
     rc_WVEILLtvBips = tk_WVEILLtvBips t, rc_WSVEILLtvBips = tk_WSVEILLtvBips t,
     rc_VEILHaircutBips = tk_VEILHaircutBips t, rc_WVEILHaircutBips = tk_WVEILHaircutBips t,
     rc_WSVEILHaircutBips = tk_WSVEILHaircutBips t\<rparr>"

definition reserveStateOf :: "Tokenomics \<Rightarrow> ReserveState" where
  "reserveStateOf t = \<lparr>rs_ExogenousReserve = tk_ExogenousReserveInit t, rs_VAIBuffer = tk_VAIBufferInit t\<rparr>"

definition proofConfigOf :: "Tokenomics \<Rightarrow> ProofConfig" where
  "proofConfigOf t = \<lparr>pc_RequireProof = tk_RequireBatchProof t,
     pc_RequiredProofType = tk_RequiredProofType t, pc_BatchWindowMs = tk_BatchWindowMs t,
     pc_ProofDeadlineMs = tk_ProofDeadlineMs t, pc_ProverAuthority = tk_ProverAuthority t\<rparr>"

definition emptyFeeRouterState :: FeeRouterState where
  "emptyFeeRouterState = \<lparr>fs_MSRBBudget = 0, fs_COLBudget = 0, fs_OpsBudget = 0\<rparr>"

definition emptyVAIState :: VAIState where
  "emptyVAIState = \<lparr>vs_TotalDebt = 0, vs_EpochStartUnix = 0, vs_EpochMinted = 0\<rparr>"

type_synonym 's base_init = "CustomAllocation list \<Rightarrow> ('s, unit) action_run"

definition InitializeState :: "'s host \<Rightarrow> 's base_init \<Rightarrow> Genesis \<Rightarrow> ('s, unit) action_run" where
  "InitializeState H baseInit g =
     go_bind (baseInit (ge_CustomAllocation g)) (\<lambda>_.
     case ge_Tokenomics g of
       None \<Rightarrow> go_return ()
     | Some t \<Rightarrow>
         go_bind (go_lift (validateTokenomics H (ge_CustomAllocation g) t)) (\<lambda>_.
         go_bind (PutTreasuryConfig H (treasuryConfigOf t)) (\<lambda>_.
         go_bind (PutTreasuryState H (treasuryStateOf t)) (\<lambda>_.
         go_bind (PutFeeRouterConfig H (feeRouterConfigOf t)) (\<lambda>_.
         go_bind (PutFeeRouterState H emptyFeeRouterState) (\<lambda>_.
         go_bind (PutVAIConfig H (vaiConfigOf t)) (\<lambda>_.
         go_bind (PutVAIState H emptyVAIState) (\<lambda>_.
         go_bind (PutRiskConfig H (riskConfigOf t)) (\<lambda>_.
         go_bind (PutReserveState H (reserveStateOf t)) (\<lambda>_.
         PutProofConfig H (proofConfigOf t)))))))))))"

section \<open>Defaults are final\<close>

lemma or_default_again [simp]: "or_default (or_default x d) d = or_default x d"
  by (simp add: or_default_def)

lemma or_default_nonzero: "d \<noteq> 0 \<Longrightarrow> or_default x d \<noteq> 0"
  by (simp add: or_default_def)

lemmas default_defs = defaultAddresses_def defaultFeeRouter_def defaultTreasury_def defaultRisk_def
  defaultProof_def

lemma default_parts_again:
  "defaultAddresses as (defaultAddresses as t) = defaultAddresses as t"
  "defaultFeeRouter (defaultFeeRouter t) = defaultFeeRouter t"
  "defaultTreasury (defaultTreasury t) = defaultTreasury t"
  "defaultRisk (defaultRisk t) = defaultRisk t"
  "defaultProof (defaultProof t) = defaultProof t"
  by (simp_all add: default_defs or_default_nonzero split: list.splits)

lemma default_parts_commute:
  "defaultAddresses as (defaultProof (defaultAddresses as t)) = defaultProof (defaultAddresses as t)"
  "defaultAddresses as (defaultRisk t) = defaultRisk (defaultAddresses as t)"
  "defaultAddresses as (defaultTreasury t) = defaultTreasury (defaultAddresses as t)"
  "defaultAddresses as (defaultFeeRouter t) = defaultFeeRouter (defaultAddresses as t)"
  "defaultFeeRouter (defaultProof t) = defaultProof (defaultFeeRouter t)"
  "defaultFeeRouter (defaultRisk t) = defaultRisk (defaultFeeRouter t)"
  "defaultFeeRouter (defaultTreasury t) = defaultTreasury (defaultFeeRouter t)"
  "defaultTreasury (defaultProof t) = defaultProof (defaultTreasury t)"
  "defaultTreasury (defaultRisk t) = defaultRisk (defaultTreasury t)"
  "defaultRisk (defaultProof t) = defaultProof (defaultRisk t)"
  by (simp_all add: default_defs split: list.splits)

lemma applyDefaults_again:
  "applyTokenomicsDefaults (applyTokenomicsDefaults g) = applyTokenomicsDefaults g"
proof (cases "ge_Tokenomics g")
  case (Some t)
  let ?as = "ge_CustomAllocation g"
  let ?d = "\<lambda>t. defaultProof (defaultRisk (defaultTreasury (defaultFeeRouter (defaultAddresses ?as t))))"
  have "?d (?d t) = ?d t"
    by (simp only: default_parts_again default_parts_commute
        flip: default_parts_commute(2-4)) 
  then show ?thesis by (simp add: applyTokenomicsDefaults_def Some)
qed (simp add: applyTokenomicsDefaults_def)

section \<open>The allocations\<close>

definition credit_all :: "CustomAllocation list \<Rightarrow> economy \<Rightarrow> economy" where
  "credit_all allocs e = fold (\<lambda>a. credit_veil (ca_Address a) (unat (ca_Balance a))) allocs e"

definition allocated :: "CustomAllocation list \<Rightarrow> nat" where
  "allocated allocs = sum_list (map (\<lambda>a. unat (ca_Balance a)) allocs)"

text \<open>What HyperSDK's base genesis does: it credits every allocation and touches nothing else.\<close>

locale base_genesis = host_env H for H :: "'s host" +
  fixes baseInit :: "'s base_init"
  assumes base_credits: "baseInit allocs s = (Inr (), t) \<Longrightarrow>
    economy_of H t = credit_all allocs (economy_of H s)"

text \<open>Crediting one by one through the balance handler is such an initialization.\<close>

primrec creditEach :: "'s host \<Rightarrow> 's base_init" where
  "creditEach H [] = go_return ()"
| "creditEach H (a # rest) =
     go_bind (HandlerAddBalance H (ca_Address a) (ca_Balance a)) (\<lambda>_. creditEach H rest)"

context host_env
begin

lemma creditEach_credits:
  "creditEach H allocs s = (Inr (), t) \<Longrightarrow> economy_of H t = credit_all allocs (economy_of H s)"
  by (induction allocs arbitrary: s)
    (auto simp: credit_all_def HandlerAddBalance_def run_simps econ_AddBalance)

end

sublocale host_env \<subseteq> plain: base_genesis H "creditEach H"
  by unfold_locales (rule creditEach_credits)

lemma credit_all_fields:
  "eVai (credit_all as e) = eVai e" "eShares (credit_all as e) = eShares e"
  "ePool (credit_all as e) = ePool e" "eVAI (credit_all as e) = eVAI e"
  "eFees (credit_all as e) = eFees e"
  by (induction as arbitrary: e) (auto simp: credit_all_def credit_veil_def)

lemma credit_all_holdings: "holdings (eVeil (credit_all as e)) = holdings (eVeil e) + allocated as"
  by (induction as arbitrary: e)
    (auto simp: credit_all_def allocated_def credit_veil_def econ_simps simp del: fun_upd_apply)

section \<open>What initialization leaves\<close>

definition fresh :: "economy \<Rightarrow> bool" where
  "fresh e \<longleftrightarrow> eVeil e = (\<lambda>_. 0) \<and> eVai e = (\<lambda>_. 0) \<and> eShares e = (\<lambda>_. 0) \<and> ePool e = None"

lemma fresh_holdings: "holdings (\<lambda>_. 0) = 0"
  by (simp add: holdings_def)

context host_env
begin

lemma allocationSum_Inr:
  "allocationSum H acc as = Inr n \<Longrightarrow> unat n = unat acc + allocated as"
  by (induction as arbitrary: acc)
    (auto simp: allocated_def split: sum.splits dest!: add_unat)

lemma validateTokenomics_supply:
  assumes "validateTokenomics H as k = Inr ()" and "tk_TotalSupply k \<noteq> 0"
  shows "unat (tk_TotalSupply k)
    = allocated as + unat (tk_COLVaultLocked k) + unat (tk_COLVaultLive k)"
  using assms
  by (auto simp: validateTokenomics_def split: sum.splits if_splits
      dest!: allocationSum_Inr add_unat)

end

context base_genesis
begin

lemma InitializeState_run:
  assumes "InitializeState H baseInit g s = (Inr (), t)" and "ge_Tokenomics g = Some k"
  shows "validateTokenomics H (ge_CustomAllocation g) k = Inr ()"
    and "economy_of H t = set_vai emptyVAIState (set_fees emptyFeeRouterState
      (credit_all (ge_CustomAllocation g) (economy_of H s)))"
    and "GetTreasuryConfig H t = Inr (treasuryConfigOf k)"
    and "GetTreasuryState H t = Inr (treasuryStateOf k)"
    and "GetFeeRouterConfig H t = Inr (feeRouterConfigOf k)"
    and "GetVAIConfig H t = Inr (vaiConfigOf k)"
    and "GetRiskConfig H t = Inr (riskConfigOf k)"
    and "GetReserveState H t = Inr (reserveStateOf k)"
    and "GetProofConfig H t = Inr (proofConfigOf k)"
proof -
  from assms obtain u0 u1 u2 u3 u4 u5 u6 u7 u8 where
    valid: "validateTokenomics H (ge_CustomAllocation g) k = Inr ()" and
    base: "baseInit (ge_CustomAllocation g) s = (Inr (), u0)" and
    p1: "PutTreasuryConfig H (treasuryConfigOf k) u0 = (Inr (), u1)" and
    p2: "PutTreasuryState H (treasuryStateOf k) u1 = (Inr (), u2)" and
    p3: "PutFeeRouterConfig H (feeRouterConfigOf k) u2 = (Inr (), u3)" and
    p4: "PutFeeRouterState H emptyFeeRouterState u3 = (Inr (), u4)" and
    p5: "PutVAIConfig H (vaiConfigOf k) u4 = (Inr (), u5)" and
    p6: "PutVAIState H emptyVAIState u5 = (Inr (), u6)" and
    p7: "PutRiskConfig H (riskConfigOf k) u6 = (Inr (), u7)" and
    p8: "PutReserveState H (reserveStateOf k) u7 = (Inr (), u8)" and
    p9: "PutProofConfig H (proofConfigOf k) u8 = (Inr (), t)"
    by (auto simp: InitializeState_def run_simps)
  note puts = config_put_run(1) [OF p1] config_put_run(2) [OF p2] config_put_run(3) [OF p3]
    config_put_run(4) [OF p4] config_put_run(5) [OF p5] config_put_run(6) [OF p6]
    PutRiskConfig_run [OF p7] config_put_run(7) [OF p8] PutProofConfig_run [OF p9]
  show "validateTokenomics H (ge_CustomAllocation g) k = Inr ()" by (rule valid)
  have sum: "feeRouterSum (feeRouterConfigOf k) = bipsDenominator"
    using valid by (auto simp: validateTokenomics_def validateParameters_def feeRouterSum_def
        feeRouterConfigOf_def split: if_splits sum.splits)
  show "GetTreasuryConfig H t = Inr (treasuryConfigOf k)"
    and "GetTreasuryState H t = Inr (treasuryStateOf k)"
    and "GetFeeRouterConfig H t = Inr (feeRouterConfigOf k)"
    and "GetVAIConfig H t = Inr (vaiConfigOf k)"
    and "GetRiskConfig H t = Inr (riskConfigOf k)"
    and "GetReserveState H t = Inr (reserveStateOf k)"
    and "GetProofConfig H t = Inr (proofConfigOf k)"
    using puts sum by (simp_all add: config_get_defs GetProofConfig_def key_simps)
  have quiet: "economy_of H u1 = economy_of H u0" "economy_of H u2 = economy_of H u1"
    "economy_of H u3 = economy_of H u2" "economy_of H u5 = economy_of H u4"
    "economy_of H u7 = economy_of H u6" "economy_of H u8 = economy_of H u7"
    "economy_of H t = economy_of H u8"
    using puts by (auto intro: economy_frame simp: economic_def)
  show "economy_of H t = set_vai emptyVAIState (set_fees emptyFeeRouterState
      (credit_all (ge_CustomAllocation g) (economy_of H s)))"
    by (simp only: quiet econ_PutVAIState [OF p6] econ_PutFeeRouterState [OF p4] base_credits [OF base])
qed

lemma genesis_economy:
  assumes "InitializeState H baseInit g s = (Inr (), t)" and "ge_Tokenomics g = Some k"
    and "fresh (economy_of H s)"
  shows "veil_supply (economy_of H t) = allocated (ge_CustomAllocation g)"
    and "vai_supply (economy_of H t) = debt (economy_of H t)"
    and "shares_issued (economy_of H t) = pool_shares (economy_of H t)"
    and "pool_live (economy_of H t)" and "pool_wf H t"
  using assms(3) unfolding pool_wf_economy InitializeState_run(2) [OF assms(1,2)]
  by (simp_all add: totals pool_live_def set_vai_def set_fees_def credit_all_fields credit_all_holdings
      fresh_def fresh_holdings emptyVAIState_def emptyFeeRouterState_def budget_sum_def)

end

section \<open>Validated configurations\<close>

context base_genesis
begin

lemma InitializeState_valid:
  assumes "InitializeState H baseInit g s = (Inr (), t)" and "ge_Tokenomics g = Some k"
  shows "validateRiskConfig (riskConfigOf k) = Inr ()" and "validateProofConfig (proofConfigOf k) = Inr ()"
    and "feeRouterSum (feeRouterConfigOf k) = bipsDenominator"
    and "0 < sint (tk_ReleaseEpochSeconds k)" and "0 < sint (tk_VAIMintEpochSeconds k)"
    and "tk_VAIEpochMintLimit k \<le> tk_VAIDebtCeiling k"
  using GetRiskConfig_valid [OF InitializeState_run(7) [OF assms]]
    GetProofConfig_valid [OF InitializeState_run(9) [OF assms]]
    GetFeeRouterConfig_sum [OF InitializeState_run(5) [OF assms]] InitializeState_run(1) [OF assms]
  by (auto simp: validateTokenomics_def validateParameters_def not_le split: if_splits sum.splits)

lemma genesis_capped:
  assumes "InitializeState H baseInit g s = (Inr (), t)" and "ge_Tokenomics g = Some k"
  shows "vai_capped H t"
proof -
  have "eVAI (economy_of H t) = Some emptyVAIState"
    using InitializeState_run(2) [OF assms] by (simp add: set_vai_def)
  then have "GetVAIState H t = Inr emptyVAIState" by (simp add: economy_fields)
  then show ?thesis
    using InitializeState_run(6) [OF assms] by (simp add: vai_capped_def emptyVAIState_def)
qed

end

section \<open>A genesis on the in-memory host\<close>

definition zero_tokenomics :: Tokenomics where
  "zero_tokenomics = \<lparr>tk_TotalSupply = 0, tk_Governance = 0, tk_Operations = 0, tk_MintAuthority = 0,
     tk_COLVaultLocked = 0, tk_COLVaultLive = 0, tk_MaxReleaseBips = 0, tk_ReleaseEpochSeconds = 0,
     tk_FeeRouterMSRBBips = 0, tk_FeeRouterCOLBips = 0, tk_FeeRouterOpsBips = 0, tk_VAIDebtCeiling = 0,
     tk_VAIEpochMintLimit = 0, tk_VAIMintEpochSeconds = 0, tk_BackingFloorBips = 0, tk_VEILLtvBips = 0,
     tk_WVEILLtvBips = 0, tk_WSVEILLtvBips = 0, tk_VEILHaircutBips = 0, tk_WVEILHaircutBips = 0,
     tk_WSVEILHaircutBips = 0, tk_ExogenousReserveInit = 0, tk_VAIBufferInit = 0,
     tk_RequireBatchProof = False, tk_RequiredProofType = 0, tk_BatchWindowMs = 0,
     tk_ProofDeadlineMs = 0, tk_ProverAuthority = 0\<rparr>"

definition sample_tokenomics :: Tokenomics where
  "sample_tokenomics = defaultProof (defaultRisk (defaultTreasury (defaultFeeRouter (defaultAddresses
     [\<lparr>ca_Address = alice, ca_Balance = 1000\<rparr>]
     (zero_tokenomics\<lparr>tk_TotalSupply := 1500, tk_COLVaultLocked := 400, tk_COLVaultLive := 100,
        tk_VAIDebtCeiling := 1000000\<rparr>)))))"

definition sample_genesis :: Genesis where
  "sample_genesis = \<lparr>ge_CustomAllocation = [\<lparr>ca_Address = alice, ca_Balance = 1000\<rparr>],
     ge_Tokenomics = Some sample_tokenomics\<rparr>"

definition sample_started :: mem where
  "sample_started = snd (InitializeState mem_host (creditEach mem_host) sample_genesis Map.empty)"

lemmas tokenomics_defs = sample_tokenomics_def zero_tokenomics_def default_defs or_default_def

lemma sample_tokenomics_valid:
  "validateTokenomics mem_host [\<lparr>ca_Address = alice, ca_Balance = 1000\<rparr>] sample_tokenomics = Inr ()"
  by (simp add: validateTokenomics_def validateParameters_def tokenomics_defs run_mem_defs
      bipsDenominator_def)

lemma sample_configs_valid:
  "validateRiskConfig (riskConfigOf sample_tokenomics) = Inr ()"
  "validateProofConfig (proofConfigOf sample_tokenomics) = Inr ()"
  by (simp_all add: validateRiskConfig_def validateProofConfig_def riskConfigOf_def proofConfigOf_def
      tokenomics_defs bipsDenominator_def)

lemma sample_genesis_run:
  "InitializeState mem_host (creditEach mem_host) sample_genesis Map.empty = (Inr (), sample_started)"
proof -
  have "fst (InitializeState mem_host (creditEach mem_host) sample_genesis (store [])) = Inr ()"
    by (simp add: InitializeState_def sample_genesis_def HandlerAddBalance_def sample_tokenomics_valid
        run_mem_defs PutTreasuryConfig_def PutFeeRouterConfig_def PutVAIConfig_def sample_configs_valid)
  then show ?thesis
    unfolding sample_started_def store_def by (simp add: prod_eq_iff)
qed

text \<open>The started chain, slot by slot, and a mint on it by its mint authority.\<close>

definition started_slots :: "(slot \<times> bytes option) list" where
  "started_slots =
     [(SProofConfig, Some (encodeProofConfig (proofConfigOf sample_tokenomics))),
      (SReserveState, Some (encodeReserveState (reserveStateOf sample_tokenomics))),
      (SRiskConfig, Some (encodeRiskConfig (riskConfigOf sample_tokenomics))),
      (SVAIState, Some (encodeVAIState emptyVAIState)),
      (SVAIConfig, Some (encodeVAIConfig (vaiConfigOf sample_tokenomics))),
      (SFeeRouterState, Some (encodeFeeRouterState emptyFeeRouterState)),
      (SFeeRouterConfig, Some (encodeFeeRouterConfig (feeRouterConfigOf sample_tokenomics))),
      (STreasuryState, Some (encodeTreasuryState (treasuryStateOf sample_tokenomics))),
      (STreasuryConfig, Some (encodeTreasuryConfig (treasuryConfigOf sample_tokenomics))),
      (SBalance alice, Some (be_bytes 8 (1000 :: u64)))]"

lemma sample_started_slots: "sample_started = store started_slots"
proof -
  have "snd (InitializeState mem_host (creditEach mem_host) sample_genesis (store [])) = store started_slots"
    by (simp add: InitializeState_def sample_genesis_def HandlerAddBalance_def sample_tokenomics_valid
        run_mem_defs PutTreasuryConfig_def PutFeeRouterConfig_def PutVAIConfig_def sample_configs_valid
        started_slots_def)
  then show ?thesis by (simp add: sample_started_def store_def)
qed

lemma sample_configs:
  "vaiConfigOf sample_tokenomics = \<lparr>vc_MintAuthority = alice, vc_DebtCeiling = 1000000,
     vc_EpochMintLimit = 1000000, vc_MintEpochSeconds = 3600\<rparr>"
  "reserveStateOf sample_tokenomics = \<lparr>rs_ExogenousReserve = 1000000, rs_VAIBuffer = 0\<rparr>"
  "rc_BackingFloorBips (riskConfigOf sample_tokenomics) = 10000"
  by (simp_all add: vaiConfigOf_def reserveStateOf_def riskConfigOf_def tokenomics_defs)

lemma sample_mint_started:
  "fst (MintVAI_Execute mem_host \<lparr>mv_To = bob, mv_Amount = 700\<rparr> 1000 alice sample_started)
    = Inr \<lparr>mv_ToBalance = 700, mv_TotalDebt = 700\<rparr>"
  by (simp add: sample_started_slots MintVAI_Execute_def run_mem_defs started_slots_def with_stored_def
      sample_configs_valid sample_configs mintEpoch_def backingViolated_def emptyVAIState_def)

definition sample_minted :: mem where
  "sample_minted = snd (MintVAI_Execute mem_host \<lparr>mv_To = bob, mv_Amount = 700\<rparr> 1000 alice sample_started)"

lemma sample_mint_step: "vm_step mem_host accept_all sample_started sample_minted"
  by (rule vm_step.act [where actor = alice and timestamp = 1000 and txID = 0
        and a = "AMintVAI \<lparr>mv_To = bob, mv_Amount = 700\<rparr>"])
    (use run_ok [OF sample_mint_started] in \<open>auto simp: run_only_run sample_minted_def\<close>)

lemmas sample_mint_reach = r_into_rtranclp [of "vm_step mem_host accept_all", OF sample_mint_step]

lemma sample_genesis_tokenomics: "ge_Tokenomics sample_genesis = Some sample_tokenomics"
  by (simp add: sample_genesis_def)

lemma empty_fresh: "fresh (economy_of mem_host Map.empty)"
  by (simp add: fresh_def economy_of_def veil_balance_def vai_balance_def lp_balance_def GetPool_def
      with_stored_def mem_host_def mem_get_def fun_eq_iff read_option_def)

lemma mem_base: "base_genesis mem_host (creditEach mem_host)"
  by (rule mem_env.plain.base_genesis_axioms)

section \<open>Properties\<close>

text \<open>
  A successful initialization of an empty state leaves a chain whose stored configurations are those of
  the genesis and have passed validation (the fee split adds up to 100 percent, epochs are positive, the
  epoch limit is within the debt ceiling), whose VEIL is exactly the allocations, which has
  no VAI, no debt and no pool; a declared total supply is the allocations plus the vault.
\<close>

theorem genesis_state_sound:
  assumes "base_genesis H baseInit" and "InitializeState H baseInit g s = (Inr (), t)"
    and "ge_Tokenomics g = Some k" and "fresh (economy_of H s)"
  shows "GetTreasuryConfig H t = Inr (treasuryConfigOf k)
    \<and> GetTreasuryState H t = Inr (treasuryStateOf k)
    \<and> GetFeeRouterConfig H t = Inr (feeRouterConfigOf k) \<and> GetVAIConfig H t = Inr (vaiConfigOf k)
    \<and> GetRiskConfig H t = Inr (riskConfigOf k) \<and> GetReserveState H t = Inr (reserveStateOf k)
    \<and> GetProofConfig H t = Inr (proofConfigOf k)
    \<and> unat (tk_FeeRouterMSRBBips k) + unat (tk_FeeRouterCOLBips k) + unat (tk_FeeRouterOpsBips k) = 10000
    \<and> 0 < sint (tk_ReleaseEpochSeconds k) \<and> 0 < sint (tk_VAIMintEpochSeconds k)
    \<and> tk_VAIEpochMintLimit k \<le> tk_VAIDebtCeiling k
    \<and> veil_supply (economy_of H t) = allocated (ge_CustomAllocation g)
    \<and> vai_supply (economy_of H t) = 0 \<and> debt (economy_of H t) = 0 \<and> ePool (economy_of H t) = None
    \<and> (tk_TotalSupply k \<noteq> 0 \<longrightarrow> unat (tk_TotalSupply k)
        = veil_supply (economy_of H t) + unat (tk_COLVaultLocked k) + unat (tk_COLVaultLive k))"
proof -
  note env = base_genesis.axioms(1) [OF assms(1)]
  note run = base_genesis.InitializeState_run [OF assms(1-3)]
  have "unat (feeRouterSum (feeRouterConfigOf k)) = 10000"
    using base_genesis.InitializeState_valid(3) [OF assms(1-3)] by (simp add: bipsDenominator_def)
  then have "unat (tk_FeeRouterMSRBBips k) + unat (tk_FeeRouterCOLBips k) + unat (tk_FeeRouterOpsBips k) = 10000"
    by (simp add: feeRouterSum_unat feeRouterConfigOf_def)
  moreover have "ePool (economy_of H t) = None \<and> debt (economy_of H t) = 0"
    using assms(4) run(2) by (simp add: set_vai_def set_fees_def credit_all_fields fresh_def debt_def
        emptyVAIState_def)
  ultimately show ?thesis
    using run base_genesis.InitializeState_valid(4-6) [OF assms(1-3)]
      base_genesis.genesis_economy(1,2) [OF assms]
      host_env.validateTokenomics_supply [OF env run(1)] by simp
qed

theorem genesis_state_sound_witness:
  "GetVAIConfig mem_host sample_started = Inr (vaiConfigOf sample_tokenomics)
    \<and> veil_supply (economy_of mem_host sample_started) = 1000
    \<and> debt (economy_of mem_host sample_started) = 0"
  using genesis_state_sound [OF mem_base sample_genesis_run sample_genesis_tokenomics empty_fresh]
  by (simp add: sample_genesis_def allocated_def)

text \<open>
  Filling in the tokenomics defaults is idempotent: a genesis whose defaults were applied is not
  changed by applying them again, so loading a normalized genesis keeps it.
\<close>

theorem defaults_idempotent:
  "applyTokenomicsDefaults (applyTokenomicsDefaults g) = applyTokenomicsDefaults g"
  by (rule applyDefaults_again)

end
