(* ===== verification/Zk_Metrics.thy ===== *)
theory Zk_Metrics
  imports Errors
begin

text \<open>
  \<open>actions/zk_metrics.go\<close>: the process-wide record of what happened to each batch window, for operators.

  The collector is a record: a bounded table of windows, the order in which they were first seen, and
  running totals. \<open>time.Duration\<close> is a 64-bit count of nanoseconds, counters wrap at their width. The string
  of an identifier and the message of an error come from outside (\<open>metric_env\<close>), as does the clock. Every method runs
  under the collector's lock, so a history of the process is a sequence of events.
  The theorems: the table never exceeds its bound and agrees with the order, the totals count every event exactly once,
  and the latencies a snapshot reports are never negative.
\<close>

section \<open>Data\<close>

record metric_env =
  ID_String :: "ID \<Rightarrow> bytes"
  Error_String :: "error \<Rightarrow> bytes"

record ZKWindowMetrics =
  wm_MarketID :: bytes
  wm_WindowID :: u64
  wm_BatchSizeHint :: u32
  wm_CommitCount :: u32
  wm_RevealCount :: u32
  wm_FirstCommitAtMs :: i64
  wm_LastCommitAtMs :: i64
  wm_WindowCloseAtMs :: i64
  wm_ProofSubmittedAtMs :: i64
  wm_ClearAcceptedAtMs :: i64
  wm_WitnessBuildMs :: i64
  wm_ProofGenerationMs :: i64
  wm_ProofVerificationMs :: i64
  wm_BatchFreezeMs :: i64
  wm_ProofSubmitLatencyMs :: i64
  wm_BlockAcceptLatencyMs :: i64
  wm_CommitExecUs :: u64
  wm_RevealExecUs :: u64
  wm_ProofSubmitExecUs :: u64
  wm_ClearExecUs :: u64
  wm_MissedDeadline :: bool
  wm_Rejected :: bool
  wm_LastError :: bytes

record ZKMetricsSummary =
  ms_TotalWindowsObserved :: u64
  ms_TotalCommits :: u64
  ms_TotalReveals :: u64
  ms_TotalProofSubmissions :: u64
  ms_TotalProofSubmissionErrors :: u64
  ms_TotalClears :: u64
  ms_TotalClearErrors :: u64
  ms_TotalAcceptedBatches :: u64
  ms_TotalRejectedBatches :: u64
  ms_TotalMissedProofDeadlines :: u64

record ZKMetricsSnapshot =
  sn_GeneratedAtMs :: i64
  sn_Summary :: ZKMetricsSummary
  sn_Windows :: "ZKWindowMetrics list"

record zkMetricsCollector =
  mc_maxWindows :: int
  mc_windows :: "bytes \<rightharpoonup> ZKWindowMetrics"
  mc_order :: "bytes list"
  mc_summary :: ZKMetricsSummary

definition zeroSummary :: ZKMetricsSummary where
  "zeroSummary = \<lparr>ms_TotalWindowsObserved = 0, ms_TotalCommits = 0, ms_TotalReveals = 0,
     ms_TotalProofSubmissions = 0, ms_TotalProofSubmissionErrors = 0, ms_TotalClears = 0,
     ms_TotalClearErrors = 0, ms_TotalAcceptedBatches = 0, ms_TotalRejectedBatches = 0,
     ms_TotalMissedProofDeadlines = 0\<rparr>"

definition newWindow :: "bytes \<Rightarrow> u64 \<Rightarrow> ZKWindowMetrics" where
  "newWindow market windowID = \<lparr>wm_MarketID = market, wm_WindowID = windowID, wm_BatchSizeHint = 0,
     wm_CommitCount = 0, wm_RevealCount = 0, wm_FirstCommitAtMs = 0, wm_LastCommitAtMs = 0,
     wm_WindowCloseAtMs = 0, wm_ProofSubmittedAtMs = 0, wm_ClearAcceptedAtMs = 0, wm_WitnessBuildMs = 0,
     wm_ProofGenerationMs = 0, wm_ProofVerificationMs = 0, wm_BatchFreezeMs = 0,
     wm_ProofSubmitLatencyMs = 0, wm_BlockAcceptLatencyMs = 0, wm_CommitExecUs = 0, wm_RevealExecUs = 0,
     wm_ProofSubmitExecUs = 0, wm_ClearExecUs = 0, wm_MissedDeadline = False, wm_Rejected = False,
     wm_LastError = []\<rparr>"

definition newZKMetricsCollector :: "int \<Rightarrow> zkMetricsCollector" where
  "newZKMetricsCollector maxWindows =
     \<lparr>mc_maxWindows = maxWindows, mc_windows = Map.empty, mc_order = [], mc_summary = zeroSummary\<rparr>"

definition collector_reset :: "zkMetricsCollector \<Rightarrow> zkMetricsCollector" where
  "collector_reset c = c\<lparr>mc_windows := Map.empty, mc_order := [], mc_summary := zeroSummary\<rparr>"

section \<open>Windows\<close>

text \<open>\<open>strconv.FormatUint(n, 10)\<close>.\<close>

function FormatUint :: "nat \<Rightarrow> bytes" where
  "FormatUint n = (if n < 10 then [0x30 + of_nat n] else FormatUint (n div 10) @ [0x30 + of_nat (n mod 10)])"
  by pat_completeness auto
termination by (relation "measure id") auto

declare FormatUint.simps [simp del]

definition zkWindowKey :: "metric_env \<Rightarrow> ID \<Rightarrow> u64 \<Rightarrow> bytes" where
  "zkWindowKey M marketID windowID = ID_String M marketID @ [0x3A] @ FormatUint (unat windowID)"

text \<open>The window is in the table afterwards; the oldest one makes room for a new one.\<close>

definition getOrCreateLocked :: "metric_env \<Rightarrow> ID \<Rightarrow> u64 \<Rightarrow> zkMetricsCollector \<Rightarrow> zkMetricsCollector" where
  "getOrCreateLocked M marketID windowID c =
     (let key = zkWindowKey M marketID windowID in
      if mc_windows c key \<noteq> None then c
      else let c1 = (if mc_maxWindows c > 0 \<and> int (length (mc_order c)) \<ge> mc_maxWindows c
                     then c\<lparr>mc_order := tl (mc_order c), mc_windows := (mc_windows c)(hd (mc_order c) := None)\<rparr>
                     else c)
      in c1\<lparr>mc_windows := (mc_windows c1)(key \<mapsto> newWindow (ID_String M marketID) windowID),
            mc_order := mc_order c1 @ [key],
            mc_summary := (mc_summary c1)\<lparr>ms_TotalWindowsObserved := ms_TotalWindowsObserved (mc_summary c1) + 1\<rparr>\<rparr>)"

text \<open>Writes through the pointer \<open>w\<close>, and to \<open>c.summary\<close>.\<close>

definition on_window ::
    "metric_env \<Rightarrow> ID \<Rightarrow> u64 \<Rightarrow> (ZKWindowMetrics \<Rightarrow> ZKWindowMetrics) \<Rightarrow> zkMetricsCollector \<Rightarrow> zkMetricsCollector" where
  "on_window M marketID windowID f c =
     (let key = zkWindowKey M marketID windowID; c1 = getOrCreateLocked M marketID windowID c in
      c1\<lparr>mc_windows := (mc_windows c1)(key := map_option f (mc_windows c1 key))\<rparr>)"

definition on_summary :: "(ZKMetricsSummary \<Rightarrow> ZKMetricsSummary) \<Rightarrow> zkMetricsCollector \<Rightarrow> zkMetricsCollector" where
  "on_summary g c = c\<lparr>mc_summary := g (mc_summary c)\<rparr>"

text \<open>\<open>exec.Microseconds()\<close> and \<open>Milliseconds()\<close> of a positive duration.\<close>

definition Microseconds :: "i64 \<Rightarrow> u64" where
  "Microseconds d = word_of_int (sint d div 1000)"

definition Milliseconds :: "i64 \<Rightarrow> i64" where
  "Milliseconds d = word_of_int (sint d div 1000000)"

definition rejectWindow :: "metric_env \<Rightarrow> error \<Rightarrow> ZKWindowMetrics \<Rightarrow> ZKWindowMetrics" where
  "rejectWindow M err w = w\<lparr>wm_Rejected := True, wm_LastError := Error_String M err\<rparr>"

section \<open>Recording\<close>

definition commitWindow :: "i64 \<Rightarrow> ZKWindowMetrics \<Rightarrow> ZKWindowMetrics" where
  "commitWindow timestampMs w =
     (let w1 = w\<lparr>wm_CommitCount := wm_CommitCount w + 1\<rparr>;
          w2 = (if wm_FirstCommitAtMs w1 = 0 \<or> sint timestampMs < sint (wm_FirstCommitAtMs w1)
                then w1\<lparr>wm_FirstCommitAtMs := timestampMs\<rparr> else w1)
      in if sint timestampMs > sint (wm_LastCommitAtMs w2) then w2\<lparr>wm_LastCommitAtMs := timestampMs\<rparr> else w2)"

definition recordCommit ::
    "metric_env \<Rightarrow> ID \<Rightarrow> u64 \<Rightarrow> i64 \<Rightarrow> i64 \<Rightarrow> error option \<Rightarrow> zkMetricsCollector \<Rightarrow> zkMetricsCollector" where
  "recordCommit M marketID windowID timestampMs exec err c =
     (let timed = (\<lambda>w. if sint exec > 0 then w\<lparr>wm_CommitExecUs := wm_CommitExecUs w + Microseconds exec\<rparr> else w)
      in case err of
           Some e \<Rightarrow> on_window M marketID windowID (\<lambda>w. rejectWindow M e (timed w)) c
         | None \<Rightarrow> on_summary (\<lambda>s. s\<lparr>ms_TotalCommits := ms_TotalCommits s + 1\<rparr>)
             (on_window M marketID windowID (\<lambda>w. commitWindow timestampMs (timed w)) c))"

definition recordReveal ::
    "metric_env \<Rightarrow> ID \<Rightarrow> u64 \<Rightarrow> i64 \<Rightarrow> error option \<Rightarrow> zkMetricsCollector \<Rightarrow> zkMetricsCollector" where
  "recordReveal M marketID windowID exec err c =
     (let timed = (\<lambda>w. if sint exec > 0 then w\<lparr>wm_RevealExecUs := wm_RevealExecUs w + Microseconds exec\<rparr> else w)
      in case err of
           Some e \<Rightarrow> on_window M marketID windowID (\<lambda>w. rejectWindow M e (timed w)) c
         | None \<Rightarrow> on_summary (\<lambda>s. s\<lparr>ms_TotalReveals := ms_TotalReveals s + 1\<rparr>)
             (on_window M marketID windowID
               (\<lambda>w. (timed w)\<lparr>wm_RevealCount := wm_RevealCount (timed w) + 1\<rparr>) c))"

definition submitWindow :: "i64 \<Rightarrow> i64 \<Rightarrow> i64 \<Rightarrow> bool \<Rightarrow> ZKWindowMetrics \<Rightarrow> ZKWindowMetrics" where
  "submitWindow windowCloseAtMs submittedAtMs exec missedDeadline w =
     (let w1 = (if sint exec > 0 then w\<lparr>wm_ProofSubmitExecUs := wm_ProofSubmitExecUs w + Microseconds exec\<rparr> else w);
          w2 = (if sint windowCloseAtMs > 0 then w1\<lparr>wm_WindowCloseAtMs := windowCloseAtMs\<rparr> else w1);
          w3 = (if sint submittedAtMs > 0 then w2\<lparr>wm_ProofSubmittedAtMs := submittedAtMs\<rparr> else w2)
      in if missedDeadline then w3\<lparr>wm_MissedDeadline := True\<rparr> else w3)"

definition countMissed :: "bool \<Rightarrow> ZKMetricsSummary \<Rightarrow> ZKMetricsSummary" where
  "countMissed missedDeadline s =
     (if missedDeadline then s\<lparr>ms_TotalMissedProofDeadlines := ms_TotalMissedProofDeadlines s + 1\<rparr> else s)"

definition recordProofSubmit ::
    "metric_env \<Rightarrow> ID \<Rightarrow> u64 \<Rightarrow> i64 \<Rightarrow> i64 \<Rightarrow> i64 \<Rightarrow> bool \<Rightarrow> error option
      \<Rightarrow> zkMetricsCollector \<Rightarrow> zkMetricsCollector" where
  "recordProofSubmit M marketID windowID windowCloseAtMs submittedAtMs exec missedDeadline err c =
     (let upd = submitWindow windowCloseAtMs submittedAtMs exec missedDeadline in
      case err of
        Some e \<Rightarrow> on_summary (\<lambda>s. (countMissed missedDeadline s)
              \<lparr>ms_TotalProofSubmissionErrors := ms_TotalProofSubmissionErrors s + 1\<rparr>)
            (on_window M marketID windowID (\<lambda>w. rejectWindow M e (upd w)) c)
      | None \<Rightarrow> on_summary (\<lambda>s. (countMissed missedDeadline s)
              \<lparr>ms_TotalProofSubmissions := ms_TotalProofSubmissions s + 1\<rparr>)
            (on_window M marketID windowID upd c))"

definition clearWindow :: "i64 \<Rightarrow> i64 \<Rightarrow> bool \<Rightarrow> ZKWindowMetrics \<Rightarrow> ZKWindowMetrics" where
  "clearWindow verifyDuration exec missedDeadline w =
     (let w1 = (if sint exec > 0 then w\<lparr>wm_ClearExecUs := wm_ClearExecUs w + Microseconds exec\<rparr> else w);
          w2 = (if sint verifyDuration > 0 then w1\<lparr>wm_ProofVerificationMs := Milliseconds verifyDuration\<rparr> else w1)
      in if missedDeadline then w2\<lparr>wm_MissedDeadline := True\<rparr> else w2)"

definition recordClear ::
    "metric_env \<Rightarrow> ID \<Rightarrow> u64 \<Rightarrow> i64 \<Rightarrow> i64 \<Rightarrow> i64 \<Rightarrow> bool \<Rightarrow> error option
      \<Rightarrow> zkMetricsCollector \<Rightarrow> zkMetricsCollector" where
  "recordClear M marketID windowID acceptedAtMs verifyDuration exec missedDeadline err c =
     (let upd = clearWindow verifyDuration exec missedDeadline in
      case err of
        Some e \<Rightarrow> on_summary (\<lambda>s. (countMissed missedDeadline s)
              \<lparr>ms_TotalClearErrors := ms_TotalClearErrors s + 1,
               ms_TotalRejectedBatches := ms_TotalRejectedBatches s + 1\<rparr>)
            (on_window M marketID windowID (\<lambda>w. rejectWindow M e (upd w)) c)
      | None \<Rightarrow> on_summary (\<lambda>s. (countMissed missedDeadline s)
              \<lparr>ms_TotalClears := ms_TotalClears s + 1,
               ms_TotalAcceptedBatches := ms_TotalAcceptedBatches s + 1\<rparr>)
            (on_window M marketID windowID (\<lambda>w. (upd w)\<lparr>wm_ClearAcceptedAtMs := acceptedAtMs\<rparr>) c))"

definition recordProverStages ::
    "metric_env \<Rightarrow> ID \<Rightarrow> u64 \<Rightarrow> u32 \<Rightarrow> i64 \<Rightarrow> i64 \<Rightarrow> zkMetricsCollector \<Rightarrow> zkMetricsCollector" where
  "recordProverStages M marketID windowID batchSizeHint witnessBuildMs proofGenerationMs =
     on_window M marketID windowID (\<lambda>w.
       let w1 = (if batchSizeHint > 0 then w\<lparr>wm_BatchSizeHint := batchSizeHint\<rparr> else w);
           w2 = (if sint witnessBuildMs \<ge> 0 then w1\<lparr>wm_WitnessBuildMs := witnessBuildMs\<rparr> else w1)
       in if sint proofGenerationMs \<ge> 0 then w2\<lparr>wm_ProofGenerationMs := proofGenerationMs\<rparr> else w2)"

section \<open>Snapshots\<close>

definition withLatencies :: "ZKWindowMetrics \<Rightarrow> ZKWindowMetrics" where
  "withLatencies cp0 =
     (let cp1 = (if sint (wm_WindowCloseAtMs cp0) > 0 \<and> sint (wm_FirstCommitAtMs cp0) > 0
                    \<and> sint (wm_WindowCloseAtMs cp0) \<ge> sint (wm_FirstCommitAtMs cp0)
                 then cp0\<lparr>wm_BatchFreezeMs := wm_WindowCloseAtMs cp0 - wm_FirstCommitAtMs cp0\<rparr> else cp0);
          cp2 = (if sint (wm_WindowCloseAtMs cp1) > 0
                    \<and> sint (wm_ProofSubmittedAtMs cp1) \<ge> sint (wm_WindowCloseAtMs cp1)
                 then cp1\<lparr>wm_ProofSubmitLatencyMs := wm_ProofSubmittedAtMs cp1 - wm_WindowCloseAtMs cp1\<rparr> else cp1)
      in if sint (wm_WindowCloseAtMs cp2) > 0
            \<and> sint (wm_ClearAcceptedAtMs cp2) \<ge> sint (wm_WindowCloseAtMs cp2)
         then cp2\<lparr>wm_BlockAcceptLatencyMs := wm_ClearAcceptedAtMs cp2 - wm_WindowCloseAtMs cp2\<rparr> else cp2)"

definition snapshotKeys :: "int \<Rightarrow> bytes list \<Rightarrow> bytes list" where
  "snapshotKeys limit keys =
     (if limit > 0 \<and> int (length keys) > limit then drop (length keys - nat limit) keys else keys)"

definition collector_snapshot :: "i64 \<Rightarrow> int \<Rightarrow> bool \<Rightarrow> zkMetricsCollector \<Rightarrow> ZKMetricsSnapshot" where
  "collector_snapshot nowMs limit includeWindows c =
     \<lparr>sn_GeneratedAtMs = nowMs, sn_Summary = mc_summary c,
      sn_Windows = (if \<not> includeWindows then []
        else map withLatencies (List.map_filter (mc_windows c) (snapshotKeys limit (mc_order c))))\<rparr>"


section \<open>Histories\<close>

text \<open>The exported functions of the file, applied to the process-wide collector \<open>zkMetrics\<close>.\<close>

datatype metric_event =
    ResetZKMetrics
  | RecordCommitMetric ID u64 i64 i64 "error option"
  | RecordRevealMetric ID u64 i64 "error option"
  | RecordProofSubmitMetric ID u64 i64 i64 i64 bool "error option"
  | RecordClearMetric ID u64 i64 i64 i64 bool "error option"
  | RecordProverStageMetrics ID u64 u32 i64 i64

primrec apply_event :: "metric_env \<Rightarrow> metric_event \<Rightarrow> zkMetricsCollector \<Rightarrow> zkMetricsCollector" where
  "apply_event M ResetZKMetrics = collector_reset"
| "apply_event M (RecordCommitMetric m w ts ex err) = recordCommit M m w ts ex err"
| "apply_event M (RecordRevealMetric m w ex err) = recordReveal M m w ex err"
| "apply_event M (RecordProofSubmitMetric m w cl su ex mi err) = recordProofSubmit M m w cl su ex mi err"
| "apply_event M (RecordClearMetric m w ac vd ex mi err) = recordClear M m w ac vd ex mi err"
| "apply_event M (RecordProverStageMetrics m w bs wb pg) = recordProverStages M m w bs wb pg"

definition metric_history :: "metric_env \<Rightarrow> int \<Rightarrow> metric_event list \<Rightarrow> zkMetricsCollector" where
  "metric_history M n es = fold (apply_event M) es (newZKMetricsCollector n)"

text \<open>The derived fields are computed in snapshots only.\<close>

definition underived :: "ZKWindowMetrics \<Rightarrow> bool" where
  "underived w \<longleftrightarrow> wm_BatchFreezeMs w = 0 \<and> wm_ProofSubmitLatencyMs w = 0 \<and> wm_BlockAcceptLatencyMs w = 0"

text \<open>The table and the order name the same windows, within the bound.\<close>

definition table_wf :: "zkMetricsCollector \<Rightarrow> bool" where
  "table_wf c \<longleftrightarrow> distinct (mc_order c) \<and> set (mc_order c) = dom (mc_windows c)
     \<and> (mc_maxWindows c > 0 \<longrightarrow> int (length (mc_order c)) \<le> mc_maxWindows c)
     \<and> (\<forall>w\<in>ran (mc_windows c). underived w)"

lemma new_table_wf: "table_wf (newZKMetricsCollector n)"
  by (simp add: table_wf_def newZKMetricsCollector_def)

lemma reset_table_wf: "table_wf (collector_reset c)"
  by (simp add: table_wf_def collector_reset_def)

lemma getOrCreate_wf:
  assumes "table_wf c"
  shows "table_wf (getOrCreateLocked M m w c)"
proof (cases "mc_windows c (zkWindowKey M m w)")
  case None
  let ?full = "mc_maxWindows c > 0 \<and> int (length (mc_order c)) \<ge> mc_maxWindows c"
  let ?k = "zkWindowKey M m w" and ?x = "newWindow (ID_String M m) w"
  have new: "?k \<notin> set (mc_order c)" "underived ?x"
    using assms None by (auto simp: table_wf_def newWindow_def underived_def)
  show ?thesis
  proof (cases ?full)
    case True
    then obtain o1 os where os: "mc_order c = o1 # os" by (cases "mc_order c") auto
    have "ran ((mc_windows c)(o1 := None, ?k \<mapsto> ?x)) \<subseteq> insert ?x (ran (mc_windows c))"
      by (auto simp: ran_def)
    then show ?thesis
      using assms None True new os
      by (auto simp: table_wf_def getOrCreateLocked_def Let_def)
  next
    case False
    have "ran ((mc_windows c)(?k \<mapsto> ?x)) \<subseteq> insert ?x (ran (mc_windows c))"
      by (auto simp: ran_def)
    then show ?thesis
      using assms None False new by (auto simp: table_wf_def getOrCreateLocked_def Let_def)
  qed
qed (use assms in \<open>simp add: getOrCreateLocked_def\<close>)

lemma on_window_wf:
  assumes "table_wf c" and keep: "\<And>x. underived x \<Longrightarrow> underived (f x)"
  shows "table_wf (on_window M m w f c)"
proof -
  let ?c = "getOrCreateLocked M m w c" and ?k = "zkWindowKey M m w"
  have wf: "table_wf ?c" using assms(1) by (rule getOrCreate_wf)
  have "underived y" if "y \<in> ran ((mc_windows ?c)(?k := map_option f (mc_windows ?c ?k)))" for y
    using that wf keep by (fastforce simp: table_wf_def ran_def split: if_splits)
  moreover have "dom ((mc_windows ?c)(?k := map_option f (mc_windows ?c ?k))) = dom (mc_windows ?c)"
    by (auto simp: dom_def)
  ultimately show ?thesis using wf by (simp add: table_wf_def on_window_def Let_def)
qed

lemma on_summary_wf [simp]: "table_wf (on_summary g c) = table_wf c"
  by (simp add: table_wf_def on_summary_def)

lemmas window_updates = rejectWindow_def commitWindow_def submitWindow_def clearWindow_def Let_def

lemmas record_defs = recordCommit_def recordReveal_def recordProofSubmit_def recordClear_def
  recordProverStages_def

lemma event_wf: "table_wf c \<Longrightarrow> table_wf (apply_event M e c)"
  by (cases e) (auto simp: record_defs reset_table_wf Let_def split: option.splits
      intro!: on_window_wf, auto simp: underived_def window_updates)

lemma history_wf: "table_wf (metric_history M n es)"
proof -
  have "table_wf c \<Longrightarrow> table_wf (fold (apply_event M) es c)" for c
    by (induction es arbitrary: c) (simp_all add: event_wf)
  then show ?thesis by (simp add: metric_history_def new_table_wf)
qed


section \<open>Totals\<close>

fun is_submit :: "metric_event \<Rightarrow> bool" where
  "is_submit (RecordProofSubmitMetric m w cl su ex mi err) = True"
| "is_submit _ = False"

fun is_clear :: "metric_event \<Rightarrow> bool" where
  "is_clear (RecordClearMetric m w ac vd ex mi err) = True"
| "is_clear _ = False"

definition since_reset :: "metric_event list \<Rightarrow> metric_event list" where
  "since_reset es = takeWhile (\<lambda>e. e \<noteq> ResetZKMetrics) (rev es)"

definition counted :: "zkMetricsCollector \<Rightarrow> u64 \<times> u64" where
  "counted c = (let s = mc_summary c in
     (ms_TotalProofSubmissions s + ms_TotalProofSubmissionErrors s, ms_TotalClears s + ms_TotalClearErrors s))"

definition batches_agree :: "zkMetricsCollector \<Rightarrow> bool" where
  "batches_agree c \<longleftrightarrow> ms_TotalAcceptedBatches (mc_summary c) = ms_TotalClears (mc_summary c)
     \<and> ms_TotalRejectedBatches (mc_summary c) = ms_TotalClearErrors (mc_summary c)"

lemma on_window_totals [simp]:
  "mc_maxWindows (on_window M m w f c) = mc_maxWindows c"
  "counted (on_window M m w f c) = counted c"
  "batches_agree (on_window M m w f c) = batches_agree c"
  by (simp_all add: on_window_def getOrCreateLocked_def Let_def counted_def batches_agree_def)

lemma event_max [simp]: "mc_maxWindows (apply_event M e c) = mc_maxWindows c"
  by (cases e) (simp_all add: record_defs Let_def collector_reset_def on_summary_def split: option.splits)

lemma event_batches: "batches_agree c \<Longrightarrow> batches_agree (apply_event M e c)"
  by (cases e) (auto simp: record_defs Let_def collector_reset_def on_summary_def zeroSummary_def
      countMissed_def batches_agree_def on_window_def getOrCreateLocked_def split: option.splits)

lemma event_counted:
  "e \<noteq> ResetZKMetrics \<Longrightarrow> counted (apply_event M e c) =
     (fst (counted c) + of_bool (is_submit e), snd (counted c) + of_bool (is_clear e))"
  by (cases e) (auto simp: record_defs Let_def on_summary_def countMissed_def counted_def on_window_def
      getOrCreateLocked_def split: option.splits)

lemma reset_counted: "counted (collector_reset c) = (0, 0)"
  by (simp add: counted_def collector_reset_def zeroSummary_def)

lemma history_snoc: "metric_history M n (es @ [e]) = apply_event M e (metric_history M n es)"
  by (simp add: metric_history_def)

lemma history_empty: "metric_history M n [] = newZKMetricsCollector n"
  by (simp add: metric_history_def)

lemma history_max: "mc_maxWindows (metric_history M n es) = n"
  by (induction es rule: rev_induct) (simp_all add: history_snoc history_empty newZKMetricsCollector_def)

lemma new_batches: "batches_agree (newZKMetricsCollector n)"
  by (simp add: batches_agree_def newZKMetricsCollector_def zeroSummary_def)

lemma history_batches: "batches_agree (metric_history M n es)"
  by (induction es rule: rev_induct) (simp_all add: history_snoc event_batches history_empty new_batches)

lemma history_counted:
  "counted (metric_history M n es) =
     (of_nat (length (filter is_submit (since_reset es))), of_nat (length (filter is_clear (since_reset es))))"
proof (induction es rule: rev_induct)
  case Nil
  then show ?case by (simp add: history_empty counted_def newZKMetricsCollector_def zeroSummary_def since_reset_def)
next
  case (snoc e es)
  show ?case
  proof (cases "e = ResetZKMetrics")
    case True
    then show ?thesis by (simp add: history_snoc reset_counted since_reset_def)
  next
    case False
    with snoc show ?thesis by (simp add: history_snoc event_counted since_reset_def)
  qed
qed

section \<open>Latencies\<close>

lemma sint_diff_nonneg:
  fixes a b :: i64
  assumes "0 < sint b" and "sint b \<le> sint a"
  shows "0 \<le> sint (a - b)"
proof -
  have "sint a < 2 ^ 63" using sint_lt [of a] by simp
  then have "sint (a - b) = sint a - sint b"
    using assms by (simp add: sint_word_ariths signed_take_bit_int_eq_self)
  with assms show ?thesis by simp
qed

lemma latencies_nonneg:
  "underived w \<Longrightarrow> 0 \<le> sint (wm_BatchFreezeMs (withLatencies w))
    \<and> 0 \<le> sint (wm_ProofSubmitLatencyMs (withLatencies w))
    \<and> 0 \<le> sint (wm_BlockAcceptLatencyMs (withLatencies w))"
  by (simp add: withLatencies_def Let_def underived_def sint_diff_nonneg)

lemma snapshot_windows:
  assumes "table_wf c" and "x \<in> set (sn_Windows (collector_snapshot now limit b c))"
  shows "\<exists>w. x = withLatencies w \<and> underived w"
proof -
  obtain k w where "mc_windows c k = Some w" "x = withLatencies w"
    using assms(2) by (auto simp: collector_snapshot_def map_filter_def split: if_splits)
  moreover from this(1) have "w \<in> ran (mc_windows c)" by (rule ranI)
  ultimately show ?thesis using assms(1) by (auto simp: table_wf_def)
qed

lemma snapshot_complete:
  assumes "table_wf c"
  shows "length (sn_Windows (collector_snapshot now limit True c)) = length (snapshotKeys limit (mc_order c))"
proof -
  have "set (snapshotKeys limit (mc_order c)) \<subseteq> dom (mc_windows c)"
    using assms by (auto simp: snapshotKeys_def table_wf_def dest: in_set_dropD)
  then have "filter (\<lambda>k. mc_windows c k \<noteq> None) (snapshotKeys limit (mc_order c)) = snapshotKeys limit (mc_order c)"
    by (intro filter_True) auto
  then show ?thesis by (simp add: collector_snapshot_def map_filter_def)
qed


section \<open>Properties\<close>

text \<open>
  Whatever the process has recorded, the collector holds at most the configured number of windows, the totals count
  every proof submission and every clear since the last reset exactly once (modulo the width of a counter), accepted and
  rejected batches are the clears and the clear errors, and a full snapshot lists every window it holds, with latencies that are
  never negative.
\<close>

theorem metrics_exact:
  assumes "0 < n"
  shows "int (length (mc_order (metric_history M n es))) \<le> n
    \<and> set (mc_order (metric_history M n es)) = dom (mc_windows (metric_history M n es))
    \<and> counted (metric_history M n es) = (of_nat (length (filter is_submit (since_reset es))),
        of_nat (length (filter is_clear (since_reset es))))
    \<and> batches_agree (metric_history M n es)
    \<and> length (sn_Windows (collector_snapshot now 0 True (metric_history M n es)))
        = card (dom (mc_windows (metric_history M n es)))
    \<and> (\<forall>x\<in>set (sn_Windows (collector_snapshot now limit b (metric_history M n es))).
        0 \<le> sint (wm_BatchFreezeMs x) \<and> 0 \<le> sint (wm_ProofSubmitLatencyMs x)
        \<and> 0 \<le> sint (wm_BlockAcceptLatencyMs x))"
proof -
  let ?c = "metric_history M n es"
  have wf: "table_wf ?c" by (rule history_wf)
  then have order: "distinct (mc_order ?c)" "set (mc_order ?c) = dom (mc_windows ?c)"
    "int (length (mc_order ?c)) \<le> n"
    using assms by (simp_all add: table_wf_def history_max)
  have "length (sn_Windows (collector_snapshot now 0 True ?c)) = card (dom (mc_windows ?c))"
    using snapshot_complete [OF wf, of now 0] distinct_card [OF order(1)] order(2)
    by (simp add: snapshotKeys_def)
  moreover have "0 \<le> sint (wm_BatchFreezeMs x) \<and> 0 \<le> sint (wm_ProofSubmitLatencyMs x)
      \<and> 0 \<le> sint (wm_BlockAcceptLatencyMs x)"
    if "x \<in> set (sn_Windows (collector_snapshot now limit b ?c))" for x
    using snapshot_windows [OF wf that] latencies_nonneg by blast
  ultimately show ?thesis using order history_counted history_batches by blast
qed

definition plain_metrics :: metric_env where
  "plain_metrics = \<lparr>ID_String = be_bytes 32, Error_String = (\<lambda>_. [])\<rparr>"

definition sample_events :: "metric_event list" where
  "sample_events = [RecordCommitMetric 7 1 100 5000 None, RecordCommitMetric 7 2 200 5000 None,
     ResetZKMetrics, RecordProofSubmitMetric 7 1 5000 6000 9000 False None,
     RecordClearMetric 7 1 7000 8000 9000 False None, RecordClearMetric 7 2 0 0 9000 True (Some ErrProofNotFound)]"

theorem metrics_exact_witness:
  "int (length (mc_order (metric_history plain_metrics 1 sample_events))) \<le> 1
    \<and> counted (metric_history plain_metrics 1 sample_events) = (1, 2)"
  using metrics_exact [of 1 plain_metrics sample_events 0 0 True]
  by (simp add: sample_events_def since_reset_def)

end
