(* ===== verification/Vm_Server.thy ===== *)
theory Vm_Server
  imports Act_Vai Act_Proof Genesis Zk_Metrics
begin

text \<open>
  \<open>vm/server.go\<close>: the JSON-RPC handlers. A handler reads the chain state through \<open>ReadState\<close> or an immutable view,
  both given by HyperSDK's \<open>api.VM\<close> (the record \<open>api_vm\<close>), and fills a reply; tracing is left out. The handlers
  for metrics act on the process-wide collector.

  The theorems relate what operators see to what the actions decide on: every reply holds the stored values, the
  reported backing is exactly the mint's own check, and the trust score is bounded and not lowered by accepted work.
\<close>

section \<open>The state behind a handler\<close>

record 's api_vm =
  vm_ReadState :: ReadState
  vm_ImmutableState :: "error + 's"

text \<open>\<open>x, err := f(); if err != nil { return err }\<close>.\<close>

definition res_bind :: "error + 'a \<Rightarrow> ('a \<Rightarrow> error + 'b) \<Rightarrow> error + 'b" where
  "res_bind r f = (case r of Inl err \<Rightarrow> Inl err | Inr x \<Rightarrow> f x)"

lemma res_bind_Inr [simp]: "res_bind (Inr x) f = f x"
  by (simp add: res_bind_def)

lemma res_bind_Inl [simp]: "res_bind (Inl e) f = Inl e"
  by (simp add: res_bind_def)

lemma res_bind_ok: "res_bind r f = Inr y \<longleftrightarrow> (\<exists>x. r = Inr x \<and> f x = Inr y)"
  by (auto simp: res_bind_def split: sum.splits)

section \<open>Genesis\<close>

definition Server_Genesis :: "'g \<Rightarrow> error + 'g" where
  "Server_Genesis g = Inr g"

section \<open>Accounts, markets and pools\<close>

record BalanceArgs =
  ba_Address :: Address

record BalanceReply =
  br_Amount :: u64

definition Server_Balance :: "'s host \<Rightarrow> 's api_vm \<Rightarrow> BalanceArgs \<Rightarrow> error + BalanceReply" where
  "Server_Balance H vm args =
     res_bind (GetBalanceFromState H (vm_ReadState vm) (ba_Address args)) (\<lambda>balance.
     Inr \<lparr>br_Amount = balance\<rparr>)"

record MarketArgs =
  ma_MarketID :: ID

record MarketReply =
  mr_Status :: u8
  mr_Outcomes :: u8
  mr_ResolutionTime :: i64
  mr_ResolvedOutcome :: u8
  mr_Question :: bytes

definition Server_Market :: "'s host \<Rightarrow> 's api_vm \<Rightarrow> MarketArgs \<Rightarrow> error + MarketReply" where
  "Server_Market H vm args =
     res_bind (GetMarketFromState H (vm_ReadState vm) (ma_MarketID args)) (\<lambda>m.
     Inr \<lparr>mr_Status = mk_status m, mr_Outcomes = mk_outcomes m,
        mr_ResolutionTime = mk_resolutionTime m, mr_ResolvedOutcome = mk_resolvedOutcome m,
        mr_Question = mk_question m\<rparr>)"

record PoolArgs =
  pa_Asset0 :: u8
  pa_Asset1 :: u8

record PoolReply =
  pr_Asset0 :: u8
  pr_Asset1 :: u8
  pr_FeeBips :: u16
  pr_Reserve0 :: u64
  pr_Reserve1 :: u64
  pr_TotalLP :: u64

definition Server_Pool :: "'s host \<Rightarrow> 's api_vm \<Rightarrow> PoolArgs \<Rightarrow> error + PoolReply" where
  "Server_Pool H vm args =
     res_bind (GetPoolFromState H (vm_ReadState vm) (pa_Asset0 args) (pa_Asset1 args)) (\<lambda>pool.
     Inr \<lparr>pr_Asset0 = p_Asset0 pool, pr_Asset1 = p_Asset1 pool,
        pr_FeeBips = p_FeeBips pool, pr_Reserve0 = p_Reserve0 pool,
        pr_Reserve1 = p_Reserve1 pool, pr_TotalLP = p_TotalLP pool\<rparr>)"

record LPBalanceArgs =
  la_Asset0 :: u8
  la_Asset1 :: u8
  la_Address :: Address

record LPBalanceReply =
  lr_Amount :: u64

definition Server_LPBalance :: "'s host \<Rightarrow> 's api_vm \<Rightarrow> LPBalanceArgs \<Rightarrow> error + LPBalanceReply" where
  "Server_LPBalance H vm args =
     res_bind (GetLPBalanceFromState H (vm_ReadState vm) (la_Asset0 args) (la_Asset1 args) (la_Address args)) (\<lambda>amount.
     Inr \<lparr>lr_Amount = amount\<rparr>)"

record VAIBalanceArgs =
  vaa_Address :: Address

record VAIBalanceReply =
  var_Amount :: u64

definition Server_VAIBalance :: "'s host \<Rightarrow> 's api_vm \<Rightarrow> VAIBalanceArgs \<Rightarrow> error + VAIBalanceReply" where
  "Server_VAIBalance H vm args =
     res_bind (GetVAIBalanceFromState H (vm_ReadState vm) (vaa_Address args)) (\<lambda>balance.
     Inr \<lparr>var_Amount = balance\<rparr>)"

section \<open>Configurations and states\<close>

record VAIStateReply =
  vsr_DebtCeiling :: u64
  vsr_EpochMintLimit :: u64
  vsr_MintEpochSeconds :: i64
  vsr_MintAuthority :: Address
  vsr_TotalDebt :: u64
  vsr_EpochStartUnix :: i64
  vsr_EpochMinted :: u64

definition Server_VAIState :: "'s host \<Rightarrow> 's api_vm \<Rightarrow> error + VAIStateReply" where
  "Server_VAIState H vm =
     res_bind (vm_ImmutableState vm) (\<lambda>im.
     res_bind (GetVAIConfig H im) (\<lambda>cfg.
     res_bind (GetVAIState H im) (\<lambda>stateVal.
     Inr \<lparr>vsr_DebtCeiling = vc_DebtCeiling cfg,
        vsr_EpochMintLimit = vc_EpochMintLimit cfg,
        vsr_MintEpochSeconds = vc_MintEpochSeconds cfg,
        vsr_MintAuthority = vc_MintAuthority cfg, vsr_TotalDebt = vs_TotalDebt stateVal,
        vsr_EpochStartUnix = vs_EpochStartUnix stateVal,
        vsr_EpochMinted = vs_EpochMinted stateVal\<rparr>)))"

record TreasuryReply =
  trr_Governance :: Address
  trr_Operations :: Address
  trr_MaxReleaseBips :: u16
  trr_ReleaseEpochSeconds :: i64
  trr_Locked :: u64
  trr_Live :: u64
  trr_Released :: u64
  trr_LastReleaseUnix :: i64

definition Server_Treasury :: "'s host \<Rightarrow> 's api_vm \<Rightarrow> error + TreasuryReply" where
  "Server_Treasury H vm =
     res_bind (vm_ImmutableState vm) (\<lambda>im.
     res_bind (GetTreasuryConfig H im) (\<lambda>cfg.
     res_bind (GetTreasuryState H im) (\<lambda>stateVal.
     Inr \<lparr>trr_Governance = tc_Governance cfg, trr_Operations = tc_Operations cfg,
        trr_MaxReleaseBips = tc_MaxReleaseBips cfg,
        trr_ReleaseEpochSeconds = tc_ReleaseEpochSeconds cfg, trr_Locked = ts_Locked stateVal,
        trr_Live = ts_Live stateVal, trr_Released = ts_Released stateVal,
        trr_LastReleaseUnix = ts_LastReleaseUnix stateVal\<rparr>)))"

record FeeRouterReply =
  frr_MSRBBips :: u16
  frr_COLBips :: u16
  frr_OpsBips :: u16
  frr_MSRBBudget :: u64
  frr_COLBudget :: u64
  frr_OpsBudget :: u64

definition Server_FeeRouter :: "'s host \<Rightarrow> 's api_vm \<Rightarrow> error + FeeRouterReply" where
  "Server_FeeRouter H vm =
     res_bind (vm_ImmutableState vm) (\<lambda>im.
     res_bind (GetFeeRouterConfig H im) (\<lambda>cfg.
     res_bind (GetFeeRouterState H im) (\<lambda>stateVal.
     Inr \<lparr>frr_MSRBBips = fc_MSRBBips cfg, frr_COLBips = fc_COLBips cfg,
        frr_OpsBips = fc_OpsBips cfg, frr_MSRBBudget = fs_MSRBBudget stateVal,
        frr_COLBudget = fs_COLBudget stateVal, frr_OpsBudget = fs_OpsBudget stateVal\<rparr>)))"

record RiskReply =
  rkr_BackingFloorBips :: u32
  rkr_VEILLtvBips :: u16
  rkr_WVEILLtvBips :: u16
  rkr_WSVEILLtvBips :: u16
  rkr_VEILHaircutBips :: u16
  rkr_WVEILHaircutBips :: u16
  rkr_WSVEILHaircutBips :: u16

definition Server_Risk :: "'s host \<Rightarrow> 's api_vm \<Rightarrow> error + RiskReply" where
  "Server_Risk H vm =
     res_bind (vm_ImmutableState vm) (\<lambda>im.
     res_bind (GetRiskConfig H im) (\<lambda>cfg.
     Inr \<lparr>rkr_BackingFloorBips = rc_BackingFloorBips cfg,
        rkr_VEILLtvBips = rc_VEILLtvBips cfg, rkr_WVEILLtvBips = rc_WVEILLtvBips cfg,
        rkr_WSVEILLtvBips = rc_WSVEILLtvBips cfg, rkr_VEILHaircutBips = rc_VEILHaircutBips cfg,
        rkr_WVEILHaircutBips = rc_WVEILHaircutBips cfg,
        rkr_WSVEILHaircutBips = rc_WSVEILHaircutBips cfg\<rparr>))"

record ReserveReply =
  rsr_ExogenousReserve :: u64
  rsr_VAIBuffer :: u64
  rsr_TotalDebt :: u64
  rsr_BackingFloorBips :: u32
  rsr_BackingRatioBips :: u64
  rsr_MeetsFloor :: bool

text \<open>The quotient of two \<open>big.Int\<close>, capped at the largest 64-bit value.\<close>

definition backingRatioBips :: "u64 \<Rightarrow> u64 \<Rightarrow> u64" where
  "backingRatioBips reserve totalDebt =
     (let ratio = unat reserve * 10000 div unat totalDebt in
      if ratio < 2 ^ 64 then of_nat ratio else - 1)"

definition Server_Reserve :: "'s host \<Rightarrow> 's api_vm \<Rightarrow> error + ReserveReply" where
  "Server_Reserve H vm =
     res_bind (vm_ImmutableState vm) (\<lambda>im.
     res_bind (GetReserveState H im) (\<lambda>reserveState.
     res_bind (GetRiskConfig H im) (\<lambda>riskCfg.
     res_bind (GetVAIState H im) (\<lambda>vaiState.
     let reply = \<lparr>rsr_ExogenousReserve = rs_ExogenousReserve reserveState,
           rsr_VAIBuffer = rs_VAIBuffer reserveState, rsr_TotalDebt = vs_TotalDebt vaiState,
           rsr_BackingFloorBips = rc_BackingFloorBips riskCfg, rsr_BackingRatioBips = 0,
           rsr_MeetsFloor = False\<rparr> in
     if vs_TotalDebt vaiState = 0
     then Inr (reply\<lparr>rsr_BackingRatioBips := 0, rsr_MeetsFloor := True\<rparr>)
     else let ratio = backingRatioBips (rs_ExogenousReserve reserveState) (vs_TotalDebt vaiState)
       in Inr (reply\<lparr>rsr_BackingRatioBips := ratio,
            rsr_MeetsFloor := (ratio \<ge> ucast (rc_BackingFloorBips riskCfg))\<rparr>)))))"

record ProofConfigReply =
  pcr_RequireProof :: bool
  pcr_RequiredProofType :: u8
  pcr_BatchWindowMs :: i64
  pcr_ProofDeadlineMs :: i64
  pcr_ProverAuthority :: Address

definition Server_ProofConfig :: "'s host \<Rightarrow> 's api_vm \<Rightarrow> error + ProofConfigReply" where
  "Server_ProofConfig H vm =
     res_bind (vm_ImmutableState vm) (\<lambda>im.
     res_bind (GetProofConfig H im) (\<lambda>cfg.
     Inr \<lparr>pcr_RequireProof = pc_RequireProof cfg,
        pcr_RequiredProofType = pc_RequiredProofType cfg,
        pcr_BatchWindowMs = pc_BatchWindowMs cfg, pcr_ProofDeadlineMs = pc_ProofDeadlineMs cfg,
        pcr_ProverAuthority = pc_ProverAuthority cfg\<rparr>))"

section \<open>Proofs\<close>

record BatchProofArgs =
  bpa_MarketID :: ID
  bpa_WindowID :: u64

record BatchProofReply =
  bpr_ProofType :: u8
  bpr_SubmittedAtMs :: i64
  bpr_WindowCloseAtMs :: i64
  bpr_Prover :: Address
  bpr_ProofCommitment :: bytes
  bpr_PublicInputsHash :: bytes
  bpr_FillsHash :: bytes

definition Server_BatchProof :: "'s host \<Rightarrow> 's api_vm \<Rightarrow> BatchProofArgs \<Rightarrow> error + BatchProofReply" where
  "Server_BatchProof H vm args =
     res_bind (vm_ImmutableState vm) (\<lambda>im.
     res_bind (GetBatchProofRecord H im (bpa_MarketID args) (bpa_WindowID args)) (\<lambda>rec.
     Inr \<lparr>bpr_ProofType = bp_ProofType rec, bpr_SubmittedAtMs = bp_SubmittedAtMs rec,
        bpr_WindowCloseAtMs = bp_WindowCloseAtMs rec, bpr_Prover = bp_Prover rec,
        bpr_ProofCommitment = be_bytes 32 (bp_ProofCommitment rec),
        bpr_PublicInputsHash = bp_PublicInputsHash rec, bpr_FillsHash = bp_FillsHash rec\<rparr>))"

record VellumProofArgs =
  vpa_MarketID :: ID
  vpa_WindowID :: u64

record VellumProofReply =
  vpr_Proof :: bytes
  vpr_Size :: u32

definition Server_VellumProof :: "'s host \<Rightarrow> 's api_vm \<Rightarrow> VellumProofArgs \<Rightarrow> error + VellumProofReply" where
  "Server_VellumProof H vm args =
     res_bind (GetVellumProofFromState H (vm_ReadState vm) (vpa_MarketID args) (vpa_WindowID args)) (\<lambda>pf.
     Inr \<lparr>vpr_Proof = pf, vpr_Size = of_nat (length pf)\<rparr>)"

text \<open>The score of a prover: bounded boosts for proofs and streak, a penalty for scars.\<close>

definition trustScore :: "Bloodsworn \<Rightarrow> u64" where
  "trustScore b =
     (let base = 5000;
          proofBoost0 = bs_TotalAcceptedProofs b * 15;
          proofBoost = (if proofBoost0 > 3500 then 3500 else proofBoost0);
          streakBoost0 = bs_ActiveStreak b * 25;
          streakBoost = (if streakBoost0 > 1500 then 1500 else streakBoost0);
          penalty = ucast (bs_ScarCount b) * 700;
          score0 = base + proofBoost + streakBoost;
          score = (if penalty \<ge> score0 then 0 else score0 - penalty)
      in if score > 10000 then 10000 else score)"

definition scoreBloodswornTrust :: "Bloodsworn \<Rightarrow> u32 \<times> string" where
  "scoreBloodswornTrust b =
     (if bs_TotalAcceptedProofs b = 0 then (0, ''Unproven'')
      else let score = trustScore b in
      if score \<ge> 9000 then (ucast score, ''Mythic'')
      else if score \<ge> 7500 then (ucast score, ''Legend'')
      else if score \<ge> 6000 then (ucast score, ''Proven'')
      else if score \<ge> 4000 then (ucast score, ''Rising'')
      else if score > 0 then (ucast score, ''Fragile'')
      else (0, ''Unproven''))"

record BloodswornArgs =
  bsa_Address :: Address

record BloodswornReply =
  bsr_TotalAcceptedProofs :: u64
  bsr_ActiveStreak :: u64
  bsr_LastProofAtMs :: i64
  bsr_ScarCount :: u32
  bsr_TrustBips :: u32
  bsr_TrustTier :: string

definition Server_Bloodsworn :: "'s host \<Rightarrow> 's api_vm \<Rightarrow> BloodswornArgs \<Rightarrow> error + BloodswornReply" where
  "Server_Bloodsworn H vm args =
     res_bind (GetBloodswornFromState H (vm_ReadState vm) (bsa_Address args)) (\<lambda>bloodsworn.
     case scoreBloodswornTrust bloodsworn of (trustBips, trustTier) \<Rightarrow>
     Inr \<lparr>bsr_TotalAcceptedProofs = bs_TotalAcceptedProofs bloodsworn,
        bsr_ActiveStreak = bs_ActiveStreak bloodsworn,
        bsr_LastProofAtMs = bs_LastProofAtMs bloodsworn,
        bsr_ScarCount = bs_ScarCount bloodsworn, bsr_TrustBips = trustBips,
        bsr_TrustTier = trustTier\<rparr>)"

record GlyphArgs =
  gla_MarketID :: ID
  gla_WindowID :: u64

record GlyphReply =
  glr_Class :: u8
  glr_Rarity :: u8
  glr_CreatedAtMs :: i64
  glr_Prover :: Address
  glr_ProofCommitment :: bytes
  glr_PublicInputsHash :: bytes
  glr_Entropy :: bytes

definition Server_Glyph :: "'s host \<Rightarrow> 's api_vm \<Rightarrow> GlyphArgs \<Rightarrow> error + GlyphReply" where
  "Server_Glyph H vm args =
     res_bind (GetGlyphFromState H (vm_ReadState vm) (gla_MarketID args) (gla_WindowID args)) (\<lambda>glyph.
     Inr \<lparr>glr_Class = gl_Class glyph, glr_Rarity = gl_Rarity glyph,
        glr_CreatedAtMs = gl_CreatedAtMs glyph, glr_Prover = gl_Prover glyph,
        glr_ProofCommitment = be_bytes 32 (gl_ProofCommitment glyph),
        glr_PublicInputsHash = be_bytes 32 (gl_PublicInputsHash glyph),
        glr_Entropy = be_bytes 32 (gl_Entropy glyph)\<rparr>)"

record ClearInputsHashArgs =
  cia_MarketID :: ID
  cia_WindowID :: u64
  cia_ClearPrice :: u64
  cia_TotalVolume :: u64
  cia_FillsHash :: bytes

record ClearInputsHashReply =
  cir_PublicInputsHash :: bytes

definition Server_ClearInputsHash :: "ClearInputsHashArgs \<Rightarrow> error + ClearInputsHashReply" where
  "Server_ClearInputsHash args =
     Inr \<lparr>cir_PublicInputsHash = be_bytes 32 (ComputeClearPublicInputsHash (cia_MarketID args)
       (cia_WindowID args) (cia_ClearPrice args) (cia_TotalVolume args) (cia_FillsHash args))\<rparr>"

section \<open>Metrics\<close>

record ZKMetricsArgs =
  zma_Limit :: u32
  zma_IncludeWindows :: bool

text \<open>A missing argument is a request for everything.\<close>

definition Server_ZKMetrics :: "i64 \<Rightarrow> ZKMetricsArgs option \<Rightarrow> zkMetricsCollector \<Rightarrow> ZKMetricsSnapshot" where
  "Server_ZKMetrics nowMs args c =
     (case args of
        None \<Rightarrow> collector_snapshot nowMs 0 True c
      | Some a \<Rightarrow> collector_snapshot nowMs (uint (zma_Limit a)) (zma_IncludeWindows a) c)"

record ZKMetricsResetReply =
  zrr_OK :: bool

definition Server_ZKMetricsReset :: "zkMetricsCollector \<Rightarrow> ZKMetricsResetReply \<times> zkMetricsCollector" where
  "Server_ZKMetricsReset c = (\<lparr>zrr_OK = True\<rparr>, collector_reset c)"

record RecordZKProverMetricsArgs =
  rpa_MarketID :: ID
  rpa_WindowID :: u64
  rpa_BatchSizeHint :: u32
  rpa_WitnessBuildMs :: i64
  rpa_ProofGenerationMs :: i64

record RecordZKProverMetricsReply =
  rpr_Recorded :: bool

definition Server_RecordZKProverMetrics ::
    "metric_env \<Rightarrow> RecordZKProverMetricsArgs option \<Rightarrow> zkMetricsCollector
      \<Rightarrow> RecordZKProverMetricsReply \<times> zkMetricsCollector" where
  "Server_RecordZKProverMetrics M args c =
     (case args of
        None \<Rightarrow> (\<lparr>rpr_Recorded = False\<rparr>, c)
      | Some a \<Rightarrow> (\<lparr>rpr_Recorded = True\<rparr>,
          recordProverStages M (rpa_MarketID a) (rpa_WindowID a) (rpa_BatchSizeHint a)
            (rpa_WitnessBuildMs a) (rpa_ProofGenerationMs a) c))"


section \<open>Backing\<close>

lemma ratio_meets_iff:
  fixes floor :: u32
  assumes "totalDebt \<noteq> 0"
  shows "ucast floor \<le> backingRatioBips reserve totalDebt
    \<longleftrightarrow> unat totalDebt * unat floor \<le> unat reserve * 10000"
proof -
  let ?r = "unat reserve * 10000 div unat totalDebt"
  have floor: "unat (ucast floor :: u64) = unat floor" and small: "unat floor < 2 ^ 32"
    using unsigned_less [of floor, where ?'a = nat] by (simp_all add: unsigned_ucast_eq take_bit_nat_eq_self)
  have "ucast floor \<le> backingRatioBips reserve totalDebt \<longleftrightarrow> unat floor \<le> ?r"
  proof (cases "?r < 2 ^ 64")
    case True
    then have "unat (of_nat ?r :: u64) = ?r" by (simp add: unat_of_nat)
    with True floor show ?thesis by (simp add: backingRatioBips_def word_le_nat_alt)
  next
    case False
    with small show ?thesis by (simp add: backingRatioBips_def)
  qed
  also have "\<dots> \<longleftrightarrow> unat floor * unat totalDebt \<le> unat reserve * 10000"
    using assms by (simp add: less_eq_div_iff_mult_less_eq unat_gt_0)
  finally show ?thesis by (simp add: mult.commute)
qed

section \<open>Trust\<close>

lemma boost_unat:
  fixes x k c :: u64
  assumes "unat x * unat k < 2 ^ 64"
  shows "unat (if x * k > c then c else x * k) = min (unat c) (unat x * unat k)"
  using assms by (simp add: word_less_nat_alt unat_mul_exact min_def)

lemma penalized_unat:
  fixes x pen :: u64
  shows "unat (if (if pen \<ge> x then 0 else x - pen) > 10000 then 10000 else if pen \<ge> x then 0 else x - pen)
    = min 10000 (unat x - unat pen)"
proof (cases "pen \<ge> x")
  case True
  then show ?thesis by (simp add: word_le_nat_alt)
next
  case False
  then have "unat (x - pen) = unat x - unat pen" by (intro unat_sub_exact) simp
  with False show ?thesis by (simp add: word_less_nat_alt min_def)
qed

lemma trustScore_unat:
  assumes "unat (bs_TotalAcceptedProofs b) < 2 ^ 59" and "unat (bs_ActiveStreak b) < 2 ^ 59"
  shows "unat (trustScore b) = 5000 + min 3500 (unat (bs_TotalAcceptedProofs b) * 15)
    + min 1500 (unat (bs_ActiveStreak b) * 25) - unat (bs_ScarCount b) * 700"
proof -
  let ?T = "unat (bs_TotalAcceptedProofs b)" and ?S = "unat (bs_ActiveStreak b)"
  let ?p = "if bs_TotalAcceptedProofs b * 15 > 3500 then 3500 else bs_TotalAcceptedProofs b * 15"
  let ?s = "if bs_ActiveStreak b * 25 > 1500 then 1500 else bs_ActiveStreak b * 25"
  let ?pen = "ucast (bs_ScarCount b) * 700 :: u64"
  have p: "unat ?p = min 3500 (?T * 15)" using boost_unat [of "bs_TotalAcceptedProofs b" 15 3500] assms(1) by simp
  have s: "unat ?s = min 1500 (?S * 25)" using boost_unat [of "bs_ActiveStreak b" 25 1500] assms(2) by simp
  have sum: "unat (5000 + ?p + ?s) = 5000 + min 3500 (?T * 15) + min 1500 (?S * 25)"
    using p s by (simp add: unat_add_exact)
  have "unat (ucast (bs_ScarCount b) :: u64) = unat (bs_ScarCount b)" "unat (bs_ScarCount b) < 2 ^ 32"
    using unsigned_less [of "bs_ScarCount b", where ?'a = nat]
    by (simp_all add: unsigned_ucast_eq take_bit_nat_eq_self)
  then have pen: "unat ?pen = unat (bs_ScarCount b) * 700" by (simp add: unat_mul_exact)
  have "unat (trustScore b) = min 10000 (unat (5000 + ?p + ?s) - unat ?pen)"
    by (simp only: trustScore_def Let_def penalized_unat)
  then show ?thesis using sum pen by simp
qed


lemma trustScore_le: "trustScore b \<le> 10000"
proof -
  have "unat (trustScore b) \<le> 10000" unfolding trustScore_def Let_def penalized_unat by simp
  then show ?thesis by (simp add: word_le_nat_alt)
qed

lemma reported_trust:
  "unat (fst (scoreBloodswornTrust b)) = (if bs_TotalAcceptedProofs b = 0 then 0 else unat (trustScore b))"
proof -
  have le: "unat (trustScore b) \<le> 10000" using trustScore_le [of b] by (simp add: word_le_nat_alt)
  then have "unat (ucast (trustScore b) :: u32) = unat (trustScore b)"
    by (simp add: unsigned_ucast_eq take_bit_nat_eq_self)
  then show ?thesis by (auto simp: scoreBloodswornTrust_def Let_def word_less_nat_alt)
qed

lemma accepted_trust:
  fixes now :: i64
  assumes "unat (bs_TotalAcceptedProofs b) < 2 ^ 58" and "unat (bs_ActiveStreak b) < 2 ^ 58"
  defines "b' \<equiv> b\<lparr>bs_TotalAcceptedProofs := bs_TotalAcceptedProofs b + 1,
    bs_ActiveStreak := bs_ActiveStreak b + 1, bs_LastProofAtMs := now\<rparr>"
  shows "fst (scoreBloodswornTrust b) \<le> fst (scoreBloodswornTrust b')"
proof -
  have T: "unat (bs_TotalAcceptedProofs b') = unat (bs_TotalAcceptedProofs b) + 1"
    and S: "unat (bs_ActiveStreak b') = unat (bs_ActiveStreak b) + 1"
    and C: "bs_ScarCount b' = bs_ScarCount b"
    using assms(1,2) by (simp_all add: b'_def unat_add_exact)
  have "bs_TotalAcceptedProofs b' \<noteq> 0" using T by auto
  moreover have "unat (trustScore b) \<le> unat (trustScore b')"
  proof -
    have "unat (trustScore b') = 5000 + min 3500 ((unat (bs_TotalAcceptedProofs b) + 1) * 15)
        + min 1500 ((unat (bs_ActiveStreak b) + 1) * 25) - unat (bs_ScarCount b) * 700"
      using trustScore_unat [of b'] T S C assms(1,2) by simp
    moreover have "unat (trustScore b) = 5000 + min 3500 (unat (bs_TotalAcceptedProofs b) * 15)
        + min 1500 (unat (bs_ActiveStreak b) * 25) - unat (bs_ScarCount b) * 700"
      using trustScore_unat [of b] assms(1,2) by simp
    ultimately show ?thesis
      by (simp only:) (intro diff_le_mono add_mono min.mono, simp_all)
  qed
  ultimately show ?thesis by (simp add: word_le_nat_alt reported_trust)
qed

section \<open>Properties\<close>

text \<open>
  C30: The backing the reserve endpoint reports is the check a mint makes: the reply says the floor is met exactly
  when the mint's backing condition holds for the current debt, although the endpoint divides and rounds where
  the mint multiplies.
\<close>

theorem reported_backing_is_mint_check:
  assumes "vm_ImmutableState vm = Inr s" and "Server_Reserve H vm = Inr reply"
  shows "\<exists>riskCfg reserveState vaiState. GetRiskConfig H s = Inr riskCfg
    \<and> GetReserveState H s = Inr reserveState \<and> GetVAIState H s = Inr vaiState
    \<and> rsr_TotalDebt reply = vs_TotalDebt vaiState
    \<and> (rsr_MeetsFloor reply \<longleftrightarrow> \<not> backingViolated riskCfg reserveState (vs_TotalDebt vaiState))"
proof -
  obtain riskCfg reserveState vaiState where reads: "GetRiskConfig H s = Inr riskCfg"
    "GetReserveState H s = Inr reserveState" "GetVAIState H s = Inr vaiState"
    using assms by (auto simp: Server_Reserve_def res_bind_ok)
  moreover have "rsr_TotalDebt reply = vs_TotalDebt vaiState
      \<and> (rsr_MeetsFloor reply \<longleftrightarrow> \<not> backingViolated riskCfg reserveState (vs_TotalDebt vaiState))"
  proof (cases "vs_TotalDebt vaiState = 0")
    case True
    then show ?thesis using assms reads by (auto simp: Server_Reserve_def backingViolated_def)
  next
    case False
    then have "reply = \<lparr>rsr_ExogenousReserve = rs_ExogenousReserve reserveState,
        rsr_VAIBuffer = rs_VAIBuffer reserveState, rsr_TotalDebt = vs_TotalDebt vaiState,
        rsr_BackingFloorBips = rc_BackingFloorBips riskCfg,
        rsr_BackingRatioBips = backingRatioBips (rs_ExogenousReserve reserveState) (vs_TotalDebt vaiState),
        rsr_MeetsFloor = (backingRatioBips (rs_ExogenousReserve reserveState) (vs_TotalDebt vaiState)
          \<ge> ucast (rc_BackingFloorBips riskCfg))\<rparr>"
      using assms reads by (simp add: Server_Reserve_def Let_def)
    with False show ?thesis
      by (simp add: ratio_meets_iff backingViolated_def not_less word_neq_0_conv)
  qed
  ultimately show ?thesis by blast
qed

text \<open>The API over a state of the chain.\<close>

definition served :: "'s host \<Rightarrow> 's \<Rightarrow> 's api_vm" where
  "served H s = \<lparr>vm_ReadState = state_reader H s, vm_ImmutableState = Inr s\<rparr>"

lemma served_reads: "readFirst (vm_ReadState (served H s) [k]) = GetValue H s k"
  by (simp add: served_def state_reader_serves)

theorem reported_backing_is_mint_check_witness:
  "\<exists>reply. Server_Reserve mem_host (served mem_host sample) = Inr reply
    \<and> rsr_TotalDebt reply = 9000 \<and> rsr_MeetsFloor reply"
proof -
  have state: "vm_ImmutableState (served mem_host sample) = Inr sample" by (simp add: served_def)
  obtain reply where reply: "Server_Reserve mem_host (served mem_host sample) = Inr reply"
    by (simp add: Server_Reserve_def served_def run_mem_defs sample_def sample_slots_def with_stored_def
        Let_def)
  have "GetRiskConfig mem_host sample = Inr sample_risk"
    "GetReserveState mem_host sample = Inr \<lparr>rs_ExogenousReserve = 1000000, rs_VAIBuffer = 0\<rparr>"
    "GetVAIState mem_host sample = Inr \<lparr>vs_TotalDebt = 9000, vs_EpochStartUnix = 0, vs_EpochMinted = 0\<rparr>"
    by (simp_all add: run_mem_defs sample_def sample_slots_def with_stored_def)
  with reported_backing_is_mint_check [OF state reply] reply show ?thesis
    by (auto simp: backingViolated_def)
qed

text \<open>
  An accepted proof never lowers the trust score the prover endpoint reports for its prover, as long as the
  prover's counters are far from their width, and a score is never above 10000.
\<close>

theorem accepted_proof_keeps_trust:
  assumes "host_env H" and "SubmitBatchProof_Execute H V a now actor tx s = (Inr r, t)"
    and "\<And>k. readFirst (vm_ReadState before [k]) = GetValue H s k"
    and "\<And>k. readFirst (vm_ReadState after [k]) = GetValue H t k"
    and "Server_Bloodsworn H before \<lparr>bsa_Address = actor\<rparr> = Inr old"
    and "unat (bsr_TotalAcceptedProofs old) < 2 ^ 58" and "unat (bsr_ActiveStreak old) < 2 ^ 58"
  shows "\<exists>new. Server_Bloodsworn H after \<lparr>bsa_Address = actor\<rparr> = Inr new
    \<and> bsr_TotalAcceptedProofs new = bsr_TotalAcceptedProofs old + 1
    \<and> bsr_TrustBips old \<le> bsr_TrustBips new \<and> bsr_TrustBips new \<le> 10000"
  using assms(2)
proof (rule host_env.SubmitBatchProof_effect [OF assms(1)])
  fix b :: Bloodsworn
  let ?b = "b\<lparr>bs_TotalAcceptedProofs := bs_TotalAcceptedProofs b + 1,
      bs_ActiveStreak := bs_ActiveStreak b + 1, bs_LastProofAtMs := now\<rparr>"
  assume b: "GetBloodsworn H s actor = Inr b" and "GetValue H t = (GetValue H s)(
       slot_key H (SBatchProof (sb_MarketID a) (sb_WindowID a)) :=
         Inr (encodeBatchProofRecord (submitRecord a now actor)),
       slot_key H (SVellumProof (sb_MarketID a) (sb_WindowID a)) := Inr (encodeVellumProof (sb_Proof a)),
       slot_key H (SBloodsworn actor) := Inr (encodeBloodsworn ?b),
       slot_key H (SGlyph (sb_MarketID a) (sb_WindowID a)) := Inr (encodeGlyph (deriveGlyph tx
         (sb_MarketID a) (sb_WindowID a) actor (Sum256 (sb_Proof a)) (sb_PublicInputsHash a) now)))"
  then have t: "GetBloodsworn H t actor = Inr ?b"
    by (simp add: GetBloodsworn_def bloodswornResult_def key_simps)
  have served: "GetBloodswornFromState H (vm_ReadState before) actor = Inr b"
    "GetBloodswornFromState H (vm_ReadState after) actor = Inr ?b"
    using b t assms(3,4) by (simp_all add: GetBloodswornFromState_def GetBloodsworn_def)
  have old: "bsr_TotalAcceptedProofs old = bs_TotalAcceptedProofs b" "bsr_ActiveStreak old = bs_ActiveStreak b"
    "bsr_TrustBips old = fst (scoreBloodswornTrust b)"
    using assms(5) served(1) by (auto simp: Server_Bloodsworn_def split: prod.splits)
  have "fst (scoreBloodswornTrust b) \<le> fst (scoreBloodswornTrust ?b)"
    using accepted_trust [of b now] assms(6,7) old by simp
  moreover have "fst (scoreBloodswornTrust ?b) \<le> 10000"
    using reported_trust [of ?b] trustScore_le [of ?b] by (simp add: word_le_nat_alt split: if_splits)
  ultimately show ?thesis
    using served(2) old by (auto simp: Server_Bloodsworn_def split: prod.splits)
qed

theorem accepted_proof_keeps_trust_witness:
  "\<exists>t new. Server_Bloodsworn mem_host (served mem_host t) \<lparr>bsa_Address = gov\<rparr> = Inr new
    \<and> bsr_TotalAcceptedProofs new = 1 \<and> bsr_TrustBips new \<le> 10000"
proof (rule window_submitted)
  fix r t
  assume run: "SubmitBatchProof_Execute mem_host accept_all window_submit 6000 gov 5 window_start = (Inr r, t)"
  let ?old = "\<lparr>bsr_TotalAcceptedProofs = 0, bsr_ActiveStreak = 0, bsr_LastProofAtMs = 0, bsr_ScarCount = 0,
    bsr_TrustBips = 0, bsr_TrustTier = ''Unproven''\<rparr>"
  have "GetBloodswornFromState mem_host (vm_ReadState (served mem_host window_start)) gov = Inr zeroBloodsworn"
    by (simp add: GetBloodswornFromState_def served_reads run_mem_defs window_start_def window_slots_def
        bloodswornResult_def)
  then have "Server_Bloodsworn mem_host (served mem_host window_start) \<lparr>bsa_Address = gov\<rparr> = Inr ?old"
    by (simp add: Server_Bloodsworn_def zeroBloodsworn_def scoreBloodswornTrust_def)
  from accepted_proof_keeps_trust [OF mem_host_env run served_reads served_reads this] show ?thesis by auto
qed

end
