(* ===== verification/Vm_Metered.thy ===== *)
theory Vm_Metered
  imports Vm Zk_Metrics
begin

text \<open>
  What the actions report to the collector of \<open>Zk_Metrics\<close>. \<open>CommitOrder\<close>, \<open>RevealBatch\<close>,
  \<open>SubmitBatchProof\<close> and \<open>ClearBatch\<close> each defer one call of a recording function to the end of
  \<open>Execute\<close>; the other actions report nothing.

  The values of \<open>time.Since\<close> come from outside (\<open>exec_clock\<close>). The two local variables the deferred calls read,
  \<open>missedDeadline\<close> and \<open>verificationDuration\<close>, are determined by how far \<open>Execute\<close> came, so they are
  computed by its leading checks (\<open>submitReached\<close>, \<open>clearReached\<close>, \<open>clearTyped\<close>), and the lemmas show that a
  deadline is reported as missed exactly when the action fails for it.
  The theorem: however often and on whatever states a process runs actions, the totals of the collector count
  their outcomes.
\<close>

section \<open>The deferred calls\<close>

record exec_clock =
  ec_exec :: i64
  ec_verified :: i64
  ec_verifyEnd :: i64

text \<open>
  The named result \<open>err\<close> a deferred call sees. A panic unwinds through the deferred call before any error is
  assigned, so it sees \<open>nil\<close>.
\<close>

fun deferred_err :: "error + 'r \<Rightarrow> error option" where
  "deferred_err (Inr r) = None"
| "deferred_err (Inl (GoPanic m)) = None"
| "deferred_err (Inl err) = Some err"

text \<open>\<open>SubmitBatchProof.Execute\<close> up to the two time checks.\<close>

definition submitReached :: "'s host \<Rightarrow> SubmitBatchProof \<Rightarrow> Address \<Rightarrow> ('s, ProofConfig) action_run" where
  "submitReached H a actor =
     go_guard (submitMalformed a) ErrInvalidProofEnvelope
    (go_bind (go_read (\<lambda>s. GetMarket H s (sb_MarketID a))) (\<lambda>m.
     go_guard (mk_status m \<noteq> MarketStatusActive) ErrMarketNotActive
    (go_bind (go_read (GetProofConfig H)) (\<lambda>cfg.
     go_guard (\<not> pc_RequireProof cfg) ErrInvalidProofConfig
    (go_guard (actor \<noteq> pc_ProverAuthority cfg) ErrUnauthorized
    (go_guard (sb_ProofType a \<noteq> pc_RequiredProofType cfg) ErrProofTypeMismatch
    (go_bind (go_lift (go_rem (sb_WindowCloseAtMs a) (pc_BatchWindowMs cfg))) (\<lambda>rest.
     go_guard (rest \<noteq> 0) ErrInvalidProofEnvelope
    (go_return cfg)))))))))"

definition submitMissed :: "'s host \<Rightarrow> SubmitBatchProof \<Rightarrow> i64 \<Rightarrow> Address \<Rightarrow> 's \<Rightarrow> bool" where
  "submitMissed H a timestamp actor s =
     (case fst (submitReached H a actor s) of
        Inl _ \<Rightarrow> False
      | Inr cfg \<Rightarrow> sint timestamp < sint (sb_WindowCloseAtMs a)
          \<or> sint timestamp > sint (sb_WindowCloseAtMs a + pc_ProofDeadlineMs cfg))"

text \<open>\<open>ClearBatch.Execute\<close> up to \<open>verifyStart\<close>, and from there up to the deadline check.\<close>

definition clearReached :: "'s host \<Rightarrow> ClearBatch \<Rightarrow> Address \<Rightarrow> ('s, ProofConfig) action_run" where
  "clearReached H t actor =
     go_guard (cb_ClearPrice t = 0) ErrClearPriceZero
    (go_guard (length (cb_FillsHash t) = 0) ErrFillsHashEmpty
    (go_guard (length (cb_FillsHash t) > MaxFillsHashSize) ErrFillsHashTooLarge
    (go_guard (length (cb_FillsHash t) \<noteq> ExpectedFillsHashSize) ErrFillsHashWrongSize
    (go_bind (go_read (\<lambda>s. GetMarket H s (cb_MarketID t))) (\<lambda>m.
     go_guard (mk_status m \<noteq> MarketStatusActive) ErrMarketNotActive
    (go_bind (go_read (GetProofConfig H)) (\<lambda>proofCfg.
     go_guard (pc_RequireProof proofCfg \<and> actor \<noteq> pc_ProverAuthority proofCfg) ErrUnauthorized
    (go_return proofCfg))))))))"

definition clearTyped :: "'s host \<Rightarrow> ClearBatch \<Rightarrow> ProofConfig \<Rightarrow> ('s, BatchProofRecord) action_run" where
  "clearTyped H t proofCfg =
     go_bind (go_read (\<lambda>s. GetBatchProofRecord H s (cb_MarketID t) (cb_WindowID t))) (\<lambda>record.
     go_guard (bp_ProofType record \<noteq> pc_RequiredProofType proofCfg) ErrProofTypeMismatch
    (go_return record))"

definition clearMissed :: "'s host \<Rightarrow> ClearBatch \<Rightarrow> Address \<Rightarrow> 's \<Rightarrow> bool" where
  "clearMissed H t actor s =
     (case fst (clearReached H t actor s) of
        Inl _ \<Rightarrow> False
      | Inr proofCfg \<Rightarrow> pc_RequireProof proofCfg \<and>
          (case fst (clearTyped H t proofCfg s) of
             Inl _ \<Rightarrow> False
           | Inr record \<Rightarrow> sint (bp_SubmittedAtMs record)
               > sint (bp_WindowCloseAtMs record + pc_ProofDeadlineMs proofCfg)))"

text \<open>
  \<open>verificationDuration\<close>: zero outside the gate; past the gate the time taken at its end, and on an early return (or
  if that was zero) the time the inner deferred function takes.
\<close>

definition verificationDuration ::
    "'s host \<Rightarrow> verifier_env \<Rightarrow> ClearBatch \<Rightarrow> Address \<Rightarrow> exec_clock \<Rightarrow> 's \<Rightarrow> i64" where
  "verificationDuration H V t actor k s =
     (case fst (clearReached H t actor s) of
        Inl _ \<Rightarrow> 0
      | Inr proofCfg \<Rightarrow>
          if \<not> pc_RequireProof proofCfg then 0
          else (case fst (clearGate H V t actor proofCfg s) of
                  Inr _ \<Rightarrow> if ec_verified k = 0 then ec_verifyEnd k else ec_verified k
                | Inl _ \<Rightarrow> ec_verifyEnd k))"

definition acceptedAtMs :: "i64 \<Rightarrow> error + 'r \<Rightarrow> i64" where
  "acceptedAtMs timestamp r = (case r of Inr _ \<Rightarrow> timestamp | Inl _ \<Rightarrow> 0)"

text \<open>What one execution on the state \<open>s\<close> reports.\<close>

fun reported ::
    "'s host \<Rightarrow> verifier_env \<Rightarrow> exec_clock \<Rightarrow> i64 \<Rightarrow> Address \<Rightarrow> ID \<Rightarrow> action \<Rightarrow> 's \<Rightarrow> metric_event list" where
  "reported H V k timestamp actor txID (ACommitOrder t) s =
     [RecordCommitMetric (co_MarketID t) (co_WindowID t) timestamp (ec_exec k)
        (deferred_err (fst (CommitOrder_Execute H t actor s)))]"
| "reported H V k timestamp actor txID (ARevealBatch t) s =
     [RecordRevealMetric (rb_MarketID t) (rb_WindowID t) (ec_exec k)
        (deferred_err (fst (RevealBatch_Execute H t s)))]"
| "reported H V k timestamp actor txID (ASubmitBatchProof a) s =
     [RecordProofSubmitMetric (sb_MarketID a) (sb_WindowID a) (sb_WindowCloseAtMs a) timestamp (ec_exec k)
        (submitMissed H a timestamp actor s)
        (deferred_err (fst (SubmitBatchProof_Execute H V a timestamp actor txID s)))]"
| "reported H V k timestamp actor txID (AClearBatch t) s =
     (let r = fst (ClearBatch_Execute H V t actor s) in
      [RecordClearMetric (cb_MarketID t) (cb_WindowID t) (acceptedAtMs timestamp r)
         (verificationDuration H V t actor k s) (ec_exec k) (clearMissed H t actor s) (deferred_err r)])"
| "reported H V k timestamp actor txID a s = []"

text \<open>\<open>Execute\<close> with the process-wide collector beside the chain state.\<close>

definition Execute_metered ::
    "metric_env \<Rightarrow> 's host \<Rightarrow> verifier_env \<Rightarrow> exec_clock \<Rightarrow> i64 \<Rightarrow> Address \<Rightarrow> ID \<Rightarrow> action
      \<Rightarrow> ('s \<times> zkMetricsCollector, unit) action_run" where
  "Execute_metered M H V k timestamp actor txID a = (\<lambda>(s, c).
     let (r, t) = Execute H V timestamp actor txID a s
     in (r, t, fold (apply_event M) (reported H V k timestamp actor txID a s) c))"

section \<open>Missed deadlines\<close>

lemma submitReached_run:
  assumes "fst (submitReached H a actor s) = Inr cfg"
  obtains m where "\<not> submitMalformed a" "GetMarket H s (sb_MarketID a) = Inr m"
    "mk_status m = MarketStatusActive" "GetProofConfig H s = Inr cfg" "pc_RequireProof cfg"
    "actor = pc_ProverAuthority cfg" "sb_ProofType a = pc_RequiredProofType cfg"
    "go_rem (sb_WindowCloseAtMs a) (pc_BatchWindowMs cfg) = Inr 0"
proof -
  have "submitReached H a actor s = (Inr cfg, snd (submitReached H a actor s))"
    using assms by (rule run_ok)
  then show thesis using that unfolding submitReached_def run_simps by force
qed

lemma submitMissed_fails:
  assumes "submitMissed H a timestamp actor s"
  shows "SubmitBatchProof_Execute H V a timestamp actor txID s = (Inl ErrProofDeadlineMissed, s)"
proof -
  obtain cfg where cfg: "fst (submitReached H a actor s) = Inr cfg"
    and late: "sint timestamp < sint (sb_WindowCloseAtMs a)
      \<or> sint timestamp > sint (sb_WindowCloseAtMs a + pc_ProofDeadlineMs cfg)"
    using assms by (auto simp: submitMissed_def split: sum.splits)
  from cfg show ?thesis
  proof (rule submitReached_run)
    fix m
    assume reached: "\<not> submitMalformed a" "GetMarket H s (sb_MarketID a) = Inr m"
      "mk_status m = MarketStatusActive" "GetProofConfig H s = Inr cfg" "pc_RequireProof cfg"
      "actor = pc_ProverAuthority cfg" "sb_ProofType a = pc_RequiredProofType cfg"
      and rem: "go_rem (sb_WindowCloseAtMs a) (pc_BatchWindowMs cfg) = Inr 0"
    have "submitTiming a cfg timestamp = Inl ErrProofDeadlineMissed"
      using late by (auto simp: submitTiming_def rem)
    then show ?thesis by (simp add: SubmitBatchProof_Execute_def go_defs reached)
  qed
qed

lemma clearReached_run:
  assumes "fst (clearReached H t actor s) = Inr cfg"
  obtains m where "cb_ClearPrice t \<noteq> 0" "length (cb_FillsHash t) = ExpectedFillsHashSize"
    "GetMarket H s (cb_MarketID t) = Inr m" "mk_status m = MarketStatusActive"
    "GetProofConfig H s = Inr cfg" "pc_RequireProof cfg \<Longrightarrow> actor = pc_ProverAuthority cfg"
proof -
  have "clearReached H t actor s = (Inr cfg, snd (clearReached H t actor s))"
    using assms by (rule run_ok)
  then show thesis using that unfolding clearReached_def run_simps by force
qed

lemma clearMissed_fails:
  assumes "clearMissed H t actor s"
  shows "ClearBatch_Execute H V t actor s = (Inl ErrProofDeadlineMissed, s)"
proof -
  obtain cfg r where cfg: "fst (clearReached H t actor s) = Inr cfg" "pc_RequireProof cfg"
    and typed: "fst (clearTyped H t cfg s) = Inr r"
    and late: "sint (bp_SubmittedAtMs r) > sint (bp_WindowCloseAtMs r + pc_ProofDeadlineMs cfg)"
    using assms by (auto simp: clearMissed_def split: sum.splits)
  have r: "GetBatchProofRecord H s (cb_MarketID t) (cb_WindowID t) = Inr r"
    "bp_ProofType r = pc_RequiredProofType cfg"
    using run_ok [OF typed] unfolding clearTyped_def run_simps by force+
  from cfg(1) show ?thesis
  proof (rule clearReached_run)
    fix m
    assume reached: "cb_ClearPrice t \<noteq> 0" "length (cb_FillsHash t) = ExpectedFillsHashSize"
      "GetMarket H s (cb_MarketID t) = Inr m" "mk_status m = MarketStatusActive"
      "GetProofConfig H s = Inr cfg" and actor: "pc_RequireProof cfg \<Longrightarrow> actor = pc_ProverAuthority cfg"
    have "clearGate H V t actor cfg s = (Inl ErrProofDeadlineMissed, s)"
      using late by (simp add: clearGate_def go_defs actor [OF cfg(2)] r)
    moreover have "cb_FillsHash t \<noteq> []" using reached(2) by auto
    ultimately show ?thesis by (simp add: ClearBatch_Execute_def go_defs reached cfg(2))
  qed
qed

lemma metered_run: "Execute_metered M H V k now actor tx a (s, c) =
    (fst (Execute H V now actor tx a s), snd (Execute H V now actor tx a s),
     fold (apply_event M) (reported H V k now actor tx a s) c)"
  by (simp add: Execute_metered_def case_prod_beta Let_def)

lemma deferred_run_only [simp]: "deferred_err (fst (run_only m s)) = deferred_err (fst (m s))"
  by (cases "m s"; cases "fst (m s)" rule: deferred_err.cases) (auto simp: run_only_def go_defs)

section \<open>A process\<close>

text \<open>
  Actions are executed again and again, when a block is built, verified and accepted, each time on the state of
  that moment.
\<close>

record 's execution =
  ex_clock :: exec_clock
  ex_timestamp :: i64
  ex_actor :: Address
  ex_txID :: ID
  ex_action :: action
  ex_state :: 's

definition outcome :: "'s host \<Rightarrow> verifier_env \<Rightarrow> 's execution \<Rightarrow> error + unit" where
  "outcome H V x = fst (Execute H V (ex_timestamp x) (ex_actor x) (ex_txID x) (ex_action x) (ex_state x))"

definition failed :: "'s host \<Rightarrow> verifier_env \<Rightarrow> 's execution \<Rightarrow> bool" where
  "failed H V x \<longleftrightarrow> deferred_err (outcome H V x) \<noteq> None"

fun missed :: "'s host \<Rightarrow> i64 \<Rightarrow> Address \<Rightarrow> action \<Rightarrow> 's \<Rightarrow> bool" where
  "missed H timestamp actor (ASubmitBatchProof a) s = submitMissed H a timestamp actor s"
| "missed H timestamp actor (AClearBatch t) s = clearMissed H t actor s"
| "missed H timestamp actor a s = False"

definition missed_deadline :: "'s host \<Rightarrow> 's execution \<Rightarrow> bool" where
  "missed_deadline H x = missed H (ex_timestamp x) (ex_actor x) (ex_action x) (ex_state x)"

definition meter ::
    "metric_env \<Rightarrow> 's host \<Rightarrow> verifier_env \<Rightarrow> 's execution \<Rightarrow> zkMetricsCollector \<Rightarrow> zkMetricsCollector" where
  "meter M H V x c = snd (snd (Execute_metered M H V (ex_clock x) (ex_timestamp x) (ex_actor x) (ex_txID x)
     (ex_action x) (ex_state x, c)))"

definition process_metrics ::
    "metric_env \<Rightarrow> int \<Rightarrow> 's host \<Rightarrow> verifier_env \<Rightarrow> 's execution list \<Rightarrow> zkMetricsCollector" where
  "process_metrics M n H V xs = fold (meter M H V) xs (newZKMetricsCollector n)"

definition tally :: "('x \<Rightarrow> bool) \<Rightarrow> 'x list \<Rightarrow> u64" where
  "tally P xs = of_nat (length (filter P xs))"

definition ended :: "u8 \<Rightarrow> bool \<Rightarrow> 's host \<Rightarrow> verifier_env \<Rightarrow> 's execution \<Rightarrow> bool" where
  "ended typeID ok H V x \<longleftrightarrow> GetTypeID (ex_action x) = typeID \<and> failed H V x = (\<not> ok)"

lemma tally_fold:
  assumes step: "\<And>x c. f (mc_summary (meter M H V x c)) = f (mc_summary c) + of_bool (P x)"
    and zero: "f zeroSummary = 0"
  shows "f (mc_summary (process_metrics M n H V xs)) = tally P xs"
proof -
  have "f (mc_summary (fold (meter M H V) xs c)) = f (mc_summary c) + tally P xs" for c
    by (induction xs arbitrary: c) (simp_all add: step tally_def)
  then show ?thesis by (simp add: process_metrics_def newZKMetricsCollector_def zero)
qed

lemma on_window_summary:
  "\<exists>k. mc_summary (on_window M m w f c)
    = (mc_summary c)\<lparr>ms_TotalWindowsObserved := ms_TotalWindowsObserved (mc_summary c) + k\<rparr>"
proof (cases "mc_windows c (zkWindowKey M m w)")
  case None
  then show ?thesis by (intro exI [of _ 1]) (simp add: on_window_def getOrCreateLocked_def Let_def)
next
  case (Some y)
  then show ?thesis by (intro exI [of _ 0]) (simp add: on_window_def getOrCreateLocked_def Let_def)
qed

lemma on_window_counters [simp]:
  "ms_TotalCommits (mc_summary (on_window M m w f c)) = ms_TotalCommits (mc_summary c)"
  "ms_TotalReveals (mc_summary (on_window M m w f c)) = ms_TotalReveals (mc_summary c)"
  "ms_TotalProofSubmissions (mc_summary (on_window M m w f c)) = ms_TotalProofSubmissions (mc_summary c)"
  "ms_TotalProofSubmissionErrors (mc_summary (on_window M m w f c)) = ms_TotalProofSubmissionErrors (mc_summary c)"
  "ms_TotalClears (mc_summary (on_window M m w f c)) = ms_TotalClears (mc_summary c)"
  "ms_TotalClearErrors (mc_summary (on_window M m w f c)) = ms_TotalClearErrors (mc_summary c)"
  "ms_TotalMissedProofDeadlines (mc_summary (on_window M m w f c)) = ms_TotalMissedProofDeadlines (mc_summary c)"
  using on_window_summary [of M m w f c] by auto

lemmas meter_defs = meter_def metered_run ended_def failed_def outcome_def missed_deadline_def record_defs Let_def
  on_summary_def countMissed_def

lemma meter_counters:
  "ms_TotalCommits (mc_summary (meter M H V x c)) = ms_TotalCommits (mc_summary c) + of_bool (ended 2 True H V x)"
  "ms_TotalReveals (mc_summary (meter M H V x c)) = ms_TotalReveals (mc_summary c) + of_bool (ended 3 True H V x)"
  "ms_TotalProofSubmissions (mc_summary (meter M H V x c))
    = ms_TotalProofSubmissions (mc_summary c) + of_bool (ended 17 True H V x)"
  "ms_TotalProofSubmissionErrors (mc_summary (meter M H V x c))
    = ms_TotalProofSubmissionErrors (mc_summary c) + of_bool (ended 17 False H V x)"
  "ms_TotalClears (mc_summary (meter M H V x c)) = ms_TotalClears (mc_summary c) + of_bool (ended 4 True H V x)"
  "ms_TotalClearErrors (mc_summary (meter M H V x c)) = ms_TotalClearErrors (mc_summary c) + of_bool (ended 4 False H V x)"
  "ms_TotalMissedProofDeadlines (mc_summary (meter M H V x c))
    = ms_TotalMissedProofDeadlines (mc_summary c) + of_bool (missed_deadline H x)"
  by (cases "ex_action x"; simp add: meter_defs split: option.split)+

lemma missed_outcome:
  assumes "missed_deadline H x"
  shows "outcome H V x = Inl ErrProofDeadlineMissed"
  using assms
  by (cases "ex_action x") (simp_all add: missed_deadline_def outcome_def run_only_def go_bind_def
      submitMissed_fails clearMissed_fails)

section \<open>Properties\<close>

text \<open>
  C31: However often and on whatever states a process executes actions, metering does not change what an execution does
  to the chain, and the totals of the collector count the outcomes, each modulo the width of a counter: the orders
  committed and batches revealed, the submissions and clears that returned without an error and those that returned one,
  and the deadlines missed; a missed deadline is always an execution that failed with \<open>ErrProofDeadlineMissed\<close>.
\<close>

theorem totals_count_outcomes:
  "(fst (Execute_metered M H V k now actor tx a (s, c)), fst (snd (Execute_metered M H V k now actor tx a (s, c))))
      = Execute H V now actor tx a s
    \<and> (let sum = mc_summary (process_metrics M n H V xs) in
        ms_TotalCommits sum = tally (ended 2 True H V) xs
        \<and> ms_TotalReveals sum = tally (ended 3 True H V) xs
        \<and> ms_TotalProofSubmissions sum = tally (ended 17 True H V) xs
        \<and> ms_TotalProofSubmissionErrors sum = tally (ended 17 False H V) xs
        \<and> ms_TotalClears sum = tally (ended 4 True H V) xs
        \<and> ms_TotalClearErrors sum = tally (ended 4 False H V) xs
        \<and> ms_TotalMissedProofDeadlines sum = tally (missed_deadline H) xs)
    \<and> (missed_deadline H x \<longrightarrow> outcome H V x = Inl ErrProofDeadlineMissed)"
  unfolding Let_def
  by (intro conjI impI tally_fold meter_counters missed_outcome)
    (simp_all add: metered_run zeroSummary_def)

definition quick :: exec_clock where
  "quick = \<lparr>ec_exec = 5000, ec_verified = 3000, ec_verifyEnd = 4000\<rparr>"

text \<open>A submission ten minutes after its window.\<close>

definition late_submission :: "mem execution" where
  "late_submission = \<lparr>ex_clock = quick, ex_timestamp = 605000, ex_actor = gov, ex_txID = 5,
     ex_action = ASubmitBatchProof window_submit, ex_state = window_start\<rparr>"

lemma late_submission_missed: "missed_deadline mem_host late_submission"
proof -
  have "GetMarket mem_host window_start 7 = Inr \<lparr>mk_status = 0, mk_outcomes = 2, mk_resolutionTime = 1,
      mk_resolvedOutcome = 0, mk_question = []\<rparr>"
    by (simp add: run_mem_defs window_start_def window_slots_def with_stored_def)
  with window_cfg_read
  have "fst (submitReached mem_host window_submit gov window_start) = Inr window_cfg"
    by (simp add: submitReached_def go_defs submitMalformed_def window_submit_def window_fills_def
        window_cfg_def go_rem_def)
  then show ?thesis
    by (simp add: missed_deadline_def late_submission_def submitMissed_def window_submit_def window_cfg_def)
qed

theorem totals_count_outcomes_witness:
  "ms_TotalMissedProofDeadlines (mc_summary (process_metrics plain_metrics 4 mem_host accept_all
      [late_submission, late_submission])) = 2
    \<and> outcome mem_host accept_all late_submission = Inl ErrProofDeadlineMissed"
  using totals_count_outcomes [of plain_metrics mem_host accept_all quick 0 gov 5 "ASubmitBatchProof window_submit"
      window_start "newZKMetricsCollector 4" 4 "[late_submission, late_submission]" late_submission]
    late_submission_missed
  by (simp add: tally_def Let_def)

end
