(* ===== verification/Launch.thy ===== *)
theory Launch
  imports Genesis
begin

text \<open>
  How a chain comes to life: \<open>Factory.Load\<close> of \<open>genesis/genesis.go\<close> reads the genesis a node is given, and
  \<open>cmd/veilvm-keygen\<close> writes the genesis of a new network for a fresh key.

  JSON decoding, the rules of HyperSDK and its default branch factor are parameters (\<open>genesis_env\<close>). The
  theorem: for every key the generated genesis needs no default, passes validation and starts a chain with the supply it
  declares.
\<close>

section \<open>Loading\<close>

text \<open>A genesis file: the fields of the VM and the ones HyperSDK owns, with its rules of type \<open>'r\<close>.\<close>

record 'r genesis_file =
  gf_StateBranchFactor :: nat
  gf_Rules :: "'r option"
  gf_Genesis :: Genesis

record 'r genesis_env =
  json_Unmarshal :: "bytes \<Rightarrow> error + 'r genesis_file"
  BranchFactor16 :: nat
  NewDefaultRules :: 'r
  set_NetworkID :: "u32 \<Rightarrow> 'r \<Rightarrow> 'r"
  set_ChainID :: "ID \<Rightarrow> 'r \<Rightarrow> 'r"

definition Factory_Load :: "'r genesis_env \<Rightarrow> bytes \<Rightarrow> u32 \<Rightarrow> ID \<Rightarrow> error + 'r genesis_file" where
  "Factory_Load N genesisBytes networkID chainID =
     (case json_Unmarshal N genesisBytes of
        Inl err \<Rightarrow> Inl err
      | Inr g \<Rightarrow>
          let branch = (if gf_StateBranchFactor g = 0 then BranchFactor16 N else gf_StateBranchFactor g);
              rules = (case gf_Rules g of None \<Rightarrow> NewDefaultRules N | Some r \<Rightarrow> r)
          in Inr \<lparr>gf_StateBranchFactor = branch,
               gf_Rules = Some (set_ChainID N chainID (set_NetworkID N networkID rules)),
               gf_Genesis = (if ge_Tokenomics (gf_Genesis g) \<noteq> None
                 then applyTokenomicsDefaults (gf_Genesis g) else gf_Genesis g)\<rparr>)"

section \<open>The generated genesis\<close>

definition keygen_tokenomics :: "Address \<Rightarrow> Tokenomics" where
  "keygen_tokenomics addr = \<lparr>tk_TotalSupply = 990999000,
     tk_Governance = addr, tk_Operations = addr, tk_MintAuthority = addr,
     tk_COLVaultLocked = 900000000, tk_COLVaultLive = 41449050,
     tk_MaxReleaseBips = 15, tk_ReleaseEpochSeconds = 86400,
     tk_FeeRouterMSRBBips = 7000, tk_FeeRouterCOLBips = 2000, tk_FeeRouterOpsBips = 1000,
     tk_VAIDebtCeiling = 2000000, tk_VAIEpochMintLimit = 100000, tk_VAIMintEpochSeconds = 3600,
     tk_BackingFloorBips = 10000, tk_VEILLtvBips = 3000, tk_WVEILLtvBips = 3500, tk_WSVEILLtvBips = 0,
     tk_VEILHaircutBips = 6000, tk_WVEILHaircutBips = 5500, tk_WSVEILHaircutBips = 10000,
     tk_ExogenousReserveInit = 2000000, tk_VAIBufferInit = 0,
     tk_RequireBatchProof = True, tk_RequiredProofType = ProofTypeGroth16,
     tk_BatchWindowMs = 5000, tk_ProofDeadlineMs = 10000, tk_ProverAuthority = addr\<rparr>"

definition keygen_genesis :: "Address \<Rightarrow> Genesis" where
  "keygen_genesis addr = \<lparr>ge_CustomAllocation = [\<lparr>ca_Address = addr, ca_Balance = 49549950\<rparr>],
     ge_Tokenomics = Some (keygen_tokenomics addr)\<rparr>"

text \<open>The rules of HyperSDK, by the fields the generator sets; \<open>'x\<close> are the others.\<close>

record Rules =
  ru_MinBlockGap :: i64
  ru_MinEmptyBlockGap :: i64
  ru_ValidityWindow :: i64
  ru_MaxActionsPerTx :: u8
  ru_MaxOutputsPerAction :: u8
  ru_WindowTargetUnits :: "u64 list"
  ru_MaxBlockUnits :: "u64 list"
  ru_NetworkID :: u32
  ru_ChainID :: ID

abbreviation jsMax :: u64 where "jsMax \<equiv> 9007199254740991"

definition keygen_rules :: "'x Rules_scheme \<Rightarrow> 'x Rules_scheme" where
  "keygen_rules r = r\<lparr>ru_MinBlockGap := 100, ru_MinEmptyBlockGap := 500, ru_ValidityWindow := 120000,
     ru_MaxActionsPerTx := 16, ru_MaxOutputsPerAction := 1,
     ru_WindowTargetUnits := [jsMax, jsMax, jsMax, jsMax, jsMax],
     ru_MaxBlockUnits := [1800000, jsMax, jsMax, jsMax, jsMax],
     ru_NetworkID := 0, ru_ChainID := 0\<rparr>"

record ('k, 'x) keygen_env =
  GeneratePrivateKey :: "error + 'k"
  NewED25519Address :: "'k \<Rightarrow> Address"
  id_String :: "ID \<Rightarrow> bytes"
  json_MarshalIndent :: "'x Rules_scheme genesis_file \<Rightarrow> error + bytes"
  keygen_BranchFactor16 :: nat
  keygen_DefaultRules :: "'x Rules_scheme"

definition keygen_file :: "('k, 'x) keygen_env \<Rightarrow> Address \<Rightarrow> 'x Rules_scheme genesis_file" where
  "keygen_file K addr = \<lparr>gf_StateBranchFactor = keygen_BranchFactor16 K,
     gf_Rules = Some (keygen_rules (keygen_DefaultRules K)), gf_Genesis = keygen_genesis addr\<rparr>"

text \<open>The identifier under which the VM is registered: \<open>consts/consts.go\<close> copies its name into 32 zero bytes.\<close>

definition consts_Name :: bytes where
  "consts_Name = go_str ''veilvm''"

definition consts_ID :: ID where
  "consts_ID = of_be (take 32 consts_Name @ drop (length consts_Name) (replicate 32 0))"

text \<open>
  \<open>main\<close> of the generator: what it writes to standard output, less the final newline. With \<open>--vm-id\<close> that
  is the identifier of the VM, the name padded to 32 bytes.
\<close>

definition keygen_main :: "('k, 'x) keygen_env \<Rightarrow> bytes list \<Rightarrow> error + bytes" where
  "keygen_main K args =
     (if length args > 1 \<and> args ! 1 = go_str ''--vm-id''
      then Inr (id_String K (of_be (go_str ''veilvm'' @ replicate 26 0)))
      else case GeneratePrivateKey K of
        Inl err \<Rightarrow> Inl err
      | Inr priv \<Rightarrow> json_MarshalIndent K (keygen_file K (NewED25519Address K priv)))"

text \<open>The generator prints the identifier the VM registers, and ignores what follows the flag.\<close>

lemma keygen_vm_id: "keygen_main K (prog # go_str ''--vm-id'' # rest) = Inr (id_String K consts_ID)"
  by (simp add: keygen_main_def consts_ID_def consts_Name_def go_str_def eval_nat_numeral)

section \<open>A valid genesis starts a chain\<close>

lemma go_bind_total:
  assumes "\<exists>t. m s = (Inr (), t)" and "\<And>t. \<exists>u. f () t = (Inr (), u)"
  shows "\<exists>u. go_bind m f s = (Inr (), u)"
  using assms by (auto simp: go_bind_def)

context total_env
begin

lemma config_puts_total:
  "\<exists>t. PutTreasuryConfig H c1 s = (Inr (), t)" "\<exists>t. PutTreasuryState H c2 s = (Inr (), t)"
  "\<exists>t. PutFeeRouterConfig H c3 s = (Inr (), t)" "\<exists>t. PutFeeRouterState H c4 s = (Inr (), t)"
  "\<exists>t. PutVAIConfig H c5 s = (Inr (), t)" "\<exists>t. PutVAIState H c6 s = (Inr (), t)"
  "\<exists>t. PutReserveState H c8 s = (Inr (), t)"
  by (simp_all add: PutTreasuryConfig_def PutTreasuryState_def PutFeeRouterConfig_def PutFeeRouterState_def
      PutVAIConfig_def PutVAIState_def PutReserveState_def insert_total)

lemma InitializeState_succeeds:
  assumes "ge_Tokenomics g = Some k" and "\<exists>t. baseInit (ge_CustomAllocation g) s = (Inr (), t)"
    and "validateTokenomics H (ge_CustomAllocation g) k = Inr ()"
    and "validateRiskConfig (riskConfigOf k) = Inr ()" and "validateProofConfig (proofConfigOf k) = Inr ()"
  shows "\<exists>t. InitializeState H baseInit g s = (Inr (), t)"
proof -
  have "\<exists>t. PutRiskConfig H (riskConfigOf k) u = (Inr (), t)" "\<exists>t. PutProofConfig H (proofConfigOf k) u = (Inr (), t)"
    for u
    using assms(4,5) by (simp_all add: PutRiskConfig_def PutProofConfig_def go_defs insert_total)
  then show ?thesis
    unfolding InitializeState_def assms(1) option.case
    by (intro go_bind_total assms(2) config_puts_total) (simp_all add: go_lift_def assms(3))
qed

end

lemma keygen_defaults: "applyTokenomicsDefaults (keygen_genesis addr) = keygen_genesis addr"
  by (simp add: applyTokenomicsDefaults_def keygen_genesis_def keygen_tokenomics_def default_defs
      or_default_def)

lemma keygen_configs:
  "addr \<noteq> 0 \<Longrightarrow> validateParameters (keygen_tokenomics addr) = Inr ()"
  "validateRiskConfig (riskConfigOf (keygen_tokenomics addr)) = Inr ()"
  "addr \<noteq> 0 \<Longrightarrow> validateProofConfig (proofConfigOf (keygen_tokenomics addr)) = Inr ()"
  by (simp_all add: keygen_tokenomics_def validateParameters_def validateRiskConfig_def validateProofConfig_def
      riskConfigOf_def proofConfigOf_def bipsDenominator_def)

lemma keygen_valid:
  assumes "host_env H" and "addr \<noteq> 0"
  shows "validateTokenomics H (ge_CustomAllocation (keygen_genesis addr)) (keygen_tokenomics addr) = Inr ()"
proof -
  have "smath_Add H 0 49549950 = Inr 49549950" "smath_Add H 49549950 900000000 = Inr 949549950"
    "smath_Add H 949549950 41449050 = Inr 990999000"
    using checked_math.add_fits [OF host_env.axioms(1) [OF assms(1)], of 0 49549950]
      checked_math.add_fits [OF host_env.axioms(1) [OF assms(1)], of 49549950 900000000]
      checked_math.add_fits [OF host_env.axioms(1) [OF assms(1)], of 949549950 41449050]
    by simp_all
  then show ?thesis
    using keygen_configs(1) [OF assms(2)]
    by (simp add: validateTokenomics_def keygen_genesis_def keygen_tokenomics_def)
qed

section \<open>Properties\<close>

text \<open>
  C29: What the key generator prints starts a chain: for any generated key with a non-zero address a node that is
  given the printed file loads that genesis, keeps the validity window of two minutes and the single output per action that
  were written, initializes successfully, and the chain holds exactly what was declared, the launch float in
  accounts and the rest of the total supply in the vault.
\<close>

theorem generated_genesis_starts:
  assumes "total_env H" and "base_genesis H baseInit"
    and "keygen_main K args = Inr bs" and "length args \<le> 1"
    and "GeneratePrivateKey K = Inr priv" and "addr = NewED25519Address K priv" and "addr \<noteq> 0"
    and "\<forall>f bs. json_MarshalIndent K f = Inr bs \<longrightarrow> json_Unmarshal N bs = Inr f"
    and "set_NetworkID N = (\<lambda>n r. r\<lparr>ru_NetworkID := n\<rparr>)" and "set_ChainID N = (\<lambda>c r. r\<lparr>ru_ChainID := c\<rparr>)"
    and "\<exists>u. baseInit (ge_CustomAllocation (keygen_genesis addr)) s = (Inr (), u)"
    and "fresh (economy_of H s)"
  shows "\<exists>loaded rules t st. Factory_Load N bs networkID chainID = Inr loaded
    \<and> gf_Genesis loaded = keygen_genesis addr
    \<and> gf_Rules loaded = Some rules \<and> ru_NetworkID rules = networkID \<and> ru_ChainID rules = chainID
    \<and> ru_ValidityWindow rules = 120000 \<and> ru_MaxOutputsPerAction rules = 1
    \<and> InitializeState H baseInit (gf_Genesis loaded) s = (Inr (), t)
    \<and> veil_supply (economy_of H t) = 49549950 \<and> GetTreasuryState H t = Inr st
    \<and> veil_supply (economy_of H t) + unat (ts_Locked st) + unat (ts_Live st) = 990999000"
proof -
  let ?g = "keygen_genesis addr" and ?k = "keygen_tokenomics addr"
  have k: "ge_Tokenomics ?g = Some ?k" by (simp add: keygen_genesis_def)
  have json: "json_Unmarshal N bs = Inr (keygen_file K addr)"
    using assms(3-6,8) by (auto simp: keygen_main_def)
  have load: "\<exists>loaded rules. Factory_Load N bs networkID chainID = Inr loaded \<and> gf_Genesis loaded = ?g
      \<and> gf_Rules loaded = Some rules \<and> ru_NetworkID rules = networkID \<and> ru_ChainID rules = chainID
      \<and> ru_ValidityWindow rules = 120000 \<and> ru_MaxOutputsPerAction rules = 1"
    by (simp add: Factory_Load_def Let_def json keygen_file_def keygen_defaults keygen_rules_def assms(9,10))
  obtain t where t: "InitializeState H baseInit ?g s = (Inr (), t)"
    using total_env.InitializeState_succeeds [where baseInit = baseInit, OF assms(1) k assms(11)
        keygen_valid [OF total_env.axioms(1) [OF assms(1)] assms(7)] keygen_configs(2)
        keygen_configs(3) [OF assms(7)]] by blast
  have "veil_supply (economy_of H t) = 49549950"
    using base_genesis.genesis_economy(1) [OF assms(2) t k assms(12)]
    by (simp add: keygen_genesis_def allocated_def)
  moreover have "GetTreasuryState H t = Inr (treasuryStateOf ?k)"
    by (rule base_genesis.InitializeState_run(4) [OF assms(2) t k])
  moreover have "unat (ts_Locked (treasuryStateOf ?k)) = 900000000"
    "unat (ts_Live (treasuryStateOf ?k)) = 41449050"
    by (simp_all add: treasuryStateOf_def keygen_tokenomics_def)
  ultimately show ?thesis using load t by fastforce
qed

definition plain_rules :: Rules where
  "plain_rules = \<lparr>ru_MinBlockGap = 0, ru_MinEmptyBlockGap = 0, ru_ValidityWindow = 60000, ru_MaxActionsPerTx = 16,
     ru_MaxOutputsPerAction = 1, ru_WindowTargetUnits = [], ru_MaxBlockUnits = [], ru_NetworkID = 1, ru_ChainID = 0\<rparr>"

text \<open>A key is its address; a file is printed as nothing and read back as the one file there is.\<close>

definition plain_keygen :: "(Address, unit) keygen_env" where
  "plain_keygen = \<lparr>GeneratePrivateKey = Inr alice, NewED25519Address = (\<lambda>k. k), id_String = be_bytes 32,
     json_MarshalIndent = (\<lambda>f. if f = \<lparr>gf_StateBranchFactor = 16, gf_Rules = Some (keygen_rules plain_rules),
         gf_Genesis = keygen_genesis alice\<rparr> then Inr [] else Inl (HostError ''unsupported'')),
     keygen_BranchFactor16 = 16, keygen_DefaultRules = plain_rules\<rparr>"

definition plain_files :: "Rules genesis_env" where
  "plain_files = \<lparr>
     json_Unmarshal = (\<lambda>_. Inr \<lparr>gf_StateBranchFactor = 16, gf_Rules = Some (keygen_rules plain_rules),
       gf_Genesis = keygen_genesis alice\<rparr>),
     BranchFactor16 = 16, NewDefaultRules = plain_rules, set_NetworkID = (\<lambda>n r. r\<lparr>ru_NetworkID := n\<rparr>),
     set_ChainID = (\<lambda>c r. r\<lparr>ru_ChainID := c\<rparr>)\<rparr>"

theorem generated_genesis_starts_witness:
  "\<exists>loaded rules t. Factory_Load plain_files [] 7 9 = Inr loaded
    \<and> gf_Rules loaded = Some rules \<and> ru_ValidityWindow rules = 120000
    \<and> InitializeState mem_host (creditEach mem_host) (gf_Genesis loaded) Map.empty = (Inr (), t)
    \<and> veil_supply (economy_of mem_host t) = 49549950"
proof -
  have "fst (creditEach mem_host (ge_CustomAllocation (keygen_genesis alice)) (store [])) = Inr ()"
    by (simp add: keygen_genesis_def HandlerAddBalance_def run_mem_defs)
  then have base: "\<exists>u. creditEach mem_host (ge_CustomAllocation (keygen_genesis alice)) Map.empty = (Inr (), u)"
    by (auto simp: store_def prod_eq_iff)
  have "keygen_main plain_keygen [go_str ''keygen''] = Inr []" "GeneratePrivateKey plain_keygen = Inr alice"
    "alice = NewED25519Address plain_keygen alice" "alice \<noteq> 0"
    "\<forall>f bs. json_MarshalIndent plain_keygen f = Inr bs \<longrightarrow> json_Unmarshal plain_files bs = Inr f"
    by (simp_all add: keygen_main_def plain_keygen_def plain_files_def keygen_file_def)
  from generated_genesis_starts [OF mem_total_env mem_base this(1) _ this(2-5) _ _ base empty_fresh, of 7 9]
  show ?thesis by (auto simp: plain_files_def)
qed

end
