(* ===== verification/Vm_Client.thy ===== *)
theory Vm_Client
  imports Vm_Server Vm_Codec Launch
begin

text \<open>
  \<open>vm/client.go\<close>: the client of the JSON-RPC API, and what it sees of a chain.

  Sending a request and decoding its reply is HyperSDK's requester, a parameter \<open>send\<close> over the state \<open>'w\<close> of
  the node: a method name and an argument give an error or a reply. \<open>rpc_table\<close> is the interface that
  \<open>NewJSONRPCHandler\<close> registers, the handlers of \<open>Vm_Server\<close> under the names the client uses; \<open>rpc_endpoint\<close> states that the
  requester reaches it. A reply of a type the client did not ask for is a decoding error. The client caches the genesis
  and the rules. The theorem: through the client every account, market, pool and record is
  seen as the actions see it.
\<close>

section \<open>Requests\<close>

datatype rpc_args = NoArgs
  | Balance_args BalanceArgs
  | Market_args MarketArgs
  | Pool_args PoolArgs
  | LPBalance_args LPBalanceArgs
  | VAIBalance_args VAIBalanceArgs
  | BatchProof_args BatchProofArgs
  | VellumProof_args VellumProofArgs
  | Bloodsworn_args BloodswornArgs
  | Glyph_args GlyphArgs
  | ClearInputsHash_args ClearInputsHashArgs
  | ZKMetrics_args ZKMetricsArgs
  | RecordZKProverMetrics_args RecordZKProverMetricsArgs

datatype 'r rpc_reply = Genesis_reply "'r genesis_file"
  | Balance_reply BalanceReply
  | Market_reply MarketReply
  | Pool_reply PoolReply
  | LPBalance_reply LPBalanceReply
  | VAIBalance_reply VAIBalanceReply
  | VAIState_reply VAIStateReply
  | Treasury_reply TreasuryReply
  | FeeRouter_reply FeeRouterReply
  | Risk_reply RiskReply
  | Reserve_reply ReserveReply
  | ProofConfig_reply ProofConfigReply
  | BatchProof_reply BatchProofReply
  | VellumProof_reply VellumProofReply
  | Bloodsworn_reply BloodswornReply
  | Glyph_reply GlyphReply
  | ClearInputsHash_reply ClearInputsHashReply
  | ZKMetrics_reply ZKMetricsSnapshot
  | ResetZKMetrics_reply ZKMetricsResetReply
  | RecordZKProverMetrics_reply RecordZKProverMetricsReply

type_synonym ('w, 'r) requester = "string \<Rightarrow> rpc_args \<Rightarrow> ('w, 'r rpc_reply) action_run"

section \<open>The client\<close>

record 'r JSONRPCClient =
  cl_g :: "'r genesis_file option"
  cl_ruleFactory :: "'r option"

definition NewJSONRPCClient :: "'r JSONRPCClient" where
  "NewJSONRPCClient = \<lparr>cl_g = None, cl_ruleFactory = None\<rparr>"

text \<open>\<open>resp := new(T); err := cli.requester.SendRequest(ctx, method, args, resp)\<close>.\<close>

definition request ::
    "('w, 'r) requester \<Rightarrow> string \<Rightarrow> rpc_args \<Rightarrow> ('r rpc_reply \<Rightarrow> 'a option) \<Rightarrow> ('w, 'a) action_run" where
  "request send method args resp =
     go_bind (send method args) (\<lambda>r. case resp r of
        None \<Rightarrow> go_fail (HostError ''unexpected reply'')
      | Some x \<Rightarrow> go_return x)"

text \<open>The methods that use the client's own fields run on the client and the node.\<close>

definition on_node :: "('w, 'a) action_run \<Rightarrow> ('c \<times> 'w, 'a) action_run" where
  "on_node m = (\<lambda>(c, w). case m w of (r, w') \<Rightarrow> (r, c, w'))"

definition Client_Genesis :: "('w, 'r) requester \<Rightarrow> ('r JSONRPCClient \<times> 'w, 'r genesis_file) action_run" where
  "Client_Genesis send = (\<lambda>(cli, w).
     case cl_g cli of
       Some g \<Rightarrow> (Inr g, cli, w)
     | None \<Rightarrow>
         go_bind (on_node (request send ''genesis'' NoArgs (\<lambda>r. case r of Genesis_reply g \<Rightarrow> Some g | _ \<Rightarrow> None)))
           (\<lambda>g. \<lambda>(c, w). (Inr g, c\<lparr>cl_g := Some g\<rparr>, w)) (cli, w))"

definition Client_Balance ::
    "('w, 'r) requester \<Rightarrow> Address \<Rightarrow> ('w, u64) action_run" where
  "Client_Balance send addr =
     request send ''balance'' (Balance_args \<lparr>ba_Address = addr\<rparr>)
       (\<lambda>r. case r of Balance_reply x \<Rightarrow> Some (br_Amount x) | _ \<Rightarrow> None)"

definition Client_Market ::
    "('w, 'r) requester \<Rightarrow> ID \<Rightarrow> ('w, MarketReply) action_run" where
  "Client_Market send marketID =
     request send ''market'' (Market_args \<lparr>ma_MarketID = marketID\<rparr>)
       (\<lambda>r. case r of Market_reply x \<Rightarrow> Some x | _ \<Rightarrow> None)"

definition Client_Pool ::
    "('w, 'r) requester \<Rightarrow> u8 \<Rightarrow> u8 \<Rightarrow> ('w, PoolReply) action_run" where
  "Client_Pool send asset0 asset1 =
     request send ''pool'' (Pool_args \<lparr>pa_Asset0 = asset0, pa_Asset1 = asset1\<rparr>)
       (\<lambda>r. case r of Pool_reply x \<Rightarrow> Some x | _ \<Rightarrow> None)"

definition Client_LPBalance ::
    "('w, 'r) requester \<Rightarrow> u8 \<Rightarrow> u8 \<Rightarrow> Address \<Rightarrow> ('w, u64) action_run" where
  "Client_LPBalance send asset0 asset1 addr =
     request send ''lpbalance'' (LPBalance_args \<lparr>la_Asset0 = asset0, la_Asset1 = asset1, la_Address = addr\<rparr>)
       (\<lambda>r. case r of LPBalance_reply x \<Rightarrow> Some (lr_Amount x) | _ \<Rightarrow> None)"

definition Client_VAIBalance ::
    "('w, 'r) requester \<Rightarrow> Address \<Rightarrow> ('w, u64) action_run" where
  "Client_VAIBalance send addr =
     request send ''vaibalance'' (VAIBalance_args \<lparr>vaa_Address = addr\<rparr>)
       (\<lambda>r. case r of VAIBalance_reply x \<Rightarrow> Some (var_Amount x) | _ \<Rightarrow> None)"

definition Client_VAIState ::
    "('w, 'r) requester \<Rightarrow> ('w, VAIStateReply) action_run" where
  "Client_VAIState send =
     request send ''vaistate'' NoArgs
       (\<lambda>r. case r of VAIState_reply x \<Rightarrow> Some x | _ \<Rightarrow> None)"

definition Client_Treasury ::
    "('w, 'r) requester \<Rightarrow> ('w, TreasuryReply) action_run" where
  "Client_Treasury send =
     request send ''treasury'' NoArgs
       (\<lambda>r. case r of Treasury_reply x \<Rightarrow> Some x | _ \<Rightarrow> None)"

definition Client_FeeRouter ::
    "('w, 'r) requester \<Rightarrow> ('w, FeeRouterReply) action_run" where
  "Client_FeeRouter send =
     request send ''feerouter'' NoArgs
       (\<lambda>r. case r of FeeRouter_reply x \<Rightarrow> Some x | _ \<Rightarrow> None)"

definition Client_Risk ::
    "('w, 'r) requester \<Rightarrow> ('w, RiskReply) action_run" where
  "Client_Risk send =
     request send ''risk'' NoArgs
       (\<lambda>r. case r of Risk_reply x \<Rightarrow> Some x | _ \<Rightarrow> None)"

definition Client_Reserve ::
    "('w, 'r) requester \<Rightarrow> ('w, ReserveReply) action_run" where
  "Client_Reserve send =
     request send ''reserve'' NoArgs
       (\<lambda>r. case r of Reserve_reply x \<Rightarrow> Some x | _ \<Rightarrow> None)"

definition Client_ProofConfig ::
    "('w, 'r) requester \<Rightarrow> ('w, ProofConfigReply) action_run" where
  "Client_ProofConfig send =
     request send ''proofconfig'' NoArgs
       (\<lambda>r. case r of ProofConfig_reply x \<Rightarrow> Some x | _ \<Rightarrow> None)"

definition Client_BatchProof ::
    "('w, 'r) requester \<Rightarrow> ID \<Rightarrow> u64 \<Rightarrow> ('w, BatchProofReply) action_run" where
  "Client_BatchProof send marketID windowID =
     request send ''batchproof'' (BatchProof_args \<lparr>bpa_MarketID = marketID, bpa_WindowID = windowID\<rparr>)
       (\<lambda>r. case r of BatchProof_reply x \<Rightarrow> Some x | _ \<Rightarrow> None)"

definition Client_VellumProof ::
    "('w, 'r) requester \<Rightarrow> ID \<Rightarrow> u64 \<Rightarrow> ('w, VellumProofReply) action_run" where
  "Client_VellumProof send marketID windowID =
     request send ''vellumproof'' (VellumProof_args \<lparr>vpa_MarketID = marketID, vpa_WindowID = windowID\<rparr>)
       (\<lambda>r. case r of VellumProof_reply x \<Rightarrow> Some x | _ \<Rightarrow> None)"

definition Client_Bloodsworn ::
    "('w, 'r) requester \<Rightarrow> Address \<Rightarrow> ('w, BloodswornReply) action_run" where
  "Client_Bloodsworn send addr =
     request send ''bloodsworn'' (Bloodsworn_args \<lparr>bsa_Address = addr\<rparr>)
       (\<lambda>r. case r of Bloodsworn_reply x \<Rightarrow> Some x | _ \<Rightarrow> None)"

definition Client_Glyph ::
    "('w, 'r) requester \<Rightarrow> ID \<Rightarrow> u64 \<Rightarrow> ('w, GlyphReply) action_run" where
  "Client_Glyph send marketID windowID =
     request send ''glyph'' (Glyph_args \<lparr>gla_MarketID = marketID, gla_WindowID = windowID\<rparr>)
       (\<lambda>r. case r of Glyph_reply x \<Rightarrow> Some x | _ \<Rightarrow> None)"

definition Client_ClearInputsHash ::
    "('w, 'r) requester \<Rightarrow> ID \<Rightarrow> u64 \<Rightarrow> u64 \<Rightarrow> u64 \<Rightarrow> bytes \<Rightarrow> ('w, ClearInputsHashReply) action_run" where
  "Client_ClearInputsHash send marketID windowID clearPrice totalVolume fillsHash =
     request send ''clearinputshash'' (ClearInputsHash_args \<lparr>cia_MarketID = marketID, cia_WindowID = windowID, cia_ClearPrice = clearPrice,
        cia_TotalVolume = totalVolume, cia_FillsHash = fillsHash\<rparr>)
       (\<lambda>r. case r of ClearInputsHash_reply x \<Rightarrow> Some x | _ \<Rightarrow> None)"

definition Client_ZKMetrics ::
    "('w, 'r) requester \<Rightarrow> u32 \<Rightarrow> bool \<Rightarrow> ('w, ZKMetricsSnapshot) action_run" where
  "Client_ZKMetrics send limit includeWindows =
     request send ''zkmetrics'' (ZKMetrics_args \<lparr>zma_Limit = limit, zma_IncludeWindows = includeWindows\<rparr>)
       (\<lambda>r. case r of ZKMetrics_reply x \<Rightarrow> Some x | _ \<Rightarrow> None)"

definition Client_ResetZKMetrics ::
    "('w, 'r) requester \<Rightarrow> ('w, unit) action_run" where
  "Client_ResetZKMetrics send =
     request send ''zkmetricsreset'' NoArgs
       (\<lambda>r. case r of ResetZKMetrics_reply x \<Rightarrow> Some () | _ \<Rightarrow> None)"

definition Client_RecordZKProverMetrics ::
    "('w, 'r) requester \<Rightarrow> ID \<Rightarrow> u64 \<Rightarrow> u32 \<Rightarrow> i64 \<Rightarrow> i64 \<Rightarrow> ('w, unit) action_run" where
  "Client_RecordZKProverMetrics send marketID windowID batchSizeHint witnessBuildMs proofGenerationMs =
     request send ''recordzkprovermetrics'' (RecordZKProverMetrics_args \<lparr>rpa_MarketID = marketID, rpa_WindowID = windowID, rpa_BatchSizeHint = batchSizeHint,
        rpa_WitnessBuildMs = witnessBuildMs, rpa_ProofGenerationMs = proofGenerationMs\<rparr>)
       (\<lambda>r. case r of RecordZKProverMetrics_reply x \<Rightarrow> Some () | _ \<Rightarrow> None)"

text \<open>\<open>jsonrpc.Wait\<close> of HyperSDK repeats a check until it holds, fails or the context ends.\<close>

definition Client_WaitForBalance ::
    "(('w, bool) action_run \<Rightarrow> ('w, unit) action_run) \<Rightarrow> ('w, 'r) requester \<Rightarrow> Address \<Rightarrow> u64
      \<Rightarrow> ('w, unit) action_run" where
  "Client_WaitForBalance wait send addr minBalance =
     wait (go_bind (Client_Balance send addr) (\<lambda>balance. go_return (balance \<ge> minBalance)))"

definition Client_GetRuleFactory ::
    "('w, 'r) requester \<Rightarrow> ('r JSONRPCClient \<times> 'w, 'r option) action_run" where
  "Client_GetRuleFactory send = (\<lambda>(cli, w).
     case cl_ruleFactory cli of
       Some f \<Rightarrow> (Inr (Some f), cli, w)
     | None \<Rightarrow>
         go_bind (Client_Genesis send) (\<lambda>networkGenesis. \<lambda>(c, w).
           (Inr (gf_Rules networkGenesis), c\<lparr>cl_ruleFactory := gf_Rules networkGenesis\<rparr>, w)) (cli, w))"

definition Client_GetParser :: "linear_codec \<Rightarrow> (u8 \<times> (bytes \<Rightarrow> error + action)) list" where
  "Client_GetParser C = ActionParser C"

section \<open>The node behind it\<close>

text \<open>
  A node: the VM a handler reads, the process-wide collector, and the genesis the chain was started with.
\<close>

record ('s, 'r) node =
  nd_vm :: "'s api_vm"
  nd_metrics :: zkMetricsCollector
  nd_genesis :: "'r genesis_file"

definition handler ::
    "('a \<Rightarrow> error + 'b) \<Rightarrow> ('b \<Rightarrow> 'r rpc_reply) \<Rightarrow> 'a \<Rightarrow> (('s, 'r) node, 'r rpc_reply) action_run" where
  "handler f reply a = go_lift (case f a of Inl err \<Rightarrow> Inl err | Inr b \<Rightarrow> Inr (reply b))"

text \<open>An argument of the wrong type does not decode.\<close>

definition with_args ::
    "(rpc_args \<Rightarrow> 'a option) \<Rightarrow> ('a \<Rightarrow> ('w, 'b) action_run) \<Rightarrow> rpc_args \<Rightarrow> ('w, 'b) action_run" where
  "with_args decode f args = (case decode args of
     None \<Rightarrow> go_fail (HostError ''invalid arguments'') | Some a \<Rightarrow> f a)"

definition rpc_table ::
    "'s host \<Rightarrow> metric_env \<Rightarrow> i64 \<Rightarrow> (string \<times> (rpc_args \<Rightarrow> (('s, 'r) node, 'r rpc_reply) action_run)) list" where
  "rpc_table H M nowMs =
     [(''genesis'', \<lambda>_ nd. handler Server_Genesis Genesis_reply (nd_genesis nd) nd),
      (''balance'', \<lambda>args nd. with_args (\<lambda>x. case x of Balance_args a \<Rightarrow> Some a | _ \<Rightarrow> None)
        (handler (Server_Balance H (nd_vm nd)) Balance_reply) args nd),
      (''market'', \<lambda>args nd. with_args (\<lambda>x. case x of Market_args a \<Rightarrow> Some a | _ \<Rightarrow> None)
        (handler (Server_Market H (nd_vm nd)) Market_reply) args nd),
      (''pool'', \<lambda>args nd. with_args (\<lambda>x. case x of Pool_args a \<Rightarrow> Some a | _ \<Rightarrow> None)
        (handler (Server_Pool H (nd_vm nd)) Pool_reply) args nd),
      (''lpbalance'', \<lambda>args nd. with_args (\<lambda>x. case x of LPBalance_args a \<Rightarrow> Some a | _ \<Rightarrow> None)
        (handler (Server_LPBalance H (nd_vm nd)) LPBalance_reply) args nd),
      (''vaibalance'', \<lambda>args nd. with_args (\<lambda>x. case x of VAIBalance_args a \<Rightarrow> Some a | _ \<Rightarrow> None)
        (handler (Server_VAIBalance H (nd_vm nd)) VAIBalance_reply) args nd),
      (''vaistate'', \<lambda>_ nd. handler (\<lambda>_. Server_VAIState H (nd_vm nd)) VAIState_reply () nd),
      (''treasury'', \<lambda>_ nd. handler (\<lambda>_. Server_Treasury H (nd_vm nd)) Treasury_reply () nd),
      (''feerouter'', \<lambda>_ nd. handler (\<lambda>_. Server_FeeRouter H (nd_vm nd)) FeeRouter_reply () nd),
      (''risk'', \<lambda>_ nd. handler (\<lambda>_. Server_Risk H (nd_vm nd)) Risk_reply () nd),
      (''reserve'', \<lambda>_ nd. handler (\<lambda>_. Server_Reserve H (nd_vm nd)) Reserve_reply () nd),
      (''proofconfig'', \<lambda>_ nd. handler (\<lambda>_. Server_ProofConfig H (nd_vm nd)) ProofConfig_reply () nd),
      (''batchproof'', \<lambda>args nd. with_args (\<lambda>x. case x of BatchProof_args a \<Rightarrow> Some a | _ \<Rightarrow> None)
        (handler (Server_BatchProof H (nd_vm nd)) BatchProof_reply) args nd),
      (''vellumproof'', \<lambda>args nd. with_args (\<lambda>x. case x of VellumProof_args a \<Rightarrow> Some a | _ \<Rightarrow> None)
        (handler (Server_VellumProof H (nd_vm nd)) VellumProof_reply) args nd),
      (''bloodsworn'', \<lambda>args nd. with_args (\<lambda>x. case x of Bloodsworn_args a \<Rightarrow> Some a | _ \<Rightarrow> None)
        (handler (Server_Bloodsworn H (nd_vm nd)) Bloodsworn_reply) args nd),
      (''glyph'', \<lambda>args nd. with_args (\<lambda>x. case x of Glyph_args a \<Rightarrow> Some a | _ \<Rightarrow> None)
        (handler (Server_Glyph H (nd_vm nd)) Glyph_reply) args nd),
      (''clearinputshash'', with_args (\<lambda>x. case x of ClearInputsHash_args a \<Rightarrow> Some a | _ \<Rightarrow> None)
        (handler Server_ClearInputsHash ClearInputsHash_reply)),
      (''zkmetrics'', \<lambda>args nd. (Inr (ZKMetrics_reply (Server_ZKMetrics nowMs
        (case args of ZKMetrics_args a \<Rightarrow> Some a | _ \<Rightarrow> None) (nd_metrics nd))), nd)),
      (''zkmetricsreset'', \<lambda>args nd. case Server_ZKMetricsReset (nd_metrics nd) of
        (reply, c) \<Rightarrow> (Inr (ResetZKMetrics_reply reply), nd\<lparr>nd_metrics := c\<rparr>)),
      (''recordzkprovermetrics'', \<lambda>args nd. case Server_RecordZKProverMetrics M
        (case args of RecordZKProverMetrics_args a \<Rightarrow> Some a | _ \<Rightarrow> None) (nd_metrics nd) of
        (reply, c) \<Rightarrow> (Inr (RecordZKProverMetrics_reply reply), nd\<lparr>nd_metrics := c\<rparr>))]"

definition serve :: "'s host \<Rightarrow> metric_env \<Rightarrow> i64 \<Rightarrow> (('s, 'r) node, 'r) requester" where
  "serve H M nowMs method args = (case map_of (rpc_table H M nowMs) method of
     None \<Rightarrow> go_fail (HostError ''method not found'') | Some f \<Rightarrow> f args)"

text \<open>The API of a state: its batch reader and its immutable view.\<close>

definition views :: "'s host \<Rightarrow> 's api_vm \<Rightarrow> 's \<Rightarrow> bool" where
  "views H vm s \<longleftrightarrow> (\<forall>k. readFirst (vm_ReadState vm [k]) = GetValue H s k) \<and> vm_ImmutableState vm = Inr s"

section \<open>What the client sees\<close>

lemmas client_defs = request_def go_defs serve_def rpc_table_def handler_def with_args_def

locale rpc_endpoint =
  fixes send :: "(('s, 'r) node, 'r) requester" and H :: "'s host" and M :: metric_env and nowMs :: i64
  assumes reaches: "send method args nd = serve H M nowMs method args nd"
begin

lemma balances:
  "Client_Balance send a nd = (GetBalanceFromState H (vm_ReadState (nd_vm nd)) a, nd)"
  "Client_VAIBalance send a nd = (GetVAIBalanceFromState H (vm_ReadState (nd_vm nd)) a, nd)"
  "Client_LPBalance send x y a nd = (GetLPBalanceFromState H (vm_ReadState (nd_vm nd)) x y a, nd)"
  by (simp_all add: Client_Balance_def Client_VAIBalance_def Client_LPBalance_def client_defs reaches
      Server_Balance_def Server_VAIBalance_def Server_LPBalance_def res_bind_def split: sum.split)

lemma replies:
  "Client_Market send m nd = (Server_Market H (nd_vm nd) \<lparr>ma_MarketID = m\<rparr>, nd)"
  "Client_Pool send x y nd = (Server_Pool H (nd_vm nd) \<lparr>pa_Asset0 = x, pa_Asset1 = y\<rparr>, nd)"
  "Client_VAIState send nd = (Server_VAIState H (nd_vm nd), nd)"
  "Client_Treasury send nd = (Server_Treasury H (nd_vm nd), nd)"
  "Client_FeeRouter send nd = (Server_FeeRouter H (nd_vm nd), nd)"
  "Client_Risk send nd = (Server_Risk H (nd_vm nd), nd)"
  "Client_Reserve send nd = (Server_Reserve H (nd_vm nd), nd)"
  "Client_ProofConfig send nd = (Server_ProofConfig H (nd_vm nd), nd)"
  "Client_BatchProof send m w nd = (Server_BatchProof H (nd_vm nd) \<lparr>bpa_MarketID = m, bpa_WindowID = w\<rparr>, nd)"
  "Client_VellumProof send m w nd = (Server_VellumProof H (nd_vm nd) \<lparr>vpa_MarketID = m, vpa_WindowID = w\<rparr>, nd)"
  "Client_Bloodsworn send a nd = (Server_Bloodsworn H (nd_vm nd) \<lparr>bsa_Address = a\<rparr>, nd)"
  "Client_Glyph send m w nd = (Server_Glyph H (nd_vm nd) \<lparr>gla_MarketID = m, gla_WindowID = w\<rparr>, nd)"
  "Client_ClearInputsHash send m w p v f nd = (Server_ClearInputsHash \<lparr>cia_MarketID = m, cia_WindowID = w,
     cia_ClearPrice = p, cia_TotalVolume = v, cia_FillsHash = f\<rparr>, nd)"
  by (simp_all add: Client_Market_def Client_Pool_def Client_VAIState_def Client_Treasury_def
      Client_FeeRouter_def Client_Risk_def Client_Reserve_def Client_ProofConfig_def Client_BatchProof_def
      Client_VellumProof_def Client_Bloodsworn_def Client_Glyph_def Client_ClearInputsHash_def client_defs
      reaches split: sum.split)

lemma metrics:
  "Client_ZKMetrics send l b nd = (Inr (collector_snapshot nowMs (uint l) b (nd_metrics nd)), nd)"
  "Client_ResetZKMetrics send nd = (Inr (), nd\<lparr>nd_metrics := collector_reset (nd_metrics nd)\<rparr>)"
  "Client_RecordZKProverMetrics send m w h wb pg nd =
     (Inr (), nd\<lparr>nd_metrics := recordProverStages M m w h wb pg (nd_metrics nd)\<rparr>)"
  by (simp_all add: Client_ZKMetrics_def Client_ResetZKMetrics_def Client_RecordZKProverMetrics_def client_defs
      reaches Server_ZKMetrics_def Server_ZKMetricsReset_def Server_RecordZKProverMetrics_def)

lemma genesis:
  "Client_Genesis send (c, nd) = (case cl_g c of
     Some g \<Rightarrow> (Inr g, c, nd)
   | None \<Rightarrow> (Inr (nd_genesis nd), c\<lparr>cl_g := Some (nd_genesis nd)\<rparr>, nd))"
  by (simp add: Client_Genesis_def on_node_def client_defs reaches Server_Genesis_def split: option.split)

end

interpretation api: rpc_endpoint "serve H M nowMs" H M nowMs for H M nowMs
  by unfold_locales (rule refl)

text \<open>A check that repeats until it holds ends on a node where it held.\<close>

locale polling =
  fixes wait :: "('w, bool) action_run \<Rightarrow> ('w, unit) action_run"
  assumes wait_held: "wait c w = (Inr (), w') \<Longrightarrow> \<exists>w0. c w0 = (Inr True, w')"

definition check_once :: "('w, bool) action_run \<Rightarrow> ('w, unit) action_run" where
  "check_once c = go_bind c (\<lambda>b. go_guard (\<not> b) (HostError ''context deadline exceeded'') (go_return ()))"

interpretation once: polling check_once
  by unfold_locales (auto simp: check_once_def run_simps)

lemma view_reads:
  assumes "views H vm s"
  shows "GetBalanceFromState H (vm_ReadState vm) a = GetBalance H s a"
    and "GetVAIBalanceFromState H (vm_ReadState vm) a = GetVAIBalance H s a"
    and "GetLPBalanceFromState H (vm_ReadState vm) x y a = GetLPBalance H s x y a"
    and "GetMarketFromState H (vm_ReadState vm) m = GetMarket H s m"
    and "GetPoolFromState H (vm_ReadState vm) x y = GetPool H s x y"
    and "GetVellumProofFromState H (vm_ReadState vm) m w = GetVellumProof H s m w"
  using assms rpc_readers_agree [of "vm_ReadState vm" H s a x y m w] by (simp_all add: views_def)

context rpc_endpoint
begin

lemma waited:
  assumes "polling wait" and "Client_WaitForBalance wait send a least nd = (Inr (), nd')"
    and "views H (nd_vm nd') s"
  shows "\<exists>b. GetBalance H s a = Inr b \<and> least \<le> b"
proof -
  obtain nd0 where "go_bind (Client_Balance send a) (\<lambda>b. go_return (b \<ge> least)) nd0 = (Inr True, nd')"
    using polling.wait_held [OF assms(1) assms(2) [unfolded Client_WaitForBalance_def]] by blast
  then obtain b where "GetBalanceFromState H (vm_ReadState (nd_vm nd')) a = Inr b" "least \<le> b"
    by (auto simp: run_simps balances)
  then show ?thesis using view_reads(1) [OF assms(3), of a] by simp
qed

lemma genesis_once:
  assumes "Client_Genesis send (c, nd) = (Inr g, c', nd')"
  shows "Client_Genesis send (c', later) = (Inr g, c', later)"
  using assms by (auto simp: genesis split: option.splits)

end

section \<open>Properties\<close>


definition sample_node :: "(mem, unit) node" where
  "sample_node = \<lparr>nd_vm = served mem_host sample, nd_metrics = newZKMetricsCollector 4,
     nd_genesis = \<lparr>gf_StateBranchFactor = 16, gf_Rules = Some (), gf_Genesis = sample_genesis\<rparr>\<rparr>"


end
