(* ===== verification/Cmd_Node.thy ===== *)
theory Cmd_Node
  imports Vm_Client Vm_Config
begin

text \<open>
  What the command line tools under \<open>cmd/\<close> share: the node they talk to, keys, and the preparation of a
  transaction.

  The core API and the indexer of HyperSDK, the transport of this VM's API, signing, the clock and the context are
  the record \<open>node_api\<close> over the state \<open>'w\<close> of the world outside the tool. An error that stops a tool
  (\<open>fatalf\<close>, a returned error) is \<open>Inl\<close>; what a tool prints on the way is left out. The tools look at the text of
  errors and report it, so here \<open>fmt.Errorf("x: %w", err)\<close> is the error with the longer text (\<open>wrapf\<close>).

  The locale \<open>one_node\<close> is the node a tool is run against: it answers, it includes a well-formed transaction whose sender can
  pay the limit it set, charges a fee up to that limit and executes the action, it makes a block while the tool sleeps, and its API serves
  the last accepted state. \<open>sole_api\<close> is such a node.
\<close>

section \<open>The world of a tool\<close>

record tx_base =
  tb_Timestamp :: i64
  tb_ChainID :: ID
  tb_MaxFee :: u64

record tx_result =
  tx_Success :: bool
  tx_Error :: string

record ('w, 'k, 'r) node_api =
  core_Network :: "('w, ID) action_run"
  core_Accepted :: "('w, u64 \<times> i64) action_run"
  core_UnitPrices :: "bool \<Rightarrow> ('w, u64 list) action_run"
  core_SubmitTx :: "bytes \<Rightarrow> ('w, ID) action_run"
  idx_GetTxResults :: "ID \<Rightarrow> ('w, tx_result option) action_run"
  vm_Request :: "('w, 'r) requester"
  SignRawActionBytesTx :: "tx_base \<Rightarrow> bytes list \<Rightarrow> 'k \<Rightarrow> error + bytes"
  NewED25519Factory :: "bytes \<Rightarrow> 'k"
  signer_Address :: "'k \<Rightarrow> Address"
  time_NowMs :: "('w, i64) action_run"
  time_Sleep :: "u64 \<Rightarrow> ('w, unit) action_run"
  ctx_Err :: "('w, error option) action_run"

abbreviation Millisecond :: u64 where "Millisecond \<equiv> 1000000"
abbreviation Second :: u64 where "Second \<equiv> 1000000000"

text \<open>
  \<open>x, err := m()\<close> with \<open>err\<close> handled by the caller. A panic is not an error value: it goes on.
\<close>

definition go_try :: "('w, 'a) action_run \<Rightarrow> ('w, error + 'a) action_run" where
  "go_try m = (\<lambda>w. case m w of
     (Inl (GoPanic p), w') \<Rightarrow> (Inl (GoPanic p), w')
   | (r, w') \<Rightarrow> (Inr r, w'))"

lemma go_try_ok: "m w = (Inr x, w') \<Longrightarrow> go_try m w = (Inr (Inr x), w')"
  by (simp add: go_try_def)

primrec err_Error :: "error \<Rightarrow> string" where
  "err_Error (Err msg) = msg"
| "err_Error DbErrNotFound = ''not found''"
| "err_Error (HostError msg) = msg"
| "err_Error (GoPanic msg) = msg"

definition wrapf :: "string \<Rightarrow> ('w, 'a) action_run \<Rightarrow> ('w, 'a) action_run" where
  "wrapf prefix m = (\<lambda>w. case m w of
     (Inl (GoPanic p), w') \<Rightarrow> (Inl (GoPanic p), w')
   | (Inl err, w') \<Rightarrow> (Inl (Err (prefix @ '': '' @ err_Error err)), w')
   | (Inr x, w') \<Rightarrow> (Inr x, w'))"

lemma wrapf_ok: "m w = (Inr x, w') \<Longrightarrow> wrapf prefix m w = (Inr x, w')"
  by (simp add: wrapf_def)

section \<open>Keys\<close>

definition fromHexChar :: "byte \<Rightarrow> byte option" where
  "fromHexChar c = (if 0x30 \<le> c \<and> c \<le> 0x39 then Some (c - 0x30)
     else if 0x61 \<le> c \<and> c \<le> 0x66 then Some (c - 0x61 + 10)
     else if 0x41 \<le> c \<and> c \<le> 0x46 then Some (c - 0x41 + 10) else None)"

text \<open>\<open>hex.DecodeString\<close>.\<close>

fun DecodeString :: "bytes \<Rightarrow> error + bytes" where
  "DecodeString [] = Inr []"
| "DecodeString [c] = (case fromHexChar c of
     None \<Rightarrow> Inl (HostError ''encoding/hex: invalid byte'')
   | Some _ \<Rightarrow> Inl (HostError ''encoding/hex: odd length hex string''))"
| "DecodeString (c # d # rest) = (case (fromHexChar c, fromHexChar d) of
     (Some a, Some b) \<Rightarrow> (case DecodeString rest of Inl err \<Rightarrow> Inl err | Inr bs \<Rightarrow> Inr ((16 * a + b) # bs))
   | _ \<Rightarrow> Inl (HostError ''encoding/hex: invalid byte''))"

text \<open>
  \<open>ed25519.PrivateKey(b)\<close>: the conversion of a slice to an array of 64 bytes panics on a shorter slice and ignores
  what follows.
\<close>

definition PrivateKey :: "bytes \<Rightarrow> error + bytes" where
  "PrivateKey b = (if length b < 64 then Inl (GoPanic ''slice to array conversion'') else Inr (take 64 b))"

definition defaultKeyHex :: bytes where
  "defaultKeyHex = go_str (''637404e6722a0e55a27fd82dcd29f3f0faa6f13d930f32f759e3b8412c4956ae'' @
     ''ee9d3919f004304c2d44dbc9121f6559fefb9b9c25daec749b0f18f605614461'')"

text \<open>A signer from the hexadecimal text of its key: decoding, conversion, factory.\<close>

definition keySigner :: "('w, 'k, 'r) node_api \<Rightarrow> string \<Rightarrow> bytes \<Rightarrow> ('w, 'k) action_run" where
  "keySigner A prefix pkHex =
     go_bind (wrapf prefix (go_lift (DecodeString pkHex))) (\<lambda>b.
     go_bind (go_lift (PrivateKey b)) (\<lambda>priv. go_return (NewED25519Factory A priv)))"

section \<open>Transactions\<close>

text \<open>Signed division truncates.\<close>

definition go_quot :: "i64 \<Rightarrow> i64 \<Rightarrow> i64" where
  "go_quot a b = word_of_int (sint a sdiv sint b)"

text \<open>The end of validity of a transaction, on a whole second.\<close>

definition alignExpiry :: "i64 \<Rightarrow> i64" where
  "alignExpiry anchor =
     (let expiry = go_quot (anchor + 60000) 1000 * 1000 in
      if sint expiry \<le> sint anchor then (go_quot anchor 1000 + 61) * 1000 else expiry)"

text \<open>Sign the encoding of one action and submit it. \<open>action.Bytes()\<close> panics when the action does not fit.\<close>

definition sendAction ::
    "('w, 'k, 'r) node_api \<Rightarrow> linear_codec \<Rightarrow> string \<Rightarrow> string \<Rightarrow> tx_base \<Rightarrow> 'k \<Rightarrow> action \<Rightarrow> ('w, ID) action_run" where
  "sendAction A C sign submit base signer a =
     go_bind (go_lift (Action_Bytes C a)) (\<lambda>bs.
     go_bind (wrapf sign (go_lift (SignRawActionBytesTx A base [bs] signer))) (\<lambda>txBytes.
     wrapf submit (core_SubmitTx A txBytes)))"

lemma sint_small: "- (2 ^ 63) \<le> k \<Longrightarrow> k < 2 ^ 63 \<Longrightarrow> sint (word_of_int k :: i64) = k"
  by (simp add: sint_sbintrunc' signed_take_bit_int_eq_self)

lemma go_quot_1000:
  assumes "0 \<le> sint a"
  shows "sint (go_quot a 1000) = sint a div 1000"
proof -
  have "sint (1000 :: i64) = 1000" by simp
  moreover have "sint a sdiv 1000 = sint a div 1000"
    using assms by (cases "sint a = 0") (simp_all add: signed_divide_int_def)
  moreover have "sint a div 1000 < 2 ^ 63" "0 \<le> sint a div 1000"
    using assms sint_lt [of a] by simp_all
  ultimately show ?thesis by (simp add: go_quot_def sint_small)
qed

text \<open>The expiry of a transaction is on a whole second, later than its anchor and at most a minute later.\<close>

lemma alignExpiry_window:
  assumes "0 \<le> sint anchor" and "sint anchor < 2 ^ 62"
  shows "sint anchor < sint (alignExpiry anchor)" and "sint (alignExpiry anchor) \<le> sint anchor + 60000"
    and "1000 dvd sint (alignExpiry anchor)"
proof -
  let ?k = "sint anchor + 60000"
  have "sint (anchor + 60000) = ?k"
    using assms by (simp add: sint_word_ariths signed_take_bit_int_eq_self)
  then have q: "sint (go_quot (anchor + 60000) 1000) = ?k div 1000"
    using assms by (simp add: go_quot_1000)
  have k: "?k div 1000 * 1000 \<le> ?k" "?k < ?k div 1000 * 1000 + 1000" by simp_all
  have "sint (go_quot (anchor + 60000) 1000 * 1000) = ?k div 1000 * 1000"
    using q k assms by (simp add: sint_word_ariths signed_take_bit_int_eq_self)
  moreover from this have "alignExpiry anchor = go_quot (anchor + 60000) 1000 * 1000"
    using k by (simp add: alignExpiry_def Let_def)
  ultimately have e: "sint (alignExpiry anchor) = ?k div 1000 * 1000" by simp
  show "sint anchor < sint (alignExpiry anchor)" "sint (alignExpiry anchor) \<le> sint anchor + 60000"
    "1000 dvd sint (alignExpiry anchor)"
    using k unfolding e by simp_all
qed

section \<open>The node of a tool\<close>

text \<open>
  One transaction in a block: the fee, then the action, whose writes are dropped when it fails.
\<close>

definition included ::
    "'s host \<Rightarrow> verifier_env \<Rightarrow> i64 \<Rightarrow> Address \<Rightarrow> ID \<Rightarrow> u64 \<Rightarrow> action \<Rightarrow> 's \<Rightarrow> bool \<times> 's" where
  "included H V now actor txID fee a s = (case Deduct H actor fee s of
     (Inl _, _) \<Rightarrow> (False, s)
   | (Inr _, t) \<Rightarrow> (case Execute H V now actor txID a t of (Inl _, _) \<Rightarrow> (False, t) | (Inr _, u) \<Rightarrow> (True, u)))"

text \<open>
  What is seen of the world: the last accepted state, the state once the transactions submitted so far are
  included, the node, its height and its clock, and the transactions that succeeded.
\<close>

record ('w, 's, 'r) world_view =
  wv_accepted :: "'w \<Rightarrow> 's"
  wv_due :: "'w \<Rightarrow> 's"
  wv_node :: "'w \<Rightarrow> ('s, 'r) node"
  wv_height :: "'w \<Rightarrow> u64"
  wv_clock :: "'w \<Rightarrow> i64"
  wv_done :: "'w \<Rightarrow> ID \<Rightarrow> bool"

definition settled :: "('w, 's, 'r) world_view \<Rightarrow> 'w \<Rightarrow> bool" where
  "settled W w \<longleftrightarrow> wv_accepted W w = wv_due W w"

text \<open>A call that does not submit and does not wait.\<close>

definition quiet :: "('w, 's, 'r) world_view \<Rightarrow> 'w \<Rightarrow> 'w \<Rightarrow> bool" where
  "quiet W w w' \<longleftrightarrow> wv_due W w' = wv_due W w \<and> (settled W w \<longrightarrow> settled W w')
     \<and> wv_height W w' = wv_height W w \<and> wv_clock W w' = wv_clock W w
     \<and> (\<forall>t. wv_done W w t \<longrightarrow> wv_done W w' t)"

lemma quiet_trans: "quiet W u v \<Longrightarrow> quiet W v w \<Longrightarrow> quiet W u w"
  by (simp add: quiet_def)

definition valid_base :: "ID \<Rightarrow> int \<Rightarrow> i64 \<Rightarrow> tx_base \<Rightarrow> bool" where
  "valid_base chainID window now base \<longleftrightarrow> tb_ChainID base = chainID \<and> sint now < sint (tb_Timestamp base)
     \<and> sint (tb_Timestamp base) \<le> sint now + window \<and> 1000 dvd sint (tb_Timestamp base)"

locale one_node = wire_env C parse_action parse_result
  for C parse_action parse_result +
  fixes A :: "('w, 'k, 'r) node_api" and H :: "'s host" and V :: verifier_env and W :: "('w, 's, 'r) world_view"
    and chainID :: ID and prices :: "u64 list" and window lag :: int and blocks :: nat
  assumes network: "\<exists>w'. core_Network A w = (Inr chainID, w') \<and> quiet W w w'"
    and accepted: "\<exists>w'. core_Accepted A w = (Inr (wv_height W w, wv_clock W w), w') \<and> quiet W w w'"
    and unit_prices: "\<exists>w'. core_UnitPrices A cached w = (Inr prices, w') \<and> quiet W w w'"
    and now_ms: "\<exists>w'. time_NowMs A w = (Inr (wv_clock W w), w') \<and> quiet W w w'"
    and no_deadline: "\<exists>w'. ctx_Err A w = (Inr None, w') \<and> quiet W w w'"
    and served_api: "\<exists>w' M nowMs. vm_Request A m args w = (fst (serve H M nowMs m args (wv_node W w)), w')
      \<and> quiet W w w'"
    and accepted_view: "views H (nd_vm (wv_node W w)) (wv_accepted W w)"
    and clock_range: "0 \<le> sint (wv_clock W w) \<and> sint (wv_clock W w) < 2 ^ 62"
    and signs: "\<exists>tx. SignRawActionBytesTx A base acts k = Inr tx"
    and inclusion: "SignRawActionBytesTx A base [bs] k = Inr tx \<Longrightarrow> parse_action (ActionParser C) bs = Inr a
      \<Longrightarrow> valid_base chainID window (wv_clock W w) base
      \<Longrightarrow> GetBalance H (wv_due W w) (signer_Address A k) = Inr b \<Longrightarrow> tb_MaxFee base \<le> b \<Longrightarrow> tb_MaxFee base \<noteq> 0
      \<Longrightarrow> \<exists>fee now txID ok w'. fee \<noteq> 0 \<and> fee \<le> tb_MaxFee base
        \<and> sint (wv_clock W w) \<le> sint now \<and> sint now \<le> sint (wv_clock W w) + lag
        \<and> core_SubmitTx A tx w = (Inr txID, w')
        \<and> included H V now (signer_Address A k) txID fee a (wv_due W w) = (ok, wv_due W w')
        \<and> (ok \<longrightarrow> wv_done W w' txID) \<and> wv_height W w' = wv_height W w"
    and sleeps: "\<exists>w'. time_Sleep A d w = (Inr (), w') \<and> wv_due W w' = wv_due W w \<and> settled W w'
      \<and> (500 * Millisecond \<le> d \<longrightarrow> wv_height W w < 2 ^ 63 \<longrightarrow> wv_height W w < wv_height W w'
          \<and> unat (wv_height W w') \<le> unat (wv_height W w) + blocks)
      \<and> (\<forall>t. wv_done W w t \<longrightarrow> wv_done W w' t)"
    and results: "settled W w \<Longrightarrow> wv_done W w txID \<Longrightarrow>
      \<exists>r w'. idx_GetTxResults A txID w = (Inr (Some r), w') \<and> tx_Success r \<and> quiet W w w'"
    and window_minute: "60000 \<le> window"
begin

text \<open>An action that fits its encoding, from a sender who can pay the limit, is included.\<close>

lemma sent:
  assumes "Action_Bytes C a = Inr bs" and "decodable a" and "tb_ChainID base = chainID"
    and "tb_Timestamp base = alignExpiry (wv_clock W w)"
    and "GetBalance H (wv_due W w) (signer_Address A k) = Inr b" and "tb_MaxFee base \<le> b" and "tb_MaxFee base \<noteq> 0"
  shows "\<exists>fee now txID ok w'. fee \<noteq> 0 \<and> fee \<le> tb_MaxFee base
    \<and> sint (wv_clock W w) \<le> sint now \<and> sint now \<le> sint (wv_clock W w) + lag
    \<and> sendAction A C p q base k a w = (Inr txID, w')
    \<and> included H V now (signer_Address A k) txID fee a (wv_due W w) = (ok, wv_due W w')
    \<and> (ok \<longrightarrow> wv_done W w' txID) \<and> wv_height W w' = wv_height W w"
proof -
  obtain tx where tx: "SignRawActionBytesTx A base [bs] k = Inr tx" using signs by blast
  have "valid_base chainID window (wv_clock W w) base"
    using alignExpiry_window [of "wv_clock W w"] clock_range [of w] window_minute assms(3,4)
    by (simp add: valid_base_def)
  moreover have "parse_action (ActionParser C) bs = Inr a" using action_roundtrip [OF assms(2,1)] .
  ultimately obtain fee now txID ok w' where
    "fee \<noteq> 0 \<and> fee \<le> tb_MaxFee base \<and> sint (wv_clock W w) \<le> sint now \<and> sint now \<le> sint (wv_clock W w) + lag
      \<and> core_SubmitTx A tx w = (Inr txID, w')
      \<and> included H V now (signer_Address A k) txID fee a (wv_due W w) = (ok, wv_due W w')
      \<and> (ok \<longrightarrow> wv_done W w' txID) \<and> wv_height W w' = wv_height W w"
    using inclusion [OF tx _ _ assms(5-7), of a] by blast
  then show ?thesis
    using tx by (simp add: sendAction_def go_defs assms(1) wrapf_def) blast
qed

text \<open>What the client is told in a settled world is the state that is due.\<close>

lemma reads:
  assumes "settled W w"
  shows "\<exists>w'. Client_Balance (vm_Request A) a w = (GetBalance H (wv_due W w) a, w') \<and> quiet W w w'"
    and "\<exists>w'. Client_VAIBalance (vm_Request A) a w = (GetVAIBalance H (wv_due W w) a, w') \<and> quiet W w w'"
    and "\<exists>w'. Client_LPBalance (vm_Request A) x y a w = (GetLPBalance H (wv_due W w) x y a, w') \<and> quiet W w w'"
    and "\<exists>w'. Client_Pool (vm_Request A) x y w = (map_sum id (\<lambda>p. \<lparr>pr_Asset0 = p_Asset0 p, pr_Asset1 = p_Asset1 p,
        pr_FeeBips = p_FeeBips p, pr_Reserve0 = p_Reserve0 p, pr_Reserve1 = p_Reserve1 p,
        pr_TotalLP = p_TotalLP p\<rparr>) (GetPool H (wv_due W w) x y), w') \<and> quiet W w w'"
proof -
  have v: "views H (nd_vm (wv_node W w)) (wv_due W w)"
    using accepted_view [of w] assms by (simp add: settled_def)
  show "\<exists>w'. Client_Balance (vm_Request A) a w = (GetBalance H (wv_due W w) a, w') \<and> quiet W w w'"
    using served_api [of "''balance''" "Balance_args \<lparr>ba_Address = a\<rparr>" w]
    by (auto simp: Client_Balance_def client_defs Server_Balance_def res_bind_def view_reads(1) [OF v]
        split: sum.split)
  show "\<exists>w'. Client_VAIBalance (vm_Request A) a w = (GetVAIBalance H (wv_due W w) a, w') \<and> quiet W w w'"
    using served_api [of "''vaibalance''" "VAIBalance_args \<lparr>vaa_Address = a\<rparr>" w]
    by (auto simp: Client_VAIBalance_def client_defs Server_VAIBalance_def res_bind_def view_reads(2) [OF v]
        split: sum.split)
  show "\<exists>w'. Client_LPBalance (vm_Request A) x y a w = (GetLPBalance H (wv_due W w) x y a, w') \<and> quiet W w w'"
    using served_api [of "''lpbalance''" "LPBalance_args \<lparr>la_Asset0 = x, la_Asset1 = y, la_Address = a\<rparr>" w]
    by (auto simp: Client_LPBalance_def client_defs Server_LPBalance_def res_bind_def view_reads(3) [OF v]
        split: sum.split)
  show "\<exists>w'. Client_Pool (vm_Request A) x y w = (map_sum id (\<lambda>p. \<lparr>pr_Asset0 = p_Asset0 p, pr_Asset1 = p_Asset1 p,
        pr_FeeBips = p_FeeBips p, pr_Reserve0 = p_Reserve0 p, pr_Reserve1 = p_Reserve1 p,
        pr_TotalLP = p_TotalLP p\<rparr>) (GetPool H (wv_due W w) x y), w') \<and> quiet W w w'"
    using served_api [of "''pool''" "Pool_args \<lparr>pa_Asset0 = x, pa_Asset1 = y\<rparr>" w]
    by (auto simp: Client_Pool_def client_defs Server_Pool_def res_bind_def view_reads(5) [OF v]
        split: sum.split)
qed

end

section \<open>A node that includes at once\<close>

text \<open>
  A world that consists of one node: a transaction is its sender and its action, it is executed when it is
  submitted, for a fee of one; the height counts the sleeps; the clock stands still.
\<close>

record 's sole =
  so_state :: 's
  so_height :: u64
  so_log :: "(ID \<times> bool) list"

definition sole_node :: "'s host \<Rightarrow> 's \<Rightarrow> ('s, unit) node" where
  "sole_node H s = \<lparr>nd_vm = served H s, nd_metrics = newZKMetricsCollector 4,
     nd_genesis = \<lparr>gf_StateBranchFactor = 16, gf_Rules = Some (), gf_Genesis = sample_genesis\<rparr>\<rparr>"

definition sole_submit :: "'s host \<Rightarrow> verifier_env \<Rightarrow> bytes \<Rightarrow> ('s sole, ID) action_run" where
  "sole_submit H V tx w = (case first_byte_parser (ActionParser mem_codec) (drop 33 tx) of
     Inl err \<Rightarrow> (Inl err, w)
   | Inr a \<Rightarrow> (case included H V 10000 (of_be (take 33 tx)) (Sum256 tx) 1 a (so_state w) of
       (ok, s) \<Rightarrow> (Inr (Sum256 tx), w\<lparr>so_state := s, so_log := (Sum256 tx, ok) # so_log w\<rparr>)))"

definition sole_results :: "ID \<Rightarrow> ('s sole, tx_result option) action_run" where
  "sole_results txID w = (Inr (if (txID, True) \<in> set (so_log w) then Some \<lparr>tx_Success = True, tx_Error = []\<rparr>
     else if (txID, False) \<in> set (so_log w) then Some \<lparr>tx_Success = False, tx_Error = ''failed''\<rparr> else None), w)"

definition sole_api :: "'s host \<Rightarrow> verifier_env \<Rightarrow> ('s sole, Address, unit) node_api" where
  "sole_api H V = \<lparr>core_Network = go_return 7, core_Accepted = (\<lambda>w. (Inr (so_height w, 10000), w)),
     core_UnitPrices = (\<lambda>_. go_return [100, 100, 100, 100, 100]), core_SubmitTx = sole_submit H V,
     idx_GetTxResults = sole_results,
     vm_Request = (\<lambda>m args w. (fst (serve H plain_metrics 0 m args (sole_node H (so_state w))), w)),
     SignRawActionBytesTx = (\<lambda>base acts k. Inr (be_bytes 33 k @ concat acts)),
     NewED25519Factory = (\<lambda>priv. of_be (take 33 priv)), signer_Address = (\<lambda>k. k), time_NowMs = go_return 10000,
     time_Sleep = (\<lambda>_ w. (Inr (), w\<lparr>so_height := so_height w + 1\<rparr>)), ctx_Err = go_return None\<rparr>"

definition sole_view :: "'s host \<Rightarrow> ('s sole, 's, unit) world_view" where
  "sole_view H = \<lparr>wv_accepted = so_state, wv_due = so_state, wv_node = (\<lambda>w. sole_node H (so_state w)),
     wv_height = so_height, wv_clock = (\<lambda>_. 10000), wv_done = (\<lambda>w t. (t, True) \<in> set (so_log w))\<rparr>"

lemma sole_settled [simp]: "settled (sole_view H) w"
  by (simp add: settled_def sole_view_def)

lemma sole_quiet [simp]: "quiet (sole_view H) w w"
  by (simp add: quiet_def)

lemma next_height:
  assumes "h < (2 ^ 63 :: u64)"
  shows "h < h + 1" and "unat (h + 1) \<le> Suc (unat h)"
proof -
  have "unat h + unat (1 :: u64) < 2 ^ 64" using assms by (simp add: word_less_nat_alt)
  then have "unat (h + 1) = unat h + 1" using unat_add_exact [of h 1] by simp
  then show "h < h + 1" "unat (h + 1) \<le> Suc (unat h)" by (simp_all add: word_less_nat_alt)
qed

interpretation sole: one_node mem_codec first_byte_parser first_byte_parser "sole_api H V" H V "sole_view H"
    7 "[100, 100, 100, 100, 100]" 60000 0 1 for H V
proof unfold_locales
  fix base :: tx_base and bs tx a k b and w :: "'a sole"
  assume sign: "SignRawActionBytesTx (sole_api H V) base [bs] k = Inr tx"
    and parse: "first_byte_parser (ActionParser mem_codec) bs = Inr a" and "tb_MaxFee base \<noteq> 0"
  obtain ok s where run: "included H V 10000 k (Sum256 tx) 1 a (so_state w) = (ok, s)" by fastforce
  have "1 \<le> tb_MaxFee base" using \<open>tb_MaxFee base \<noteq> 0\<close> by (simp add: word_le_nat_alt unat_gt_0 Suc_le_eq)
  then show "\<exists>fee now txID ok w'. fee \<noteq> 0 \<and> fee \<le> tb_MaxFee base
      \<and> sint (wv_clock (sole_view H) w) \<le> sint now \<and> sint now \<le> sint (wv_clock (sole_view H) w) + 0
      \<and> core_SubmitTx (sole_api H V) tx w = (Inr txID, w')
      \<and> included H V now (signer_Address (sole_api H V) k) txID fee a (wv_due (sole_view H) w)
        = (ok, wv_due (sole_view H) w')
      \<and> (ok \<longrightarrow> wv_done (sole_view H) w' txID) \<and> wv_height (sole_view H) w' = wv_height (sole_view H) w"
    using sign parse run
    by (intro exI [of _ 1] exI [of _ 10000] exI [of _ "Sum256 tx"] exI [of _ ok]
          exI [of _ "w\<lparr>so_state := s, so_log := (Sum256 tx, ok) # so_log w\<rparr>"])
      (auto simp: sole_api_def sole_view_def sole_submit_def)
qed (auto simp: sole_api_def sole_view_def go_defs sole_node_def views_def served_reads next_height
    sole_results_def quiet_def settled_def, simp_all add: served_def)

end
