(* ===== verification/Smoke_Chain.thy ===== *)
theory Smoke_Chain
  imports Launch Vm
begin

text \<open>
  The transactions of the smoke test (\<open>cmd/veilvm-smoke\<close>) on the chain: create the VEIL/VAI pool, mint VAI, make the
  first deposit, swap. On a state that accepts writes each of them succeeds for the account that governs
  and may mint, with the pool of the exchange untouched before; fees may be charged in between.

  \<open>smoke_chain\<close> is what such a state looks like at each point, by what is read from it.
\<close>

section \<open>Writes that succeed\<close>

context total_env
begin

lemma debit_veil_ok:
  assumes "GetBalance H s a = Inr b" and "v \<le> b" and "v \<noteq> 0"
  shows "\<exists>t. SubBalance H a v s = (Inr (b - v), t)
    \<and> GetValue H t = (GetValue H s)(BalanceKey H a := stored_amount (b - v))"
  using SubBalance_succeeds [OF assms] SubBalance_run by blast

lemma debit_vai_ok:
  assumes "GetVAIBalance H s a = Inr b" and "v \<le> b" and "v \<noteq> 0"
  shows "\<exists>t. SubVAIBalance H a v s = (Inr (b - v), t)
    \<and> GetValue H t = (GetValue H s)(VAIBalanceKey H a := stored_amount (b - v))"
  using SubVAIBalance_succeeds [OF assms] SubVAIBalance_run by blast

lemma credit_vai_ok:
  assumes "GetVAIBalance H s a = Inr b" and "unat b + unat v < 2 ^ 64"
  shows "\<exists>t. AddVAIBalance H a v s = (Inr (b + v), t)
    \<and> GetValue H t = (GetValue H s)(VAIBalanceKey H a := Inr (be_bytes 8 (b + v)))"
proof -
  obtain ex where "getVAIBalance H s a = (VAIBalanceKey H a, b, ex, None)"
    using assms(1) by (auto simp: GetVAIBalance_def balanceResult_def getVAIBalance_def Let_def
        split: prod.splits option.splits)
  then show ?thesis
    using insert_succeeds [of "VAIBalanceKey H a" "be_bytes 8 (b + v)" s] add_fits [OF assms(2)]
    by (auto simp: AddVAIBalance_def setVAIBalance_def go_defs)
qed

lemma credit_lp_ok:
  assumes "GetLPBalance H s x y a = Inr b" and "unat b + unat v < 2 ^ 64"
  shows "\<exists>t. AddLPBalance H x y a v s = (Inr (b + v), t)
    \<and> GetValue H t = (GetValue H s)(LPBalanceKey H x y a := Inr (be_bytes 8 (b + v)))"
proof -
  obtain ex where "getLPBalance H s x y a = (LPBalanceKey H x y a, b, ex, None)"
    using assms(1) by (auto simp: GetLPBalance_def balanceResult_def getLPBalance_def Let_def
        split: prod.splits option.splits)
  then show ?thesis
    using insert_succeeds [of "LPBalanceKey H x y a" "be_bytes 8 (b + v)" s] add_fits [OF assms(2)]
    by (auto simp: AddLPBalance_def setLPBalance_def go_defs)
qed

lemma pool_put_ok:
  assumes "p_Asset0 p = 0" and "p_Asset1 p = 1"
  shows "\<exists>t. PutPool H p s = (Inr (), t)
    \<and> GetValue H t = (GetValue H s)(PoolKey H 0 1 := Inr (encodePool p))"
  using insert_succeeds [of "PoolKey H 0 1" "encodePool p" s] assms by (simp add: PutPool_def)

lemma vai_put_ok:
  "\<exists>t. PutVAIState H st s = (Inr (), t)
    \<and> GetValue H t = (GetValue H s)(VAIStateKey H := Inr (encodeVAIState st))"
  using insert_succeeds [of "VAIStateKey H" "encodeVAIState st" s] by (simp add: PutVAIState_def)

end

section \<open>The state of a smoke test\<close>

record smoke_cfg =
  sm_treasury :: TreasuryConfig
  sm_vai :: VAIConfig
  sm_risk :: RiskConfig
  sm_reserve :: ReserveState

definition smoke_cfg_ok :: "smoke_cfg \<Rightarrow> Address \<Rightarrow> bool" where
  "smoke_cfg_ok g a \<longleftrightarrow> tc_Governance (sm_treasury g) = a \<and> vc_MintAuthority (sm_vai g) = a
     \<and> 10000 \<le> vc_EpochMintLimit (sm_vai g) \<and> 10000 \<le> vc_DebtCeiling (sm_vai g)
     \<and> \<not> backingViolated (sm_risk g) (sm_reserve g) 10000"

definition smoke_chain ::
    "'s host \<Rightarrow> smoke_cfg \<Rightarrow> Address \<Rightarrow> u64 \<Rightarrow> u64 \<Rightarrow> u64 \<Rightarrow> error + Pool \<Rightarrow> u64 \<Rightarrow> 's \<Rightarrow> bool" where
  "smoke_chain H g a veil vai lp pool minted s \<longleftrightarrow>
     GetBalance H s a = Inr veil \<and> GetVAIBalance H s a = Inr vai \<and> GetLPBalance H s 0 1 a = Inr lp
     \<and> GetPool H s 0 1 = pool \<and> GetTreasuryConfig H s = Inr (sm_treasury g)
     \<and> GetVAIConfig H s = Inr (sm_vai g) \<and> GetRiskConfig H s = Inr (sm_risk g)
     \<and> GetReserveState H s = Inr (sm_reserve g)
     \<and> (\<exists>st. GetVAIState H s = Inr st \<and> vs_TotalDebt st = minted \<and> vs_EpochMinted st = minted)"

definition smoke_pool :: "u64 \<Rightarrow> u64 \<Rightarrow> u64 \<Rightarrow> Pool" where
  "smoke_pool r0 r1 shares = \<lparr>p_Asset0 = 0, p_Asset1 = 1, p_FeeBips = 30, p_Reserve0 = r0,
     p_Reserve1 = r1, p_TotalLP = shares\<rparr>"

lemmas smoke_reads = smoke_chain_def GetBalance_def getBalance_def GetVAIBalance_def getVAIBalance_def
  GetLPBalance_def getLPBalance_def GetPool_def config_get_defs Let_def

context total_env
begin

lemma read_amount:
  "balanceResult (innerGetBalance H (stored_amount n)) = Inr n"
  "balanceResult (innerGetBalance H (Inr (be_bytes 8 (n :: u64)))) = Inr n"
  by (simp_all add: balanceResult_def innerGetBalance_def stored_amount_def)

lemma smoke_fee:
  assumes "smoke_chain H g a veil vai lp pool minted s" and "fee \<noteq> 0" and "fee \<le> veil"
  shows "\<exists>t. Deduct H a fee s = (Inr (), t) \<and> smoke_chain H g a (veil - fee) vai lp pool minted t"
proof -
  obtain t where "SubBalance H a fee s = (Inr (veil - fee), t)"
    and t: "GetValue H t = (GetValue H s)(BalanceKey H a := stored_amount (veil - fee))"
    using debit_veil_ok assms by (meson smoke_chain_def)
  moreover have "smoke_chain H g a (veil - fee) vai lp pool minted t"
    using assms(1) by (simp add: smoke_reads t key_simps read_amount)
  ultimately show ?thesis by (auto simp: Deduct_def go_defs)
qed

lemma smoke_create:
  assumes "smoke_chain H g a veil vai lp (Inl ErrPoolNotFound) minted s" and "smoke_cfg_ok g a"
  shows "\<exists>r t. CreatePool_Execute H \<lparr>cp_Asset0 = 0, cp_Asset1 = 1, cp_FeeBips = 30\<rparr> a s = (Inr r, t)
    \<and> smoke_chain H g a veil vai lp (Inr (smoke_pool 0 0 0)) minted t"
proof -
  obtain t where p: "PutPool H (smoke_pool 0 0 0) s = (Inr (), t)"
    and t: "GetValue H t = (GetValue H s)(PoolKey H 0 1 := Inr (encodePool (smoke_pool 0 0 0)))"
    using pool_put_ok [of "smoke_pool 0 0 0"] by (auto simp: smoke_pool_def)
  have reads: "GetTreasuryConfig H s = Inr (sm_treasury g)" "tc_Governance (sm_treasury g) = a"
    "GetPool H s 0 1 = Inl ErrPoolNotFound"
    using assms by (simp_all add: smoke_chain_def smoke_cfg_ok_def)
  have "\<exists>r. CreatePool_Execute H \<lparr>cp_Asset0 = 0, cp_Asset1 = 1, cp_FeeBips = 30\<rparr> a s = (Inr r, t)"
    using p by (simp add: CreatePool_Execute_def go_defs validateAssetPair_def isSupportedAsset_def reads
        sortedPair_def smoke_pool_def Let_def)
  moreover have "smoke_chain H g a veil vai lp (Inr (smoke_pool 0 0 0)) minted t"
    using assms(1) by (simp add: smoke_reads t key_simps smoke_pool_def)
  ultimately show ?thesis by blast
qed

lemma smoke_mint:
  assumes "smoke_chain H g a veil 0 lp pool 0 s" and "smoke_cfg_ok g a"
  shows "\<exists>r t. MintVAI_Execute H \<lparr>mv_To = a, mv_Amount = 10000\<rparr> now a s = (Inr r, t)
    \<and> smoke_chain H g a veil 10000 lp pool 10000 t"
proof -
  obtain st where st: "GetVAIState H s = Inr st" "vs_TotalDebt st = 0" "vs_EpochMinted st = 0"
    and reads: "GetVAIConfig H s = Inr (sm_vai g)" "GetRiskConfig H s = Inr (sm_risk g)"
      "GetReserveState H s = Inr (sm_reserve g)" "GetVAIBalance H s a = Inr 0"
    using assms(1) by (auto simp: smoke_chain_def)
  let ?st = "(mintEpoch (sm_vai g) now st)\<lparr>vs_EpochMinted := 10000, vs_TotalDebt := 10000\<rparr>"
  have epoch: "vs_EpochMinted (mintEpoch (sm_vai g) now st) = 0" "vs_TotalDebt (mintEpoch (sm_vai g) now st) = 0"
    using st by (simp_all add: mintEpoch_def Let_def)
  obtain u where u: "AddVAIBalance H a 10000 s = (Inr 10000, u)"
    and gu: "GetValue H u = (GetValue H s)(VAIBalanceKey H a := Inr (be_bytes 8 (10000 :: u64)))"
    using credit_vai_ok [OF reads(4), of 10000] by auto
  obtain t where t: "PutVAIState H ?st u = (Inr (), t)"
    and gt: "GetValue H t = (GetValue H u)(VAIStateKey H := Inr (encodeVAIState ?st))"
    using vai_put_ok by blast
  have "smath_Add H 0 10000 = Inr 10000" using add_fits [of 0 10000] by simp
  then have "\<exists>r. MintVAI_Execute H \<lparr>mv_To = a, mv_Amount = 10000\<rparr> now a s = (Inr r, t)"
    using assms(2) t by (simp add: MintVAI_Execute_def go_defs reads st epoch u Let_def smoke_cfg_ok_def not_less)
  moreover have "smoke_chain H g a veil 10000 lp pool 10000 t"
    using assms(1) by (simp add: smoke_reads gt gu key_simps read_amount)
  ultimately show ?thesis by blast
qed

lemma smoke_deposit:
  assumes "smoke_chain H g a veil 10000 0 (Inr (smoke_pool 0 0 0)) minted s" and "10000 \<le> veil"
  shows "\<exists>r t. AddLiquidity_Execute H \<lparr>al_Asset0 = 0, al_Asset1 = 1, al_Amount0 = 10000, al_Amount1 = 10000,
      al_MinLP = 1\<rparr> a s = (Inr r, t)
    \<and> smoke_chain H g a (veil - 10000) 0 10000 (Inr (smoke_pool 10000 10000 10000)) minted t"
proof -
  have reads: "GetBalance H s a = Inr veil" "GetVAIBalance H s a = Inr 10000" "GetLPBalance H s 0 1 a = Inr 0"
    "GetPool H s 0 1 = Inr (smoke_pool 0 0 0)"
    using assms(1) by (auto simp: smoke_chain_def)
  obtain u1 where u1: "SubBalance H a 10000 s = (Inr (veil - 10000), u1)"
    and g1: "GetValue H u1 = (GetValue H s)(BalanceKey H a := stored_amount (veil - 10000))"
    using debit_veil_ok [OF reads(1) assms(2)] by auto
  have "GetVAIBalance H u1 a = Inr 10000"
    using reads(2) by (simp add: GetVAIBalance_def getVAIBalance_def g1 key_simps Let_def)
  then obtain u2 where u2: "SubVAIBalance H a 10000 u1 = (Inr 0, u2)"
    and g2: "GetValue H u2 = (GetValue H u1)(VAIBalanceKey H a := stored_amount 0)"
    using debit_vai_ok [of u1 a 10000 10000] by auto
  let ?p = "smoke_pool 10000 10000 10000"
  obtain u3 where u3: "PutPool H ?p u2 = (Inr (), u3)"
    and g3: "GetValue H u3 = (GetValue H u2)(PoolKey H 0 1 := Inr (encodePool ?p))"
    using pool_put_ok [of ?p] by (auto simp: smoke_pool_def)
  have "GetLPBalance H u3 0 1 a = Inr 0"
    using reads(3) by (simp add: GetLPBalance_def getLPBalance_def g3 g2 g1 key_simps Let_def)
  then obtain t where u4: "AddLPBalance H 0 1 a 10000 u3 = (Inr 10000, t)"
    and g4: "GetValue H t = (GetValue H u3)(LPBalanceKey H 0 1 a := Inr (be_bytes 8 (10000 :: u64)))"
    using credit_lp_ok [of u3 0 1 a 0 10000] by auto
  have "smath_Mul H 10000 10000 = Inr 100000000" "smath_Add H 0 10000 = Inr 10000"
    using mul_fits [of 10000 10000] add_fits [of 0 10000] by simp_all
  moreover have "intSqrt 100000000 = Inr 10000" by code_simp
  ultimately have "\<exists>r. AddLiquidity_Execute H \<lparr>al_Asset0 = 0, al_Asset1 = 1, al_Amount0 = 10000, al_Amount1 = 10000,
      al_MinLP = 1\<rparr> a s = (Inr r, t)"
    using u1 u2 u3 u4
    by (simp add: AddLiquidity_Execute_def go_defs validateAssetPair_def isSupportedAsset_def reads
        mapPairAmounts_def subAssetBalance_def mintedShares_def smoke_pool_def Let_def)
  moreover have "smoke_chain H g a (veil - 10000) 0 10000 (Inr ?p) minted t"
    using assms(1) by (simp add: smoke_reads g4 g3 g2 g1 key_simps read_amount smoke_pool_def)
  ultimately show ?thesis by blast
qed

lemma smoke_swap:
  assumes "smoke_chain H g a veil 0 lp (Inr (smoke_pool 10000 10000 10000)) minted s" and "100 \<le> veil"
  shows "\<exists>r t. SwapExactIn_Execute H \<lparr>sw_AssetIn = 0, sw_AssetOut = 1, sw_AmountIn = 100, sw_MinAmountOut = 1\<rparr> a s
      = (Inr r, t)
    \<and> smoke_chain H g a (veil - 100) 98 lp (Inr (smoke_pool 10100 9902 10000)) minted t"
proof -
  have reads: "GetBalance H s a = Inr veil" "GetVAIBalance H s a = Inr 0"
    "GetPool H s 0 1 = Inr (smoke_pool 10000 10000 10000)"
    using assms(1) by (auto simp: smoke_chain_def)
  obtain u1 where u1: "SubBalance H a 100 s = (Inr (veil - 100), u1)"
    and g1: "GetValue H u1 = (GetValue H s)(BalanceKey H a := stored_amount (veil - 100))"
    using debit_veil_ok [OF reads(1) assms(2)] by auto
  let ?p = "smoke_pool 10100 9902 10000"
  obtain u2 where u2: "PutPool H ?p u1 = (Inr (), u2)"
    and g2: "GetValue H u2 = (GetValue H u1)(PoolKey H 0 1 := Inr (encodePool ?p))"
    using pool_put_ok [of ?p] by (auto simp: smoke_pool_def)
  have "GetVAIBalance H u2 a = Inr 0"
    using reads(2) by (simp add: GetVAIBalance_def getVAIBalance_def g2 g1 key_simps Let_def)
  then obtain t where u3: "AddVAIBalance H a 98 u2 = (Inr 98, t)"
    and g3: "GetValue H t = (GetValue H u2)(VAIBalanceKey H a := Inr (be_bytes 8 (98 :: u64)))"
    using credit_vai_ok [of u2 a 0 98] by auto
  have "smath_Add H 10000 99 = Inr 10099" "smath_Add H 10000 100 = Inr 10100"
    "smath_Sub H 10000 98 = Inr 9902"
    using add_fits [of 10000 99] add_fits [of 10000 100] sub_fits [of 98 10000] by simp_all
  then have "\<exists>r. SwapExactIn_Execute H \<lparr>sw_AssetIn = 0, sw_AssetOut = 1, sw_AmountIn = 100, sw_MinAmountOut = 1\<rparr> a s
      = (Inr r, t)"
    using u1 u2 u3
    by (simp add: SwapExactIn_Execute_def go_defs validateAssetPair_def isSupportedAsset_def reads swapSides_def
        subAssetBalance_def addAssetBalance_def mulDiv_def swapReserves_def smoke_pool_def Let_def)
  moreover have "smoke_chain H g a (veil - 100) 98 lp (Inr ?p) minted t"
    using assms(1) by (simp add: smoke_reads g3 g2 g1 key_simps read_amount smoke_pool_def)
  ultimately show ?thesis by blast
qed

end

section \<open>A chain that has just started\<close>

text \<open>HyperSDK's part of the initialization credits the allocations and writes nothing but balances.\<close>

locale balance_genesis = base_genesis +
  assumes base_frame: "baseInit allocs s = (Inr (), t) \<Longrightarrow> (\<And>a. k \<noteq> BalanceKey H a) \<Longrightarrow>
    GetValue H t k = GetValue H s k"

context host_env
begin

lemma creditEach_frame:
  "creditEach H allocs s = (Inr (), t) \<Longrightarrow> (\<And>a. k \<noteq> BalanceKey H a) \<Longrightarrow> GetValue H t k = GetValue H s k"
proof (induction allocs arbitrary: s)
  case (Cons a rest)
  then obtain b u where u: "AddBalance H (ca_Address a) (ca_Balance a) s = (Inr b, u)"
    "creditEach H rest u = (Inr (), t)"
    by (auto simp: HandlerAddBalance_def run_simps)
  then have "GetValue H u k = GetValue H s k"
    using Cons.prems(2) AddBalance_run [OF u(1)] by auto
  with Cons.IH [OF u(2) Cons.prems(2)] show ?case by simp
qed (simp add: go_defs)

end

sublocale host_env \<subseteq> plain_balances: balance_genesis H "creditEach H"
  by unfold_locales (rule creditEach_frame)

definition smoke_genesis_cfg :: "Address \<Rightarrow> smoke_cfg" where
  "smoke_genesis_cfg addr = (let k = keygen_tokenomics addr in
     \<lparr>sm_treasury = treasuryConfigOf k, sm_vai = vaiConfigOf k, sm_risk = riskConfigOf k,
      sm_reserve = reserveStateOf k\<rparr>)"

lemma smoke_genesis_cfg_ok: "smoke_cfg_ok (smoke_genesis_cfg addr) addr"
  by (simp add: smoke_cfg_ok_def smoke_genesis_cfg_def Let_def keygen_tokenomics_def treasuryConfigOf_def
      vaiConfigOf_def riskConfigOf_def reserveStateOf_def backingViolated_def)

context balance_genesis
begin

lemma genesis_frame:
  assumes "InitializeState H baseInit g s = (Inr (), t)" and "ge_Tokenomics g = Some k"
  shows "GetValue H t (VAIBalanceKey H a) = GetValue H s (VAIBalanceKey H a)"
    and "GetValue H t (LPBalanceKey H x y a) = GetValue H s (LPBalanceKey H x y a)"
    and "GetValue H t (PoolKey H x y) = GetValue H s (PoolKey H x y)"
proof -
  from assms obtain u0 u1 u2 u3 u4 u5 u6 u7 u8 where
    base: "baseInit (ge_CustomAllocation g) s = (Inr (), u0)" and
    p: "PutTreasuryConfig H (treasuryConfigOf k) u0 = (Inr (), u1)"
      "PutTreasuryState H (treasuryStateOf k) u1 = (Inr (), u2)"
      "PutFeeRouterConfig H (feeRouterConfigOf k) u2 = (Inr (), u3)"
      "PutFeeRouterState H emptyFeeRouterState u3 = (Inr (), u4)"
      "PutVAIConfig H (vaiConfigOf k) u4 = (Inr (), u5)"
      "PutVAIState H emptyVAIState u5 = (Inr (), u6)"
      "PutRiskConfig H (riskConfigOf k) u6 = (Inr (), u7)"
      "PutReserveState H (reserveStateOf k) u7 = (Inr (), u8)"
      "PutProofConfig H (proofConfigOf k) u8 = (Inr (), t)"
    by (auto simp: InitializeState_def run_simps)
  note puts = config_put_run(1) [OF p(1)] config_put_run(2) [OF p(2)] config_put_run(3) [OF p(3)]
    config_put_run(4) [OF p(4)] config_put_run(5) [OF p(5)] config_put_run(6) [OF p(6)]
    PutRiskConfig_run [OF p(7)] config_put_run(7) [OF p(8)] PutProofConfig_run [OF p(9)]
  show "GetValue H t (VAIBalanceKey H a) = GetValue H s (VAIBalanceKey H a)"
    "GetValue H t (LPBalanceKey H x y a) = GetValue H s (LPBalanceKey H x y a)"
    "GetValue H t (PoolKey H x y) = GetValue H s (PoolKey H x y)"
    using base_frame [OF base, of "VAIBalanceKey H a"] base_frame [OF base, of "LPBalanceKey H x y a"]
      base_frame [OF base, of "PoolKey H x y"] puts
    by (simp_all add: key_simps)
qed

text \<open>On an empty database, the generated genesis leaves the account under test as the smoke test expects it.\<close>

lemma smoke_genesis:
  assumes "InitializeState H baseInit (keygen_genesis addr) s = (Inr (), t)"
    and "\<And>k. GetValue H s k = Inl DbErrNotFound"
  shows "smoke_chain H (smoke_genesis_cfg addr) addr 49549950 0 0 (Inl ErrPoolNotFound) 0 t"
proof -
  let ?k = "keygen_tokenomics addr"
  have k: "ge_Tokenomics (keygen_genesis addr) = Some ?k" by (simp add: keygen_genesis_def)
  have "veil_balance H s = (\<lambda>_. 0)" by (rule ext) (simp add: veil_balance_def amount_of_def innerGetBalance_def assms(2))
  then have "veil_balance H t addr = 49549950"
    using arg_cong [OF InitializeState_run(2) [OF assms(1) k], of eVeil]
    by (simp add: economy_fields keygen_genesis_def credit_all_def credit_veil_def set_vai_def set_fees_def)
  then have "fst (innerGetBalance H (GetValue H t (BalanceKey H addr))) = 49549950"
    by (simp add: veil_balance_def amount_of_def word_unat_eq_iff)
  then have "GetBalance H t addr = Inr 49549950"
    by (auto simp: GetBalance_def getBalance_def Let_def balanceResult_def innerGetBalance_def
        split: sum.splits if_splits prod.splits)
  moreover have "GetVAIState H t = Inr emptyVAIState"
    using arg_cong [OF InitializeState_run(2) [OF assms(1) k], of eVAI]
    by (simp add: economy_fields set_vai_def)
  ultimately show ?thesis
    using InitializeState_run(3,6-8) [OF assms(1) k] genesis_frame [OF assms(1) k] assms(2)
    by (simp add: smoke_chain_def smoke_genesis_cfg_def Let_def GetVAIBalance_def getVAIBalance_def
        GetLPBalance_def getLPBalance_def GetPool_def balanceResult_def innerGetBalance_def emptyVAIState_def)
qed

end

end
