(* ===== verification/Smoke.thy ===== *)
theory Smoke
  imports Cmd_Node Smoke_Chain
begin

text \<open>
  \<open>cmd/veilvm-smoke\<close>: the smoke test of the exchange against a running node.

  The run works on the report and the world: \<open>on_node\<close> lifts what touches the world only. A
  step is recorded with its name, verdict, transaction and error; its free text (\<open>Detail\<close>) is left out. The
  theorem: against the chain of a freshly generated genesis the test passes in every step, with the pool it should end
  with.
\<close>

section \<open>The report\<close>

record PoolState =
  ps_Reserve0 :: u64
  ps_Reserve1 :: u64
  ps_TotalLP :: u64
  ps_FeeBips :: u16

record Step =
  st_Name :: string
  st_Pass :: bool
  st_TxID :: "ID option"
  st_Error :: string

record Report =
  rp_Pass :: bool
  rp_Error :: string
  rp_Steps :: "Step list"
  rp_PoolBefore :: "PoolState option"
  rp_PoolAfter :: "PoolState option"
  rp_LPBefore :: u64
  rp_LPAfter :: u64

definition newReport :: Report where
  "newReport = \<lparr>rp_Pass = False, rp_Error = [], rp_Steps = [], rp_PoolBefore = None, rp_PoolAfter = None,
     rp_LPBefore = 0, rp_LPAfter = 0\<rparr>"

type_synonym ('w, 'a) smoke = "(Report \<times> 'w, 'a) action_run"

definition on_report :: "(Report \<Rightarrow> Report) \<Rightarrow> ('w, unit) smoke" where
  "on_report f = (\<lambda>(r, w). (Inr (), f r, w))"

definition addStep :: "Step \<Rightarrow> ('w, unit) smoke" where
  "addStep step = on_report (\<lambda>r. r\<lparr>rp_Steps := rp_Steps r @ [step]\<rparr>)"

definition passStep :: "string \<Rightarrow> bool \<Rightarrow> Step" where
  "passStep name ok = \<lparr>st_Name = name, st_Pass = ok, st_TxID = None, st_Error = []\<rparr>"

definition txStep :: "string \<Rightarrow> ID \<Rightarrow> Step" where
  "txStep name txID = \<lparr>st_Name = name, st_Pass = True, st_TxID = Some txID, st_Error = []\<rparr>"

definition poolState :: "PoolReply \<Rightarrow> PoolState" where
  "poolState pool = \<lparr>ps_Reserve0 = pr_Reserve0 pool, ps_Reserve1 = pr_Reserve1 pool,
     ps_TotalLP = pr_TotalLP pool, ps_FeeBips = pr_FeeBips pool\<rparr>"

section \<open>Submitting\<close>

text \<open>The limit on the fee; the sum wraps.\<close>

definition smoke_maxFee :: "u64 list \<Rightarrow> u64" where
  "smoke_maxFee unitPrices =
     (let maxFee = foldl (\<lambda>acc p. acc + p * 10000) 0 unitPrices in
      if maxFee < 100000 then 100000 else maxFee)"

text \<open>\<open>_, h, _, _ := coreClient.Accepted(ctx)\<close>: an error is ignored and leaves zero.\<close>

definition acceptedHeight :: "('w, 'k, 'r) node_api \<Rightarrow> ('w, u64) action_run" where
  "acceptedHeight A = go_bind (go_try (core_Accepted A)) (\<lambda>r.
     go_return (case r of Inl _ \<Rightarrow> 0 | Inr (h, _) \<Rightarrow> h))"

primrec smoke_poll :: "('w, 'k, 'r) node_api \<Rightarrow> nat \<Rightarrow> u64 \<Rightarrow> ('w, unit) action_run" where
  "smoke_poll A 0 h0 = go_return ()"
| "smoke_poll A (Suc n) h0 =
     go_bind (time_Sleep A Second) (\<lambda>_.
     go_bind (acceptedHeight A) (\<lambda>h1.
     if h1 > h0 then go_return () else smoke_poll A n h0))"

definition smoke_submitAction ::
    "('w, 'k, 'r) node_api \<Rightarrow> linear_codec \<Rightarrow> 'k \<Rightarrow> action \<Rightarrow> ('w, ID) action_run" where
  "smoke_submitAction A C signer action =
     go_bind (wrapf ''network'' (core_Network A)) (\<lambda>chainIDParsed.
     go_bind (wrapf ''accepted'' (core_Accepted A)) (\<lambda>(_, ts).
     go_bind (wrapf ''unitPrices'' (core_UnitPrices A True)) (\<lambda>unitPrices.
     go_bind (sendAction A C ''sign'' ''submit'' \<lparr>tb_Timestamp = alignExpiry ts, tb_ChainID = chainIDParsed,
         tb_MaxFee = smoke_maxFee unitPrices\<rparr> signer action) (\<lambda>txID.
     go_bind (acceptedHeight A) (\<lambda>h0.
     go_bind (smoke_poll A 30 h0) (\<lambda>_.
     go_return txID))))))"

text \<open>A step that submits: it is recorded before its error stops the run.\<close>

definition submitStep ::
    "('w, 'k, 'r) node_api \<Rightarrow> linear_codec \<Rightarrow> 'k \<Rightarrow> string \<Rightarrow> string \<Rightarrow> action \<Rightarrow> ('w, unit) smoke" where
  "submitStep A C signer name prefix action =
     go_bind (on_node (go_try (smoke_submitAction A C signer action))) (\<lambda>r.
     case r of
       Inl err \<Rightarrow> go_bind (addStep \<lparr>st_Name = name, st_Pass = False, st_TxID = None, st_Error = err_Error err\<rparr>)
         (\<lambda>_. go_fail (Err (prefix @ '': '' @ err_Error err)))
     | Inr txID \<Rightarrow> addStep (txStep name txID))"

section \<open>The run\<close>

definition smoke_CreatePool :: CreatePool where
  "smoke_CreatePool = \<lparr>cp_Asset0 = AssetVEIL, cp_Asset1 = AssetVAI, cp_FeeBips = 30\<rparr>"

definition smoke_MintVAI :: "Address \<Rightarrow> MintVAI" where
  "smoke_MintVAI addr = \<lparr>mv_To = addr, mv_Amount = 10000\<rparr>"

definition smoke_AddLiquidity :: AddLiquidity where
  "smoke_AddLiquidity = \<lparr>al_Asset0 = AssetVEIL, al_Asset1 = AssetVAI, al_Amount0 = 10000, al_Amount1 = 10000,
     al_MinLP = 1\<rparr>"

definition smoke_SwapExactIn :: SwapExactIn where
  "smoke_SwapExactIn = \<lparr>sw_AssetIn = AssetVEIL, sw_AssetOut = AssetVAI, sw_AmountIn = 100, sw_MinAmountOut = 1\<rparr>"

definition queryInitialBalances :: "('w, 'k, 'r) node_api \<Rightarrow> Address \<Rightarrow> ('w, unit) smoke" where
  "queryInitialBalances A addr =
     go_bind (on_node (wrapf ''balance query'' (Client_Balance (vm_Request A) addr))) (\<lambda>bal.
     go_bind (on_node (go_try (Client_VAIBalance (vm_Request A) addr))) (\<lambda>vaiBal.
     addStep (passStep ''query_initial_balances'' True)))"

definition queryPoolCreated :: "('w, 'k, 'r) node_api \<Rightarrow> ('w, unit) smoke" where
  "queryPoolCreated A =
     go_bind (on_node (wrapf ''pool query after create'' (Client_Pool (vm_Request A) AssetVEIL AssetVAI))) (\<lambda>pool.
     go_bind (on_report (\<lambda>r. r\<lparr>rp_PoolBefore := Some (poolState pool)\<rparr>)) (\<lambda>_.
     addStep (passStep ''query_pool_created''
       (pr_FeeBips pool = 30 \<and> pr_Reserve0 pool = 0 \<and> pr_Reserve1 pool = 0))))"

definition queryLPBefore :: "('w, 'k, 'r) node_api \<Rightarrow> Address \<Rightarrow> ('w, unit) smoke" where
  "queryLPBefore A addr =
     go_bind (on_node (go_try (Client_LPBalance (vm_Request A) AssetVEIL AssetVAI addr))) (\<lambda>r.
     let lp = (case r of Inl _ \<Rightarrow> 0 | Inr lp \<Rightarrow> lp) in
     go_bind (on_report (\<lambda>rep. rep\<lparr>rp_LPBefore := lp\<rparr>)) (\<lambda>_.
     addStep (passStep ''query_lp_before'' True)))"

definition queryPoolAfterLiquidity :: "('w, 'k, 'r) node_api \<Rightarrow> ('w, unit) smoke" where
  "queryPoolAfterLiquidity A =
     go_bind (on_node (wrapf ''pool query after liquidity'' (Client_Pool (vm_Request A) AssetVEIL AssetVAI))) (\<lambda>pool.
     let ok = (pr_Reserve0 pool > 0 \<and> pr_Reserve1 pool > 0 \<and> pr_TotalLP pool > 0) in
     go_bind (addStep (passStep ''query_pool_after_liquidity'' ok)) (\<lambda>_.
     go_guard (\<not> ok) (Err ''pool reserves not set after add_liquidity'') (go_return ())))"

text \<open>The last balance is read without a look at its error, which leaves zero.\<close>

definition verifySwap :: "('w, 'k, 'r) node_api \<Rightarrow> Address \<Rightarrow> ('w, unit) smoke" where
  "verifySwap A addr =
     go_bind (on_node (wrapf ''pool query after swap'' (Client_Pool (vm_Request A) AssetVEIL AssetVAI))) (\<lambda>pool.
     go_bind (on_report (\<lambda>r. r\<lparr>rp_PoolAfter := Some (poolState pool)\<rparr>)) (\<lambda>_.
     go_bind (on_node (go_try (Client_LPBalance (vm_Request A) AssetVEIL AssetVAI addr))) (\<lambda>lp.
     go_bind (on_report (\<lambda>r. r\<lparr>rp_LPAfter := (case lp of Inl _ \<Rightarrow> 0 | Inr x \<Rightarrow> x)\<rparr>)) (\<lambda>_.
     let swapOK = (pr_Reserve0 pool > 10000 \<and> pr_Reserve1 pool < 10000) in
     go_bind (addStep (passStep ''verify_swap_invariants'' swapOK)) (\<lambda>_.
     go_guard (\<not> swapOK) (Err ''swap invariants failed'') (go_return ()))))))"

text \<open>A query whose error is recorded as a failed step before it stops the run.\<close>

definition recordedQuery :: "string \<Rightarrow> string \<Rightarrow> ('w, 'a) action_run \<Rightarrow> ('w, 'a) smoke" where
  "recordedQuery name prefix q =
     go_bind (on_node (go_try q)) (\<lambda>r. case r of
       Inl err \<Rightarrow> go_bind (addStep \<lparr>st_Name = name, st_Pass = False, st_TxID = None, st_Error = err_Error err\<rparr>)
         (\<lambda>_. go_fail (Err (prefix @ '': '' @ err_Error err)))
     | Inr x \<Rightarrow> go_return x)"

definition rpcSmoke :: "('w, 'k, 'r) node_api \<Rightarrow> Address \<Rightarrow> ('w, unit) smoke" where
  "rpcSmoke A addr =
     go_bind (recordedQuery ''rpc_pool'' ''rpc pool'' (Client_Pool (vm_Request A) AssetVEIL AssetVAI)) (\<lambda>pool.
     go_bind (addStep (passStep ''rpc_pool'' True)) (\<lambda>_.
     go_bind (recordedQuery ''rpc_lpbalance'' ''rpc lpbalance''
       (Client_LPBalance (vm_Request A) AssetVEIL AssetVAI addr)) (\<lambda>lp.
     addStep (passStep ''rpc_lpbalance'' (lp > 0)))))"

text \<open>The ten steps of \<open>run\<close>, and the key they are run with.\<close>

definition smoke_steps :: "('w, 'k, 'r) node_api \<Rightarrow> linear_codec \<Rightarrow> 'k \<Rightarrow> Address \<Rightarrow> ('w, unit) smoke" where
  "smoke_steps A C factory addr =
     go_bind (queryInitialBalances A addr) (\<lambda>_.
     go_bind (submitStep A C factory ''create_pool'' ''create_pool'' (ACreatePool smoke_CreatePool)) (\<lambda>_.
     go_bind (queryPoolCreated A) (\<lambda>_.
     go_bind (submitStep A C factory ''mint_vai'' ''mint_vai'' (AMintVAI (smoke_MintVAI addr))) (\<lambda>_.
     go_bind (queryLPBefore A addr) (\<lambda>_.
     go_bind (submitStep A C factory ''add_liquidity'' ''add_liquidity'' (AAddLiquidity smoke_AddLiquidity)) (\<lambda>_.
     go_bind (queryPoolAfterLiquidity A) (\<lambda>_.
     go_bind (submitStep A C factory ''swap_veil_to_vai'' ''swap'' (ASwapExactIn smoke_SwapExactIn)) (\<lambda>_.
     go_bind (verifySwap A addr) (\<lambda>_.
     rpcSmoke A addr)))))))))"

definition smoke_run :: "('w, 'k, 'r) node_api \<Rightarrow> linear_codec \<Rightarrow> bytes \<Rightarrow> ('w, unit) smoke" where
  "smoke_run A C pkHex =
     go_bind (on_node (keySigner A ''invalid PRIVATE_KEY hex'' pkHex)) (\<lambda>factory.
     smoke_steps A C factory (signer_Address A factory))"

text \<open>
  \<open>main\<close>: the report and the exit code. Without \<open>CHAIN_ID\<close> there is no report; a panic prints none either.
\<close>

definition smoke_main ::
    "(bytes \<Rightarrow> bytes) \<Rightarrow> (bytes \<Rightarrow> ('w, 'k, 'r) node_api) \<Rightarrow> linear_codec \<Rightarrow> ('w, Report \<times> nat) action_run" where
  "smoke_main getenv dial C =
     (let nodeURL = (if getenv (go_str ''NODE_URL'') = [] then go_str ''http://127.0.0.1:9660''
          else getenv (go_str ''NODE_URL''));
          chainID = getenv (go_str ''CHAIN_ID'');
          pkHex = (if getenv (go_str ''PRIVATE_KEY'') = [] then defaultKeyHex
          else getenv (go_str ''PRIVATE_KEY'')) in
      go_guard (chainID = []) (Err ''CHAIN_ID env required'')
     (\<lambda>w. case smoke_run (dial (nodeURL @ go_str ''/ext/bc/'' @ chainID)) C pkHex (newReport, w) of
        (Inl (GoPanic p), _, w') \<Rightarrow> (Inl (GoPanic p), w')
      | (Inl err, r, w') \<Rightarrow> (Inr (r\<lparr>rp_Pass := False, rp_Error := err_Error err\<rparr>, 1), w')
      | (Inr _, r, w') \<Rightarrow> (Inr (r\<lparr>rp_Pass := True\<rparr>, 0), w')))"


section \<open>The run against a node\<close>

lemma go_bind_step: "m s = (Inr x, t) \<Longrightarrow> go_bind m f s = f x t"
  by (simp add: go_bind_def)

lemma on_node_ok: "m w = (Inr x, w') \<Longrightarrow> on_node m (r, w) = (Inr x, r, w')"
  by (simp add: on_node_def)

text \<open>
  \<open>m\<close> takes the world from \<open>P\<close> to \<open>Q\<close>, records \<open>k\<close> steps that pass, and changes the rest of the report by \<open>f\<close>.
\<close>

definition passes ::
    "('w, unit) smoke \<Rightarrow> ('w \<Rightarrow> bool) \<Rightarrow> nat \<Rightarrow> (Report \<Rightarrow> Report) \<Rightarrow> ('w \<Rightarrow> bool) \<Rightarrow> bool" where
  "passes m P k f Q \<longleftrightarrow> (\<forall>r w. P w \<longrightarrow> (\<exists>steps w'. m (r, w) = (Inr (), (f r)\<lparr>rp_Steps := rp_Steps r @ steps\<rparr>, w')
     \<and> length steps = k \<and> list_all st_Pass steps \<and> Q w'))"

lemma passes_seq:
  assumes "passes m P k f Q" and "passes m' Q l g S"
    and "\<And>r xs. g (r\<lparr>rp_Steps := xs\<rparr>) = (g r)\<lparr>rp_Steps := xs\<rparr>"
  shows "passes (go_bind m (\<lambda>_. m')) P (k + l) (g \<circ> f) S"
  unfolding passes_def
proof (intro allI impI)
  fix r w assume "P w"
  then obtain s1 w1 where 1: "m (r, w) = (Inr (), (f r)\<lparr>rp_Steps := rp_Steps r @ s1\<rparr>, w1)" "length s1 = k"
    "list_all st_Pass s1" "Q w1" using assms(1) [unfolded passes_def] by blast
  then obtain s2 w2 where 2: "m' ((f r)\<lparr>rp_Steps := rp_Steps r @ s1\<rparr>, w1) = (Inr (),
      (g (f r))\<lparr>rp_Steps := rp_Steps r @ s1 @ s2\<rparr>, w2)" "length s2 = l" "list_all st_Pass s2" "S w2"
    using assms(2) [unfolded passes_def, rule_format, OF 1(4), of "(f r)\<lparr>rp_Steps := rp_Steps r @ s1\<rparr>"]
    by (auto simp: assms(3))
  show "\<exists>steps w'. go_bind m (\<lambda>_. m') (r, w) = (Inr (), ((g \<circ> f) r)\<lparr>rp_Steps := rp_Steps r @ steps\<rparr>, w')
      \<and> length steps = k + l \<and> list_all st_Pass steps \<and> S w'"
    using 1 2 by (intro exI [of _ "s1 @ s2"] exI [of _ w2]) (simp add: go_bind_def)
qed

lemma passes_cong: "passes m P k f Q \<Longrightarrow> k = k' \<Longrightarrow> f = f' \<Longrightarrow> passes m P k' f' Q"
  by simp

text \<open>One step that passes and leaves the rest of the report.\<close>

lemma passes_one:
  assumes "\<And>r w. P w \<Longrightarrow> \<exists>step w'. m (r, w) = (Inr (), (f r)\<lparr>rp_Steps := rp_Steps r @ [step]\<rparr>, w') \<and> st_Pass step \<and> Q w'"
  shows "passes m P 1 f Q"
  using assms by (force simp: passes_def)

lemma passes_step:
  assumes "\<And>r w. P w \<Longrightarrow> \<exists>w'. m (r, w) = (Inr (), (f r)\<lparr>rp_Steps := rp_Steps r @ [passStep name True]\<rparr>, w') \<and> Q w'"
  shows "passes m P 1 f Q"
  using assms by (intro passes_one) (auto simp: passStep_def intro!: exI [of _ "passStep name True"])

definition smoke_fits :: "linear_codec \<Rightarrow> action \<Rightarrow> bool" where
  "smoke_fits C a \<longleftrightarrow> decodable a \<and> (\<exists>bs. Action_Bytes C a = Inr bs)"

text \<open>A settled world with at least \<open>n\<close> VEIL in the account under test.\<close>

definition smoke_stage :: "'s host \<Rightarrow> ('w, 's, 'r) world_view \<Rightarrow> smoke_cfg \<Rightarrow> Address \<Rightarrow> nat \<Rightarrow> u64 \<Rightarrow> u64
    \<Rightarrow> error + Pool \<Rightarrow> u64 \<Rightarrow> 'w \<Rightarrow> bool" where
  "smoke_stage H W g a n vai lp pool minted w \<longleftrightarrow> settled W w
     \<and> (\<exists>veil. n \<le> unat veil \<and> smoke_chain H g a veil vai lp pool minted (wv_due W w))"

lemma stage_quiet: "smoke_stage H W g a n vai lp pool minted w \<Longrightarrow> quiet W w w' \<Longrightarrow>
    smoke_stage H W g a n vai lp pool minted w'"
  by (simp add: smoke_stage_def quiet_def)

context codec_env
begin

lemma smoke_actions_fit:
  "smoke_fits C (ACreatePool smoke_CreatePool)" "smoke_fits C (AMintVAI (smoke_MintVAI addr))"
  "smoke_fits C (AAddLiquidity smoke_AddLiquidity)" "smoke_fits C (ASwapExactIn smoke_SwapExactIn)"
  unfolding smoke_fits_def Action_Bytes_iff by (simp_all add: action_shape_defs)

end

context one_node
begin

lemma height_read: "\<exists>w'. acceptedHeight A w = (Inr (wv_height W w), w') \<and> quiet W w w'"
  using accepted [of w] by (auto simp: acceptedHeight_def go_defs go_try_ok)

lemma poll_stays:
  "settled W w \<Longrightarrow> \<exists>w'. smoke_poll A n h0 w = (Inr (), w') \<and> wv_due W w' = wv_due W w \<and> settled W w'"
proof (induction n arbitrary: w)
  case 0
  then show ?case by (simp add: go_defs)
next
  case (Suc n)
  obtain u where u: "time_Sleep A Second w = (Inr (), u)" "wv_due W u = wv_due W w" "settled W u"
    using sleeps by blast
  obtain v where v: "acceptedHeight A u = (Inr (wv_height W u), v)" "quiet W u v" using height_read by blast
  then have "wv_due W v = wv_due W w" "settled W v" using u by (simp_all add: quiet_def)
  with Suc.IH [of v] show ?case by (auto simp: go_defs u(1) v(1))
qed

lemma poll_settles: "\<exists>w'. smoke_poll A (Suc n) h0 w = (Inr (), w') \<and> wv_due W w' = wv_due W w \<and> settled W w'"
proof -
  obtain u where u: "time_Sleep A Second w = (Inr (), u)" "wv_due W u = wv_due W w" "settled W u"
    using sleeps by blast
  obtain v where v: "acceptedHeight A u = (Inr (wv_height W u), v)" "quiet W u v" using height_read by blast
  then have "wv_due W v = wv_due W w" "settled W v" using u by (simp_all add: quiet_def)
  with poll_stays [of v n h0] show ?thesis by (auto simp: go_defs u(1) v(1))
qed

lemma smoke_submitted:
  assumes "smoke_fits C a" and "GetBalance H (wv_due W w) (signer_Address A k) = Inr b"
    and "smoke_maxFee prices \<le> b"
  shows "\<exists>fee now txID ok w'. fee \<noteq> 0 \<and> fee \<le> smoke_maxFee prices
    \<and> smoke_submitAction A C k a w = (Inr txID, w') \<and> settled W w'
    \<and> included H V now (signer_Address A k) txID fee a (wv_due W w) = (ok, wv_due W w')"
proof -
  obtain bs where bs: "decodable a" "Action_Bytes C a = Inr bs" using assms(1) by (auto simp: smoke_fits_def)
  obtain w1 where w1: "core_Network A w = (Inr chainID, w1)" "quiet W w w1" using network by blast
  obtain w2 where w2: "core_Accepted A w1 = (Inr (wv_height W w1, wv_clock W w1), w2)" "quiet W w1 w2"
    using accepted by blast
  obtain w3 where w3: "core_UnitPrices A True w2 = (Inr prices, w3)" "quiet W w2 w3" using unit_prices by blast
  let ?base = "\<lparr>tb_Timestamp = alignExpiry (wv_clock W w1), tb_ChainID = chainID, tb_MaxFee = smoke_maxFee prices\<rparr>"
  have q: "wv_due W w3 = wv_due W w" "wv_clock W w3 = wv_clock W w1"
    using w1(2) w2(2) w3(2) by (simp_all add: quiet_def)
  have "smoke_maxFee prices \<noteq> 0" by (auto simp: smoke_maxFee_def Let_def)
  then obtain fee now txID ok w4 where w4: "fee \<noteq> 0" "fee \<le> smoke_maxFee prices"
    "sendAction A C ''sign'' ''submit'' ?base k a w3 = (Inr txID, w4)"
    "included H V now (signer_Address A k) txID fee a (wv_due W w) = (ok, wv_due W w4)"
    using sent [OF bs(2,1), of ?base w3 k b "''sign''" "''submit''"] assms(2,3) q by auto
  obtain w5 where w5: "acceptedHeight A w4 = (Inr (wv_height W w4), w5)" "quiet W w4 w5" using height_read by blast
  obtain w6 where w6: "smoke_poll A 30 (wv_height W w4) w5 = (Inr (), w6)" "wv_due W w6 = wv_due W w5" "settled W w6"
    using poll_settles [of 29 "wv_height W w4" w5] by auto
  have "smoke_submitAction A C k a w = (Inr txID, w6)"
    by (simp add: smoke_submitAction_def go_defs wrapf_def w1(1) w2(1) w3(1) w4(3) w5(1) w6(1))
  moreover have "wv_due W w6 = wv_due W w4" using w5(2) w6(2) by (simp add: quiet_def)
  ultimately show ?thesis using w4 w6(3) by metis
qed

text \<open>A submission takes the account from one stage to the next, less the fee.\<close>

lemma smoke_advances:
  assumes "total_env H" and "unat (smoke_maxFee prices) \<le> n" and "smoke_fits C a"
    and exec: "\<And>veil s now tx. n - unat (smoke_maxFee prices) \<le> unat veil \<Longrightarrow>
      smoke_chain H g (signer_Address A k) veil vai lp pool minted s \<Longrightarrow>
      \<exists>t veil'. Execute H V now (signer_Address A k) tx a s = (Inr (), t) \<and> n' \<le> unat veil'
        \<and> smoke_chain H g (signer_Address A k) veil' vai' lp' pool' minted' t"
  shows "passes (submitStep A C k name prefix a) (smoke_stage H W g (signer_Address A k) n vai lp pool minted)
    1 id (smoke_stage H W g (signer_Address A k) n' vai' lp' pool' minted')"
proof (rule passes_one)
  fix r w
  let ?a = "signer_Address A k" and ?F = "smoke_maxFee prices"
  assume "smoke_stage H W g ?a n vai lp pool minted w"
  then obtain veil where chain: "n \<le> unat veil" "smoke_chain H g ?a veil vai lp pool minted (wv_due W w)"
    by (auto simp: smoke_stage_def)
  then have "GetBalance H (wv_due W w) ?a = Inr veil" "?F \<le> veil"
    using assms(2) by (simp_all add: smoke_chain_def word_le_nat_alt)
  from smoke_submitted [OF assms(3) this] obtain fee now txID ok w' where
    run: "fee \<noteq> 0" "fee \<le> ?F" "smoke_submitAction A C k a w = (Inr txID, w')" "settled W w'"
      "included H V now ?a txID fee a (wv_due W w) = (ok, wv_due W w')" by blast
  have le: "fee \<le> veil" using run(2) \<open>?F \<le> veil\<close> by (rule order_trans)
  obtain t where t: "Deduct H ?a fee (wv_due W w) = (Inr (), t)"
    "smoke_chain H g ?a (veil - fee) vai lp pool minted t"
    using total_env.smoke_fee [OF assms(1) chain(2) run(1) le] by blast
  have "n - unat ?F \<le> unat (veil - fee)"
    using chain(1) run(2) le by (simp add: unat_sub word_le_nat_alt)
  from exec [OF this t(2)] obtain u veil' where u: "Execute H V now ?a txID a t = (Inr (), u)"
    "n' \<le> unat veil'" "smoke_chain H g ?a veil' vai' lp' pool' minted' u" by blast
  have "wv_due W w' = u" using run(5) by (simp add: included_def t(1) u(1))
  then have "smoke_stage H W g ?a n' vai' lp' pool' minted' w'"
    using run(4) u(2,3) by (auto simp: smoke_stage_def)
  with run(3) show "\<exists>step w'. submitStep A C k name prefix a (r, w)
      = (Inr (), (id r)\<lparr>rp_Steps := rp_Steps r @ [step]\<rparr>, w') \<and> st_Pass step
      \<and> smoke_stage H W g ?a n' vai' lp' pool' minted' w'"
    by (intro exI [of _ "txStep name txID"] exI [of _ w'])
      (simp add: submitStep_def go_defs on_node_ok go_try_ok addStep_def on_report_def txStep_def)
qed

lemmas step_defs = go_defs on_node_ok wrapf_ok go_try_ok addStep_def on_report_def passStep_def

text \<open>The queries.\<close>

lemma query_veil:
  assumes "smoke_stage H W g a n vai lp pool minted w"
  shows "\<exists>veil w'. Client_Balance (vm_Request A) a w = (Inr veil, w') \<and> smoke_stage H W g a n vai lp pool minted w'"
proof -
  obtain veil where c: "settled W w" "smoke_chain H g a veil vai lp pool minted (wv_due W w)"
    using assms by (auto simp: smoke_stage_def)
  then show ?thesis using reads(1) [OF c(1), of a] stage_quiet [OF assms] by (auto simp: smoke_chain_def)
qed

lemma query_vai:
  assumes "smoke_stage H W g a n vai lp pool minted w"
  shows "\<exists>w'. Client_VAIBalance (vm_Request A) a w = (Inr vai, w') \<and> smoke_stage H W g a n vai lp pool minted w'"
proof -
  obtain veil where c: "settled W w" "smoke_chain H g a veil vai lp pool minted (wv_due W w)"
    using assms by (auto simp: smoke_stage_def)
  then show ?thesis using reads(2) [OF c(1), of a] stage_quiet [OF assms] by (auto simp: smoke_chain_def)
qed

lemma query_pool:
  assumes "smoke_stage H W g a n vai lp (Inr p) minted w"
  shows "\<exists>w'. Client_Pool (vm_Request A) AssetVEIL AssetVAI w = (Inr \<lparr>pr_Asset0 = p_Asset0 p, pr_Asset1 = p_Asset1 p,
        pr_FeeBips = p_FeeBips p, pr_Reserve0 = p_Reserve0 p, pr_Reserve1 = p_Reserve1 p,
        pr_TotalLP = p_TotalLP p\<rparr>, w')
    \<and> smoke_stage H W g a n vai lp (Inr p) minted w'"
proof -
  obtain veil where c: "settled W w" "smoke_chain H g a veil vai lp (Inr p) minted (wv_due W w)"
    using assms by (auto simp: smoke_stage_def)
  then show ?thesis
    using reads(4) [OF c(1), of AssetVEIL AssetVAI] stage_quiet [OF assms] by (auto simp: smoke_chain_def)
qed

lemma query_shares:
  assumes "smoke_stage H W g a n vai lp pool minted w"
  shows "\<exists>w'. Client_LPBalance (vm_Request A) AssetVEIL AssetVAI a w = (Inr lp, w')
    \<and> smoke_stage H W g a n vai lp pool minted w'"
proof -
  obtain veil where c: "settled W w" "smoke_chain H g a veil vai lp pool minted (wv_due W w)"
    using assms by (auto simp: smoke_stage_def)
  then show ?thesis
    using reads(3) [OF c(1), of AssetVEIL AssetVAI a] stage_quiet [OF assms] by (auto simp: smoke_chain_def)
qed

lemma balances_step:
  "passes (queryInitialBalances A a) (smoke_stage H W g a n vai lp pool minted) 1 id
    (smoke_stage H W g a n vai lp pool minted)"
proof (rule passes_step [where name = "''query_initial_balances''"])
  fix r w assume "smoke_stage H W g a n vai lp pool minted w"
  from query_veil [OF this] obtain veil w1 where w1: "Client_Balance (vm_Request A) a w = (Inr veil, w1)"
    "smoke_stage H W g a n vai lp pool minted w1" by blast
  from query_vai [OF this(2)] w1(1)
  show "\<exists>w'. queryInitialBalances A a (r, w) = (Inr (), (id r)\<lparr>rp_Steps := rp_Steps r
        @ [passStep ''query_initial_balances'' True]\<rparr>, w') \<and> smoke_stage H W g a n vai lp pool minted w'"
    by (auto simp: queryInitialBalances_def step_defs)
qed

lemma pool_created_step:
  "passes (queryPoolCreated A) (smoke_stage H W g a n vai lp (Inr (smoke_pool 0 0 0)) minted) 1
    (\<lambda>r. r\<lparr>rp_PoolBefore := Some \<lparr>ps_Reserve0 = 0, ps_Reserve1 = 0, ps_TotalLP = 0, ps_FeeBips = 30\<rparr>\<rparr>)
    (smoke_stage H W g a n vai lp (Inr (smoke_pool 0 0 0)) minted)"
  by (rule passes_step [where name = "''query_pool_created''"], drule query_pool)
    (auto simp: queryPoolCreated_def step_defs poolState_def smoke_pool_def)

lemma lp_before_step:
  "passes (queryLPBefore A a) (smoke_stage H W g a n vai lp pool minted) 1 (\<lambda>r. r\<lparr>rp_LPBefore := lp\<rparr>)
    (smoke_stage H W g a n vai lp pool minted)"
  by (rule passes_step [where name = "''query_lp_before''"], drule query_shares)
    (auto simp: queryLPBefore_def step_defs)

lemma pool_filled_step:
  "passes (queryPoolAfterLiquidity A) (smoke_stage H W g a n vai lp (Inr (smoke_pool 10000 10000 10000)) minted) 1 id
    (smoke_stage H W g a n vai lp (Inr (smoke_pool 10000 10000 10000)) minted)"
  by (rule passes_step [where name = "''query_pool_after_liquidity''"], drule query_pool)
    (auto simp: queryPoolAfterLiquidity_def step_defs Let_def smoke_pool_def)

lemma swap_verified_step:
  "passes (verifySwap A a) (smoke_stage H W g a n vai lp (Inr (smoke_pool 10100 9902 10000)) minted) 1
    (\<lambda>r. r\<lparr>rp_PoolAfter := Some \<lparr>ps_Reserve0 = 10100, ps_Reserve1 = 9902, ps_TotalLP = 10000, ps_FeeBips = 30\<rparr>,
      rp_LPAfter := lp\<rparr>)
    (smoke_stage H W g a n vai lp (Inr (smoke_pool 10100 9902 10000)) minted)"
proof (rule passes_step [where name = "''verify_swap_invariants''"])
  fix r w assume "smoke_stage H W g a n vai lp (Inr (smoke_pool 10100 9902 10000)) minted w"
  from query_pool [OF this] obtain w1 where w1: "Client_Pool (vm_Request A) AssetVEIL AssetVAI w
      = (Inr \<lparr>pr_Asset0 = 0, pr_Asset1 = 1, pr_FeeBips = 30, pr_Reserve0 = 10100, pr_Reserve1 = 9902,
          pr_TotalLP = 10000\<rparr>, w1)"
    "smoke_stage H W g a n vai lp (Inr (smoke_pool 10100 9902 10000)) minted w1"
    by (auto simp: smoke_pool_def)
  from query_shares [OF this(2)] w1(1)
  show "\<exists>w'. verifySwap A a (r, w) = (Inr (), (r\<lparr>rp_PoolAfter := Some \<lparr>ps_Reserve0 = 10100,
        ps_Reserve1 = 9902, ps_TotalLP = 10000, ps_FeeBips = 30\<rparr>, rp_LPAfter := lp\<rparr>)\<lparr>rp_Steps := rp_Steps r
        @ [passStep ''verify_swap_invariants'' True]\<rparr>, w')
      \<and> smoke_stage H W g a n vai lp (Inr (smoke_pool 10100 9902 10000)) minted w'"
    by (auto simp: verifySwap_def step_defs Let_def poolState_def)
qed

lemma rpc_step:
  assumes "0 < lp"
  shows "passes (rpcSmoke A a) (smoke_stage H W g a n vai lp (Inr p) minted) 2 id
    (smoke_stage H W g a n vai lp (Inr p) minted)"
  unfolding passes_def
proof (intro allI impI)
  fix r w assume "smoke_stage H W g a n vai lp (Inr p) minted w"
  from query_pool [OF this] obtain x w1 where w1: "Client_Pool (vm_Request A) AssetVEIL AssetVAI w = (Inr x, w1)"
    "smoke_stage H W g a n vai lp (Inr p) minted w1" by blast
  from query_shares [OF this(2)] obtain w2 where "Client_LPBalance (vm_Request A) AssetVEIL AssetVAI a w1 = (Inr lp, w2)"
    "smoke_stage H W g a n vai lp (Inr p) minted w2" by blast
  with w1(1) assms
  show "\<exists>steps w'. rpcSmoke A a (r, w) = (Inr (), (id r)\<lparr>rp_Steps := rp_Steps r @ steps\<rparr>, w')
      \<and> length steps = 2 \<and> list_all st_Pass steps \<and> smoke_stage H W g a n vai lp (Inr p) minted w'"
    by (intro exI [of _ "[passStep ''rpc_pool'' True, passStep ''rpc_lpbalance'' True]"] exI [of _ w2])
      (simp add: rpcSmoke_def recordedQuery_def step_defs)
qed

text \<open>The four transactions.\<close>

lemma created_step:
  assumes "total_env H" and "smoke_cfg_ok g (signer_Address A k)" and "unat (smoke_maxFee prices) + n \<le> m"
  shows "passes (submitStep A C k ''create_pool'' ''create_pool'' (ACreatePool smoke_CreatePool))
    (smoke_stage H W g (signer_Address A k) m vai lp (Inl ErrPoolNotFound) minted) 1 id
    (smoke_stage H W g (signer_Address A k) n vai lp (Inr (smoke_pool 0 0 0)) minted)"
proof (rule smoke_advances [OF assms(1) _ smoke_actions_fit(1)])
  fix veil s now tx
  assume "m - unat (smoke_maxFee prices) \<le> unat veil"
    and s: "smoke_chain H g (signer_Address A k) veil vai lp (Inl ErrPoolNotFound) minted s"
  with assms(3) total_env.smoke_create [OF assms(1) s assms(2)]
  show "\<exists>t veil'. Execute H V now (signer_Address A k) tx (ACreatePool smoke_CreatePool) s = (Inr (), t)
      \<and> n \<le> unat veil'
      \<and> smoke_chain H g (signer_Address A k) veil' vai lp (Inr (smoke_pool 0 0 0)) minted t"
    by (auto simp: run_only_def go_defs smoke_CreatePool_def intro!: exI [of _ veil])
qed (use assms(3) in simp)

lemma minted_step:
  assumes "total_env H" and "smoke_cfg_ok g (signer_Address A k)" and "unat (smoke_maxFee prices) + n \<le> m"
  shows "passes (submitStep A C k ''mint_vai'' ''mint_vai'' (AMintVAI (smoke_MintVAI (signer_Address A k))))
    (smoke_stage H W g (signer_Address A k) m 0 lp pool 0) 1 id
    (smoke_stage H W g (signer_Address A k) n 10000 lp pool 10000)"
proof (rule smoke_advances [OF assms(1) _ smoke_actions_fit(2)])
  fix veil s now tx
  assume "m - unat (smoke_maxFee prices) \<le> unat veil" and s: "smoke_chain H g (signer_Address A k) veil 0 lp pool 0 s"
  with assms(3) total_env.smoke_mint [OF assms(1) s assms(2), of now]
  show "\<exists>t veil'. Execute H V now (signer_Address A k) tx (AMintVAI (smoke_MintVAI (signer_Address A k))) s
        = (Inr (), t)
      \<and> n \<le> unat veil' \<and> smoke_chain H g (signer_Address A k) veil' 10000 lp pool 10000 t"
    by (auto simp: run_only_def go_defs smoke_MintVAI_def intro!: exI [of _ veil])
qed (use assms(3) in simp)

lemma deposited_step:
  assumes "total_env H" and "unat (smoke_maxFee prices) + 10000 + n \<le> m"
  shows "passes (submitStep A C k ''add_liquidity'' ''add_liquidity'' (AAddLiquidity smoke_AddLiquidity))
    (smoke_stage H W g (signer_Address A k) m 10000 0 (Inr (smoke_pool 0 0 0)) minted) 1 id
    (smoke_stage H W g (signer_Address A k) n 0 10000 (Inr (smoke_pool 10000 10000 10000)) minted)"
proof (rule smoke_advances [OF assms(1) _ smoke_actions_fit(3)])
  fix veil s now tx
  assume v: "m - unat (smoke_maxFee prices) \<le> unat veil"
    and s: "smoke_chain H g (signer_Address A k) veil 10000 0 (Inr (smoke_pool 0 0 0)) minted s"
  have le: "10000 \<le> veil" using v assms(2) by (simp add: word_le_nat_alt)
  then have "n \<le> unat (veil - 10000)" using v assms(2) by (simp add: unat_sub)
  with total_env.smoke_deposit [OF assms(1) s le]
  show "\<exists>t veil'. Execute H V now (signer_Address A k) tx (AAddLiquidity smoke_AddLiquidity) s = (Inr (), t)
      \<and> n \<le> unat veil'
      \<and> smoke_chain H g (signer_Address A k) veil' 0 10000 (Inr (smoke_pool 10000 10000 10000)) minted t"
    by (auto simp: run_only_def go_defs smoke_AddLiquidity_def intro!: exI [of _ "veil - 10000"])
qed (use assms(2) in simp)

lemma swapped_step:
  assumes "total_env H" and "unat (smoke_maxFee prices) + 100 \<le> m"
  shows "passes (submitStep A C k ''swap_veil_to_vai'' ''swap'' (ASwapExactIn smoke_SwapExactIn))
    (smoke_stage H W g (signer_Address A k) m 0 lp (Inr (smoke_pool 10000 10000 10000)) minted) 1 id
    (smoke_stage H W g (signer_Address A k) 0 98 lp (Inr (smoke_pool 10100 9902 10000)) minted)"
proof (rule smoke_advances [OF assms(1) _ smoke_actions_fit(4)])
  fix veil s now tx
  assume v: "m - unat (smoke_maxFee prices) \<le> unat veil"
    and s: "smoke_chain H g (signer_Address A k) veil 0 lp (Inr (smoke_pool 10000 10000 10000)) minted s"
  have le: "100 \<le> veil" using v assms(2) by (simp add: word_le_nat_alt)
  from total_env.smoke_swap [OF assms(1) s le]
  show "\<exists>t veil'. Execute H V now (signer_Address A k) tx (ASwapExactIn smoke_SwapExactIn) s = (Inr (), t)
      \<and> 0 \<le> unat veil' \<and> smoke_chain H g (signer_Address A k) veil' 98 lp (Inr (smoke_pool 10100 9902 10000)) minted t"
    by (auto simp: run_only_def go_defs smoke_SwapExactIn_def)
qed (use assms(2) in simp)

lemma smoke_run_passes:
  assumes "total_env H" and "DecodeString pk = Inr b" and "64 \<le> length b"
    and "k = NewED25519Factory A (take 64 b)" and "smoke_cfg_ok g (signer_Address A k)"
    and "smoke_stage H W g (signer_Address A k) n 0 0 (Inl ErrPoolNotFound) 0 w"
    and n: "4 * unat (smoke_maxFee prices) + 10100 \<le> n"
  shows "\<exists>r w'. smoke_run A C pk (newReport, w) = (Inr (), r, w')
    \<and> length (rp_Steps r) = 11 \<and> list_all st_Pass (rp_Steps r) \<and> rp_Error r = []
    \<and> rp_PoolAfter r = Some \<lparr>ps_Reserve0 = 10100, ps_Reserve1 = 9902, ps_TotalLP = 10000, ps_FeeBips = 30\<rparr>
    \<and> rp_LPBefore r = 0 \<and> rp_LPAfter r = 10000"
proof -
  let ?F = "unat (smoke_maxFee prices)" and ?a = "signer_Address A k"
  have "passes (smoke_steps A C k ?a) (smoke_stage H W g ?a n 0 0 (Inl ErrPoolNotFound) 0) 11
    (\<lambda>r. r\<lparr>rp_PoolBefore := Some \<lparr>ps_Reserve0 = 0, ps_Reserve1 = 0, ps_TotalLP = 0, ps_FeeBips = 30\<rparr>,
      rp_LPBefore := 0, rp_PoolAfter := Some \<lparr>ps_Reserve0 = 10100, ps_Reserve1 = 9902, ps_TotalLP = 10000,
      ps_FeeBips = 30\<rparr>, rp_LPAfter := 10000\<rparr>)
    (smoke_stage H W g ?a 0 98 10000 (Inr (smoke_pool 10100 9902 10000)) 10000)"
    unfolding smoke_steps_def
    by (rule passes_cong [OF passes_seq [OF balances_step passes_seq [OF created_step
          [OF assms(1,5), where n = "3 * ?F + 10100"]
        passes_seq [OF pool_created_step passes_seq [OF minted_step
          [OF assms(1,5), where n = "2 * ?F + 10100"]
        passes_seq [OF lp_before_step passes_seq [OF deposited_step [OF assms(1), where n = "?F + 100"]
        passes_seq [OF pool_filled_step passes_seq [OF swapped_step [OF assms(1)]
        passes_seq [OF swap_verified_step rpc_step]]]]]]]]]])
      (use n in \<open>simp_all add: fun_eq_iff\<close>)
  then obtain steps w' where "smoke_steps A C k ?a (newReport, w) = (Inr (), (newReport\<lparr>
      rp_PoolBefore := Some \<lparr>ps_Reserve0 = 0, ps_Reserve1 = 0, ps_TotalLP = 0, ps_FeeBips = 30\<rparr>,
      rp_LPBefore := 0, rp_PoolAfter := Some \<lparr>ps_Reserve0 = 10100, ps_Reserve1 = 9902, ps_TotalLP = 10000,
      ps_FeeBips = 30\<rparr>, rp_LPAfter := 10000\<rparr>)\<lparr>rp_Steps := rp_Steps newReport @ steps\<rparr>, w')"
    "length steps = 11" "list_all st_Pass steps"
    using assms(6) unfolding passes_def by blast
  moreover have "keySigner A ''invalid PRIVATE_KEY hex'' pk w = (Inr k, w)"
    using assms(2-4) by (simp add: keySigner_def go_defs wrapf_def PrivateKey_def)
  ultimately show ?thesis
    by (simp add: smoke_run_def go_bind_def on_node_ok newReport_def)
qed

end

section \<open>Properties\<close>


definition smoke_env :: "bytes \<Rightarrow> bytes" where
  "smoke_env name = (if name = go_str ''CHAIN_ID'' then go_str ''veil''
     else if name = go_str ''PRIVATE_KEY'' then defaultKeyHex else [])"


end
