(* ===== verification/Go_Text.thy ===== *)
theory Go_Text
  imports Vm_Config Zk_Metrics
begin

text \<open>
  What the command line tools use of \<open>strings\<close>, \<open>strconv\<close>, \<open>encoding/hex\<close>, \<open>unicode/utf8\<close> and \<open>path/filepath\<close>
  (on Unix). A string is its bytes.

  The lemmas: a number that is printed is read back, and a list of parts that is joined is split again.
\<close>

section \<open>Strings\<close>

fun split_on :: "byte \<Rightarrow> bytes \<Rightarrow> bytes list" where
  "split_on sep [] = [[]]"
| "split_on sep (b # bs) =
     (if b = sep then [] # split_on sep bs
      else case split_on sep bs of e # es \<Rightarrow> (b # e) # es | [] \<Rightarrow> [[b]])"

text \<open>\<open>strings.Join(elems, sep)\<close> for a separator of one byte.\<close>

fun join_with :: "byte \<Rightarrow> bytes list \<Rightarrow> bytes" where
  "join_with sep [] = []"
| "join_with sep [e] = e"
| "join_with sep (e # es) = e @ sep # join_with sep es"

definition Contains :: "bytes \<Rightarrow> bytes \<Rightarrow> bool" where
  "Contains s sub \<longleftrightarrow> (\<exists>i \<in> set [0..<length s + 1]. take (length sub) (drop i s) = sub)"

text \<open>
  \<open>strings.ToLower\<close>, for comparison with ASCII words: besides the capital letters, the Kelvin sign and the capital I with
  a dot lower-case to ASCII; any other character stays outside ASCII and is left as it is.
\<close>

fun go_ToLower :: "bytes \<Rightarrow> bytes" where
  "go_ToLower [] = []"
| "go_ToLower (b # bs) =
     (if b = 0xC4 \<and> take 1 bs = [0xB0] then 0x69 # go_ToLower (drop 1 bs)
      else if b = 0xE2 \<and> take 2 bs = [0x84, 0xAA] then 0x6B # go_ToLower (drop 2 bs)
      else lower_byte b # go_ToLower bs)"

text \<open>\<open>strings.TrimRight(s, "/")\<close>.\<close>

definition TrimRight_slash :: "bytes \<Rightarrow> bytes" where
  "TrimRight_slash s = rev (dropWhile (\<lambda>b. b = 0x2F) (rev s))"

lemma split_on_nonempty [simp]: "split_on sep s \<noteq> []"
  by (induction s) (auto split: list.splits)

lemma split_on_single: "sep \<notin> set e \<Longrightarrow> split_on sep e = [e]"
  by (induction e) auto

lemma split_on_front: "sep \<notin> set e \<Longrightarrow> split_on sep (e @ sep # rest) = e # split_on sep rest"
  by (induction e) auto

lemma split_join:
  "es \<noteq> [] \<Longrightarrow> (\<And>e. e \<in> set es \<Longrightarrow> sep \<notin> set e) \<Longrightarrow> split_on sep (join_with sep es) = es"
  by (induction sep es rule: join_with.induct) (simp_all add: split_on_single split_on_front)

section \<open>Numbers\<close>

text \<open>A non-empty string of decimal digits.\<close>

definition parse_digits :: "bytes \<Rightarrow> int option" where
  "parse_digits s = (if s \<noteq> [] \<and> list_all (\<lambda>b. 0x30 \<le> b \<and> b \<le> 0x39) s
     then Some (foldl (\<lambda>n b. 10 * n + uint (b - 0x30)) 0 s) else None)"

definition ParseUint :: "bytes \<Rightarrow> error + u64" where
  "ParseUint s = (case parse_digits s of
     None \<Rightarrow> Inl (HostError ''invalid syntax'')
   | Some n \<Rightarrow> if n < 2 ^ 64 then Inr (word_of_int n) else Inl (HostError ''value out of range''))"

definition Atoi :: "bytes \<Rightarrow> error + i64" where
  "Atoi s =
     (let neg = (take 1 s = [0x2D]); body = (if take 1 s = [0x2D] \<or> take 1 s = [0x2B] then drop 1 s else s) in
      case parse_digits body of
        None \<Rightarrow> Inl (HostError ''invalid syntax'')
      | Some n \<Rightarrow>
          if neg then (if n \<le> 2 ^ 63 then Inr (word_of_int (- n)) else Inl (HostError ''value out of range''))
          else (if n < 2 ^ 63 then Inr (word_of_int n) else Inl (HostError ''value out of range'')))"

definition FormatInt :: "int \<Rightarrow> bytes" where
  "FormatInt n = (if n < 0 then 0x2D # FormatUint (nat (- n)) else FormatUint (nat n))"

definition FormatBool :: "bool \<Rightarrow> bytes" where
  "FormatBool b = (if b then go_str ''true'' else go_str ''false'')"

lemma FormatUint_digits:
  "list_all (\<lambda>b. 0x30 \<le> b \<and> b \<le> 0x39) (FormatUint n)
    \<and> foldl (\<lambda>n b. 10 * n + uint (b - 0x30)) 0 (FormatUint n) = int n \<and> FormatUint n \<noteq> []"
proof (induction n rule: FormatUint.induct)
  case (1 n)
  have digit: "0x30 \<le> (0x30 + of_nat d :: byte) \<and> (0x30 + of_nat d :: byte) \<le> 0x39 \<and> uint (of_nat d :: byte) = int d"
    if "d < 10" for d
    using that by (auto simp: word_le_nat_alt unat_word_ariths unat_of_nat uint_nat)
  show ?case
  proof (cases "n < 10")
    case True
    then show ?thesis using digit [of n] by (simp add: FormatUint.simps [of n])
  next
    case False
    have "10 * (int n div 10) + int n mod 10 = int n" by simp
    then show ?thesis using 1 False digit [of "n mod 10"] by (simp add: FormatUint.simps [of n] zdiv_int zmod_int)
  qed
qed

lemma parse_FormatUint [simp]: "parse_digits (FormatUint n) = Some (int n)"
  using FormatUint_digits [of n] by (simp add: parse_digits_def)

lemma ParseUint_FormatUint: "ParseUint (FormatUint (unat n)) = Inr n"
  using uint_lt2p [of n] by (simp add: ParseUint_def)

lemma FormatUint_unsigned: "take 1 (FormatUint n) \<noteq> [0x2D]" "take 1 (FormatUint n) \<noteq> [0x2B]"
  using FormatUint_digits [of n] by (cases "FormatUint n"; auto simp: word_le_nat_alt)+

lemma Atoi_FormatInt: "Atoi (FormatInt (sint n)) = Inr n"
  using sint_ge [of n] sint_lt [of n] FormatUint_unsigned [of "nat (sint n)"]
  by (simp add: Atoi_def FormatInt_def Let_def)

section \<open>Hexadecimal\<close>

definition hex_digit :: "byte \<Rightarrow> byte" where
  "hex_digit d = (if d < 10 then 0x30 + d else 0x61 + (d - 10))"

definition EncodeToString :: "bytes \<Rightarrow> bytes" where
  "EncodeToString bs = concat (map (\<lambda>b. [hex_digit (b div 16), hex_digit (b mod 16)]) bs)"

section \<open>Runes\<close>

text \<open>The width of the first rune of a non-empty string; an invalid byte is one rune.\<close>

definition cont_byte :: "byte \<Rightarrow> byte \<Rightarrow> byte \<Rightarrow> bool" where
  "cont_byte lo hi b \<longleftrightarrow> lo \<le> b \<and> b \<le> hi"

definition rune_width :: "bytes \<Rightarrow> nat" where
  "rune_width s = (case s of
     b # c # rest \<Rightarrow>
       if 0xC2 \<le> b \<and> b \<le> 0xDF \<and> cont_byte 0x80 0xBF c then 2
       else (case rest of [] \<Rightarrow> 1 | d # rest2 \<Rightarrow>
         let lo = (if b = 0xE0 then 0xA0 else if b = 0xF0 then 0x90 else 0x80);
             hi = (if b = 0xED then 0x9F else if b = 0xF4 then 0x8F else 0xBF) in
         if 0xE0 \<le> b \<and> b \<le> 0xEF \<and> cont_byte lo hi c \<and> cont_byte 0x80 0xBF d then 3
         else (case rest2 of [] \<Rightarrow> 1 | e # _ \<Rightarrow>
           if 0xF0 \<le> b \<and> b \<le> 0xF4 \<and> cont_byte lo hi c \<and> cont_byte 0x80 0xBF d \<and> cont_byte 0x80 0xBF e
           then 4 else 1))
   | _ \<Rightarrow> 1)"

lemma rune_width_pos: "0 < rune_width s"
  by (auto simp: rune_width_def Let_def split: list.split)

section \<open>Paths\<close>

abbreviation slash :: byte where "slash \<equiv> 0x2F"

text \<open>The components that remain, last one first.\<close>

fun clean_step :: "bool \<Rightarrow> bytes list \<Rightarrow> bytes \<Rightarrow> bytes list" where
  "clean_step rooted out e =
     (if e = [] \<or> e = go_str ''.'' then out
      else if e = go_str ''..'' then
        (case out of
           [] \<Rightarrow> if rooted then [] else [e]
         | p # ps \<Rightarrow> if p = go_str ''..'' then e # out else ps)
      else e # out)"

definition path_Clean :: "bytes \<Rightarrow> bytes" where
  "path_Clean path =
     (let rooted = (take 1 path = [slash]);
          body = join_with slash (rev (foldl (clean_step rooted) [] (split_on slash path))) in
      if rooted then slash # body else if body = [] then go_str ''.'' else body)"

definition path_Join :: "bytes list \<Rightarrow> bytes" where
  "path_Join elems = (case dropWhile (\<lambda>e. e = []) elems of
     [] \<Rightarrow> [] | es \<Rightarrow> path_Clean (join_with slash es))"

definition path_Dir :: "bytes \<Rightarrow> bytes" where
  "path_Dir path = path_Clean (rev (dropWhile (\<lambda>b. b \<noteq> slash) (rev path)))"

end
