(* ===== verification/Bench_Config.thy ===== *)
theory Bench_Config
  imports Go_Text Smoke
begin

text \<open>
  \<open>cmd/veilvm-zkbench\<close>, its configuration and its arithmetic of fees.

  The environment variables and the files whose digest names the cache are the \<open>os_env\<close> of \<open>Vm_Config\<close>. The theorems: a
  configuration that is accepted is one the run can work with; the fee limit is the exact sum, saturated; and the
  budget asked for covers every planned transaction.
\<close>

section \<open>Reading the environment\<close>

abbreviation defaultNodeURL :: bytes where "defaultNodeURL \<equiv> go_str ''http://127.0.0.1:9660''"
abbreviation defaultGasSafetyBps :: u64 where "defaultGasSafetyBps \<equiv> 13000"
abbreviation defaultGasReserve :: u64 where "defaultGasReserve \<equiv> 250000"
abbreviation defaultRefuelAmount :: u64 where "defaultRefuelAmount \<equiv> 5000000"
abbreviation maxUint64 :: u64 where "maxUint64 \<equiv> - 1"

definition envOr :: "os_env \<Rightarrow> string \<Rightarrow> bytes \<Rightarrow> bytes" where
  "envOr E name fallback = (let v = os_Getenv E (go_str name) in if v \<noteq> [] then v else fallback)"

definition envInt :: "os_env \<Rightarrow> string \<Rightarrow> i64 \<Rightarrow> i64" where
  "envInt E name fallback =
     (let v = os_Getenv E (go_str name) in
      if v = [] then fallback else case Atoi v of Inl _ \<Rightarrow> fallback | Inr n \<Rightarrow> n)"

definition envUint64 :: "os_env \<Rightarrow> string \<Rightarrow> u64 \<Rightarrow> u64" where
  "envUint64 E name fallback =
     (let v = TrimSpace (os_Getenv E (go_str name)) in
      if v = [] then fallback else case ParseUint v of Inl _ \<Rightarrow> fallback | Inr n \<Rightarrow> n)"

definition envBool :: "os_env \<Rightarrow> string \<Rightarrow> bool \<Rightarrow> bool" where
  "envBool E name fallback =
     (let v = TrimSpace (ToLower (os_Getenv E (go_str name))) in
      if v = [] then fallback
      else if v \<in> set (map go_str [''1'', ''true'', ''t'', ''yes'', ''y'', ''on'']) then True
      else if v \<in> set (map go_str [''0'', ''false'', ''f'', ''no'', ''n'', ''off'']) then False
      else fallback)"

fun parseSizes :: "bytes list \<Rightarrow> error + i64 list" where
  "parseSizes [] = Inr []"
| "parseSizes (p0 # rest) =
     (let p = TrimSpace p0 in
      if p = [] then parseSizes rest
      else case Atoi p of
        Inl _ \<Rightarrow> Inl (Err ''invalid batch size'')
      | Inr n \<Rightarrow>
          if sint n \<le> 0 then Inl (Err ''invalid batch size'')
          else case parseSizes rest of Inl err \<Rightarrow> Inl err | Inr out \<Rightarrow> Inr (n # out))"

definition parseBatchSizes :: "bytes \<Rightarrow> error + i64 list" where
  "parseBatchSizes raw = (case parseSizes (split_on 0x2C raw) of
     Inl err \<Rightarrow> Inl err
   | Inr out \<Rightarrow> if out = [] then Inl (Err ''no valid batch sizes'') else Inr out)"

section \<open>Tampering\<close>

definition normalizeProofTamperMode :: "bytes \<Rightarrow> error + bytes" where
  "normalizeProofTamperMode raw =
     (let mode = go_ToLower (TrimSpace raw) in
      if mode = [] \<or> mode = go_str ''none'' then Inr []
      else if mode = go_str ''truncate'' then Inr (go_str ''truncate'')
      else if mode = go_str ''flip-last-byte'' then Inr (go_str ''flip-last-byte'')
      else Inl (Err ''invalid PROOF_TAMPER_MODE''))"

definition tamperProofEnvelope :: "bytes \<Rightarrow> bytes \<Rightarrow> error + bytes" where
  "tamperProofEnvelope p mode =
     (if mode = [] then Inr p
      else if mode = go_str ''truncate'' then
        (if length p \<le> 1 then Inl (Err ''cannot truncate proof envelope'')
         else let half = length p div 2; cut = (if half < 12 then length p - 1 else half) in Inr (take cut p))
      else if mode = go_str ''flip-last-byte'' then
        (if p = [] then Inl (Err ''cannot flip byte in empty proof envelope'')
         else Inr (p[length p - 1 := xor (p ! (length p - 1)) 1]))
      else Inl (Err ''unsupported proof tamper mode''))"

section \<open>The cache of constraint systems\<close>

definition path_char :: "byte \<Rightarrow> bool" where
  "path_char r \<longleftrightarrow> 0x61 \<le> r \<and> r \<le> 0x7A \<or> 0x41 \<le> r \<and> r \<le> 0x5A \<or> 0x30 \<le> r \<and> r \<le> 0x39
     \<or> r = 0x2D \<or> r = 0x5F \<or> r = 0x2E"

function sanitizeRunes :: "bytes \<Rightarrow> bytes" where
  "sanitizeRunes s = (case s of [] \<Rightarrow> []
     | b # _ \<Rightarrow> (if path_char b then b else 0x5F) # sanitizeRunes (drop (rune_width s) s))"
  by pat_completeness auto
termination
  by (relation "measure length") (auto simp: rune_width_pos)

declare sanitizeRunes.simps [simp del]

definition sanitizePathComponent :: "bytes \<Rightarrow> bytes" where
  "sanitizePathComponent s = (if s = [] then go_str ''unknown'' else sanitizeRunes s)"

definition sourceFingerprintHex :: "os_env \<Rightarrow> bytes list \<Rightarrow> bytes" where
  "sourceFingerprintHex E paths =
     (let parts = List.map_filter (\<lambda>p. case os_ReadFile E p of Inl _ \<Rightarrow> None | Inr b \<Rightarrow> Some (p @ [0] @ b @ [0])) paths in
      if parts = [] then go_str ''nocache''
      else EncodeToString (take 6 (be_bytes 32 (Sum256 (concat parts)))))"

definition defaultGroth16CSCachePath :: "os_env \<Rightarrow> bytes \<Rightarrow> bytes" where
  "defaultGroth16CSCachePath E circuitID =
     (let circuitSource = (if circuitID = ProofCircuitShieldedLedgerV1 then go_str ''zk/shielded_ledger_circuit.go''
          else go_str ''zk/clearhash_circuit.go'');
          fingerprint = sourceFingerprintHex E [go_str ''go.mod'', go_str ''go.sum'', circuitSource] in
      path_Join [go_str ''.'', go_str ''.cache'', go_str ''zkbench'',
        go_str ''groth16_'' @ sanitizePathComponent circuitID @ go_str ''_'' @ fingerprint @ go_str ''.ccs.bin''])"

section \<open>The configuration\<close>

record benchConfig =
  bc_NodeURL :: bytes
  bc_ChainID :: bytes
  bc_PrivateKeyHex :: bytes
  bc_RefuelPrivateKeyHex :: bytes
  bc_ProofConfigPrivateKeyHex :: bytes
  bc_ProofConfigFallbackPrivateKeyHex :: bytes
  bc_ProverAuthorityPrivateKeyHex :: bytes
  bc_StrictFeePreflight :: bool
  bc_OutputDir :: bytes
  bc_ProofMode :: bytes
  bc_ProofCircuitID :: bytes
  bc_Groth16PKPath :: bytes
  bc_Groth16CSCachePath :: bytes
  bc_ProofTamperMode :: bytes
  bc_BatchSizes :: "i64 list"
  bc_WindowsPerSize :: i64
  bc_BatchWindowMs :: i64
  bc_ProofDeadlineMs :: i64
  bc_ProofSubmitDelayMs :: i64
  bc_PrefundOnly :: bool
  bc_TimeoutMinutes :: i64
  bc_GasSafetyBps :: u64
  bc_GasReserve :: u64
  bc_RefuelAmount :: u64

definition readConfig :: "os_env \<Rightarrow> benchConfig" where
  "readConfig E = \<lparr>
     bc_NodeURL = envOr E ''NODE_URL'' defaultNodeURL,
     bc_ChainID = os_Getenv E (go_str ''CHAIN_ID''),
     bc_PrivateKeyHex = envOr E ''PRIVATE_KEY'' defaultKeyHex,
     bc_RefuelPrivateKeyHex = TrimSpace (os_Getenv E (go_str ''REFUEL_PRIVATE_KEY'')),
     bc_ProofConfigPrivateKeyHex = TrimSpace (os_Getenv E (go_str ''PROOF_CONFIG_PRIVATE_KEY'')),
     bc_ProofConfigFallbackPrivateKeyHex = TrimSpace (os_Getenv E (go_str ''PROOF_CONFIG_FALLBACK_PRIVATE_KEY'')),
     bc_ProverAuthorityPrivateKeyHex = TrimSpace (os_Getenv E (go_str ''PROVER_AUTHORITY_PRIVATE_KEY'')),
     bc_StrictFeePreflight = envBool E ''STRICT_FEE_PREFLIGHT'' False,
     bc_OutputDir = envOr E ''OUTPUT_DIR'' (path_Join [go_str ''.'', go_str ''zkbench-out'']),
     bc_ProofMode = go_ToLower (envOr E ''PROOF_MODE'' (go_str ''synthetic'')),
     bc_ProofCircuitID = TrimSpace (envOr E ''PROOF_CIRCUIT_ID'' ProofCircuitClearHashV1),
     bc_Groth16PKPath = os_Getenv E (go_str ''GROTH16_PK_PATH''),
     bc_Groth16CSCachePath = TrimSpace (os_Getenv E (go_str ''GROTH16_CCS_CACHE_PATH'')),
     bc_ProofTamperMode = TrimSpace (os_Getenv E (go_str ''PROOF_TAMPER_MODE'')),
     bc_BatchSizes = [],
     bc_WindowsPerSize = envInt E ''WINDOWS_PER_SIZE'' 25,
     bc_BatchWindowMs = envInt E ''BATCH_WINDOW_MS'' 5000,
     bc_ProofDeadlineMs = envInt E ''PROOF_DEADLINE_MS'' 10000,
     bc_ProofSubmitDelayMs = envInt E ''PROOF_SUBMIT_DELAY_MS'' 0,
     bc_PrefundOnly = envBool E ''PREFUND_ONLY'' False,
     bc_TimeoutMinutes = envInt E ''TIMEOUT_MINUTES'' 60,
     bc_GasSafetyBps = envUint64 E ''GAS_SAFETY_BPS'' defaultGasSafetyBps,
     bc_GasReserve = envUint64 E ''GAS_RESERVE'' defaultGasReserve,
     bc_RefuelAmount = envUint64 E ''REFUEL_AMOUNT'' defaultRefuelAmount\<rparr>"

text \<open>The switch on the proof mode.\<close>

definition checkProofMode :: "os_env \<Rightarrow> benchConfig \<Rightarrow> error + benchConfig" where
  "checkProofMode E cfg =
     (if bc_ProofMode cfg = go_str ''synthetic'' then Inr cfg
      else if bc_ProofMode cfg = go_str ''groth16'' then
        (if TrimSpace (bc_Groth16PKPath cfg) = [] then Inl (Err ''GROTH16_PK_PATH is required when PROOF_MODE=groth16'')
         else if bc_ProofCircuitID cfg \<noteq> ProofCircuitClearHashV1 \<and> bc_ProofCircuitID cfg \<noteq> ProofCircuitShieldedLedgerV1
         then Inl (Err ''invalid PROOF_CIRCUIT_ID'')
         else Inr (if bc_Groth16CSCachePath cfg = []
           then cfg\<lparr>bc_Groth16CSCachePath := defaultGroth16CSCachePath E (bc_ProofCircuitID cfg)\<rparr> else cfg))
      else Inl (Err ''invalid PROOF_MODE''))"

text \<open>The values that are repaired rather than rejected.\<close>

definition clampConfig :: "benchConfig \<Rightarrow> benchConfig" where
  "clampConfig cfg = cfg\<lparr>
     bc_GasSafetyBps := (if bc_GasSafetyBps cfg < 10000 then 10000 else bc_GasSafetyBps cfg),
     bc_GasReserve := (if bc_GasReserve cfg = 0 then defaultGasReserve else bc_GasReserve cfg),
     bc_RefuelAmount := (if bc_RefuelAmount cfg = 0 then defaultRefuelAmount else bc_RefuelAmount cfg),
     bc_ProofDeadlineMs := (if sint (bc_ProofDeadlineMs cfg) \<le> sint (bc_BatchWindowMs cfg)
       then bc_BatchWindowMs cfg + 1000 else bc_ProofDeadlineMs cfg),
     bc_ProofSubmitDelayMs := (if sint (bc_ProofSubmitDelayMs cfg) < 0 then 0 else bc_ProofSubmitDelayMs cfg)\<rparr>"

definition loadConfig :: "os_env \<Rightarrow> error + benchConfig" where
  "loadConfig E =
     (let cfg = readConfig E in
      if bc_ChainID cfg = [] then Inl (Err ''CHAIN_ID is required'')
      else case checkProofMode E cfg of
        Inl err \<Rightarrow> Inl err
      | Inr cfg1 \<Rightarrow> (case normalizeProofTamperMode (bc_ProofTamperMode cfg1) of
          Inl err \<Rightarrow> Inl err
        | Inr tamperMode \<Rightarrow> (case parseBatchSizes (envOr E ''BATCH_SIZES'' (go_str ''32,64,96,128'')) of
            Inl err \<Rightarrow> Inl err
          | Inr batchSizes \<Rightarrow>
              Inr ((clampConfig (cfg1\<lparr>bc_ProofTamperMode := tamperMode\<rparr>))\<lparr>bc_BatchSizes := batchSizes\<rparr>))))"

section \<open>Fees\<close>

text \<open>The loop over the prices, with its early return and its break: \<open>None\<close> stands for the saturated limit.\<close>

fun sumPrices :: "u64 \<Rightarrow> u64 list \<Rightarrow> u64 option" where
  "sumPrices maxFee [] = Some maxFee"
| "sumPrices maxFee (p # ps) =
     (if p > maxUint64 div 10000 then None
      else let dimFee = p * 10000 in
        if maxFee > maxUint64 - dimFee then None else sumPrices (maxFee + dimFee) ps)"

definition estimateMaxFee :: "u64 list \<Rightarrow> u64" where
  "estimateMaxFee unitPrices = (case sumPrices 0 unitPrices of
     None \<Rightarrow> maxUint64
   | Some maxFee \<Rightarrow> if maxFee < 100000 then 100000 else maxFee)"

definition plannedActionCount :: "benchConfig \<Rightarrow> i64" where
  "plannedActionCount cfg =
     (let perBatch = 1 + 4 * bc_WindowsPerSize cfg in 1 + of_nat (length (bc_BatchSizes cfg)) * perBatch)"

definition estimateRequiredBudget :: "i64 \<Rightarrow> u64 \<Rightarrow> u64 \<Rightarrow> u64 \<Rightarrow> u64" where
  "estimateRequiredBudget txCount maxFee gasSafetyBps gasReserve =
     (if sint txCount \<le> 0 then gasReserve
      else let v = unat maxFee * unat txCount * unat gasSafetyBps div 10000 + unat gasReserve in
        if v \<ge> 2 ^ 64 then maxUint64 else of_nat v)"

definition saturatingAdd :: "u64 \<Rightarrow> u64 \<Rightarrow> u64" where
  "saturatingAdd a b = (if a > maxUint64 - b then maxUint64 else a + b)"

definition isInsufficientFeeError :: "error \<Rightarrow> bool" where
  "isInsufficientFeeError err \<longleftrightarrow> (let s = go_ToLower (go_str (err_Error err)) in
     Contains s (go_str ''insufficient balance'') \<and> Contains s (go_str ''fee''))"

definition isUnauthorizedError :: "error \<Rightarrow> bool" where
  "isUnauthorizedError err \<longleftrightarrow> Contains (go_ToLower (go_str (err_Error err))) (go_str ''unauthorized'')"

section \<open>What an accepted configuration is\<close>

definition bench_config_ok :: "benchConfig \<Rightarrow> bool" where
  "bench_config_ok cfg \<longleftrightarrow> bc_ChainID cfg \<noteq> []
     \<and> (bc_ProofMode cfg = go_str ''synthetic'' \<or> bc_ProofMode cfg = go_str ''groth16''
          \<and> TrimSpace (bc_Groth16PKPath cfg) \<noteq> [] \<and> bc_Groth16CSCachePath cfg \<noteq> []
          \<and> bc_ProofCircuitID cfg \<in> {ProofCircuitClearHashV1, ProofCircuitShieldedLedgerV1})
     \<and> bc_ProofTamperMode cfg \<in> {[], go_str ''truncate'', go_str ''flip-last-byte''}
     \<and> bc_BatchSizes cfg \<noteq> [] \<and> list_all (\<lambda>n. 0 < sint n) (bc_BatchSizes cfg)
     \<and> 10000 \<le> bc_GasSafetyBps cfg \<and> bc_GasReserve cfg \<noteq> 0 \<and> bc_RefuelAmount cfg \<noteq> 0
     \<and> 0 \<le> sint (bc_ProofSubmitDelayMs cfg)
     \<and> (sint (bc_BatchWindowMs cfg) < 2 ^ 63 - 1000 \<longrightarrow> sint (bc_BatchWindowMs cfg) < sint (bc_ProofDeadlineMs cfg))"

lemma parseSizes_positive: "parseSizes ps = Inr out \<Longrightarrow> list_all (\<lambda>n. 0 < sint n) out"
  by (induction ps arbitrary: out) (auto simp: Let_def split: if_splits sum.splits)

lemma path_Clean_nonempty: "path_Clean p \<noteq> []"
  by (simp add: path_Clean_def Let_def go_str_def)

lemma cache_path_nonempty: "defaultGroth16CSCachePath E c \<noteq> []"
  by (simp add: defaultGroth16CSCachePath_def path_Join_def path_Clean_nonempty Let_def go_str_def)

lemma clamp_deadline:
  assumes "sint w < 2 ^ 63 - 1000"
  shows "sint w < sint (if sint d \<le> sint w then w + 1000 else d :: i64)"
proof -
  have "sint (w + 1000) = sint w + 1000"
    using assms sint_ge [of w] by (simp add: sint_word_ariths signed_take_bit_int_eq_self)
  then show ?thesis by simp
qed

lemma clampConfig_fields:
  "10000 \<le> bc_GasSafetyBps (clampConfig cfg)" "bc_GasReserve (clampConfig cfg) \<noteq> 0"
  "bc_RefuelAmount (clampConfig cfg) \<noteq> 0" "0 \<le> sint (bc_ProofSubmitDelayMs (clampConfig cfg))"
  "sint (bc_BatchWindowMs cfg) < 2 ^ 63 - 1000 \<Longrightarrow>
    sint (bc_BatchWindowMs cfg) < sint (bc_ProofDeadlineMs (clampConfig cfg))"
  using clamp_deadline [of "bc_BatchWindowMs cfg" "bc_ProofDeadlineMs cfg"]
  by (simp_all add: clampConfig_def not_less)

lemma checkProofMode_ok:
  assumes "checkProofMode E cfg = Inr cfg1"
  shows "bc_ProofMode cfg1 = go_str ''synthetic'' \<or> bc_ProofMode cfg1 = go_str ''groth16''
      \<and> TrimSpace (bc_Groth16PKPath cfg1) \<noteq> [] \<and> bc_Groth16CSCachePath cfg1 \<noteq> []
      \<and> bc_ProofCircuitID cfg1 \<in> {ProofCircuitClearHashV1, ProofCircuitShieldedLedgerV1}"
    and "bc_ChainID cfg1 = bc_ChainID cfg"
  using assms by (auto simp: checkProofMode_def cache_path_nonempty split: if_splits)

lemma normalized_mode:
  "normalizeProofTamperMode raw = Inr m \<Longrightarrow> m \<in> {[], go_str ''truncate'', go_str ''flip-last-byte''}"
  by (auto simp: normalizeProofTamperMode_def Let_def split: if_splits)

section \<open>What the fee limit is\<close>

abbreviation fee_sum :: "u64 list \<Rightarrow> nat" where
  "fee_sum ps \<equiv> sum_list (map (\<lambda>p. 10000 * unat p) ps)"

lemma unat_maxUint64: "unat maxUint64 = 2 ^ 64 - 1"
  by (simp add: unsigned_minus_1_eq_mask mask_eq_exp_minus_1)

lemma price_too_high: "maxUint64 div 10000 < p \<longleftrightarrow> 2 ^ 64 \<le> 10000 * unat p"
proof -
  have "maxUint64 div 10000 = 1844674407370955" by simp
  then show ?thesis by (simp only: word_less_nat_alt) (simp, arith)
qed

lemma price_fits: "\<not> maxUint64 div 10000 < p \<Longrightarrow> unat (p * 10000) = 10000 * unat p"
  unfolding price_too_high using unat_mul_exact [of p 10000] by simp

lemma sum_saturates: "maxUint64 - b < a \<longleftrightarrow> 2 ^ 64 \<le> unat a + unat b"
proof -
  have "unat (maxUint64 - b) = 2 ^ 64 - 1 - unat b"
    by (simp only: unat_sub [OF word_order.extremum [of b]] unat_maxUint64)
  moreover have "unat b \<le> 2 ^ 64 - 1"
    using word_order.extremum [of b] by (simp only: word_le_nat_alt unat_maxUint64)
  ultimately show ?thesis unfolding word_less_nat_alt by simp linarith
qed

lemma sumPrices_spec:
  "case sumPrices acc ps of None \<Rightarrow> 2 ^ 64 \<le> unat acc + fee_sum ps
   | Some t \<Rightarrow> unat t = unat acc + fee_sum ps"
proof (induction ps arbitrary: acc)
  case (Cons p ps)
  have total: "unat acc + fee_sum (p # ps) = unat acc + 10000 * unat p + fee_sum ps" by simp
  show ?case
  proof (cases "maxUint64 div 10000 < p")
    case True
    then show ?thesis
      unfolding total sumPrices.simps if_P [OF True] option.case by (simp only: price_too_high)
  next
    case False
    show ?thesis
    proof (cases "maxUint64 - p * 10000 < acc")
      case True
      then show ?thesis
        unfolding total sumPrices.simps if_not_P [OF False] Let_def if_P [OF True] option.case
        by (simp only: sum_saturates price_fits [OF False])
    next
      case below: False
      then have "unat (acc + p * 10000) = unat acc + 10000 * unat p"
        unfolding sum_saturates using unat_add_exact [of acc "p * 10000"] price_fits [OF False] by simp
      then show ?thesis
        using Cons.IH [of "acc + p * 10000"]
        unfolding total sumPrices.simps if_not_P [OF False] Let_def if_not_P [OF below]
        by (simp only: split: option.splits)
    qed
  qed
qed simp

section \<open>Properties\<close>

text \<open>
  A configuration that the bench accepts is one it can work with: a chain is named, the mode is known and with Groth16 the key, the
  circuit and the cache are there; every batch size is positive and there is one; the budget is never scaled down, the
  reserve and the refill are not zero, the delay is not negative and the deadline lies after the window, unless the window
  itself ends at the limit of the integers.
\<close>

theorem accepted_config_is_usable:
  assumes "loadConfig E = Inr cfg"
  shows "bench_config_ok cfg"
proof -
  obtain cfg1 m sizes where c: "checkProofMode E (readConfig E) = Inr cfg1" "bc_ChainID (readConfig E) \<noteq> []"
    "normalizeProofTamperMode (bc_ProofTamperMode cfg1) = Inr m"
    "parseBatchSizes (envOr E ''BATCH_SIZES'' (go_str ''32,64,96,128'')) = Inr sizes"
    and cfg: "cfg = (clampConfig (cfg1\<lparr>bc_ProofTamperMode := m\<rparr>))\<lparr>bc_BatchSizes := sizes\<rparr>"
    using assms by (auto simp: loadConfig_def Let_def split: if_splits sum.splits)
  have sizes: "sizes \<noteq> []" "list_all (\<lambda>n. 0 < sint n) sizes"
    using c(4) parseSizes_positive by (auto simp: parseBatchSizes_def split: sum.splits if_splits)
  have keep: "bc_ChainID cfg = bc_ChainID cfg1" "bc_ProofMode cfg = bc_ProofMode cfg1"
    "bc_Groth16PKPath cfg = bc_Groth16PKPath cfg1" "bc_Groth16CSCachePath cfg = bc_Groth16CSCachePath cfg1"
    "bc_ProofCircuitID cfg = bc_ProofCircuitID cfg1" "bc_ProofTamperMode cfg = m" "bc_BatchSizes cfg = sizes"
    "bc_BatchWindowMs cfg = bc_BatchWindowMs cfg1"
    by (simp_all add: cfg clampConfig_def)
  have "10000 \<le> bc_GasSafetyBps cfg \<and> bc_GasReserve cfg \<noteq> 0 \<and> bc_RefuelAmount cfg \<noteq> 0
      \<and> 0 \<le> sint (bc_ProofSubmitDelayMs cfg)
      \<and> (sint (bc_BatchWindowMs cfg) < 2 ^ 63 - 1000 \<longrightarrow> sint (bc_BatchWindowMs cfg) < sint (bc_ProofDeadlineMs cfg))"
    using clampConfig_fields [of "cfg1\<lparr>bc_ProofTamperMode := m\<rparr>"] by (simp add: cfg clampConfig_def)
  then show ?thesis
    using checkProofMode_ok [OF c(1)] normalized_mode [OF c(3)] sizes c(2)
    unfolding bench_config_ok_def keep by auto
qed

text \<open>
  The limit the bench puts on a fee is the exact sum of ten thousand times the unit prices, at least 100000, and the largest
  integer when the sum does not fit. The smoke test computes the same sum without a check: it agrees
  whenever the sum fits, and otherwise its limit is the wrapped remainder.
\<close>

theorem fee_limit_saturates:
  "unat (estimateMaxFee ps) = min (2 ^ 64 - 1) (max 100000 (fee_sum ps))
    \<and> unat (smoke_maxFee ps) = max 100000 (fee_sum ps mod 2 ^ 64)"
proof -
  have wrap: "foldl (\<lambda>acc p. acc + p * 10000) a ps = a + of_nat (fee_sum ps)" for a :: u64
    by (induction ps arbitrary: a) (simp_all add: algebra_simps)
  have "unat (smoke_maxFee ps) = max 100000 (fee_sum ps mod 2 ^ 64)"
    using wrap [of 0] by (simp add: smoke_maxFee_def Let_def word_less_nat_alt unat_of_nat max_def)
  moreover have "unat (estimateMaxFee ps) = min (2 ^ 64 - 1) (max 100000 (fee_sum ps))"
  proof (cases "sumPrices 0 ps")
    case None
    then show ?thesis using sumPrices_spec [of 0 ps] by (simp add: estimateMaxFee_def unat_maxUint64)
  next
    case (Some t)
    then have "unat t = fee_sum ps" using sumPrices_spec [of 0 ps] by simp
    moreover have "unat t < 2 ^ 64" using unsigned_less [of t] by simp
    ultimately show ?thesis using Some by (simp add: estimateMaxFee_def word_less_nat_alt max_def min_def)
  qed
  ultimately show ?thesis by blast
qed

text \<open>
  The startup check of the bench asks for enough: a balance of the required budget pays the full limit for every
  planned transaction and leaves the reserve, unless the budget is beyond what an account can hold, and then the largest
  integer is asked for.
\<close>

theorem budget_covers_plan:
  assumes "0 < sint txs" and "10000 \<le> safety"
  shows "estimateRequiredBudget txs fee safety reserve = maxUint64
    \<or> nat (sint txs) * unat fee + unat reserve \<le> unat (estimateRequiredBudget txs fee safety reserve)"
proof -
  let ?v = "unat fee * unat txs * unat safety div 10000 + unat reserve"
  have txs: "unat txs = nat (sint txs)"
    using assms(1) sint_lt [of txs] by (simp add: unat_eq_nat_uint uint_sint take_bit_int_eq_self)
  have "10000 \<le> unat safety" using assms(2) by (simp add: word_le_nat_alt)
  then have "unat fee * unat txs * 10000 \<le> unat fee * unat txs * unat safety" by (rule mult_le_mono2)
  then have "unat fee * unat txs \<le> unat fee * unat txs * unat safety div 10000"
    by (metis div_le_mono div_mult_self_is_m zero_less_numeral)
  then have "nat (sint txs) * unat fee + unat reserve \<le> ?v" by (simp add: txs mult.commute)
  moreover have "unat (of_nat ?v :: u64) = ?v" if "?v < 2 ^ 64"
    using that by (simp only: unat_of_nat) simp
  ultimately show ?thesis using assms(1) by (auto simp: estimateRequiredBudget_def Let_def not_le)
qed

theorem budget_covers_plan_witness:
  "nat (sint (205 :: i64)) * unat (5000000 :: u64) + 250000 \<le> unat (estimateRequiredBudget 205 5000000 13000 250000)"
  using budget_covers_plan [of 205 13000 5000000 250000]
  by (simp add: estimateRequiredBudget_def)

end
