(* ===== verification/Zk_Prover.thy ===== *)
theory Zk_Prover
  imports Vm_Config
begin

text \<open>
  The prover's side of gnark, and how the tools turn the public inputs of a clear into a proof envelope.

  Compiling a circuit, the Groth16 setup, proving and the formats of its objects are the parameter \<open>prover_lib\<close>. The locale
  \<open>groth16_lib\<close> is what is documented of it together with the verifier of \<open>Zk_Verifier\<close>: what is written is read back, the public witness carries
  the digest byte by byte, and a proof of a satisfied assignment verifies under the key of the same setup. \<open>toy_prover\<close> is such a library.
  The lemma \<open>proved_envelope_accepted\<close>: the envelope of a clear passes the verifier of a node with that key.
\<close>

section \<open>gnark\<close>

datatype frontend_Circuit = CClearHash ClearHashCircuit | CShieldedLedger ShieldedLedgerCircuitV1

record ('cs, 'pk, 'vk, 'fw, 'pf) prover_lib =
  frontend_Compile :: "frontend_Circuit \<Rightarrow> error + 'cs"
  groth16_Setup :: "'cs \<Rightarrow> error + 'pk \<times> 'vk"
  frontend_NewWitness :: "frontend_Circuit \<Rightarrow> error + 'fw"
  fullWitness_Public :: "'fw \<Rightarrow> error + 'fw"
  witness_MarshalBinary :: "'fw \<Rightarrow> error + bytes"
  groth16_Prove :: "'cs \<Rightarrow> 'pk \<Rightarrow> 'fw \<Rightarrow> error + 'pf"
  proof_WriteTo :: "'pf \<Rightarrow> error + bytes"
  pk_WriteTo :: "'pk \<Rightarrow> error + bytes"
  vk_WriteTo :: "'vk \<Rightarrow> error + bytes"
  pk_ReadFrom :: "bytes \<Rightarrow> error + 'pk"
  cs_WriteTo :: "'cs \<Rightarrow> error + bytes"
  cs_ReadFrom :: "bytes \<Rightarrow> error + 'cs"

text \<open>\<open>&zk.ClearHashCircuit{}\<close> and its sibling: the circuit without an assignment.\<close>

definition blankClearHash :: frontend_Circuit where
  "blankClearHash = CClearHash \<lparr>ch_Preimage = replicate ClearHashPreimageLen 0,
     ch_Digest = replicate ClearHashDigestLen 0\<rparr>"

definition blankShieldedLedger :: frontend_Circuit where
  "blankShieldedLedger = CShieldedLedger \<lparr>sl_Preimage = replicate ShieldedLedgerPreimageLen 0,
     sl_Digest = replicate ShieldedLedgerDigestLen 0\<rparr>"

section \<open>From an assignment to an envelope\<close>

definition res_try :: "error + 'a \<Rightarrow> ('a \<Rightarrow> error + 'b) \<Rightarrow> error + 'b" where
  "res_try r f = (case r of Inl err \<Rightarrow> Inl err | Inr x \<Rightarrow> f x)"

record proof_parts =
  pp_publicWitness :: bytes
  pp_proof :: bytes
  pp_envelope :: bytes

definition proveAssignment ::
    "('cs, 'pk, 'vk, 'fw, 'pf) prover_lib \<Rightarrow> 'cs \<Rightarrow> 'pk \<Rightarrow> bytes \<Rightarrow> frontend_Circuit \<Rightarrow> error + proof_parts" where
  "proveAssignment L ccs pk circuitID assignment =
     res_try (frontend_NewWitness L assignment) (\<lambda>fullWitness.
     res_try (fullWitness_Public L fullWitness) (\<lambda>publicWitness.
     res_try (witness_MarshalBinary L publicWitness) (\<lambda>publicWitnessBytes.
     res_try (groth16_Prove L ccs pk fullWitness) (\<lambda>prf.
     res_try (proof_WriteTo L prf) (\<lambda>proofBytes.
     res_try (BuildProofEnvelopeWithCircuit ProofTypeGroth16 circuitID proofBytes publicWitnessBytes) (\<lambda>envelope.
     Inr \<lparr>pp_publicWitness = publicWitnessBytes, pp_proof = proofBytes, pp_envelope = envelope\<rparr>))))))"

section \<open>What the library is relied on for\<close>

definition satisfied :: "frontend_api \<Rightarrow> frontend_Circuit \<Rightarrow> bool" where
  "satisfied F c = (case c of CClearHash a \<Rightarrow> ClearHashCircuit_Define F a = Inr True
     | CShieldedLedger a \<Rightarrow> ShieldedLedgerCircuitV1_Define F a = Inr True)"

definition digest_of :: "frontend_Circuit \<Rightarrow> bytes" where
  "digest_of c = (case c of CClearHash a \<Rightarrow> ch_Digest a | CShieldedLedger a \<Rightarrow> sl_Digest a)"

definition blank_of :: "frontend_Circuit \<Rightarrow> frontend_Circuit" where
  "blank_of c = (case c of CClearHash _ \<Rightarrow> blankClearHash | CShieldedLedger _ \<Rightarrow> blankShieldedLedger)"

locale groth16_lib = circuit_lib F for F +
  fixes L :: "('cs, 'pk, 'vk, 'fw, 'pf) prover_lib" and G :: "('vk, 'gp) backend" and W :: "'wt witness_lib"
  assumes compiles: "\<exists>cs. frontend_Compile L (blank_of c) = Inr cs"
    and sets_up: "frontend_Compile L (blank_of c) = Inr cs \<Longrightarrow> \<exists>pk vk. groth16_Setup L cs = Inr (pk, vk)"
    and vk_kept: "\<exists>b. vk_WriteTo L vk = Inr b \<and> VK_ReadFrom G b = Inr vk"
    and pk_kept: "\<exists>b. pk_WriteTo L pk = Inr b \<and> pk_ReadFrom L b = Inr pk"
    and public_witness: "length (digest_of c) = 32 \<Longrightarrow> \<exists>fw pw wb w0 w. frontend_NewWitness L c = Inr fw
      \<and> fullWitness_Public L fw = Inr pw \<and> witness_MarshalBinary L pw = Inr wb \<and> wb \<noteq> [] \<and> length wb \<le> 4096
      \<and> Witness_New W = Inr w0 \<and> Witness_UnmarshalBinary W w0 wb = Inr w
      \<and> Witness_Vector W (publicPart W w) = Some (map unat (digest_of c))"
    and complete: "satisfied F c \<Longrightarrow> length (digest_of c) = 32 \<Longrightarrow> frontend_Compile L (blank_of c) = Inr cs \<Longrightarrow>
      groth16_Setup L cs = Inr (pk, vk) \<Longrightarrow> frontend_NewWitness L c = Inr fw \<Longrightarrow>
      \<exists>pf pb pf'. groth16_Prove L cs pk fw = Inr pf \<and> proof_WriteTo L pf = Inr pb \<and> pb \<noteq> [] \<and> length pb \<le> 4096
        \<and> Proof_ReadFrom G pb = Inr pf' \<and> backend_Verify G pf' vk (map unat (digest_of c)) = None"
begin

lemma proves:
  assumes "satisfied F c" and "length (digest_of c) = 32" and "frontend_Compile L (blank_of c) = Inr cs"
    and "groth16_Setup L cs = Inr (pk, vk)" and "isSupportedCircuitID circuitID"
  shows "\<exists>parts. proveAssignment L cs pk circuitID c = Inr parts
    \<and> BuildProofEnvelopeWithCircuit ProofTypeGroth16 circuitID (pp_proof parts) (pp_publicWitness parts)
        = Inr (pp_envelope parts)
    \<and> verifyWith G W vk circuitID (pp_proof parts) (digest_of c) (pp_publicWitness parts) = None"
proof -
  obtain fw pw wb w0 w where wit: "frontend_NewWitness L c = Inr fw" "fullWitness_Public L fw = Inr pw"
    "witness_MarshalBinary L pw = Inr wb" "wb \<noteq> []" "length wb \<le> 4096" "Witness_New W = Inr w0"
    "Witness_UnmarshalBinary W w0 wb = Inr w" "Witness_Vector W (publicPart W w) = Some (map unat (digest_of c))"
    using public_witness [OF assms(2)] by blast
  obtain pf pb pf' where pf: "groth16_Prove L cs pk fw = Inr pf" "proof_WriteTo L pf = Inr pb" "pb \<noteq> []"
    "length pb \<le> 4096" "Proof_ReadFrom G pb = Inr pf'" "backend_Verify G pf' vk (map unat (digest_of c)) = None"
    using complete [OF assms(1-4) wit(1)] by blast
  have id: "TrimSpace circuitID = circuitID" "isValidProofCircuitID circuitID" "length circuitID \<le> 63"
    using assms(5) by (auto simp: isSupportedCircuitID_def isValidProofCircuitID_def) (code_simp+)
  obtain env where env: "BuildProofEnvelopeWithCircuit ProofTypeGroth16 circuitID pb wb = Inr env"
    using id pf(3,4) wit(4,5) by (auto simp: BuildProofEnvelopeWithCircuit_def Let_def)
  have "validateDigestVector W (digest_of c) (map unat (digest_of c)) = Inr ()"
    using assms(2) by (simp add: validateDigestVector_ok spells_def)
  then have "verifyWith G W vk circuitID pb (digest_of c) wb = None"
    using assms(2,5) wit(4,6-8) pf(5,6)
    by (auto simp: verifyWith_def buildPublicWitnessVector_def isSupportedCircuitID_def)
  then show ?thesis
    using wit(1-3) pf(1,2) env by (simp add: proveAssignment_def res_try_def)
qed

text \<open>The assignments for the public inputs of a clear.\<close>

lemma clear_assignment:
  assumes "length f = 32"
  shows "NewClearHashAssignment (BuildClearPublicInputsPreimage m w p v f)
      (be_bytes 32 (Sum256 (BuildClearPublicInputsPreimage m w p v f)))
    = Inr \<lparr>ch_Preimage = BuildClearPublicInputsPreimage m w p v f,
        ch_Digest = be_bytes 32 (Sum256 (BuildClearPublicInputsPreimage m w p v f))\<rparr>"
    and "satisfied F (CClearHash \<lparr>ch_Preimage = BuildClearPublicInputsPreimage m w p v f,
        ch_Digest = be_bytes 32 (Sum256 (BuildClearPublicInputsPreimage m w p v f))\<rparr>)"
  using assms clear_satisfied [of "be_bytes 32 (Sum256 (BuildClearPublicInputsPreimage m w p v f))"
      "BuildClearPublicInputsPreimage m w p v f"]
  by (simp_all add: NewClearHashAssignment_def BuildClearPublicInputsPreimage_def go_str_def satisfied_def)

lemma shielded_assignment:
  assumes "length f = 32" and "m \<noteq> 0" and "w \<noteq> 0" and "p \<noteq> 0" and "v \<noteq> 0" and "f \<noteq> replicate 32 0"
  shows "NewShieldedLedgerAssignment (BuildShieldedLedgerPublicInputsPreimage m w p v f)
      (be_bytes 32 (Sum256 (BuildShieldedLedgerPublicInputsPreimage m w p v f)))
    = Inr \<lparr>sl_Preimage = BuildShieldedLedgerPublicInputsPreimage m w p v f,
        sl_Digest = be_bytes 32 (Sum256 (BuildShieldedLedgerPublicInputsPreimage m w p v f))\<rparr>"
    and "satisfied F (CShieldedLedger \<lparr>sl_Preimage = BuildShieldedLedgerPublicInputsPreimage m w p v f,
        sl_Digest = be_bytes 32 (Sum256 (BuildShieldedLedgerPublicInputsPreimage m w p v f))\<rparr>)"
  using shielded_fields(1) [OF assms(1), of m w p v] shielded_built_satisfied [OF assms]
  by (simp_all add: NewShieldedLedgerAssignment_def satisfied_def)

end

section \<open>The node's side\<close>

text \<open>A node whose verifier has the key at \<open>path\<close> and requires the circuit.\<close>

definition node_zk_config :: "bytes \<Rightarrow> bytes \<Rightarrow> ZKVerifierConfig" where
  "node_zk_config path circuitID = NewDefaultZKVerifierConfig\<lparr>zc_Enabled := True, zc_Strict := True,
     zc_Groth16VerifyingKeyPath := path, zc_RequiredCircuitID := circuitID\<rparr>"

lemma supported_trim: "isSupportedCircuitID c \<Longrightarrow> TrimSpace c = c \<and> c \<noteq> []"
  by (auto simp: isSupportedCircuitID_def) (code_simp+)

lemma proved_envelope_accepted:
  assumes "os_ReadFile E path = Inr b" and "VK_ReadFrom G b = Inr vk" and "TrimSpace path = path" and "path \<noteq> []"
    and "isSupportedCircuitID circuitID"
    and "BuildProofEnvelopeWithCircuit ProofTypeGroth16 circuitID pb wb = Inr blob"
    and "verifyWith G W vk circuitID pb h wb = None"
  shows "\<exists>V. installBatchProofVerifier E G P W (node_zk_config path circuitID) V0 = (Inr (), V)
    \<and> proofVerifier V \<noteq> None \<and> verifyBatchProofInConsensus V ProofTypeGroth16 blob h = Inr ()"
proof -
  let ?v = "\<lparr>groth16VK = Some vk, plonkVK = None, requiredCircuitID = circuitID\<rparr>"
  note id = supported_trim [OF assms(5)]
  have "NewVerifier (os_ReadFile E) G P \<lparr>zk_Groth16VerifyingKeyPath = path, zk_PlonkVerifyingKeyPath = [],
      zk_RequiredCircuitID = circuitID\<rparr> = Inr ?v"
    using assms(1-5) id by (simp add: NewVerifier_def optionalVK_def loadVK_def Let_def)
  moreover have "Verifier_Verify G P W ?v ProofTypeGroth16 circuitID pb h wb = None"
    using assms(5,7) id by (simp add: Verifier_Verify_def normalizeCircuitID_def Let_def)
  moreover have "parseProofEnvelope blob = Inr \<lparr>en_proofType = ProofTypeGroth16, en_circuitID = circuitID,
      en_proof = pb, en_witness = wb, en_hasEnvelope = True\<rparr>"
    using parse_build_v2 [OF assms(6)] id by simp
  ultimately show ?thesis
    by (simp add: installBatchProofVerifier_def node_zk_config_def NewDefaultZKVerifierConfig_def
        ConfigureBatchProofVerifier_def verifyBatchProofInConsensus_def getBatchProofVerifier_def)
qed

section \<open>A library in which proofs are digests\<close>

definition toy_prover :: "(bool, bool, bool, frontend_Circuit, bytes) prover_lib" where
  "toy_prover = \<lparr>frontend_Compile = (\<lambda>c. Inr (c = blankClearHash)), groth16_Setup = (\<lambda>cs. Inr (cs, cs)),
     frontend_NewWitness = Inr, fullWitness_Public = Inr, witness_MarshalBinary = (\<lambda>c. Inr (digest_of c)),
     groth16_Prove = (\<lambda>cs pk c. if satisfied gnark_like c then Inr (digest_of c) else Inl (HostError ''unsatisfied'')),
     proof_WriteTo = Inr, pk_WriteTo = (\<lambda>b. Inr [if b then 1 else 0]), vk_WriteTo = (\<lambda>b. Inr [if b then 1 else 0]),
     pk_ReadFrom = (\<lambda>bs. Inr (bs = [1])), cs_WriteTo = (\<lambda>b. Inr [if b then 1 else 0]), cs_ReadFrom = (\<lambda>bs. Inr (bs = [1]))\<rparr>"

definition toy_backend :: "(bool, bytes) backend" where
  "toy_backend = \<lparr>VK_ReadFrom = (\<lambda>bs. Inr (bs = [1])), Proof_ReadFrom = Inr,
     backend_Verify = (\<lambda>pf vk vec. if map unat pf = vec then None else Some (HostError ''invalid proof''))\<rparr>"

interpretation toy: groth16_lib gnark_like toy_prover toy_backend sample_witness_lib
  by unfold_locales
    (auto simp: toy_prover_def toy_backend_def sample_witness_lib_def publicPart_def)

end
