(* ===== verification/Bench_Payload.thy ===== *)
theory Bench_Payload
  imports Bench_Config Zk_Prover
begin

text \<open>
  The payloads of \<open>cmd/veilvm-zkbench\<close>: envelopes, shares, the fills hash, the synthetic proof, and the tampering of proofs.

  A Go \<open>int\<close> has 64 bits and wraps; the lengths are computed in it, and \<open>make\<close> with a negative length and a slice bound below zero
  are panics. The lemmas: for every batch size below \<open>2 ^ 56\<close> the payloads have the sizes the actions accept. The
  theorem on tampering: a truncated envelope is refused by every node, and an envelope with its last byte changed is the envelope of
  another public witness.
\<close>

section \<open>Payloads\<close>

abbreviation low_byte :: "i64 \<Rightarrow> byte" where "low_byte x \<equiv> ucast (and x 0xff)"

definition go_make :: "i64 \<Rightarrow> (nat \<Rightarrow> byte) \<Rightarrow> error + bytes" where
  "go_make n f = (if sint n < 0 then Inl (GoPanic ''makeslice: len out of range'') else Inr (map f [0..<nat (sint n)]))"

definition buildEnvelope :: "i64 \<Rightarrow> u64 \<Rightarrow> error + bytes" where
  "buildEnvelope batchSize windowID =
     (let n0 = batchSize * 24;
          n1 = (if sint n0 < 96 then 96 else n0);
          n = (if sint n1 > int MaxEnvelopeSize then of_nat MaxEnvelopeSize else n1)
      in go_make n (\<lambda>i. low_byte (windowID + of_nat i * 17 + batchSize)))"

definition buildRevealShare :: "i64 \<Rightarrow> u64 \<Rightarrow> error + bytes" where
  "buildRevealShare batchSize windowID =
     (let n0 = 96 + batchSize;
          n = (if sint n0 > int MaxDecryptionShareSize then of_nat MaxDecryptionShareSize else n0)
      in go_make n (\<lambda>i. low_byte (of_nat i * 11 + windowID + batchSize * 3)))"

text \<open>The counter of a round, least significant byte first.\<close>

definition roundBytes :: "u64 \<Rightarrow> bytes" where
  "roundBytes v = map (\<lambda>j. ucast (drop_bit (8 * j) v)) [0..<8]"

definition buildFillsHash :: "i64 \<Rightarrow> u64 \<Rightarrow> bytes \<Rightarrow> bytes \<Rightarrow> bytes" where
  "buildFillsHash batchSize windowID envelope reveal =
     (let loops = 50 + batchSize * 5 in
      be_bytes 32 (Sum256 (concat (map (\<lambda>i. envelope @ reveal @ roundBytes (xor (xor (of_nat i) windowID) batchSize))
        [0..<nat (sint loops)]))))"

text \<open>
  The synthetic proof: a seed, each later byte from the byte 32 places before, and the seed hashed many times over the
  last 32 bytes.
\<close>

fun blobByte :: "bytes \<Rightarrow> i64 \<Rightarrow> nat \<Rightarrow> byte" where
  "blobByte seed batchSize i = (if i < 32 then seed ! i
     else xor (blobByte seed batchSize (i - 32)) (low_byte (of_nat i * 13 + batchSize)))"

declare blobByte.simps [simp del]

definition buildProofBlob :: "i64 \<Rightarrow> u64 \<Rightarrow> bytes \<Rightarrow> error + bytes" where
  "buildProofBlob batchSize windowID fillsHash =
     (let n0 = 2048 + batchSize * 64;
          n = (if sint n0 > int MaxProofBytesSize then of_nat MaxProofBytesSize else n0);
          seed = be_bytes 32 (Sum256 (fillsHash @ [ucast batchSize, ucast windowID])) in
      res_try (go_make n (blobByte seed batchSize)) (\<lambda>out.
      let acc = ((\<lambda>a. be_bytes 32 (Sum256 a)) ^^ nat (sint (80 + batchSize * 8))) seed in
      if length out < 32 then Inl (GoPanic ''slice bounds out of range'')
      else Inr (take (length out - 32) out @ acc)))"

definition deriveMarketID :: "i64 \<Rightarrow> i64 \<Rightarrow> ID" where
  "deriveMarketID batchSize nowNano =
     Sum256 (go_str ''zkbench:'' @ FormatInt (sint batchSize) @ go_str '':'' @ FormatInt (sint nowNano))"

section \<open>Sizes\<close>

abbreviation bench_size :: "i64 \<Rightarrow> bool" where
  "bench_size b \<equiv> 0 < sint b \<and> sint b < 2 ^ 56"

lemma sint_scaled:
  assumes "bench_size b" and "0 \<le> k" and "k \<le> 64" and "0 \<le> c" and "c \<le> 4096"
  shows "sint (word_of_int (c + k * sint b) :: i64) = c + k * sint b"
proof (rule sint_small)
  have "k * sint b \<le> 64 * sint b" using assms(1,3) by (intro mult_right_mono) simp_all
  moreover have "64 * sint b < 2 ^ 62" "(4096 :: int) \<le> 2 ^ 62" using assms(1) by simp_all
  ultimately show "c + k * sint b < 2 ^ 63" using assms(5) by simp
  have "0 \<le> k * sint b" using assms(1,2) by simp
  then show "- (2 ^ 63) \<le> c + k * sint b" using assms(4) by simp
qed

lemma payload_lengths:
  assumes "bench_size b"
  shows "sint (b * 24) = 24 * sint b" and "sint (96 + b) = 96 + sint b" and "sint (2048 + b * 64) = 2048 + 64 * sint b"
  using sint_scaled [OF assms, of 24 0] sint_scaled [OF assms, of 1 96] sint_scaled [OF assms, of 64 2048]
  by (simp_all add: wi_hom_syms mult.commute)

lemma buildEnvelope_size:
  assumes "bench_size b"
  shows "\<exists>e. buildEnvelope b w = Inr e \<and> 96 \<le> length e \<and> length e \<le> MaxEnvelopeSize"
  using payload_lengths(1) [OF assms] assms by (auto simp: buildEnvelope_def go_make_def Let_def)

lemma buildRevealShare_size:
  assumes "bench_size b"
  shows "\<exists>e. buildRevealShare b w = Inr e \<and> 96 \<le> length e \<and> length e \<le> MaxDecryptionShareSize"
  using payload_lengths(2) [OF assms] assms by (auto simp: buildRevealShare_def go_make_def Let_def)

lemma length_buildFillsHash [simp]: "length (buildFillsHash b w e r) = 32"
  by (simp add: buildFillsHash_def Let_def)

lemma length_rehash: "length (((\<lambda>a. be_bytes 32 (Sum256 a)) ^^ n) (be_bytes 32 (h :: Hash32))) = 32"
  by (cases n) simp_all

lemma buildProofBlob_size:
  assumes "bench_size b"
  shows "\<exists>e. buildProofBlob b w f = Inr e \<and> 2048 \<le> length e \<and> length e \<le> MaxProofBytesSize"
  using payload_lengths(3) [OF assms] assms
  by (auto simp: buildProofBlob_def go_make_def Let_def res_try_def length_rehash)

section \<open>Tampering\<close>

lemma slice_take: "b \<le> n \<Longrightarrow> slice (take n xs) a b = slice xs a b"
  by (simp add: slice_def drop_take min_def)

lemma v2_length:
  "parseProofEnvelopeV2 blob = Inr e \<Longrightarrow> length blob = 14 + unat (blob ! 5) + unat (of_be (slice blob 6 10) :: u32)
    + unat (of_be (slice blob 10 14) :: u32)"
  by (simp add: parseProofEnvelopeV2_def Let_def split: if_splits)

lemma truncated_v2:
  assumes "parseProofEnvelopeV2 blob = Inr e" and "slice blob 0 4 = proofEnvelopeMagicV2" and "4 \<le> n" and "n < length blob"
  shows "parseProofEnvelope (take n blob) = Inl ErrInvalidProofEnvelope"
proof -
  have "parseProofEnvelopeV2 (take n blob) = Inl ErrInvalidProofEnvelope"
  proof (cases "n < 14")
    case False
    then have "length blob = 14 + unat (take n blob ! 5) + unat (of_be (slice (take n blob) 6 10) :: u32)
        + unat (of_be (slice (take n blob) 10 14) :: u32)"
      using v2_length [OF assms(1)] by (simp add: slice_take)
    then have "length (take n blob) \<noteq> 14 + unat (take n blob ! 5) + unat (of_be (slice (take n blob) 6 10) :: u32)
        + unat (of_be (slice (take n blob) 10 14) :: u32)"
      using assms(4) by (metis length_take min_less_iff_conj nat_less_le)
    then show ?thesis unfolding parseProofEnvelopeV2_def Let_def by (simp only: not_False_eq_True if_True if_cancel)
  qed (use assms(4) in \<open>simp add: parseProofEnvelopeV2_def min_def\<close>)
  then show ?thesis
    using assms(2-4) magic_bytes by (simp add: parseProofEnvelope_def slice_take)
qed

lemma built_v2:
  assumes "BuildProofEnvelopeWithCircuit pt c prf w = Inr env"
  shows "\<exists>e. parseProofEnvelopeV2 env = Inr e" and "slice env 0 4 = proofEnvelopeMagicV2" and "17 \<le> length env"
proof -
  have parts: "0 < length (TrimSpace c)" "0 < length prf" "0 < length w"
    and env: "env = proofEnvelopeMagicV2 @ [pt, of_nat (length (TrimSpace c))] @ be_bytes 4 (of_nat (length prf) :: u32)
      @ be_bytes 4 (of_nat (length w) :: u32) @ TrimSpace c @ prf @ w"
    using assms by (auto simp: BuildProofEnvelopeWithCircuit_def Let_def isValidProofCircuitID_def split: if_splits)
  show m: "slice env 0 4 = proofEnvelopeMagicV2" and "17 \<le> length env"
    using parts unfolding env by (simp_all add: slice_def go_str_def del: length_greater_0_conv)
  then show "\<exists>e. parseProofEnvelopeV2 env = Inr e"
    using parse_build_v2 [OF assms] magic_bytes by (simp add: parseProofEnvelope_def)
qed

lemma flipped_v2:
  assumes "BuildProofEnvelopeWithCircuit pt c prf w = Inr env"
  shows "BuildProofEnvelopeWithCircuit pt c prf (w[length w - 1 := xor (last w) 1])
    = Inr (env[length env - 1 := xor (env ! (length env - 1)) 1])"
proof -
  have w: "w \<noteq> []" using assms by (auto simp: BuildProofEnvelopeWithCircuit_def Let_def split: if_splits)
  obtain front where env: "env = front @ w" and "front = proofEnvelopeMagicV2 @ [pt, of_nat (length (TrimSpace c))]
      @ be_bytes 4 (of_nat (length prf) :: u32) @ be_bytes 4 (of_nat (length w) :: u32) @ TrimSpace c @ prf"
    using assms by (auto simp: BuildProofEnvelopeWithCircuit_def Let_def split: if_splits)
  moreover have "env[length env - 1 := x] = front @ w[length w - 1 := x]" for x
  proof -
    have "length env - 1 = length front + (length w - 1)" using w by (cases w) (simp_all add: env)
    then show ?thesis by (simp add: env list_update_append)
  qed
  moreover have "env ! (length env - 1) = last w"
    using w last_conv_nth [of env] by (simp add: env)
  ultimately show ?thesis
    using assms by (simp add: BuildProofEnvelopeWithCircuit_def Let_def split: if_splits)
qed

text \<open>
  C35: Tampering with a proof does what it is meant to. A truncated envelope is refused as malformed by the gate of every
  node, whatever its verifier, its required type and the digest. An envelope with its last byte flipped is the well-formed
  envelope of the same proof for a different public witness of the same length; only a verifier can tell: a node
  without one treats it as the original.
\<close>

theorem tampering_detected:
  assumes "BuildProofEnvelopeWithCircuit pt c prf w = Inr env"
  shows "(\<exists>cut. tamperProofEnvelope env (go_str ''truncate'') = Inr cut
      \<and> (\<forall>V t h. verifyBatchProofInConsensus V t cut h = Inl ErrInvalidProofEnvelope))
    \<and> (\<exists>w' env'. tamperProofEnvelope env (go_str ''flip-last-byte'') = Inr env' \<and> w' \<noteq> w \<and> length w' = length w
      \<and> BuildProofEnvelopeWithCircuit pt c prf w' = Inr env'
      \<and> (\<forall>V t h. proofVerifier V = None \<longrightarrow>
          verifyBatchProofInConsensus V t env' h = verifyBatchProofInConsensus V t env h))"
proof (rule conjI)
  note b = built_v2 [OF assms]
  obtain e where e: "parseProofEnvelopeV2 env = Inr e" using b(1) by blast
  define cut where "cut = (if length env div 2 < 12 then length env - 1 else length env div 2)"
  have "4 \<le> cut" "cut < length env" using b(3) by (auto simp: cut_def)
  then have "parseProofEnvelope (take cut env) = Inl ErrInvalidProofEnvelope" using truncated_v2 [OF e b(2)] by simp
  moreover have "tamperProofEnvelope env (go_str ''truncate'') = Inr (take cut env)"
    using b(3) by (simp add: tamperProofEnvelope_def Let_def cut_def go_str_def)
  ultimately show "\<exists>cut. tamperProofEnvelope env (go_str ''truncate'') = Inr cut
      \<and> (\<forall>V t h. verifyBatchProofInConsensus V t cut h = Inl ErrInvalidProofEnvelope)"
    by (simp add: verifyBatchProofInConsensus_def)
next
  let ?w = "w[length w - 1 := xor (last w) 1]" and ?env = "env[length env - 1 := xor (env ! (length env - 1)) 1]"
  have "w \<noteq> []" using assms by (auto simp: BuildProofEnvelopeWithCircuit_def Let_def split: if_splits)
  moreover have "xor b 1 \<noteq> b" for b :: byte
    by (metis bit.xor_left_self bit.xor_cancel_right one_neq_zero xor.comm_neutral)
  ultimately have "?w ! (length w - 1) \<noteq> w ! (length w - 1)" by (simp add: last_conv_nth)
  then have differs: "?w \<noteq> w" by metis
  have same: "verifyBatchProofInConsensus V t ?env h = verifyBatchProofInConsensus V t env h" if "proofVerifier V = None" for V t h
    using parse_build_v2 [OF assms] parse_build_v2 [OF flipped_v2 [OF assms]] that
    by (simp add: verifyBatchProofInConsensus_def getBatchProofVerifier_def)
  have "tamperProofEnvelope env (go_str ''flip-last-byte'') = Inr ?env"
    using built_v2(3) [OF assms] by (auto simp: tamperProofEnvelope_def go_str_def)
  with differs same flipped_v2 [OF assms] show "\<exists>w' env'. tamperProofEnvelope env (go_str ''flip-last-byte'') = Inr env' \<and> w' \<noteq> w
      \<and> length w' = length w \<and> BuildProofEnvelopeWithCircuit pt c prf w' = Inr env'
      \<and> (\<forall>V t h. proofVerifier V = None \<longrightarrow>
          verifyBatchProofInConsensus V t env' h = verifyBatchProofInConsensus V t env h)"
    by (intro exI [of _ ?w] exI [of _ ?env]) simp
qed

theorem tampering_detected_witness:
  "\<exists>env cut w' env'. BuildProofEnvelopeWithCircuit 1 ProofCircuitClearHashV1 [10, 20, 30] [7] = Inr env
    \<and> tamperProofEnvelope env (go_str ''truncate'') = Inr cut
    \<and> (\<forall>V t h. verifyBatchProofInConsensus V t cut h = Inl ErrInvalidProofEnvelope)
    \<and> tamperProofEnvelope env (go_str ''flip-last-byte'') = Inr env' \<and> w' \<noteq> [7]
    \<and> BuildProofEnvelopeWithCircuit 1 ProofCircuitClearHashV1 [10, 20, 30] w' = Inr env'
    \<and> verifyBatchProofInConsensus (ConfigureBatchProofVerifier None False) 1 env' []
      = verifyBatchProofInConsensus (ConfigureBatchProofVerifier None False) 1 env []"
proof -
  have "isValidProofCircuitID (TrimSpace ProofCircuitClearHashV1)"
    "length (TrimSpace ProofCircuitClearHashV1) \<le> 63" by code_simp+
  then obtain env where env: "BuildProofEnvelopeWithCircuit 1 ProofCircuitClearHashV1 [10, 20, 30] [7] = Inr env"
    by (auto simp: BuildProofEnvelopeWithCircuit_def Let_def)
  have "proofVerifier (ConfigureBatchProofVerifier None False) = None" by (simp add: ConfigureBatchProofVerifier_def)
  then show ?thesis using tampering_detected [OF env] env by metis
qed

end
