(* ===== verification/Bench_Report.thy ===== *)
theory Bench_Report
  imports Bench_Config
begin

text \<open>
  What \<open>cmd/veilvm-zkbench\<close> makes of the measurements: percentiles, the table of windows, the summary.

  The percentiles are computed in \<open>float64\<close>. Every number that occurs is a whole number of milliseconds or a product with one of three constants, so a
  float is kept as an integer: \<open>round53\<close> rounds to 53 significant bits, half to even, and a constant below one is its
  numerator over \<open>2 ^ 53\<close>. The theorems: the percentiles are nearest-rank percentiles in spite of the rounding, and the table can be
  read back.
\<close>

section \<open>float64\<close>

fun excess_bits :: "int \<Rightarrow> nat" where
  "excess_bits n = (if n < 2 ^ 53 then 0 else Suc (excess_bits (n div 2)))"

declare excess_bits.simps [simp del]

definition round53 :: "int \<Rightarrow> int" where
  "round53 n =
     (let e = excess_bits n; q = n div 2 ^ e; r = n mod 2 ^ e in
      (if 2 * r < 2 ^ e \<or> 2 * r = 2 ^ e \<and> even q then q else q + 1) * 2 ^ e)"

definition float64_of_int :: "int \<Rightarrow> int" where
  "float64_of_int n = (if n < 0 then - round53 (- n) else round53 n)"

text \<open>The literals \<open>0.50\<close>, \<open>0.95\<close>, \<open>0.99\<close>, over \<open>2 ^ 53\<close>.\<close>

abbreviation float_0_50 :: int where "float_0_50 \<equiv> 4503599627370496"
abbreviation float_0_95 :: int where "float_0_95 \<equiv> 8556839292003942"
abbreviation float_0_99 :: int where "float_0_99 \<equiv> 8917127262193582"

section \<open>Percentiles\<close>

record percentileStat =
  pt_P50 :: int
  pt_P95 :: int
  pt_P99 :: int

definition percentile :: "int list \<Rightarrow> int \<Rightarrow> int" where
  "percentile values p =
     (if values = [] then 0
      else let cp = sort values; n = int (length cp) in
        if p \<le> 0 then cp ! 0
        else if p \<ge> 2 ^ 53 then cp ! (length cp - 1)
        else let up = - ((- round53 (float64_of_int n * p)) div 2 ^ 53);
                 idx = up - 1;
                 idx1 = (if idx < 0 then 0 else idx);
                 idx2 = (if idx1 \<ge> n then n - 1 else idx1)
             in cp ! nat idx2)"

definition percentileFromWindows :: "ZKWindowMetrics list \<Rightarrow> (ZKWindowMetrics \<Rightarrow> i64) \<Rightarrow> percentileStat" where
  "percentileFromWindows windows selectFn =
     (let values = filter (\<lambda>v. v \<ge> 0) (map (\<lambda>w. float64_of_int (sint (selectFn w))) windows) in
      \<lparr>pt_P50 = percentile values float_0_50, pt_P95 = percentile values float_0_95,
       pt_P99 = percentile values float_0_99\<rparr>)"

section \<open>The table of windows\<close>

text \<open>\<open>encoding/csv\<close> with a comma and line feeds.\<close>

abbreviation csv_quote :: byte where "csv_quote \<equiv> 0x22"
abbreviation csv_comma :: byte where "csv_comma \<equiv> 0x2C"
abbreviation csv_lf :: byte where "csv_lf \<equiv> 0x0A"
abbreviation csv_cr :: byte where "csv_cr \<equiv> 0x0D"

definition starts_space :: "bytes \<Rightarrow> bool" where
  "starts_space field \<longleftrightarrow> list_ex (\<lambda>w. take (length w) field = w) space_runes"

definition fieldNeedsQuotes :: "bytes \<Rightarrow> bool" where
  "fieldNeedsQuotes field \<longleftrightarrow> field \<noteq> [] \<and> (field = [0x5C, 0x2E] \<or> csv_comma \<in> set field \<or> csv_quote \<in> set field
     \<or> csv_cr \<in> set field \<or> csv_lf \<in> set field \<or> starts_space field)"

definition csv_field :: "bytes \<Rightarrow> bytes" where
  "csv_field field = (if fieldNeedsQuotes field
     then csv_quote # concat (map (\<lambda>b. if b = csv_quote then [csv_quote, csv_quote] else [b]) field) @ [csv_quote]
     else field)"

definition csv_record :: "bytes list \<Rightarrow> bytes" where
  "csv_record row = join_with csv_comma (map csv_field row) @ [csv_lf]"

definition metricsHeader :: "bytes list" where
  "metricsHeader = map go_str
     [''market_id'', ''window_id'', ''batch_size_hint'', ''commit_count'', ''reveal_count'', ''first_commit_at_ms'',
      ''window_close_at_ms'', ''proof_submitted_at_ms'', ''clear_accepted_at_ms'', ''batch_freeze_ms'', ''witness_build_ms'',
      ''proof_generation_ms'', ''proof_verification_ms'', ''proof_submit_latency_ms'', ''block_accept_latency_ms'',
      ''commit_exec_us'', ''reveal_exec_us'', ''proof_submit_exec_us'', ''clear_exec_us'', ''missed_deadline'',
      ''rejected'', ''last_error'']"

definition metricsRow :: "ZKWindowMetrics \<Rightarrow> bytes list" where
  "metricsRow row =
     [wm_MarketID row, FormatUint (unat (wm_WindowID row)), FormatUint (unat (wm_BatchSizeHint row)),
      FormatUint (unat (wm_CommitCount row)), FormatUint (unat (wm_RevealCount row)), FormatInt (sint (wm_FirstCommitAtMs row)),
      FormatInt (sint (wm_WindowCloseAtMs row)), FormatInt (sint (wm_ProofSubmittedAtMs row)),
      FormatInt (sint (wm_ClearAcceptedAtMs row)), FormatInt (sint (wm_BatchFreezeMs row)), FormatInt (sint (wm_WitnessBuildMs row)),
      FormatInt (sint (wm_ProofGenerationMs row)), FormatInt (sint (wm_ProofVerificationMs row)),
      FormatInt (sint (wm_ProofSubmitLatencyMs row)), FormatInt (sint (wm_BlockAcceptLatencyMs row)),
      FormatUint (unat (wm_CommitExecUs row)), FormatUint (unat (wm_RevealExecUs row)), FormatUint (unat (wm_ProofSubmitExecUs row)),
      FormatUint (unat (wm_ClearExecUs row)), FormatBool (wm_MissedDeadline row), FormatBool (wm_Rejected row),
      wm_LastError row]"

definition metricsCSV :: "ZKWindowMetrics list \<Rightarrow> bytes" where
  "metricsCSV windows = concat (map csv_record (metricsHeader # map metricsRow windows))"

section \<open>The summary\<close>

record batchResult =
  br_BatchSize :: i64
  br_WindowsRun :: nat
  br_MetricsCSV :: bytes
  br_Summary :: ZKMetricsSummary
  br_BatchFreezeMs :: percentileStat
  br_WitnessBuildMs :: percentileStat
  br_ProofGenMs :: percentileStat
  br_ProofVerifyMs :: percentileStat
  br_AcceptMs :: percentileStat

record benchReport =
  bn_GeneratedAt :: i64
  bn_Config :: benchConfig
  bn_Results :: "batchResult list"

definition batchResultOf :: "i64 \<Rightarrow> bytes \<Rightarrow> ZKMetricsSnapshot \<Rightarrow> batchResult" where
  "batchResultOf batchSize csvPath snap =
     \<lparr>br_BatchSize = batchSize, br_WindowsRun = length (sn_Windows snap), br_MetricsCSV = csvPath,
      br_Summary = sn_Summary snap,
      br_BatchFreezeMs = percentileFromWindows (sn_Windows snap) wm_BatchFreezeMs,
      br_WitnessBuildMs = percentileFromWindows (sn_Windows snap) wm_WitnessBuildMs,
      br_ProofGenMs = percentileFromWindows (sn_Windows snap) wm_ProofGenerationMs,
      br_ProofVerifyMs = percentileFromWindows (sn_Windows snap) wm_ProofVerificationMs,
      br_AcceptMs = percentileFromWindows (sn_Windows snap) wm_BlockAcceptLatencyMs\<rparr>"

text \<open>\<open>%.2f\<close> of a float that is a whole number.\<close>

definition format_2f :: "int \<Rightarrow> bytes" where
  "format_2f v = FormatInt v @ go_str ''.00''"

definition summaryRow :: "batchResult \<Rightarrow> bytes" where
  "summaryRow r = go_str ''| '' @ FormatInt (sint (br_BatchSize r)) @ go_str '' | '' @ FormatUint (br_WindowsRun r)
     @ concat (map (\<lambda>p. go_str '' | '' @ format_2f (pt_P95 p))
         [br_BatchFreezeMs r, br_WitnessBuildMs r, br_ProofGenMs r, br_ProofVerifyMs r, br_AcceptMs r])
     @ go_str '' | `'' @ br_MetricsCSV r @ go_str ''` |'' @ [csv_lf]"

definition summaryMarkdown :: "benchReport \<Rightarrow> bytes" where
  "summaryMarkdown report =
     go_str ''# VEIL ZK Bench Summary'' @ [csv_lf, csv_lf]
     @ go_str ''Proof mode: `'' @ bc_ProofMode (bn_Config report) @ go_str ''`'' @ [csv_lf, csv_lf]
     @ (if bc_ProofMode (bn_Config report) = go_str ''synthetic''
        then go_str ''This run benchmarks proof-gated VEIL batch flow with synthetic order-equivalent payload sizes.''
        else go_str ''This run benchmarks proof-gated VEIL batch flow with cryptographic Groth16 payloads.'') @ [csv_lf, csv_lf]
     @ go_str (''| Batch Size | Windows | Freeze p95 (ms) | Witness p95 (ms) | Prove p95 (ms) | '' @
         ''Verify p95 (ms) | Accept p95 (ms) | CSV |'') @ [csv_lf]
     @ go_str ''|---:|---:|---:|---:|---:|---:|---:|---|'' @ [csv_lf]
     @ concat (map summaryRow (bn_Results report))"

section \<open>Rounding\<close>

lemma excess_bits_small: "n < 2 ^ 53 \<Longrightarrow> excess_bits n = 0"
  by (subst excess_bits.simps) simp

lemma round53_exact: "n < 2 ^ 53 \<Longrightarrow> round53 n = n"
  by (simp add: round53_def excess_bits_small)

lemma excess_bits_bound: "n < 2 ^ (53 + k) \<Longrightarrow> excess_bits n \<le> k"
proof (induction k arbitrary: n)
  case 0
  then show ?case by (simp add: excess_bits_small)
next
  case (Suc k)
  show ?case
  proof (cases "n < 2 ^ 53")
    case False
    have "n div 2 < 2 ^ (53 + k)" using Suc.prems by (simp add: power_add)
    then show ?thesis using Suc.IH [of "n div 2"] False by (subst excess_bits.simps) simp
  qed (simp add: excess_bits_small)
qed

text \<open>Rounding does not cross a multiple of the unit.\<close>

lemma round_to_unit:
  fixes n c u :: int
  assumes "0 < u" and "u dvd c"
  shows "c \<le> n \<Longrightarrow> c \<le> (if P then n div u else n div u + 1) * u"
    and "n \<le> c \<Longrightarrow> (\<not> P \<longrightarrow> n mod u \<noteq> 0) \<Longrightarrow> (if P then n div u else n div u + 1) * u \<le> c"
proof -
  obtain k where k: "c = k * u" using assms(2) by (metis dvd_def mult.commute)
  have n: "n = n div u * u + n mod u" "0 \<le> n mod u" "n mod u < u" using assms(1) by simp_all
  show "c \<le> (if P then n div u else n div u + 1) * u" if "c \<le> n"
  proof -
    have "k * u < (n div u + 1) * u" using that n unfolding k distrib_right by linarith
    then have "k < n div u + 1" using assms(1) by (simp add: mult_less_cancel_right)
    then have "k * u \<le> n div u * u" using assms(1) by (intro mult_right_mono) simp_all
    then show ?thesis using assms(1) unfolding k by (simp add: distrib_right)
  qed
  show "(if P then n div u else n div u + 1) * u \<le> c" if "n \<le> c" "\<not> P \<longrightarrow> n mod u \<noteq> 0"
  proof (cases P)
    case True
    have "n div u * u \<le> c" using that(1) n by linarith
    with True show ?thesis by simp
  next
    case False
    then have "n div u * u < k * u" using that n unfolding k by linarith
    then have "n div u < k" using assms(1) by (simp add: mult_less_cancel_right)
    then have "(n div u + 1) * u \<le> k * u" using assms(1) by (intro mult_right_mono) simp_all
    then show ?thesis using False by (simp add: k)
  qed
qed

lemma round53_within:
  assumes "n < 2 ^ (53 + k)" and "2 ^ k dvd c"
  shows "c \<le> n \<Longrightarrow> c \<le> round53 n" and "n \<le> c \<Longrightarrow> round53 n \<le> c"
proof -
  have "(2 :: int) ^ excess_bits n dvd 2 ^ k" using excess_bits_bound [OF assms(1)] by (rule le_imp_power_dvd)
  then have "2 ^ excess_bits n dvd c" using assms(2) by (rule dvd_trans)
  define P where "P \<longleftrightarrow> 2 * (n mod 2 ^ excess_bits n) < 2 ^ excess_bits n
    \<or> 2 * (n mod 2 ^ excess_bits n) = 2 ^ excess_bits n \<and> even (n div 2 ^ excess_bits n)"
  have round: "round53 n = (if P then n div 2 ^ excess_bits n else n div 2 ^ excess_bits n + 1) * 2 ^ excess_bits n"
    by (simp add: round53_def Let_def P_def)
  have "\<not> P \<longrightarrow> n mod 2 ^ excess_bits n \<noteq> 0" by (auto simp: P_def)
  with round_to_unit [OF _ \<open>2 ^ excess_bits n dvd c\<close>, of n P]
  show "c \<le> n \<Longrightarrow> c \<le> round53 n" and "n \<le> c \<Longrightarrow> round53 n \<le> c" unfolding round by simp_all
qed

section \<open>Nearest rank\<close>

text \<open>
  \<open>r\<close> is the \<open>pct\<close> percentile of the values: one of them, at least that share of them is not above it, and less than that share is below it.
\<close>

definition quantile :: "int list \<Rightarrow> nat \<Rightarrow> int \<Rightarrow> bool" where
  "quantile vs pct r \<longleftrightarrow> r \<in> set vs \<and> pct * length vs \<le> 100 * length (filter (\<lambda>v. v \<le> r) vs)
     \<and> 100 * length (filter (\<lambda>v. v < r) vs) < pct * length vs"

lemma sorted_rank:
  assumes "sorted cs" and "k < length cs"
  shows "Suc k \<le> length (filter (\<lambda>v. v \<le> cs ! k) cs)" and "length (filter (\<lambda>v. v < cs ! k) cs) \<le> k"
proof -
  have "{0..k} \<subseteq> {i. i < length cs \<and> cs ! i \<le> cs ! k}"
    using assms by (auto intro: sorted_nth_mono)
  then show "Suc k \<le> length (filter (\<lambda>v. v \<le> cs ! k) cs)"
    unfolding length_filter_conv_card using card_mono [of _ "{0..k}"] by force
  have "{i. i < length cs \<and> cs ! i < cs ! k} \<subseteq> {0..<k}"
    using assms by (auto simp: not_less [symmetric] dest: sorted_nth_mono)
  then show "length (filter (\<lambda>v. v < cs ! k) cs) \<le> k"
    unfolding length_filter_conv_card using card_mono [of "{0..<k}"] by force
qed

lemma rank_quantile:
  assumes "pct * length vs \<le> 100 * Suc k" and "100 * k < pct * length vs" and "k < length vs"
  shows "quantile vs pct (sort vs ! k)"
proof -
  have count: "length (filter P (sort vs)) = length (filter P vs)" for P
    by (metis filter_sort length_sort)
  have "sort vs ! k \<in> set vs" using nth_mem [of k "sort vs"] assms(3) by simp
  then show ?thesis
    using sorted_rank [of "sort vs" k] assms unfolding quantile_def count by simp
qed

text \<open>The rank that is computed: a share that is the nearest float not above a percentage, of fewer than \<open>2 ^ 40\<close> values.\<close>

lemma float_rank:
  fixes L m k :: int
  assumes "100 * m + d = pct * 2 ^ 53" and "0 \<le> d" and "d \<le> 50" and "0 < L" and "L < 2 ^ 40"
    and "pct * L \<le> 100 * k" and "100 * (k - 1) < pct * L" and "k \<le> L"
  shows "- ((- round53 (L * m)) div 2 ^ 53) = k"
proof -
  have exact: "100 * (L * m) = pct * L * 2 ^ 53 - L * d"
    using arg_cong [OF assms(1), of "\<lambda>x. L * x"] by (simp add: algebra_simps)
  have Ld: "0 \<le> L * d" "L * d \<le> L * 50" using assms(2-4) by (simp_all add: mult_left_mono)
  have "pct * L * 2 ^ 53 \<le> 100 * k * 2 ^ 53" using mult_right_mono [OF assms(6), of "2 ^ 53"] by simp
  then have up: "L * m \<le> k * 2 ^ 53" using exact Ld by linarith
  have "(100 * (k - 1) + 1) * 2 ^ 53 \<le> pct * L * 2 ^ 53" using assms(7) by simp
  then have low: "(k - 1) * 2 ^ 53 + 2 ^ 46 \<le> L * m" using exact Ld assms(5) by simp
  have "k * 2 ^ 53 < 2 ^ 40 * 2 ^ 53" using assms(5,8) by simp
  then have "L * m < 2 ^ (53 + 46)" using up by simp
  note within = round53_within [OF this]
  have "(2 :: int) ^ 46 dvd 2 ^ 53" by (rule le_imp_power_dvd) simp
  then have dvd: "2 ^ 46 dvd k * 2 ^ 53" "2 ^ 46 dvd (k - 1) * 2 ^ 53 + (2 :: int) ^ 46" by (auto intro: dvd_mult)
  have "round53 (L * m) \<le> k * 2 ^ 53" "(k - 1) * 2 ^ 53 + 2 ^ 46 \<le> round53 (L * m)"
    using within(2) [OF dvd(1) up] within(1) [OF dvd(2) low] by simp_all
  then have "- k * 2 ^ 53 \<le> - round53 (L * m)" "- round53 (L * m) < (- k + 1) * 2 ^ 53" by (simp_all add: algebra_simps)
  then have "(- round53 (L * m)) div 2 ^ 53 = - k" by (intro int_div_pos_eq [where r = "- round53 (L * m) + k * 2 ^ 53"]) (simp_all add: algebra_simps)
  then show ?thesis by simp
qed

lemma rank_bounds:
  fixes x :: nat
  assumes "0 < x"
  shows "x \<le> 100 * Suc ((x + 99) div 100 - 1)" and "100 * ((x + 99) div 100 - 1) < x"
proof -
  define q r where "q = (x + 99) div 100" and "r = (x + 99) mod 100"
  have "x + 99 = 100 * q + r" "r < 100" by (simp_all add: q_def r_def)
  moreover have "0 < q" using assms by (simp add: q_def div_greater_zero_iff)
  ultimately show "x \<le> 100 * Suc (q - 1)" "100 * (q - 1) < x" by (cases q; simp)+
qed

lemma percentile_rank:
  fixes pct :: nat and m d :: int
  assumes "100 * m + d = int pct * 2 ^ 53" and "0 \<le> d" and "d \<le> 50" and "0 < pct" and "pct < 100"
    and "vs \<noteq> []" and "length vs < 2 ^ 40"
  shows "quantile vs pct (percentile vs m)"
proof -
  define L where "L = length vs"
  define k where "k = (pct * L + 99) div 100 - 1"
  have L: "0 < L" "L < 2 ^ 40" using assms(6,7) by (simp_all add: L_def)
  have "0 < pct * L" using L assms(4) by simp
  then have k: "pct * L \<le> 100 * Suc k" "100 * k < pct * L" using rank_bounds [of "pct * L"] by (simp_all add: k_def)
  have "pct * L \<le> 100 * L" using assms(5) by simp
  then have "k < L" using k(2) by linarith
  have "int L < 2 ^ 40" using L(2) by (metis of_nat_less_iff of_nat_numeral of_nat_power)
  moreover have "int pct * int L \<le> 100 * int (Suc k)" "100 * (int (Suc k) - 1) < int pct * int L"
    using k by (simp_all flip: of_nat_mult of_nat_less_iff)
  ultimately have up: "- ((- round53 (int L * m)) div 2 ^ 53) = int (Suc k)"
    using float_rank [OF assms(1-3), of "int L" "int (Suc k)"] L(1) \<open>k < L\<close> by simp
  have "(1 :: int) * 2 ^ 53 \<le> int pct * 2 ^ 53" "int pct * 2 ^ 53 \<le> 99 * 2 ^ 53"
    using assms(4,5) by (intro mult_right_mono; simp)+
  then have m: "0 < m" "m < 2 ^ 53" using assms(1-3) by simp_all
  have "float64_of_int (int L) = int L" using \<open>int L < 2 ^ 40\<close> by (simp add: float64_of_int_def round53_exact)
  then have "percentile vs m = sort vs ! k"
    using assms(6) m up \<open>k < L\<close> by (simp add: percentile_def Let_def flip: L_def)
  then show ?thesis using rank_quantile [of pct vs k] k \<open>k < L\<close> by (simp add: L_def)
qed

lemma filter_map_agree:
  assumes "\<And>w. w \<in> set ws \<Longrightarrow> (0 \<le> F w \<longleftrightarrow> 0 \<le> G w) \<and> (0 \<le> G w \<longrightarrow> F w = (G w :: int))"
  shows "filter (\<lambda>v. 0 \<le> v) (map F ws) = filter (\<lambda>v. 0 \<le> v) (map G ws)"
  using assms by (induction ws) auto

text \<open>
  C37: The percentiles of the report are nearest-rank percentiles, although they are computed in floating point. Of fewer
  than \<open>2 ^ 40\<close> windows whose durations a float holds exactly, those with a negative duration are left out;
  if none is left the percentiles are zero; otherwise P50, P95 and P99 are durations that occur, at least that share of the durations is
  not longer, and less than that share is shorter.
\<close>

theorem percentiles_nearest_rank:
  assumes "length windows < 2 ^ 40" and "\<forall>w \<in> set windows. sint (selectFn w) < 2 ^ 53"
    and "vs = filter (\<lambda>v. 0 \<le> v) (map (\<lambda>w. sint (selectFn w)) windows)"
    and "st = percentileFromWindows windows selectFn"
  shows "if vs = [] then pt_P50 st = 0 \<and> pt_P95 st = 0 \<and> pt_P99 st = 0
    else quantile vs 50 (pt_P50 st) \<and> quantile vs 95 (pt_P95 st) \<and> quantile vs 99 (pt_P99 st)"
proof -
  have sign: "0 \<le> float64_of_int (sint x) \<longleftrightarrow> 0 \<le> sint x" if "sint x < 2 ^ 53" for x :: i64
  proof (cases "sint x < 0")
    case True
    have "- sint x < 2 ^ (53 + 11)" using sint_ge [of x] by simp
    then have "0 < round53 (- sint x)"
      using True round53_within(1) [of "- sint x" 11 "2 ^ 11"] round53_exact [of "- sint x"] by fastforce
    then show ?thesis using True by (simp add: float64_of_int_def)
  qed (use that in \<open>simp add: float64_of_int_def round53_exact\<close>)
  have "float64_of_int (sint x) = sint x" if "sint x < 2 ^ 53" "0 \<le> sint x" for x :: i64
    using that by (simp add: float64_of_int_def round53_exact)
  with sign assms(2) have "filter (\<lambda>v. 0 \<le> v) (map (\<lambda>w. float64_of_int (sint (selectFn w))) windows) = vs"
    unfolding assms(3) by (intro filter_map_agree) blast
  then have st: "st = \<lparr>pt_P50 = percentile vs float_0_50, pt_P95 = percentile vs float_0_95, pt_P99 = percentile vs float_0_99\<rparr>"
    by (simp add: assms(4) percentileFromWindows_def Let_def)
  have "length vs < 2 ^ 40" using assms(1) length_filter_le [of _ "map (\<lambda>w. sint (selectFn w)) windows"]
    unfolding assms(3) by (metis le_less_trans length_map)
  then show ?thesis
    using percentile_rank [of float_0_50 0 50 vs] percentile_rank [of float_0_95 40 95 vs] percentile_rank [of float_0_99 8 99 vs]
    by (simp add: st percentile_def)
qed

text \<open>The median and the tails of four durations, one of them negative.\<close>

definition plain_window :: "i64 \<Rightarrow> ZKWindowMetrics" where
  "plain_window ms = \<lparr>wm_MarketID = go_str ''m'', wm_WindowID = 1, wm_BatchSizeHint = 1, wm_CommitCount = 1, wm_RevealCount = 1,
     wm_FirstCommitAtMs = 0, wm_LastCommitAtMs = 0, wm_WindowCloseAtMs = 0, wm_ProofSubmittedAtMs = 0, wm_ClearAcceptedAtMs = 0,
     wm_WitnessBuildMs = ms, wm_ProofGenerationMs = 0, wm_ProofVerificationMs = 0, wm_BatchFreezeMs = 0, wm_ProofSubmitLatencyMs = 0,
     wm_BlockAcceptLatencyMs = 0, wm_CommitExecUs = 0, wm_RevealExecUs = 0, wm_ProofSubmitExecUs = 0, wm_ClearExecUs = 0,
     wm_MissedDeadline = False, wm_Rejected = False, wm_LastError = go_str ''a, b'' @ [csv_quote]\<rparr>"

theorem percentiles_nearest_rank_witness:
  "quantile [30, 10, 20] 50 (pt_P50 (percentileFromWindows (map plain_window [30, 10, -5, 20]) wm_WitnessBuildMs))
   \<and> quantile [30, 10, 20] 95 (pt_P95 (percentileFromWindows (map plain_window [30, 10, -5, 20]) wm_WitnessBuildMs))
   \<and> quantile [30, 10, 20] 99 (pt_P99 (percentileFromWindows (map plain_window [30, 10, -5, 20]) wm_WitnessBuildMs))"
  using percentiles_nearest_rank [of "map plain_window [30, 10, -5, 20]" wm_WitnessBuildMs, OF _ _ refl refl]
  by (simp add: plain_window_def)

section \<open>Reading the table\<close>

text \<open>A reader of RFC 4180: rows of fields, quoted fields with doubled quotes; anything else is refused.\<close>

datatype csv_state = FieldStart | Bare | InQuotes | AfterQuote

fun csv_go :: "csv_state \<Rightarrow> bytes \<Rightarrow> bytes list \<Rightarrow> bytes \<Rightarrow> bytes list list option" where
  "csv_go st acc row [] = (if st = FieldStart \<and> row = [] then Some [] else None)"
| "csv_go st acc row (b # rest) =
     (if st = InQuotes then (if b = csv_quote then csv_go AfterQuote acc row rest else csv_go InQuotes (acc @ [b]) row rest)
      else if b = csv_comma then csv_go FieldStart [] (row @ [acc]) rest
      else if b = csv_lf then map_option (\<lambda>rows. (row @ [acc]) # rows) (csv_go FieldStart [] [] rest)
      else if b = csv_quote then (if st = FieldStart then csv_go InQuotes [] row rest
        else if st = AfterQuote then csv_go InQuotes (acc @ [b]) row rest else None)
      else if st = AfterQuote then None else csv_go Bare (acc @ [b]) row rest)"

definition csv_read :: "bytes \<Rightarrow> bytes list list option" where
  "csv_read = csv_go FieldStart [] []"

lemma csv_bare:
  assumes "\<forall>b \<in> set f. b \<noteq> csv_comma \<and> b \<noteq> csv_quote \<and> b \<noteq> csv_lf" and "c = csv_comma \<or> c = csv_lf"
    and "st = FieldStart \<or> st = Bare"
  shows "csv_go st acc row (f @ c # rest) = csv_go Bare (acc @ f) row (c # rest)"
  using assms(1,3)
proof (induction f arbitrary: st acc)
  case Nil
  then show ?case using assms(2) by auto
qed auto

lemma csv_quoted:
  "csv_go InQuotes acc row (concat (map (\<lambda>b. if b = csv_quote then [csv_quote, csv_quote] else [b]) f) @ rest)
    = csv_go InQuotes (acc @ f) row rest"
  by (induction f arbitrary: acc) auto

lemma csv_field_read:
  assumes "c = csv_comma \<or> c = csv_lf"
  shows "csv_go FieldStart [] row (csv_field f @ c # rest) = csv_go Bare f row (c # rest)"
proof (cases "fieldNeedsQuotes f")
  case True
  then show ?thesis using assms csv_quoted [of "[]" row f "csv_quote # c # rest"] by (auto simp: csv_field_def)
next
  case False
  then have "\<forall>b \<in> set f. b \<noteq> csv_comma \<and> b \<noteq> csv_quote \<and> b \<noteq> csv_lf" by (auto simp: fieldNeedsQuotes_def)
  then show ?thesis using csv_bare [OF _ assms, of f FieldStart "[]"] False by (simp add: csv_field_def)
qed

lemma csv_record_read:
  "fs \<noteq> [] \<Longrightarrow> csv_go FieldStart [] row (csv_record fs @ rest)
    = map_option (\<lambda>rows. (row @ fs) # rows) (csv_go FieldStart [] [] rest)"
proof (induction fs arbitrary: row)
  case (Cons f fs)
  show ?case
  proof (cases fs)
    case Nil
    then show ?thesis by (simp add: csv_record_def csv_field_read)
  next
    case (Cons g gs)
    have "csv_record (f # fs) @ rest = csv_field f @ csv_comma # (csv_record fs @ rest)" by (simp add: csv_record_def Cons)
    then show ?thesis using Cons.IH [of "row @ [f]"] by (simp add: csv_field_read Cons)
  qed
qed simp

lemma csv_read_records: "\<forall>fs \<in> set rows. fs \<noteq> [] \<Longrightarrow> csv_read (concat (map csv_record rows)) = Some rows"
  by (induction rows) (simp_all add: csv_read_def csv_record_read)

lemma FormatUint_inject: "FormatUint (unat x) = FormatUint (unat y) \<longleftrightarrow> x = (y :: 'a :: len word)"
  by (metis of_nat_eq_iff option.inject parse_FormatUint word_unat_eq_iff)

lemma FormatInt_inject: "FormatInt (sint x) = FormatInt (sint y) \<longleftrightarrow> x = (y :: i64)"
  by (metis Atoi_FormatInt sum.inject(2))

lemma FormatBool_inject: "FormatBool b = FormatBool c \<longleftrightarrow> b = c"
  by (simp add: FormatBool_def go_str_def)

lemma metricsRow_inject:
  "metricsRow v = metricsRow w \<longleftrightarrow> v\<lparr>wm_LastCommitAtMs := 0\<rparr> = w\<lparr>wm_LastCommitAtMs := 0\<rparr>"
  by (cases v, cases w) (auto simp: metricsRow_def FormatUint_inject FormatInt_inject FormatBool_inject)

lemma map_eq_list_all2: "map f xs = map g ys \<longleftrightarrow> list_all2 (\<lambda>x y. f x = g y) xs ys"
  by (simp flip: list.rel_eq add: list.rel_map)

text \<open>
  C38: The table of windows can be read back. A reader of RFC 4180 finds the header and then one row per window, with the
  fields as they were, whatever bytes an error text contains; and a table determines its windows up to the time of the
  last commitment, which has no column.
\<close>

theorem metrics_table_reads_back:
  "csv_read (metricsCSV windows) = Some (metricsHeader # map metricsRow windows)
   \<and> (metricsCSV windows = metricsCSV windows' \<longleftrightarrow>
      map (\<lambda>w. w\<lparr>wm_LastCommitAtMs := 0\<rparr>) windows = map (\<lambda>w. w\<lparr>wm_LastCommitAtMs := 0\<rparr>) windows')"
proof -
  have read: "csv_read (metricsCSV ws) = Some (metricsHeader # map metricsRow ws)" for ws
    unfolding metricsCSV_def by (rule csv_read_records) (auto simp: metricsHeader_def metricsRow_def)
  have "metricsCSV windows = metricsCSV windows' \<longleftrightarrow> map metricsRow windows = map metricsRow windows'"
    by (metis read list.inject metricsCSV_def option.inject)
  also have "\<dots> \<longleftrightarrow> map (\<lambda>w. w\<lparr>wm_LastCommitAtMs := 0\<rparr>) windows = map (\<lambda>w. w\<lparr>wm_LastCommitAtMs := 0\<rparr>) windows'"
    by (simp add: map_eq_list_all2 metricsRow_inject)
  finally show ?thesis using read by simp
qed

end
