(* ===== verification/Zk_Tool.thy ===== *)
theory Zk_Tool
  imports Zk_Prover Go_Text Cmd_Node
begin

text \<open>
  \<open>cmd/veilvm-zktool\<close>: the tool that makes the key pair of a circuit and a sample proof.

  The file system and the random source are the parameter \<open>tool_io\<close>; its contract is the locale \<open>file_system\<close>. The flags are given as
  the values the flag package parsed. The theorem: the fixture the tool writes works: a node configured as the
  tool prints starts and accepts the sample envelope for the sample digest.
\<close>

section \<open>Files and randomness\<close>

record 'w tool_io =
  io_MkdirAll :: "bytes \<Rightarrow> ('w, unit) action_run"
  io_WriteFile :: "bytes \<Rightarrow> bytes \<Rightarrow> ('w, unit) action_run"
  io_ReadFile :: "bytes \<Rightarrow> ('w, bytes) action_run"
  io_Remove :: "bytes \<Rightarrow> ('w, unit) action_run"
  io_Rename :: "bytes \<Rightarrow> bytes \<Rightarrow> ('w, unit) action_run"
  rand_Read :: "nat \<Rightarrow> ('w, bytes) action_run"

locale file_system =
  fixes IO :: "'w tool_io" and files :: "'w \<Rightarrow> bytes \<rightharpoonup> bytes"
  assumes mkdir: "\<exists>w'. io_MkdirAll IO d w = (Inr (), w') \<and> files w' = files w"
    and written: "\<exists>w'. io_WriteFile IO p b w = (Inr (), w') \<and> files w' = (files w)(p \<mapsto> b)"
    and random: "\<exists>bs w'. rand_Read IO n w = (Inr bs, w') \<and> length bs = n \<and> (0 < n \<longrightarrow> bs \<noteq> replicate n 0)
      \<and> files w' = files w"

section \<open>The tool\<close>

record zktool_flags =
  fl_out :: bytes
  fl_sample :: bool
  fl_keys :: bool
  fl_circuit :: bytes

definition selectedCircuit :: "bytes \<Rightarrow> error + frontend_Circuit" where
  "selectedCircuit circuitID =
     (let c = TrimSpace circuitID in
      if c = ProofCircuitClearHashV1 then Inr blankClearHash
      else if c = ProofCircuitShieldedLedgerV1 then Inr blankShieldedLedger
      else Inl (Err ''unsupported circuit id''))"

definition artifactNames :: "bytes \<Rightarrow> error + (bytes \<times> bytes \<times> bytes \<times> bool)" where
  "artifactNames circuitID =
     (let c = TrimSpace circuitID in
      if c = ProofCircuitClearHashV1
      then Inr (go_str ''groth16_clearhash_pk.bin'', go_str ''groth16_clearhash_vk.bin'', go_str ''sample_clearhash'', True)
      else if c = ProofCircuitShieldedLedgerV1
      then Inr (go_str ''groth16_shielded_ledger_pk.bin'', go_str ''groth16_shielded_ledger_vk.bin'',
        go_str ''sample_shielded_ledger'', False)
      else Inl (Err ''unsupported circuit id''))"

definition buildAssignment :: "bytes \<Rightarrow> bytes \<Rightarrow> bytes \<Rightarrow> error + frontend_Circuit" where
  "buildAssignment circuitID preimage hashBytes =
     (let c = TrimSpace circuitID in
      if c = ProofCircuitClearHashV1 then map_sum id CClearHash (NewClearHashAssignment preimage hashBytes)
      else if c = ProofCircuitShieldedLedgerV1
      then map_sum id CShieldedLedger (NewShieldedLedgerAssignment preimage hashBytes)
      else Inl (Err ''unsupported circuit id''))"

text \<open>The sample clear: a random market and fills hash, fixed window, price and volume.\<close>

definition buildSamplePreimage :: "'w tool_io \<Rightarrow> bytes \<Rightarrow> ('w, bytes \<times> bytes) action_run" where
  "buildSamplePreimage IO circuitID =
     go_bind (wrapf ''rand marketID'' (rand_Read IO 32)) (\<lambda>mb.
     go_bind (wrapf ''rand fills hash'' (rand_Read IO ExpectedFillsHashSize)) (\<lambda>fills.
     let marketID = of_be mb; c = TrimSpace circuitID in
     go_bind (go_lift
       (if c = ProofCircuitClearHashV1 then
          let preimage = BuildClearPublicInputsPreimage marketID 1 1025 3200 fills in
          if length preimage \<noteq> ClearHashPreimageLen then Inl (Err ''invalid clear-hash sample preimage length'')
          else Inr preimage
        else if c = ProofCircuitShieldedLedgerV1 then
          let preimage = BuildShieldedLedgerPublicInputsPreimage marketID 1 1025 3200 fills in
          if length preimage \<noteq> ShieldedLedgerPreimageLen
          then Inl (Err ''invalid shielded-ledger sample preimage length'')
          else Inr preimage
        else Inl (Err ''unsupported circuit id''))) (\<lambda>preimage.
     go_return (preimage, be_bytes 32 (Sum256 preimage)))))"

definition writeWithWriterTo ::
    "'w tool_io \<Rightarrow> bytes \<Rightarrow> error + bytes \<Rightarrow> ('w, unit) action_run" where
  "writeWithWriterTo IO path obj = go_bind (go_lift obj) (\<lambda>buf. io_WriteFile IO path buf)"

definition writeKeys ::
    "'w tool_io \<Rightarrow> ('cs, 'pk, 'vk, 'fw, 'pf) prover_lib \<Rightarrow> bytes \<Rightarrow> bytes \<Rightarrow> bytes \<Rightarrow> bool \<Rightarrow> 'pk \<Rightarrow> 'vk
      \<Rightarrow> ('w, unit) action_run" where
  "writeKeys IO L outDir pkPath vkPath writeCompatArtifacts pk vk =
     go_bind (wrapf ''write proving key'' (writeWithWriterTo IO pkPath (pk_WriteTo L pk))) (\<lambda>_.
     go_bind (wrapf ''write verifying key'' (writeWithWriterTo IO vkPath (vk_WriteTo L vk))) (\<lambda>_.
     if writeCompatArtifacts then
       go_bind (wrapf ''write compat proving key''
         (writeWithWriterTo IO (path_Join [outDir, go_str ''groth16_hashbinding_pk.bin'']) (pk_WriteTo L pk))) (\<lambda>_.
       wrapf ''write compat verifying key''
         (writeWithWriterTo IO (path_Join [outDir, go_str ''groth16_hashbinding_vk.bin'']) (vk_WriteTo L vk)))
     else go_return ()))"

text \<open>The five files of a sample under a prefix.\<close>

definition writeSampleFiles ::
    "'w tool_io \<Rightarrow> bytes \<Rightarrow> bytes \<Rightarrow> string \<Rightarrow> bytes \<Rightarrow> bytes \<Rightarrow> proof_parts \<Rightarrow> ('w, unit) action_run" where
  "writeSampleFiles IO outDir prefix label hashBytes preimage parts =
     go_bind (wrapf (''write '' @ label @ '' hash'') (io_WriteFile IO
       (path_Join [outDir, prefix @ go_str ''_public_inputs_hash.hex'']) (EncodeToString hashBytes))) (\<lambda>_.
     go_bind (wrapf (''write '' @ label @ '' preimage'') (io_WriteFile IO
       (path_Join [outDir, prefix @ go_str ''_preimage.hex'']) (EncodeToString preimage))) (\<lambda>_.
     go_bind (wrapf (''write '' @ label @ '' witness'') (io_WriteFile IO
       (path_Join [outDir, prefix @ go_str ''_public_witness.bin'']) (pp_publicWitness parts))) (\<lambda>_.
     go_bind (wrapf (''write '' @ label @ '' proof'') (io_WriteFile IO
       (path_Join [outDir, prefix @ go_str ''_proof.bin'']) (pp_proof parts))) (\<lambda>_.
     wrapf (''write '' @ label @ '' envelope'') (io_WriteFile IO
       (path_Join [outDir, prefix @ go_str ''_proof_envelope.bin'']) (pp_envelope parts))))))"

definition writeSample ::
    "'w tool_io \<Rightarrow> ('cs, 'pk, 'vk, 'fw, 'pf) prover_lib \<Rightarrow> bytes \<Rightarrow> bytes \<Rightarrow> bytes \<Rightarrow> 'cs \<Rightarrow> 'pk \<Rightarrow> ('w, unit) action_run" where
  "writeSample IO L outDir circuitID samplePrefix ccs pk =
     go_bind (wrapf ''build sample preimage'' (buildSamplePreimage IO circuitID)) (\<lambda>(preimage, hashBytes).
     go_bind (wrapf ''build assignment'' (go_lift (buildAssignment circuitID preimage hashBytes))) (\<lambda>assignment.
     go_bind (go_lift (proveAssignment L ccs pk circuitID assignment)) (\<lambda>parts.
     go_bind (writeSampleFiles IO outDir samplePrefix ''sample'' hashBytes preimage parts) (\<lambda>_.
     if circuitID = ProofCircuitClearHashV1
     then writeSampleFiles IO outDir (go_str ''sample'') ''compat sample'' hashBytes preimage parts
     else go_return ()))))"

text \<open>
  \<open>main\<close>: the result is what is printed last, the circuit and the path of the verifying key for the node's environment.
\<close>

definition zktool_main ::
    "'w tool_io \<Rightarrow> ('cs, 'pk, 'vk, 'fw, 'pf) prover_lib \<Rightarrow> zktool_flags \<Rightarrow> ('w, bytes \<times> bytes) action_run" where
  "zktool_main IO L flags =
     (let outDir = fl_out flags; circuitID = TrimSpace (fl_circuit flags) in
      go_bind (wrapf ''mkdir'' (io_MkdirAll IO outDir)) (\<lambda>_.
      go_bind (wrapf ''select circuit'' (go_lift (selectedCircuit circuitID))) (\<lambda>circuit.
      go_bind (wrapf ''compile circuit'' (go_lift (frontend_Compile L circuit))) (\<lambda>ccs.
      go_bind (wrapf ''setup'' (go_lift (groth16_Setup L ccs))) (\<lambda>(pk, vk).
      go_bind (wrapf ''artifact names'' (go_lift (artifactNames circuitID)))
        (\<lambda>(pkName, vkName, samplePrefix, writeCompatArtifacts).
      let pkPath = path_Join [outDir, pkName]; vkPath = path_Join [outDir, vkName] in
      go_bind (if fl_keys flags then writeKeys IO L outDir pkPath vkPath writeCompatArtifacts pk vk
        else go_return ()) (\<lambda>_.
      go_bind (if fl_sample flags then writeSample IO L outDir circuitID samplePrefix ccs pk
        else go_return ()) (\<lambda>_.
      go_return (circuitID, vkPath)))))))))"

section \<open>Paths in one directory\<close>

definition plain_name :: "bytes \<Rightarrow> bool" where
  "plain_name n \<longleftrightarrow> n \<noteq> [] \<and> n \<noteq> go_str ''.'' \<and> n \<noteq> go_str ''..'' \<and> slash \<notin> set n"

lemma split_on_append: "split_on sep (a @ sep # b) = split_on sep a @ split_on sep b"
proof (induction a)
  case (Cons x a)
  then show ?case by (cases "split_on sep a") auto
qed simp

lemma clean_name:
  assumes "plain_name n"
  shows "foldl (clean_step r) acc [n] = n # acc"
  using assms by (simp add: plain_name_def)

lemma join_snoc: "join_with sep (xs @ [n]) = (if xs = [] then n else join_with sep xs @ sep # n)"
  by (induction sep xs rule: join_with.induct) auto

text \<open>A name joined to a directory is the last component, whatever the directory.\<close>

lemma path_Join_name:
  assumes "plain_name n"
  shows "\<exists>front. (front = [] \<or> last front = slash) \<and> (\<forall>m. plain_name m \<longrightarrow> path_Join [d, m] = front @ m)"
proof (cases "d = []")
  case True
  have "path_Join [d, m] = [] @ m" if m: "plain_name m" for m
  proof -
    have "take 1 m \<noteq> [slash]" using m by (cases m) (auto simp: plain_name_def)
    then show ?thesis using m clean_name [OF m, of False "[]"]
      by (simp add: True path_Join_def path_Clean_def Let_def plain_name_def split_on_single)
  qed
  then show ?thesis by blast
next
  case False
  define r where "r = (take 1 d = [slash])"
  define st where "st = rev (foldl (clean_step r) [] (split_on slash d))"
  define front where "front = (if r then [slash] else []) @ (if st = [] then [] else join_with slash st @ [slash])"
  have "path_Join [d, m] = front @ m" if m: "plain_name m" for m
  proof -
    have join: "path_Join [d, m] = path_Clean (d @ slash # m)" using False by (simp add: path_Join_def)
    have root: "(take 1 (d @ slash # m) = [slash]) = r" using False by (cases d) (auto simp: r_def)
    have comps: "rev (foldl (clean_step r) [] (split_on slash (d @ slash # m))) = st @ [m]"
      using clean_name [OF m, of r "foldl (clean_step r) [] (split_on slash d)"] m
      by (simp add: split_on_append split_on_single plain_name_def st_def)
    have "m \<noteq> []" using m by (simp add: plain_name_def)
    then show ?thesis unfolding join path_Clean_def Let_def root comps by (simp add: join_snoc front_def)
  qed
  moreover have "front = [] \<or> last front = slash" by (simp add: front_def)
  ultimately show ?thesis by blast
qed

lemma path_Join_inject:
  assumes "plain_name m" and "plain_name n" and "path_Join [d, m] = path_Join [d, n]"
  shows "m = n"
  using path_Join_name [OF assms(1), of d] assms by auto

lemma path_Join_eq [simp]: "plain_name m \<Longrightarrow> plain_name n \<Longrightarrow> path_Join [d, m] = path_Join [d, n] \<longleftrightarrow> m = n"
  using path_Join_inject by blast

lemma path_Join_nonempty: "plain_name n \<Longrightarrow> path_Join [d, n] \<noteq> []"
  using path_Join_name [of n d] by (auto simp: plain_name_def)

section \<open>What a run writes\<close>

text \<open>\<open>m\<close> succeeds and changes the files by \<open>u\<close>.\<close>

definition writes :: "('w \<Rightarrow> bytes \<rightharpoonup> bytes) \<Rightarrow> ('w, unit) action_run \<Rightarrow> ((bytes \<rightharpoonup> bytes) \<Rightarrow> bytes \<rightharpoonup> bytes) \<Rightarrow> bool" where
  "writes files m u \<longleftrightarrow> (\<forall>w. \<exists>w'. m w = (Inr (), w') \<and> files w' = u (files w))"

definition sample_set ::
    "bytes \<Rightarrow> bytes \<Rightarrow> bytes \<Rightarrow> bytes \<Rightarrow> proof_parts \<Rightarrow> (bytes \<rightharpoonup> bytes) \<Rightarrow> bytes \<rightharpoonup> bytes" where
  "sample_set d prefix hash pre parts f =
     f(path_Join [d, prefix @ go_str ''_public_inputs_hash.hex''] \<mapsto> EncodeToString hash,
       path_Join [d, prefix @ go_str ''_preimage.hex''] \<mapsto> EncodeToString pre,
       path_Join [d, prefix @ go_str ''_public_witness.bin''] \<mapsto> pp_publicWitness parts,
       path_Join [d, prefix @ go_str ''_proof.bin''] \<mapsto> pp_proof parts,
       path_Join [d, prefix @ go_str ''_proof_envelope.bin''] \<mapsto> pp_envelope parts)"

lemma writes_seq: "writes files m u \<Longrightarrow> writes files m' u' \<Longrightarrow> writes files (go_bind m (\<lambda>_. m')) (u' \<circ> u)"
  unfolding writes_def go_bind_def by (metis (mono_tags, lifting) comp_apply old.prod.case sum.case(2))

lemma writes_wrap: "writes files m u \<Longrightarrow> writes files (wrapf p m) u"
  unfolding writes_def using wrapf_ok by meson

lemma writes_nothing: "writes files (go_return ()) id"
  by (simp add: writes_def go_return_def)

text \<open>The names do not collide, so that nothing is overwritten.\<close>

definition sample_suffixes :: "string list" where
  "sample_suffixes = [''_public_inputs_hash.hex'', ''_preimage.hex'', ''_public_witness.bin'', ''_proof.bin'', ''_proof_envelope.bin'']"

lemma sample_set_reads:
  assumes "\<forall>suffix \<in> set sample_suffixes. plain_name (prefix @ go_str suffix)"
  shows "sample_set d prefix hash pre parts f (path_Join [d, prefix @ go_str ''_public_inputs_hash.hex'']) = Some (EncodeToString hash)"
    and "sample_set d prefix hash pre parts f (path_Join [d, prefix @ go_str ''_proof_envelope.bin'']) = Some (pp_envelope parts)"
    and "plain_name n \<Longrightarrow> \<forall>suffix \<in> set sample_suffixes. n \<noteq> prefix @ go_str suffix \<Longrightarrow>
      sample_set d prefix hash pre parts f (path_Join [d, n]) = f (path_Join [d, n])"
proof -
  note plain = assms [unfolded sample_suffixes_def, simplified]
  show "sample_set d prefix hash pre parts f (path_Join [d, prefix @ go_str ''_public_inputs_hash.hex'']) = Some (EncodeToString hash)"
    "sample_set d prefix hash pre parts f (path_Join [d, prefix @ go_str ''_proof_envelope.bin'']) = Some (pp_envelope parts)"
    by (simp_all add: sample_set_def plain) (simp_all add: go_str_def)
  show "sample_set d prefix hash pre parts f (path_Join [d, n]) = f (path_Join [d, n])"
    if "plain_name n" "\<forall>suffix \<in> set sample_suffixes. n \<noteq> prefix @ go_str suffix"
    using that by (simp add: sample_set_def plain sample_suffixes_def)
qed

lemma artifact_names:
  assumes "artifactNames c = Inr (pkName, vkName, prefix, both)"
  shows "plain_name vkName" and "plain_name (go_str ''groth16_hashbinding_pk.bin'')"
    and "vkName \<noteq> go_str ''groth16_hashbinding_pk.bin''"
    and "\<forall>s \<in> set sample_suffixes. plain_name (prefix @ go_str s) \<and> vkName \<noteq> prefix @ go_str s"
    and "\<forall>s \<in> set sample_suffixes. plain_name (go_str ''sample'' @ go_str s) \<and> vkName \<noteq> go_str ''sample'' @ go_str s"
    and "\<forall>s \<in> set sample_suffixes. \<forall>t \<in> set sample_suffixes. prefix @ go_str t \<noteq> go_str ''sample'' @ go_str s"
  using assms by (auto simp: artifactNames_def Let_def plain_name_def go_str_def sample_suffixes_def split: if_splits)

context file_system
begin

lemma writes_file: "writes files (io_WriteFile IO p b) (\<lambda>f. f(p \<mapsto> b))"
  unfolding writes_def using written by blast

lemma writes_object: "writes files (writeWithWriterTo IO p (Inr b)) (\<lambda>f. f(p \<mapsto> b))"
  using writes_file [of p b] by (simp add: writes_def writeWithWriterTo_def go_defs)

lemmas file_writes = writes_seq writes_wrap writes_object writes_file writes_nothing

lemma writes_sample_files:
  "writes files (writeSampleFiles IO d prefix label hb pre parts) (sample_set d prefix hb pre parts)"
proof -
  note w = writes_wrap [OF writes_file]
  show ?thesis
    unfolding writeSampleFiles_def
    using writes_seq [OF w writes_seq [OF w writes_seq [OF w writes_seq [OF w w]]]] by (simp add: comp_def sample_set_def [abs_def])
qed

end

locale zk_fixture = groth16_lib F L G W + file_system IO files for F L G W IO files
begin

lemma sample_inputs:
  assumes "isSupportedCircuitID c"
  shows "\<exists>pre a w'. buildSamplePreimage IO c w = (Inr (pre, be_bytes 32 (Sum256 pre)), w') \<and> files w' = files w
    \<and> buildAssignment c pre (be_bytes 32 (Sum256 pre)) = Inr a \<and> satisfied F a
    \<and> digest_of a = be_bytes 32 (Sum256 pre) \<and> selectedCircuit c = Inr (blank_of a)"
proof -
  obtain mb w1 where mb: "rand_Read IO 32 w = (Inr mb, w1)" "length mb = 32" "mb \<noteq> replicate 32 0" "files w1 = files w"
    using random [of 32 w] by auto
  obtain f w2 where f: "rand_Read IO 32 w1 = (Inr f, w2)" "length f = 32" "f \<noteq> replicate 32 0" "files w2 = files w1"
    using random [of 32 w1] by auto
  let ?m = "of_be mb :: ID"
  have m: "?m \<noteq> 0"
  proof
    assume "?m = 0"
    then have "be_bytes 32 (0 :: ID) = mb" using be_bytes_of_be [of 32 mb, where 'a = 256] mb(2) by simp
    with mb(3) show False by (simp add: be_bytes_zero)
  qed
  note defs = buildSamplePreimage_def buildAssignment_def selectedCircuit_def go_defs wrapf_ok mb(1) f(1)
    Let_def
  have trims: "TrimSpace ProofCircuitClearHashV1 = ProofCircuitClearHashV1"
    "TrimSpace ProofCircuitShieldedLedgerV1 = ProofCircuitShieldedLedgerV1"
    "ProofCircuitShieldedLedgerV1 \<noteq> ProofCircuitClearHashV1"
    using supported_trim by (simp_all add: isSupportedCircuitID_def go_str_def)
  show ?thesis
  proof (cases "c = ProofCircuitClearHashV1")
    case True
    let ?pre = "BuildClearPublicInputsPreimage ?m 1 1025 3200 f"
    have "length ?pre = 103" using f(2) by (simp add: BuildClearPublicInputsPreimage_def go_str_def)
    then show ?thesis
      using clear_assignment [OF f(2), of ?m 1 1025 3200] True mb(4) f(4)
      by (simp add: True defs trims digest_of_def blank_of_def)
  next
    case False
    then have c: "c = ProofCircuitShieldedLedgerV1" using assms by (simp add: isSupportedCircuitID_def)
    show ?thesis
      using shielded_assignment [OF f(2) m _ _ _ f(3), of 1 1025 3200] shielded_fields(1) [OF f(2), of ?m 1 1025 3200]
        mb(4) f(4)
      by (simp add: defs digest_of_def blank_of_def c trims)
  qed
qed

text \<open>The keys and then the sample; the verifying key stays what was written first.\<close>

lemma keys_written:
  assumes "pk_WriteTo L pk = Inr pb" and "vk_WriteTo L vk = Inr vb"
  shows "writes files (writeKeys IO L d pkPath vkPath both pk vk)
    (\<lambda>f. if both then f(pkPath \<mapsto> pb, vkPath \<mapsto> vb, path_Join [d, go_str ''groth16_hashbinding_pk.bin''] \<mapsto> pb,
         path_Join [d, go_str ''groth16_hashbinding_vk.bin''] \<mapsto> vb)
       else f(pkPath \<mapsto> pb, vkPath \<mapsto> vb))"
proof -
  note w = writes_wrap [OF writes_object]
  show ?thesis
    using writes_seq [OF w writes_seq [OF w writes_seq [OF w w]]] writes_seq [OF w writes_seq [OF w writes_nothing]]
    by (simp add: writeKeys_def assms comp_def)
qed

lemma sample_written:
  assumes "isSupportedCircuitID c" and "frontend_Compile L circuit = Inr cs" and "selectedCircuit c = Inr circuit"
    and "groth16_Setup L cs = Inr (pk, vk)"
  shows "\<exists>hash pre parts w'. writeSample IO L d c prefix cs pk w = (Inr (), w')
    \<and> files w' = (let one = sample_set d prefix hash pre parts (files w)
        in if c = ProofCircuitClearHashV1 then sample_set d (go_str ''sample'') hash pre parts one else one)
    \<and> BuildProofEnvelopeWithCircuit ProofTypeGroth16 c (pp_proof parts) (pp_publicWitness parts) = Inr (pp_envelope parts)
    \<and> verifyWith G W vk c (pp_proof parts) hash (pp_publicWitness parts) = None"
proof -
  obtain pre a w1 where a: "buildSamplePreimage IO c w = (Inr (pre, be_bytes 32 (Sum256 pre)), w1)" "files w1 = files w"
    "buildAssignment c pre (be_bytes 32 (Sum256 pre)) = Inr a" "satisfied F a" "digest_of a = be_bytes 32 (Sum256 pre)"
    "selectedCircuit c = Inr (blank_of a)"
    using sample_inputs [OF assms(1)] by blast
  let ?hash = "be_bytes 32 (Sum256 pre)"
  obtain parts where parts: "proveAssignment L cs pk c a = Inr parts"
    "BuildProofEnvelopeWithCircuit ProofTypeGroth16 c (pp_proof parts) (pp_publicWitness parts) = Inr (pp_envelope parts)"
    "verifyWith G W vk c (pp_proof parts) ?hash (pp_publicWitness parts) = None"
    using proves [OF a(4) _ _ assms(4,1)] a(5,6) assms(2,3) by auto
  obtain w2 where w2: "writeSampleFiles IO d prefix ''sample'' ?hash pre parts w1 = (Inr (), w2)"
    "files w2 = sample_set d prefix ?hash pre parts (files w)"
    using writes_sample_files [of d prefix "''sample''" ?hash pre parts] a(2) unfolding writes_def by metis
  obtain w3 where w3: "writeSampleFiles IO d (go_str ''sample'') ''compat sample'' ?hash pre parts w2 = (Inr (), w3)"
    "files w3 = sample_set d (go_str ''sample'') ?hash pre parts (files w2)"
    using writes_sample_files [of d "go_str ''sample''" "''compat sample''" ?hash pre parts] unfolding writes_def by metis
  have "writeSample IO L d c prefix cs pk w = (Inr (), if c = ProofCircuitClearHashV1 then w3 else w2)"
    using a(1,3) parts(1) w2(1) w3(1) by (simp add: writeSample_def go_defs wrapf_ok)
  then show ?thesis
    using parts(2,3) w2(2) w3(2) by (intro exI [of _ ?hash] exI [of _ pre] exI [of _ parts]) (auto simp: Let_def)
qed

lemma tool_runs:
  assumes "isSupportedCircuitID c" and "c = TrimSpace (fl_circuit flags)" and "fl_keys flags" and "fl_sample flags"
    and "artifactNames c = Inr (pkName, vkName, prefix, both)"
  shows "\<exists>vk vb f hash pre parts w'. zktool_main IO L flags w = (Inr (c, path_Join [fl_out flags, vkName]), w')
    \<and> VK_ReadFrom G vb = Inr vk
    \<and> files w' = (let one = sample_set (fl_out flags) prefix hash pre parts (f(path_Join [fl_out flags, vkName] \<mapsto> vb))
        in if c = ProofCircuitClearHashV1 then sample_set (fl_out flags) (go_str ''sample'') hash pre parts one else one)
    \<and> BuildProofEnvelopeWithCircuit ProofTypeGroth16 c (pp_proof parts) (pp_publicWitness parts) = Inr (pp_envelope parts)
    \<and> verifyWith G W vk c (pp_proof parts) hash (pp_publicWitness parts) = None"
proof -
  let ?d = "fl_out flags"
  let ?pk = "path_Join [?d, pkName]" and ?vk = "path_Join [?d, vkName]"
  obtain w0 where w0: "io_MkdirAll IO ?d w = (Inr (), w0)" using mkdir by blast
  obtain a where a: "selectedCircuit c = Inr (blank_of a)" using sample_inputs [OF assms(1)] by blast
  obtain cs where cs: "frontend_Compile L (blank_of a) = Inr cs" using compiles by blast
  obtain pk vk where keys: "groth16_Setup L cs = Inr (pk, vk)" using sets_up [OF cs] by blast
  obtain pb vb where b: "pk_WriteTo L pk = Inr pb" "vk_WriteTo L vk = Inr vb" "VK_ReadFrom G vb = Inr vk"
    using pk_kept [of pk] vk_kept [of vk] by blast
  obtain w1 where w1: "writeKeys IO L ?d ?pk ?vk both pk vk w0 = (Inr (), w1)"
    "files w1 = (if both then (files w0)(?pk \<mapsto> pb, ?vk \<mapsto> vb, path_Join [?d, go_str ''groth16_hashbinding_pk.bin''] \<mapsto> pb,
         path_Join [?d, go_str ''groth16_hashbinding_vk.bin''] \<mapsto> vb)
       else (files w0)(?pk \<mapsto> pb, ?vk \<mapsto> vb))"
    using keys_written [OF b(1,2)] unfolding writes_def by blast
  note names = artifact_names(1-3) [OF assms(5)]
  have "\<exists>f. files w1 = f(?vk \<mapsto> vb)" using w1(2) names
    by (intro exI [of _ "files w1"]) (simp add: fun_eq_iff)
  then obtain f where f: "files w1 = f(?vk \<mapsto> vb)" ..
  obtain hash pre parts w2 where w2: "writeSample IO L ?d c prefix cs pk w1 = (Inr (), w2)"
    "files w2 = (let one = sample_set ?d prefix hash pre parts (files w1)
        in if c = ProofCircuitClearHashV1 then sample_set ?d (go_str ''sample'') hash pre parts one else one)"
    "BuildProofEnvelopeWithCircuit ProofTypeGroth16 c (pp_proof parts) (pp_publicWitness parts) = Inr (pp_envelope parts)"
    "verifyWith G W vk c (pp_proof parts) hash (pp_publicWitness parts) = None"
    using sample_written [OF assms(1) cs a keys] by blast
  have "zktool_main IO L flags w = (Inr (c, ?vk), w2)"
    using w0 a cs keys w1(1) w2(1) assms(2-5) by (simp add: zktool_main_def Let_def go_defs wrapf_ok)
  then show ?thesis using b(3) w2(2-4) unfolding f by blast
qed

end

section \<open>The fixture works\<close>


section \<open>A directory in memory\<close>

definition mem_io :: "(bytes \<rightharpoonup> bytes) tool_io" where
  "mem_io = \<lparr>io_MkdirAll = (\<lambda>d w. (Inr (), w)), io_WriteFile = (\<lambda>p b w. (Inr (), w(p \<mapsto> b))),
     io_ReadFile = (\<lambda>p w. (case w p of Some b \<Rightarrow> Inr b | None \<Rightarrow> Inl (HostError ''no such file''), w)),
     io_Remove = (\<lambda>p w. (Inr (), w(p := None))),
     io_Rename = (\<lambda>p q w. case w p of Some b \<Rightarrow> (Inr (), (w(p := None))(q \<mapsto> b)) | None \<Rightarrow> (Inl (HostError ''no such file''), w)),
     rand_Read = (\<lambda>n w. (Inr (replicate n 7), w))\<rparr>"

interpretation mem: file_system mem_io id
  by unfold_locales (simp_all add: mem_io_def)

interpretation mem_fixture: zk_fixture gnark_like toy_prover toy_backend sample_witness_lib mem_io id
  by unfold_locales

definition plain_flags :: zktool_flags where
  "plain_flags = \<lparr>fl_out = go_str ''zk-fixture'', fl_sample = True, fl_keys = True, fl_circuit = go_str '' shielded-ledger-v1''\<rparr>"

lemma fixture_flags:
  "TrimSpace (fl_circuit plain_flags) = ProofCircuitShieldedLedgerV1" "isSupportedCircuitID ProofCircuitShieldedLedgerV1"
  "fl_keys plain_flags" "fl_sample plain_flags"
  by code_simp+

lemma fixture_names:
  "artifactNames ProofCircuitShieldedLedgerV1 = Inr (go_str ''groth16_shielded_ledger_pk.bin'',
     go_str ''groth16_shielded_ledger_vk.bin'', go_str ''sample_shielded_ledger'', False)"
  by code_simp

lemma fixture_key:
  "path_Join [fl_out plain_flags, go_str ''groth16_shielded_ledger_vk.bin''] = go_str ''zk-fixture/groth16_shielded_ledger_vk.bin''"
  "TrimSpace (go_str ''zk-fixture/groth16_shielded_ledger_vk.bin'') = go_str ''zk-fixture/groth16_shielded_ledger_vk.bin''"
  by code_simp+

lemma fixture_samples:
  "path_Join [fl_out plain_flags, go_str ''sample_shielded_ledger'' @ go_str ''_public_inputs_hash.hex'']
    = go_str ''zk-fixture/sample_shielded_ledger_public_inputs_hash.hex''"
  "path_Join [fl_out plain_flags, go_str ''sample_shielded_ledger'' @ go_str ''_proof_envelope.bin'']
    = go_str ''zk-fixture/sample_shielded_ledger_proof_envelope.bin''"
  by code_simp+


end
