(* ===== verification/Bench_Run.thy ===== *)
theory Bench_Run
  imports Bench_Payload Bench_Report Zk_Tool
begin

text \<open>
  \<open>cmd/veilvm-zkbench\<close>, the run: submitting and waiting, keeping the account funded, building proofs, one window, one batch size, the whole
  benchmark.

  The closures of \<open>runBench\<close> share the values they capture; here those are the record \<open>benchSession\<close>. Beside the node the run uses files, the
  time, the timer that is raced against the context, and JSON: the record \<open>bench_io\<close>. What is printed on the way is left
  out.
\<close>

section \<open>The world outside\<close>

record go_time =
  gt_UnixNano :: i64
  gt_Mono :: i64

record 'w bench_io =
  bi_os :: "'w tool_io"
  time_Now :: "('w, go_time) action_run"
  select_Timer :: "i64 \<Rightarrow> ('w, error option) action_run"
  csv_WriteAll :: "bytes \<Rightarrow> bytes \<Rightarrow> ('w, unit) action_run"
  json_MarshalIndent :: "benchReport \<Rightarrow> error + bytes"

text \<open>\<open>time.Since(start).Milliseconds()\<close> and \<open>Unix()\<close>.\<close>

definition sinceMs :: "go_time \<Rightarrow> go_time \<Rightarrow> i64" where
  "sinceMs start stop = go_quot (gt_Mono stop - gt_Mono start) 1000000"

definition time_Unix :: "go_time \<Rightarrow> i64" where
  "time_Unix t = word_of_int (sint (gt_UnixNano t) div 1000000000)"

section \<open>Proof builders\<close>

datatype ('cs, 'pk) proofBuilder = SyntheticBuilder | Groth16Builder 'cs 'pk bytes

definition builder_Description :: "('cs, 'pk) proofBuilder \<Rightarrow> string" where
  "builder_Description b = (case b of
     SyntheticBuilder \<Rightarrow> ''synthetic''
   | Groth16Builder _ _ circuitID \<Rightarrow>
       if circuitID = ProofCircuitShieldedLedgerV1 then ''groth16-shielded-ledger-v1'' else ''groth16-clearhash-v1'')"

definition groth16Assignment :: "bytes \<Rightarrow> bytes \<Rightarrow> bytes \<Rightarrow> error + frontend_Circuit" where
  "groth16Assignment circuitID preimage publicInputsHash =
     (if circuitID = ProofCircuitClearHashV1 then map_sum id CClearHash (NewClearHashAssignment preimage publicInputsHash)
      else if circuitID = ProofCircuitShieldedLedgerV1
      then map_sum id CShieldedLedger (NewShieldedLedgerAssignment preimage publicInputsHash)
      else Inl (Err ''unsupported circuit id''))"

definition builder_proof ::
    "('cs, 'pk, 'vk, 'fw, 'pf) prover_lib \<Rightarrow> ('cs, 'pk) proofBuilder \<Rightarrow> bytes \<Rightarrow> bytes \<Rightarrow> i64 \<Rightarrow> u64 \<Rightarrow> bytes \<Rightarrow> error + bytes" where
  "builder_proof L b publicInputsHash preimage batchSize windowID fillsHash = (case b of
     SyntheticBuilder \<Rightarrow> buildProofBlob batchSize windowID fillsHash
   | Groth16Builder ccs pk circuitID \<Rightarrow>
       res_try (groth16Assignment circuitID preimage publicInputsHash) (\<lambda>assignment.
       map_sum id pp_envelope (proveAssignment L ccs pk circuitID assignment)))"

definition builder_Build ::
    "'w bench_io \<Rightarrow> ('cs, 'pk, 'vk, 'fw, 'pf) prover_lib \<Rightarrow> ('cs, 'pk) proofBuilder \<Rightarrow> bytes \<Rightarrow> bytes \<Rightarrow> i64 \<Rightarrow> u64 \<Rightarrow> bytes
      \<Rightarrow> ('w, bytes \<times> i64) action_run" where
  "builder_Build T L b publicInputsHash preimage batchSize windowID fillsHash =
     go_bind (time_Now T) (\<lambda>start.
     go_bind (go_lift (builder_proof L b publicInputsHash preimage batchSize windowID fillsHash)) (\<lambda>blob.
     go_bind (time_Now T) (\<lambda>stop.
     go_return (blob, sinceMs start stop))))"

section \<open>Keys and constraint systems\<close>

definition loadGroth16ProvingKey ::
    "'w bench_io \<Rightarrow> ('cs, 'pk, 'vk, 'fw, 'pf) prover_lib \<Rightarrow> bytes \<Rightarrow> ('w, 'pk) action_run" where
  "loadGroth16ProvingKey T L path =
     go_bind (io_ReadFile (bi_os T) path) (\<lambda>b. go_lift (pk_ReadFrom L b))"

definition loadGroth16ConstraintSystem ::
    "'w bench_io \<Rightarrow> ('cs, 'pk, 'vk, 'fw, 'pf) prover_lib \<Rightarrow> bytes \<Rightarrow> ('w, 'cs) action_run" where
  "loadGroth16ConstraintSystem T L path =
     go_bind (io_ReadFile (bi_os T) path) (\<lambda>b. go_lift (cs_ReadFrom L b))"

text \<open>\<open>_ = f()\<close>: the error is dropped.\<close>

definition go_ignore :: "('w, 'a) action_run \<Rightarrow> ('w, unit) action_run" where
  "go_ignore m = go_bind (go_try m) (\<lambda>_. go_return ())"

text \<open>An error of \<open>m\<close> is returned after the clean-up \<open>c\<close>.\<close>

definition go_cleanup :: "('w, 'a) action_run \<Rightarrow> ('w, unit) action_run \<Rightarrow> ('w, 'a) action_run" where
  "go_cleanup m c = go_bind (go_try m) (\<lambda>r. case r of
     Inr x \<Rightarrow> go_return x
   | Inl err \<Rightarrow> go_bind (go_ignore c) (\<lambda>_. go_fail err))"

text \<open>
  The cache is written to a temporary file, which replaces the old one. \<open>os.Create\<close> makes the empty file.
\<close>

definition storeGroth16ConstraintSystem ::
    "'w bench_io \<Rightarrow> ('cs, 'pk, 'vk, 'fw, 'pf) prover_lib \<Rightarrow> bytes \<Rightarrow> 'cs \<Rightarrow> ('w, unit) action_run" where
  "storeGroth16ConstraintSystem T L path ccs =
     (let fs = bi_os T; tmpPath = path @ go_str ''.tmp'' in
      go_bind (io_MkdirAll fs (path_Dir path)) (\<lambda>_.
      go_bind (io_WriteFile fs tmpPath []) (\<lambda>_.
      go_bind (go_cleanup (writeWithWriterTo fs tmpPath (cs_WriteTo L ccs)) (io_Remove fs tmpPath)) (\<lambda>_.
      go_bind (go_ignore (io_Remove fs path)) (\<lambda>_.
      go_cleanup (io_Rename fs tmpPath path) (io_Remove fs tmpPath))))))"

definition loadOrCompileGroth16ConstraintSystem ::
    "'w bench_io \<Rightarrow> ('cs, 'pk, 'vk, 'fw, 'pf) prover_lib \<Rightarrow> benchConfig \<Rightarrow> frontend_Circuit \<Rightarrow> ('w, 'cs) action_run" where
  "loadOrCompileGroth16ConstraintSystem T L cfg circuit =
     (let cachePath = TrimSpace (bc_Groth16CSCachePath cfg);
          compile = go_bind (wrapf ''compile groth16 circuit'' (go_lift (frontend_Compile L circuit))) (\<lambda>ccs.
            if cachePath \<noteq> [] then go_bind (go_ignore (storeGroth16ConstraintSystem T L cachePath ccs)) (\<lambda>_. go_return ccs)
            else go_return ccs)
      in if cachePath \<noteq> [] then
           go_bind (go_try (loadGroth16ConstraintSystem T L cachePath)) (\<lambda>r. case r of
             Inr ccs \<Rightarrow> go_return ccs | Inl _ \<Rightarrow> compile)
         else compile)"

definition newProofBuilder ::
    "'w bench_io \<Rightarrow> ('cs, 'pk, 'vk, 'fw, 'pf) prover_lib \<Rightarrow> benchConfig \<Rightarrow> ('w, ('cs, 'pk) proofBuilder) action_run" where
  "newProofBuilder T L cfg =
     (if bc_ProofMode cfg = go_str ''synthetic'' then go_return SyntheticBuilder
      else if bc_ProofMode cfg = go_str ''groth16'' then
        go_bind (go_lift (if bc_ProofCircuitID cfg = ProofCircuitClearHashV1 then Inr blankClearHash
          else if bc_ProofCircuitID cfg = ProofCircuitShieldedLedgerV1 then Inr blankShieldedLedger
          else Inl (Err ''unsupported PROOF_CIRCUIT_ID''))) (\<lambda>circuit.
        go_bind (loadOrCompileGroth16ConstraintSystem T L cfg circuit) (\<lambda>ccs.
        go_bind (loadGroth16ProvingKey T L (bc_Groth16PKPath cfg)) (\<lambda>pk.
        go_return (Groth16Builder ccs pk (bc_ProofCircuitID cfg)))))
      else go_fail (Err ''unsupported proof mode''))"

section \<open>Waiting\<close>

primrec pollHeight :: "('w, 'k, 'r) node_api \<Rightarrow> nat \<Rightarrow> u64 \<Rightarrow> ('w, unit) action_run" where
  "pollHeight A 0 h0 = go_fail (Err ''timeout waiting for height advance'')"
| "pollHeight A (Suc n) h0 =
     go_bind (ctx_Err A) (\<lambda>e. case e of
       Some err \<Rightarrow> go_fail err
     | None \<Rightarrow>
         go_bind (time_Sleep A (500 * Millisecond)) (\<lambda>_.
         go_bind (core_Accepted A) (\<lambda>(h1, _).
         if h1 > h0 then go_return () else pollHeight A n h0)))"

definition waitForHeightAdvance :: "('w, 'k, 'r) node_api \<Rightarrow> ('w, unit) action_run" where
  "waitForHeightAdvance A = go_bind (core_Accepted A) (\<lambda>(h0, _). pollHeight A 60 h0)"

primrec pollTxResult :: "('w, 'k, 'r) node_api \<Rightarrow> nat \<Rightarrow> ID \<Rightarrow> string \<Rightarrow> ('w, unit) action_run" where
  "pollTxResult A 0 txID name = go_fail (Err (name @ '' tx result timeout''))"
| "pollTxResult A (Suc n) txID name =
     go_bind (ctx_Err A) (\<lambda>e. case e of
       Some err \<Rightarrow> go_fail (Err (name @ '' tx result wait: '' @ err_Error err))
     | None \<Rightarrow>
         go_bind (wrapf (name @ '' tx result lookup'') (idx_GetTxResults A txID)) (\<lambda>resp. case resp of
           None \<Rightarrow> go_bind (time_Sleep A (250 * Millisecond)) (\<lambda>_. pollTxResult A n txID name)
         | Some r \<Rightarrow>
             if \<not> tx_Success r then go_fail (Err (name @ '' execution failed: '' @ tx_Error r))
             else go_return ()))"

definition waitForTxSuccess :: "('w, 'k, 'r) node_api \<Rightarrow> ID \<Rightarrow> string \<Rightarrow> ('w, unit) action_run" where
  "waitForTxSuccess A txID name = pollTxResult A 120 txID name"

section \<open>Submitting\<close>

record ('w, 'k, 'r) benchSession =
  se_api :: "('w, 'k, 'r) node_api"
  se_codec :: linear_codec
  se_cfg :: benchConfig
  se_factory :: 'k
  se_refuel :: "'k option"
  se_chainID :: ID

abbreviation se_addr :: "('w, 'k, 'r) benchSession \<Rightarrow> Address" where
  "se_addr S \<equiv> signer_Address (se_api S) (se_factory S)"

definition currentMaxFee :: "('w, 'k, 'r) benchSession \<Rightarrow> ('w, u64) action_run" where
  "currentMaxFee S = go_bind (core_UnitPrices (se_api S) False) (\<lambda>unitPrices. go_return (estimateMaxFee unitPrices))"

definition submitSignedAction ::
    "('w, 'k, 'r) benchSession \<Rightarrow> string \<Rightarrow> 'k \<Rightarrow> action \<Rightarrow> ('w, ID) action_run" where
  "submitSignedAction S name signer a =
     (let A = se_api S in
      go_bind (wrapf (name @ '' unitprices'') (currentMaxFee S)) (\<lambda>maxFee.
      go_bind (wrapf (name @ '' accepted'') (core_Accepted A)) (\<lambda>(_, ts).
      go_bind (time_NowMs A) (\<lambda>nowMs.
      let anchor = (if sint nowMs > sint ts then nowMs else ts) in
      go_bind (sendAction A (se_codec S) (name @ '' sign'') (name @ '' submit'')
          \<lparr>tb_Timestamp = alignExpiry anchor, tb_ChainID = se_chainID S, tb_MaxFee = maxFee\<rparr> signer a) (\<lambda>txID.
      go_bind (wrapf (name @ '' wait'') (waitForHeightAdvance A)) (\<lambda>_.
      go_bind (waitForTxSuccess A txID name) (\<lambda>_.
      go_return txID)))))))"

text \<open>The transfer from the refuelling account; its size covers the shortfall and a fee.\<close>

definition refuelTransfer :: "('w, 'k, 'r) benchSession \<Rightarrow> string \<Rightarrow> u64 \<Rightarrow> 'k \<Rightarrow> ('w, unit) action_run" where
  "refuelTransfer S reason deficit refuel =
     (let A = se_api S in
      go_bind (wrapf (reason @ '' unitprices for refuel'') (currentMaxFee S)) (\<lambda>refuelMaxFee.
      let minTopUp = saturatingAdd deficit refuelMaxFee;
          topUpAmount = (if bc_RefuelAmount (se_cfg S) < minTopUp then minTopUp else bc_RefuelAmount (se_cfg S)) in
      go_bind (wrapf (reason @ '' refuel balance'') (Client_Balance (vm_Request A) (signer_Address A refuel))) (\<lambda>refuelBalance.
      go_guard (refuelBalance < saturatingAdd topUpAmount refuelMaxFee) (Err (reason @ '' refuel wallet insufficient''))
      (go_bind (wrapf (reason @ '' refuel transfer'') (submitSignedAction S ''refuel_transfer'' refuel
         (ATransfer \<lparr>tr_To = se_addr S, tr_Value = topUpAmount, tr_Memo = go_str ''zkbench-refuel''\<rparr>))) (\<lambda>_.
      go_return ())))))"

definition ensureBenchBalance :: "('w, 'k, 'r) benchSession \<Rightarrow> string \<Rightarrow> u64 \<Rightarrow> ('w, unit) action_run" where
  "ensureBenchBalance S reason required =
     (let A = se_api S; addr = se_addr S in
      go_bind (wrapf (reason @ '' bench balance'') (Client_Balance (vm_Request A) addr)) (\<lambda>balance.
      if balance \<ge> required then go_return ()
      else case se_refuel S of
        None \<Rightarrow> go_fail (Err (reason @ '' insufficient bench fee balance''))
      | Some refuel \<Rightarrow>
          go_guard (signer_Address A refuel = addr)
            (Err (reason @ '' REFUEL_PRIVATE_KEY must differ from PRIVATE_KEY when auto-refuel is needed''))
          (go_bind (refuelTransfer S reason (required - balance) refuel) (\<lambda>_.
          go_bind (wrapf (reason @ '' bench balance after refuel'') (Client_Balance (vm_Request A) addr)) (\<lambda>updatedBalance.
          go_guard (updatedBalance < required) (Err (reason @ '' refuel completed but bench balance still low''))
          (go_return ()))))))"

text \<open>A transaction that fails for lack of fees is repeated once after refuelling.\<close>

definition submitAction :: "('w, 'k, 'r) benchSession \<Rightarrow> string \<Rightarrow> action \<Rightarrow> ('w, ID) action_run" where
  "submitAction S name a =
     go_bind (wrapf (name @ '' unitprices'') (currentMaxFee S)) (\<lambda>maxFee.
     let requiredBeforeSubmit = saturatingAdd maxFee (bc_GasReserve (se_cfg S)) in
     go_bind (if se_refuel S \<noteq> None \<or> bc_StrictFeePreflight (se_cfg S)
       then ensureBenchBalance S (name @ '' preflight'') requiredBeforeSubmit else go_return ()) (\<lambda>_.
     go_bind (go_try (submitSignedAction S name (se_factory S) a)) (\<lambda>r. case r of
       Inr txID \<Rightarrow> go_return txID
     | Inl err \<Rightarrow>
         if \<not> isInsufficientFeeError err then go_fail err
         else if se_refuel S = None then go_fail (Err (name @ '' insufficient fee balance: '' @ err_Error err))
         else
           go_bind (ensureBenchBalance S (name @ '' retry'') (saturatingAdd requiredBeforeSubmit maxFee)) (\<lambda>_.
           submitSignedAction S name (se_factory S) a))))"

definition setProofConfig :: "('w, 'k, 'r) benchSession \<Rightarrow> 'k \<Rightarrow> Address \<Rightarrow> ('w, unit) action_run" where
  "setProofConfig S signer proverAuthority =
     go_bind (wrapf ''set proof config'' (submitSignedAction S ''set_proof_config'' signer (ASetProofConfig
       \<lparr>sp_RequireProof = True, sp_RequiredProofType = ProofTypeGroth16, sp_BatchWindowMs = bc_BatchWindowMs (se_cfg S),
        sp_ProofDeadlineMs = bc_ProofDeadlineMs (se_cfg S), sp_ProverAuthority = proverAuthority\<rparr>))) (\<lambda>_.
     go_return ())"

section \<open>One window\<close>

text \<open>The end of the window: the last grid point not after the last accepted block.\<close>

definition windowCloseOf :: "i64 \<Rightarrow> i64 \<Rightarrow> error + i64" where
  "windowCloseOf acceptedTs batchWindowMs =
     res_try (go_rem acceptedTs batchWindowMs) (\<lambda>rest.
     let windowClose = acceptedTs - rest in
     Inr (if sint windowClose \<le> 0 then acceptedTs else windowClose))"

definition windowPrice :: "nat \<Rightarrow> u64" where
  "windowPrice i = of_nat (1000 + i mod 97)"

definition windowVolume :: "i64 \<Rightarrow> u64" where
  "windowVolume batchSize = batchSize * 100"

text \<open>The digest and the message for the configured circuit.\<close>

definition windowInputs :: "bytes \<Rightarrow> ID \<Rightarrow> u64 \<Rightarrow> u64 \<Rightarrow> u64 \<Rightarrow> bytes \<Rightarrow> bytes \<times> bytes" where
  "windowInputs circuitID marketID windowID clearPrice totalVolume fillsHash =
     (if circuitID = ProofCircuitShieldedLedgerV1
      then (be_bytes 32 (ComputeShieldedLedgerPublicInputsHash marketID windowID clearPrice totalVolume fillsHash),
            BuildShieldedLedgerPublicInputsPreimage marketID windowID clearPrice totalVolume fillsHash)
      else (be_bytes 32 (ComputeClearPublicInputsHash marketID windowID clearPrice totalVolume fillsHash),
            BuildClearPublicInputsPreimage marketID windowID clearPrice totalVolume fillsHash))"

text \<open>Commit and reveal; what remains is the fills hash and the time it took.\<close>

definition windowOrders ::
    "('w, 'k, 'r) benchSession \<Rightarrow> 'w bench_io \<Rightarrow> ID \<Rightarrow> i64 \<Rightarrow> u64 \<Rightarrow> ('w, bytes \<times> i64) action_run" where
  "windowOrders S T marketID batchSize windowID =
     go_bind (go_lift (buildEnvelope batchSize windowID)) (\<lambda>envelope.
     go_bind (submitAction S ''commit_order'' (ACommitOrder \<lparr>co_MarketID = marketID, co_WindowID = windowID,
       co_Envelope = envelope, co_Commitment = be_bytes 32 (Sum256 envelope)\<rparr>)) (\<lambda>_.
     go_bind (go_lift (buildRevealShare batchSize windowID)) (\<lambda>reveal.
     go_bind (submitAction S ''reveal_batch'' (ARevealBatch \<lparr>rb_MarketID = marketID, rb_WindowID = windowID,
       rb_DecryptionShare = reveal, rb_ValidatorIndex = 1\<rparr>)) (\<lambda>_.
     go_bind (time_Now T) (\<lambda>start.
     let fillsHash = buildFillsHash batchSize windowID envelope reveal in
     go_bind (time_Now T) (\<lambda>stop.
     go_return (fillsHash, sinceMs start stop)))))))"

text \<open>The proof as it is submitted, after tampering.\<close>

definition windowProof ::
    "('w, 'k, 'r) benchSession \<Rightarrow> 'w bench_io \<Rightarrow> ('cs, 'pk, 'vk, 'fw, 'pf) prover_lib \<Rightarrow> ('cs, 'pk) proofBuilder
      \<Rightarrow> ID \<Rightarrow> i64 \<Rightarrow> nat \<Rightarrow> bytes \<Rightarrow> ('w, bytes \<times> i64) action_run" where
  "windowProof S T L builder marketID batchSize i fillsHash =
     (let cfg = se_cfg S; windowID = of_nat i;
          (publicInputsHash, preimage) = windowInputs (bc_ProofCircuitID cfg) marketID windowID (windowPrice i)
            (windowVolume batchSize) fillsHash in
      go_bind (wrapf (''build proof ('' @ builder_Description builder @ '')'')
        (builder_Build T L builder publicInputsHash preimage batchSize windowID fillsHash)) (\<lambda>(blob, proofMs).
      go_bind (if bc_ProofTamperMode cfg \<noteq> [] then wrapf ''tamper proof'' (go_lift (tamperProofEnvelope blob (bc_ProofTamperMode cfg)))
        else go_return blob) (\<lambda>blob.
      go_bind (if sint (bc_ProofSubmitDelayMs cfg) > 0 then
          go_bind (select_Timer T (bc_ProofSubmitDelayMs cfg * 1000000)) (\<lambda>e. case e of
            Some err \<Rightarrow> go_fail (Err (''submit proof delay interrupted: '' @ err_Error err)) | None \<Rightarrow> go_return ())
        else go_return ()) (\<lambda>_.
      go_return (blob, proofMs)))))"

definition benchWindow ::
    "('w, 'k, 'r) benchSession \<Rightarrow> 'w bench_io \<Rightarrow> ('cs, 'pk, 'vk, 'fw, 'pf) prover_lib \<Rightarrow> ('cs, 'pk) proofBuilder
      \<Rightarrow> ID \<Rightarrow> i64 \<Rightarrow> nat \<Rightarrow> ('w, unit) action_run" where
  "benchWindow S T L builder marketID batchSize i =
     (let A = se_api S; cfg = se_cfg S; windowID = of_nat i in
      go_bind (windowOrders S T marketID batchSize windowID) (\<lambda>(fillsHash, witnessMs).
      go_bind (wrapf ''accepted before proof'' (core_Accepted A)) (\<lambda>(_, acceptedTs).
      go_bind (go_lift (windowCloseOf acceptedTs (bc_BatchWindowMs cfg))) (\<lambda>windowClose.
      go_bind (windowProof S T L builder marketID batchSize i fillsHash) (\<lambda>(blob, proofMs).
      go_bind (submitAction S ''submit_batch_proof'' (ASubmitBatchProof \<lparr>sb_MarketID = marketID, sb_WindowID = windowID,
        sb_WindowCloseAtMs = windowClose, sb_ProofType = ProofTypeGroth16,
        sb_PublicInputsHash = fst (windowInputs (bc_ProofCircuitID cfg) marketID windowID (windowPrice i)
          (windowVolume batchSize) fillsHash),
        sb_FillsHash = fillsHash, sb_Proof = blob\<rparr>)) (\<lambda>_.
      go_bind (wrapf ''record prover metrics'' (Client_RecordZKProverMetrics (vm_Request A) marketID windowID (ucast batchSize)
        witnessMs proofMs)) (\<lambda>_.
      go_bind (submitAction S ''clear_batch'' (AClearBatch \<lparr>cb_MarketID = marketID, cb_WindowID = windowID,
        cb_ClearPrice = windowPrice i, cb_TotalVolume = windowVolume batchSize, cb_FillsHash = fillsHash\<rparr>)) (\<lambda>_.
      go_return ()))))))))"

section \<open>One batch size\<close>

primrec go_each :: "('a \<Rightarrow> ('w, unit) action_run) \<Rightarrow> 'a list \<Rightarrow> ('w, unit) action_run" where
  "go_each f [] = go_return ()"
| "go_each f (x # xs) = go_bind (f x) (\<lambda>_. go_each f xs)"

definition benchMarket :: "('w, 'k, 'r) benchSession \<Rightarrow> 'w bench_io \<Rightarrow> i64 \<Rightarrow> ('w, ID) action_run" where
  "benchMarket S T batchSize =
     go_bind (wrapf ''reset metrics'' (Client_ResetZKMetrics (vm_Request (se_api S)))) (\<lambda>_.
     go_bind (time_Now T) (\<lambda>t1.
     let marketID = deriveMarketID batchSize (gt_UnixNano t1) in
     go_bind (time_Now T) (\<lambda>t2.
     go_bind (submitAction S ''create_market'' (ACreateMarket \<lparr>cm_MarketID = marketID,
       cm_Question = go_str ''zkbench-'' @ FormatInt (sint batchSize), cm_Outcomes = 2,
       cm_ResolutionTime = time_Unix t2 + 86400, cm_CreatorBond = 1\<rparr>)) (\<lambda>_.
     go_return marketID))))"

definition benchBatch ::
    "('w, 'k, 'r) benchSession \<Rightarrow> 'w bench_io \<Rightarrow> ('cs, 'pk, 'vk, 'fw, 'pf) prover_lib \<Rightarrow> ('cs, 'pk) proofBuilder
      \<Rightarrow> i64 \<Rightarrow> ('w, batchResult) action_run" where
  "benchBatch S T L builder batchSize =
     (let cfg = se_cfg S in
      go_bind (benchMarket S T batchSize) (\<lambda>marketID.
      go_bind (go_each (benchWindow S T L builder marketID batchSize) [1..<Suc (nat (sint (bc_WindowsPerSize cfg)))]) (\<lambda>_.
      go_bind (wrapf ''fetch metrics'' (Client_ZKMetrics (vm_Request (se_api S)) 0 True)) (\<lambda>snap.
      let csvPath = path_Join [bc_OutputDir cfg, go_str ''metrics_batch_'' @ FormatInt (sint batchSize) @ go_str ''.csv''] in
      go_bind (wrapf ''write csv'' (csv_WriteAll T csvPath (metricsCSV (sn_Windows snap)))) (\<lambda>_.
      go_return (batchResultOf batchSize csvPath snap))))))"

primrec go_collect :: "('a \<Rightarrow> ('w, 'b) action_run) \<Rightarrow> 'a list \<Rightarrow> ('w, 'b list) action_run" where
  "go_collect f [] = go_return []"
| "go_collect f (x # xs) = go_bind (f x) (\<lambda>y. go_bind (go_collect f xs) (\<lambda>ys. go_return (y # ys)))"

section \<open>The benchmark\<close>

text \<open>The account that signs, with the keys that may take its place.\<close>

definition optionalSigner ::
    "('w, 'k, 'r) node_api \<Rightarrow> string \<Rightarrow> bytes \<Rightarrow> ('w, 'k option) action_run" where
  "optionalSigner A name pkHex =
     (if TrimSpace pkHex = [] then go_return None
      else go_bind (wrapf (''invalid '' @ name) (keySigner A ''invalid PRIVATE_KEY'' pkHex)) (\<lambda>k. go_return (Some k)))"

text \<open>A second attempt with another key when the first is not authorized.\<close>

definition fallbackKey :: "benchConfig \<Rightarrow> bytes" where
  "fallbackKey cfg =
     (let fallbackKeyHex = TrimSpace (bc_ProofConfigFallbackPrivateKeyHex cfg) in
      if fallbackKeyHex = [] \<and> TrimSpace (bc_ProofConfigPrivateKeyHex cfg) = []
        \<and> go_ToLower (TrimSpace (bc_PrivateKeyHex cfg)) \<noteq> defaultKeyHex
      then defaultKeyHex else fallbackKeyHex)"

definition configureProofs ::
    "('w, 'k, 'r) benchSession \<Rightarrow> 'k \<Rightarrow> Address \<Rightarrow> ('w, unit) action_run" where
  "configureProofs S signer proverAuthority =
     go_bind (go_try (setProofConfig S signer proverAuthority)) (\<lambda>r. case r of
       Inr _ \<Rightarrow> go_return ()
     | Inl err \<Rightarrow>
         if \<not> isUnauthorizedError err \<or> fallbackKey (se_cfg S) = [] then go_fail err
         else
           go_bind (wrapf ''invalid PROOF_CONFIG_FALLBACK_PRIVATE_KEY''
             (keySigner (se_api S) ''invalid PRIVATE_KEY'' (fallbackKey (se_cfg S)))) (\<lambda>fallbackSigner.
           setProofConfig S fallbackSigner proverAuthority))"

text \<open>The check of the budget; without a refuelling key it only warns unless it is strict.\<close>

definition startupPreflight :: "('w, 'k, 'r) benchSession \<Rightarrow> ('w, unit) action_run" where
  "startupPreflight S =
     (let cfg = se_cfg S in
      go_bind (wrapf ''initial unitprices'' (currentMaxFee S)) (\<lambda>initialMaxFee.
      go_bind (wrapf ''initial bench balance'' (Client_Balance (vm_Request (se_api S)) (se_addr S))) (\<lambda>_.
      let requiredBudget = estimateRequiredBudget (plannedActionCount cfg) initialMaxFee (bc_GasSafetyBps cfg) (bc_GasReserve cfg) in
      go_bind (go_try (ensureBenchBalance S ''startup preflight'' requiredBudget)) (\<lambda>r. case r of
        Inr _ \<Rightarrow> go_return ()
      | Inl err \<Rightarrow> if se_refuel S \<noteq> None \<or> bc_StrictFeePreflight cfg then go_fail err else go_return ()))))"

definition benchBatches ::
    "('w, 'k, 'r) benchSession \<Rightarrow> 'w bench_io \<Rightarrow> ('cs, 'pk, 'vk, 'fw, 'pf) prover_lib \<Rightarrow> 'k \<Rightarrow> Address
      \<Rightarrow> ('w, benchReport) action_run" where
  "benchBatches S T L proofConfigSigner proverAuthority =
     (let cfg = se_cfg S in
      go_bind (newProofBuilder T L cfg) (\<lambda>proofs.
      go_bind (configureProofs S proofConfigSigner proverAuthority) (\<lambda>_.
      go_bind (time_Now T) (\<lambda>t.
      go_bind (go_collect (benchBatch S T L proofs) (bc_BatchSizes cfg)) (\<lambda>results.
      go_return \<lparr>bn_GeneratedAt = time_Unix t, bn_Config = cfg, bn_Results = results\<rparr>)))))"

definition runBench ::
    "(bytes \<Rightarrow> ('w, 'k, 'r) node_api) \<Rightarrow> linear_codec \<Rightarrow> 'w bench_io \<Rightarrow> ('cs, 'pk, 'vk, 'fw, 'pf) prover_lib \<Rightarrow> benchConfig
      \<Rightarrow> ('w, benchReport) action_run" where
  "runBench dial C T L cfg =
     (let A = dial (TrimRight_slash (bc_NodeURL cfg) @ go_str ''/ext/bc/'' @ bc_ChainID cfg) in
      go_bind (keySigner A ''invalid PRIVATE_KEY'' (bc_PrivateKeyHex cfg)) (\<lambda>factory.
      go_bind (optionalSigner A ''PROVER_AUTHORITY_PRIVATE_KEY'' (bc_ProverAuthorityPrivateKeyHex cfg)) (\<lambda>prover.
      go_bind (optionalSigner A ''PROOF_CONFIG_PRIVATE_KEY'' (bc_ProofConfigPrivateKeyHex cfg)) (\<lambda>configKey.
      go_bind (optionalSigner A ''REFUEL_PRIVATE_KEY'' (bc_RefuelPrivateKeyHex cfg)) (\<lambda>refuel.
      go_bind (wrapf ''network'' (core_Network A)) (\<lambda>chainIDParsed.
      let S = \<lparr>se_api = A, se_codec = C, se_cfg = cfg, se_factory = factory, se_refuel = refuel, se_chainID = chainIDParsed\<rparr>;
          proverAuthority = signer_Address A (case prover of None \<Rightarrow> factory | Some k \<Rightarrow> k);
          proofConfigSigner = (case configKey of None \<Rightarrow> factory | Some k \<Rightarrow> k) in
      go_bind (startupPreflight S) (\<lambda>_.
      if bc_PrefundOnly cfg then
        go_bind (time_Now T) (\<lambda>t. go_return \<lparr>bn_GeneratedAt = time_Unix t, bn_Config = cfg, bn_Results = []\<rparr>)
      else benchBatches S T L proofConfigSigner proverAuthority)))))))"

text \<open>\<open>main\<close>: every error ends the process with its message.\<close>

definition bench_main ::
    "os_env \<Rightarrow> (bytes \<Rightarrow> ('w, 'k, 'r) node_api) \<Rightarrow> linear_codec \<Rightarrow> 'w bench_io \<Rightarrow> ('cs, 'pk, 'vk, 'fw, 'pf) prover_lib
      \<Rightarrow> ('w, bytes \<times> bytes) action_run" where
  "bench_main E dial C T L =
     go_bind (wrapf ''config error'' (go_lift (loadConfig E))) (\<lambda>cfg.
     go_bind (wrapf ''create output dir'' (io_MkdirAll (bi_os T) (bc_OutputDir cfg))) (\<lambda>_.
     go_bind (wrapf ''bench failed'' (runBench dial C T L cfg)) (\<lambda>report.
     let summaryPath = path_Join [bc_OutputDir cfg, go_str ''summary.md''];
         jsonPath = path_Join [bc_OutputDir cfg, go_str ''summary.json''] in
     go_bind (wrapf ''write summary'' (io_WriteFile (bi_os T) summaryPath (summaryMarkdown report))) (\<lambda>_.
     go_bind (wrapf ''write summary json'' (go_bind (go_lift (json_MarshalIndent T report))
       (\<lambda>raw. io_WriteFile (bi_os T) jsonPath raw))) (\<lambda>_.
     go_return (summaryPath, jsonPath))))))"

end
