(* ===== verification/Bench_Chain.thy ===== *)
theory Bench_Chain
  imports Bench_Run
begin

text \<open>
  The transactions of the benchmark on the chain: create a market, commit, reveal, submit the proof, clear. On a state that accepts writes each of
  them succeeds for the prover, window after window; fees may be charged in between.

  \<open>bench_chain\<close> is what is read from such a state before a window, \<open>bench_proved\<close> once the proof of the window is stored.
\<close>

section \<open>The state of a benchmark\<close>

definition bench_pc :: "benchConfig \<Rightarrow> Address \<Rightarrow> ProofConfig" where
  "bench_pc cfg addr = \<lparr>pc_RequireProof = True, pc_RequiredProofType = ProofTypeGroth16,
     pc_BatchWindowMs = bc_BatchWindowMs cfg, pc_ProofDeadlineMs = bc_ProofDeadlineMs cfg, pc_ProverAuthority = addr\<rparr>"

text \<open>The fills hash of a window.\<close>

definition bench_fills :: "i64 \<Rightarrow> nat \<Rightarrow> bytes" where
  "bench_fills bs i = (case (buildEnvelope bs (of_nat i), buildRevealShare bs (of_nat i)) of
     (Inr e, Inr r) \<Rightarrow> buildFillsHash bs (of_nat i) e r | _ \<Rightarrow> [])"

text \<open>Windows from \<open>i\<close> on are open, those before are cleared.\<close>

definition bench_open :: "'s host \<Rightarrow> ProofConfig \<Rightarrow> ID \<Rightarrow> Address \<Rightarrow> nat \<Rightarrow> 's \<Rightarrow> bool" where
  "bench_open H pc mid addr i s \<longleftrightarrow> GetProofConfig H s = Inr pc
     \<and> (\<exists>m. GetMarket H s mid = Inr m \<and> mk_status m = MarketStatusActive)
     \<and> (\<exists>x. GetBloodsworn H s addr = Inr x)
     \<and> (\<forall>v. i \<le> unat v \<longrightarrow> GetBatchProofRecord H s mid v = Inl ErrProofNotFound)"

definition bench_cleared :: "'s host \<Rightarrow> ID \<Rightarrow> i64 \<Rightarrow> nat \<Rightarrow> 's \<Rightarrow> bool" where
  "bench_cleared H mid bs i s \<longleftrightarrow> (\<forall>j. 1 \<le> j \<and> j < i \<longrightarrow> GetValue H s (BatchKey H mid (of_nat j))
     = Inr (encodeBatchResult (windowPrice j) (windowVolume bs) (bench_fills bs j)))"

definition bench_chain :: "'s host \<Rightarrow> ProofConfig \<Rightarrow> ID \<Rightarrow> Address \<Rightarrow> i64 \<Rightarrow> nat \<Rightarrow> 's \<Rightarrow> bool" where
  "bench_chain H pc mid addr bs i s \<longleftrightarrow> bench_open H pc mid addr i s \<and> bench_cleared H mid bs i s"

definition bench_proved ::
    "'s host \<Rightarrow> ProofConfig \<Rightarrow> Address \<Rightarrow> i64 \<Rightarrow> nat \<Rightarrow> SubmitBatchProof \<Rightarrow> 's \<Rightarrow> bool" where
  "bench_proved H pc addr bs i a s \<longleftrightarrow> bench_open H pc (sb_MarketID a) addr (Suc i) s \<and> bench_cleared H (sb_MarketID a) bs i s
     \<and> GetVellumProof H s (sb_MarketID a) (of_nat i) = Inr (sb_Proof a)
     \<and> (\<exists>now. sint now \<le> sint (sb_WindowCloseAtMs a + pc_ProofDeadlineMs pc)
         \<and> GetBatchProofRecord H s (sb_MarketID a) (of_nat i) = Inr (submitRecord a now addr))"

lemmas bench_reads = bench_open_def bench_cleared_def GetProofConfig_def GetMarket_def GetBloodsworn_def
  GetBatchProofRecord_def GetVellumProof_def

context total_env
begin

lemma deduct_run:
  "Deduct H a fee s = (Inr (), t) \<Longrightarrow> \<exists>v. GetValue H t = (GetValue H s)(BalanceKey H a := stored_amount v)"
  using SubBalance_run by (auto simp: Deduct_def run_simps)

lemma chain_fee:
  assumes "Deduct H a fee s = (Inr (), t)"
  shows "bench_chain H pc mid addr bs i s \<Longrightarrow> bench_chain H pc mid addr bs i t"
    and "bench_proved H pc addr bs i p s \<Longrightarrow> bench_proved H pc addr bs i p t"
  using deduct_run [OF assms] by (auto simp: bench_chain_def bench_proved_def bench_reads key_simps)

lemma chain_commit:
  assumes "bench_chain H pc mid addr bs i s" and "0 < length env" and "length env \<le> MaxEnvelopeSize"
  shows "\<exists>r t. CommitOrder_Execute H \<lparr>co_MarketID = mid, co_WindowID = v, co_Envelope = env,
      co_Commitment = be_bytes 32 (Sum256 env)\<rparr> addr s = (Inr r, t) \<and> bench_chain H pc mid addr bs i t
    \<and> GetBalance H t addr = GetBalance H s addr"
proof -
  obtain m where m: "GetMarket H s mid = Inr m" "mk_status m = MarketStatusActive"
    using assms(1) by (auto simp: bench_chain_def bench_open_def)
  obtain t where t: "PutCommitment H mid v addr env (be_bytes 32 (Sum256 env)) s = (Inr (), t)"
    unfolding PutCommitment_def using insert_total by blast
  have "\<exists>r. CommitOrder_Execute H \<lparr>co_MarketID = mid, co_WindowID = v, co_Envelope = env,
      co_Commitment = be_bytes 32 (Sum256 env)\<rparr> addr s = (Inr r, t)"
    using assms(2,3) m t by (simp add: CommitOrder_Execute_def go_defs)
  moreover have "bench_chain H pc mid addr bs i t" "GetBalance H t addr = GetBalance H s addr"
    using assms(1) market_put_run(2) [OF t]
    by (simp_all add: bench_chain_def bench_reads GetBalance_def getBalance_def key_simps)
  ultimately show ?thesis by blast
qed

lemma chain_reveal:
  assumes "bench_chain H pc mid addr bs i s" and "0 < length share" and "length share \<le> MaxDecryptionShareSize"
  shows "\<exists>r t. RevealBatch_Execute H \<lparr>rb_MarketID = mid, rb_WindowID = v, rb_DecryptionShare = share,
      rb_ValidatorIndex = 1\<rparr> s = (Inr r, t) \<and> bench_chain H pc mid addr bs i t
    \<and> GetBalance H t addr = GetBalance H s addr"
proof -
  obtain m where m: "GetMarket H s mid = Inr m" "mk_status m = MarketStatusActive"
    using assms(1) by (auto simp: bench_chain_def bench_open_def)
  obtain t where t: "Insert H (OracleKey H mid 1) (be_bytes 8 v @ share) s = (Inr (), t)"
    "GetValue H t = (GetValue H s)(OracleKey H mid 1 := Inr (be_bytes 8 v @ share))"
    using insert_succeeds by blast
  have "\<exists>r. RevealBatch_Execute H \<lparr>rb_MarketID = mid, rb_WindowID = v, rb_DecryptionShare = share,
      rb_ValidatorIndex = 1\<rparr> s = (Inr r, t)"
    using assms(2,3) m t(1) by (simp add: RevealBatch_Execute_def go_defs)
  moreover have "bench_chain H pc mid addr bs i t" "GetBalance H t addr = GetBalance H s addr"
    using assms(1) t(2)
    by (simp_all add: bench_chain_def bench_reads GetBalance_def getBalance_def key_simps)
  ultimately show ?thesis by blast
qed

lemma chain_submit:
  assumes "bench_chain H pc (sb_MarketID a) addr bs i s" and "pc = bench_pc cfg addr" and "\<not> submitMalformed a"
    and "sb_WindowID a = of_nat i" and "i < 2 ^ 64" and "sb_ProofType a = ProofTypeGroth16" and "submitTiming a pc now = Inr ()"
    and "verifyBatchProofInConsensus V ProofTypeGroth16 (sb_Proof a) (sb_PublicInputsHash a) = Inr ()"
  shows "\<exists>r t. SubmitBatchProof_Execute H V a now addr tx s = (Inr r, t) \<and> bench_proved H pc addr bs i a t
    \<and> GetBalance H t addr = GetBalance H s addr"
proof -
  obtain m x where st: "GetMarket H s (sb_MarketID a) = Inr m" "mk_status m = MarketStatusActive" "GetProofConfig H s = Inr pc"
    "GetBloodsworn H s addr = Inr x" "GetBatchProofRecord H s (sb_MarketID a) (sb_WindowID a) = Inl ErrProofNotFound"
    using assms(1,4,5) by (auto simp: bench_chain_def bench_open_def unat_of_nat)
  have pc: "pc_RequireProof pc" "addr = pc_ProverAuthority pc" "sb_ProofType a = pc_RequiredProofType pc"
    "pc_RequiredProofType pc = ProofTypeGroth16"
    using assms(2,6) by (simp_all add: bench_pc_def)
  obtain r t where run: "SubmitBatchProof_Execute H V a now addr tx s = (Inr r, t)"
    using SubmitBatchProof_succeeds [OF assms(3) st(1-3) pc(1-3) assms(7) st(5) _ st(4), of V tx] assms(8) unfolding pc(4) by blast
  have later: "of_nat i \<noteq> v" if "Suc i \<le> unat v" for v :: u64
    using that assms(5) by (auto simp: unat_of_nat)
  have "sint now \<le> sint (sb_WindowCloseAtMs a + pc_ProofDeadlineMs pc)" using assms(7) by (simp add: submitTiming_Inr)
  moreover obtain y where gt: "GetValue H t = (GetValue H s)(
       slot_key H (SBatchProof (sb_MarketID a) (of_nat i)) := Inr (encodeBatchProofRecord (submitRecord a now addr)),
       slot_key H (SVellumProof (sb_MarketID a) (of_nat i)) := Inr (encodeVellumProof (sb_Proof a)),
       slot_key H (SBloodsworn addr) := Inr (encodeBloodsworn y),
       slot_key H (SGlyph (sb_MarketID a) (of_nat i)) := Inr (encodeGlyph (deriveGlyph tx
         (sb_MarketID a) (of_nat i) addr (Sum256 (sb_Proof a)) (sb_PublicInputsHash a) now)))"
    using SubmitBatchProof_effect [OF run] unfolding assms(4) by blast
  moreover have "bench_open H pc (sb_MarketID a) addr (Suc i) t" "bench_cleared H (sb_MarketID a) bs i t"
    "GetBalance H t addr = GetBalance H s addr"
    using assms(1) later unfolding gt
    by (auto simp: bench_chain_def bench_reads GetBalance_def getBalance_def key_simps gt bloodswornResult_def with_stored_def)
  ultimately have "bench_proved H pc addr bs i a t"
    using SubmitBatchProof_reads(1,2) [OF run] assms(4) by (auto simp: bench_proved_def)
  with run \<open>GetBalance H t addr = GetBalance H s addr\<close> show ?thesis by blast
qed

lemma chain_clear:
  assumes "bench_proved H pc addr bs i a s" and "pc = bench_pc cfg addr" and "1 \<le> i" and "i < 2 ^ 64"
    and "sb_ProofType a = ProofTypeGroth16" and "sb_FillsHash a = bench_fills bs i" and "length (bench_fills bs i) = 32"
    and "parseProofEnvelope (sb_Proof a) = Inr e"
    and "computeExpectedPublicInputsHash (en_circuitID e) (sb_MarketID a) (of_nat i) (windowPrice i) (windowVolume bs)
      (bench_fills bs i) = Inr h" and "sb_PublicInputsHash a = be_bytes 32 h"
    and "verifyBatchProofInConsensus V ProofTypeGroth16 (sb_Proof a) (sb_PublicInputsHash a) = Inr ()"
  shows "\<exists>r t. ClearBatch_Execute H V \<lparr>cb_MarketID = sb_MarketID a, cb_WindowID = of_nat i, cb_ClearPrice = windowPrice i,
      cb_TotalVolume = windowVolume bs, cb_FillsHash = bench_fills bs i\<rparr> addr s = (Inr r, t)
    \<and> bench_chain H pc (sb_MarketID a) addr bs (Suc i) t \<and> GetBalance H t addr = GetBalance H s addr"
proof -
  let ?mid = "sb_MarketID a"
  let ?c = "\<lparr>cb_MarketID = ?mid, cb_WindowID = of_nat i, cb_ClearPrice = windowPrice i,
      cb_TotalVolume = windowVolume bs, cb_FillsHash = bench_fills bs i\<rparr>"
  obtain m now where st: "GetMarket H s ?mid = Inr m" "mk_status m = MarketStatusActive" "GetProofConfig H s = Inr pc"
    "GetVellumProof H s ?mid (of_nat i) = Inr (sb_Proof a)"
    "sint now \<le> sint (sb_WindowCloseAtMs a + pc_ProofDeadlineMs pc)"
    "GetBatchProofRecord H s ?mid (of_nat i) = Inr (submitRecord a now addr)"
    using assms(1) by (auto simp: bench_proved_def bench_open_def)
  have pc: "pc_ProverAuthority pc = addr" "pc_RequiredProofType pc = ProofTypeGroth16"
    using assms(2) by (simp_all add: bench_pc_def)
  have "clearGate H V ?c addr pc s = (Inr (), s)"
    unfolding clearGate_run using st(4-6) pc assms(5-11) by (simp add: submitRecord_def)
  moreover obtain t where t: "PutBatchResult H ?mid (of_nat i) (windowPrice i) (windowVolume bs) (bench_fills bs i) s = (Inr (), t)"
    unfolding PutBatchResult_def using insert_total by blast
  moreover have "windowPrice i \<noteq> 0"
  proof -
    have "1000 + i mod 97 < 2 ^ 64" by (rule less_trans [of _ 1100]) simp_all
    then have "unat (windowPrice i) = 1000 + i mod 97" 
      by (simp add: windowPrice_def unat_of_nat del: of_nat_add)
    then show ?thesis by auto
  qed
  ultimately have "\<exists>r. ClearBatch_Execute H V ?c addr s = (Inr r, t)"
    using st(1-3) assms(7) by (simp add: ClearBatch_Execute_def go_defs)
  moreover have "bench_cleared H ?mid bs (Suc i) t"
    unfolding bench_cleared_def
  proof (intro allI impI)
    fix j assume j: "1 \<le> j \<and> j < Suc i"
    have "(of_nat j :: u64) = of_nat i \<longleftrightarrow> j = i"
      using j assms(4) by (simp add: word_unat_eq_iff unat_of_nat)
    then show "GetValue H t (BatchKey H ?mid (of_nat j)) = Inr (encodeBatchResult (windowPrice j) (windowVolume bs) (bench_fills bs j))"
      using assms(1) market_put_run(3) [OF t] j by (auto simp: bench_proved_def bench_cleared_def key_simps)
  qed
  moreover have "bench_open H pc ?mid addr (Suc i) t" "GetBalance H t addr = GetBalance H s addr"
    using assms(1) market_put_run(3) [OF t]
    by (simp_all add: bench_proved_def bench_reads GetBalance_def getBalance_def key_simps)
  ultimately show ?thesis by (auto simp: bench_chain_def)
qed

lemma chain_create:
  assumes "GetProofConfig H s = Inr pc" and "GetBloodsworn H s addr = Inr x" and "GetMarket H s mid = Inl ErrMarketNotFound"
    and "\<forall>v. GetBatchProofRecord H s mid v = Inl ErrProofNotFound" and "length q \<le> MaxQuestionSize" and "0 < sint rt"
    and "GetBalance H s addr = Inr b" and "1 \<le> b"
  shows "\<exists>r t. CreateMarket_Execute H \<lparr>cm_MarketID = mid, cm_Question = q, cm_Outcomes = 2, cm_ResolutionTime = rt,
      cm_CreatorBond = 1\<rparr> addr s = (Inr r, t)
    \<and> bench_chain H pc mid addr bs 1 t \<and> GetBalance H t addr = Inr (b - 1)"
proof -
  obtain u where u: "SubBalance H addr 1 s = (Inr (b - 1), u)"
    "GetValue H u = (GetValue H s)(BalanceKey H addr := stored_amount (b - 1))"
    using debit_veil_ok [OF assms(7,8)] by auto
  obtain t where t: "PutMarket H mid MarketStatusActive 2 rt 0 q u = (Inr (), t)"
    unfolding PutMarket_def using insert_total by blast
  have "\<exists>r. CreateMarket_Execute H \<lparr>cm_MarketID = mid, cm_Question = q, cm_Outcomes = 2, cm_ResolutionTime = rt,
      cm_CreatorBond = 1\<rparr> addr s = (Inr r, t)"
    using assms(3,5,6) u(1) t by (simp add: CreateMarket_Execute_def go_defs)
  moreover have "bench_chain H pc mid addr bs 1 t"
    using assms(1,2,4) u(2) market_put_run(1) [OF t] PutMarket_reads [OF t, of mid]
    by (auto simp: bench_chain_def bench_open_def bench_cleared_def GetProofConfig_def GetBloodsworn_def
        GetBatchProofRecord_def key_simps)
  moreover have "GetBalance H t addr = Inr (b - 1)"
    using u(2) market_put_run(1) [OF t] by (simp add: GetBalance_def getBalance_def key_simps read_amount)
  ultimately show ?thesis by blast
qed

end

section \<open>A combination that cannot work\<close>

lemma blob_front:
  assumes "buildProofBlob bs v f = Inr blob" and "bench_size bs"
  shows "take 4 blob = take 4 (be_bytes 32 (Sum256 (f @ [ucast bs, ucast v])))"
proof -
  let ?seed = "be_bytes 32 (Sum256 (f @ [ucast bs, ucast v]))"
  obtain n acc where blob: "blob = take (n - 32) (map (blobByte ?seed bs) [0..<n]) @ acc" and n: "2048 \<le> n"
  proof -
    let ?n = "if sint (2048 + bs * 64) > 131072 then 131072 else 2048 + bs * 64"
    have "2048 \<le> sint ?n" using payload_lengths(3) [OF assms(2)] assms(2) by simp
    then have "2048 \<le> nat (sint ?n)" "0 \<le> sint ?n" by linarith+
    then show thesis
      using assms(1) that [of "nat (sint ?n)"] by (auto simp: buildProofBlob_def go_make_def res_try_def Let_def split: if_splits)
  qed
  have "take 4 blob = map (blobByte ?seed bs) [0..<4]" using n by (simp add: blob take_map)
  also have "\<dots> = map (\<lambda>i. ?seed ! i) [0..<4]" by (rule map_cong) (simp_all add: blobByte.simps)
  also have "\<dots> = take 4 ?seed" by (rule nth_equalityI) simp_all
  finally show ?thesis .
qed

text \<open>
  C36: The synthetic mode cannot clear under the shielded-ledger circuit, although the configuration allows it. The synthetic proof carries no circuit, so the clear expects the
  digest for the clear-hash circuit, and the benchmark submitted the digest for the shielded ledger: unless SHA-256 collides on the two
  messages, every clear of the window fails.
\<close>

theorem synthetic_shielded_never_clears:
  assumes "host_env H" and "GetProofConfig H s = Inr cfg" and "pc_RequireProof cfg"
    and "builder_proof L SyntheticBuilder hash preimage bs v f = Inr blob" and "bench_size bs"
    and "windowInputs ProofCircuitShieldedLedgerV1 mid v p vol f = (hash, preimage)"
    and "take 4 (be_bytes 32 (Sum256 (f @ [ucast bs, ucast v]))) \<notin> {proofEnvelopeMagicV1, proofEnvelopeMagicV2}"
    and "GetBatchProofRecord H s mid v = Inr rec" and "bp_PublicInputsHash rec = hash" and "GetVellumProof H s mid v = Inr blob"
  shows "(\<exists>err. fst (ClearBatch_Execute H V \<lparr>cb_MarketID = mid, cb_WindowID = v, cb_ClearPrice = p, cb_TotalVolume = vol,
      cb_FillsHash = f\<rparr> actor s) = Inl err)
    \<or> sha_collision (BuildClearPublicInputsPreimage mid v p vol f) preimage"
proof (cases "fst (ClearBatch_Execute H V \<lparr>cb_MarketID = mid, cb_WindowID = v, cb_ClearPrice = p, cb_TotalVolume = vol,
      cb_FillsHash = f\<rparr> actor s)")
  case (Inr r)
  have pre: "preimage = BuildShieldedLedgerPublicInputsPreimage mid v p vol f"
    and hash: "hash = be_bytes 32 (Sum256 preimage)"
    using assms(6) by (auto simp: windowInputs_def ComputeShieldedLedgerPublicInputsHash_def)
  have "slice blob 0 4 \<notin> {proofEnvelopeMagicV1, proofEnvelopeMagicV2}"
    using assms(4,7) blob_front [OF _ assms(5), of v f blob] by (simp add: builder_proof_def slice_def)
  then have "parseProofEnvelope blob = Inr (rawEnvelope blob)"
    by (simp add: parseProofEnvelope_def magic_bytes)
  moreover obtain t where "ClearBatch_Execute H V \<lparr>cb_MarketID = mid, cb_WindowID = v, cb_ClearPrice = p, cb_TotalVolume = vol,
      cb_FillsHash = f\<rparr> actor s = (Inr r, t)"
    using Inr by (metis prod.collapse)
  then obtain h where "be_bytes 32 (Sum256 preimage) = be_bytes 32 (h :: Hash32)"
    "computeExpectedPublicInputsHash [] mid v p vol f = Inr h"
    by (rule host_env.ClearBatch_gated [OF assms(1) _ assms(2,3)])
      (use assms(8-10) hash calculation in \<open>auto simp: rawEnvelope_def\<close>)
  then have "Sum256 preimage = Sum256 (BuildClearPublicInputsPreimage mid v p vol f)"
    by (auto simp: computeExpectedPublicInputsHash_def Let_def TrimSpace_Nil ComputeClearPublicInputsHash_def
        dest: arg_cong [of _ _ of_be])
  moreover have "length preimage \<noteq> length (BuildClearPublicInputsPreimage mid v p vol f)"
    unfolding pre by (simp add: BuildShieldedLedgerPublicInputsPreimage_def BuildClearPublicInputsPreimage_def go_str_def)
  ultimately show ?thesis by (auto simp: sha_collision_def)
qed simp

definition synthetic_state :: "bytes \<Rightarrow> bytes \<Rightarrow> mem" where
  "synthetic_state blob hash = [slot_key mem_host SProofConfig \<mapsto> encodeProofConfig window_cfg,
     slot_key mem_host (SBatchProof 7 1) \<mapsto> encodeBatchProofRecord \<lparr>bp_ProofType = 1, bp_SubmittedAtMs = 6000,
       bp_WindowCloseAtMs = 5000, bp_Prover = gov, bp_ProofCommitment = Sum256 blob, bp_PublicInputsHash = hash,
       bp_FillsHash = window_fills\<rparr>,
     slot_key mem_host (SVellumProof 7 1) \<mapsto> encodeVellumProof blob]"

text \<open>
  Two digests computed by the rules of the logic: the published one of \<open>"abc"\<close> (FIPS 180-4, appendix B.1), and the seed of a synthetic proof, which
  does not begin like an envelope.
\<close>

lemma Sum256_abc:
  "Sum256 (go_str ''abc'') = 0xba7816bf8f01cfea414140de5dae2223b00361a396177a9cb410ff61f20015ad"
  by code_simp

lemma window_seed:
  "take 4 (be_bytes 32 (Sum256 (window_fills @ [ucast (32 :: i64), ucast (1 :: u64)])))
    \<notin> {proofEnvelopeMagicV1, proofEnvelopeMagicV2}"
  by code_simp

theorem synthetic_shielded_never_clears_witness:
  "\<exists>blob hash preimage. buildProofBlob 32 1 window_fills = Inr blob
    \<and> windowInputs ProofCircuitShieldedLedgerV1 7 1 50 400 window_fills = (hash, preimage)
    \<and> ((\<exists>err. fst (ClearBatch_Execute mem_host accept_all \<lparr>cb_MarketID = 7, cb_WindowID = 1, cb_ClearPrice = 50,
          cb_TotalVolume = 400, cb_FillsHash = window_fills\<rparr> gov (synthetic_state blob hash)) = Inl err)
      \<or> sha_collision (BuildClearPublicInputsPreimage 7 1 50 400 window_fills) preimage)"
proof -
  obtain blob where blob: "buildProofBlob 32 1 window_fills = Inr blob" "2048 \<le> length blob" "length blob \<le> MaxProofBytesSize"
    using buildProofBlob_size [of 32 1 window_fills] by auto
  obtain hash preimage where inputs: "windowInputs ProofCircuitShieldedLedgerV1 7 1 50 400 window_fills = (hash, preimage)"
    by fastforce
  have "length hash = 32" using inputs by (auto simp: windowInputs_def)
  moreover from this have "hash \<noteq> []" by auto
  moreover have "blob \<noteq> []" using blob(2) by auto
  ultimately have sizes: "length hash = 32" "hash \<noteq> []" "blob \<noteq> []" by blast+
  have get: "GetValue mem_host (synthetic_state blob hash) (slot_key mem_host k) = (if k = SVellumProof 7 1 then Inr (encodeVellumProof blob)
      else if k = SBatchProof 7 1 then Inr (encodeBatchProofRecord \<lparr>bp_ProofType = 1, bp_SubmittedAtMs = 6000,
       bp_WindowCloseAtMs = 5000, bp_Prover = gov, bp_ProofCommitment = Sum256 blob, bp_PublicInputsHash = hash,
       bp_FillsHash = window_fills\<rparr>)
      else if k = SProofConfig then Inr (encodeProofConfig window_cfg) else Inl DbErrNotFound)" for k
    by (simp add: mem_host_def mem_get_def synthetic_state_def)
  have reads: "GetProofConfig mem_host (synthetic_state blob hash) = Inr window_cfg"
    "GetVellumProof mem_host (synthetic_state blob hash) 7 1 = Inr blob"
    "GetBatchProofRecord mem_host (synthetic_state blob hash) 7 1 = Inr \<lparr>bp_ProofType = 1, bp_SubmittedAtMs = 6000,
       bp_WindowCloseAtMs = 5000, bp_Prover = gov, bp_ProofCommitment = Sum256 blob, bp_PublicInputsHash = hash,
       bp_FillsHash = window_fills\<rparr>"
    using blob(3) sizes
    by (auto simp: GetProofConfig_def GetVellumProof_def GetBatchProofRecord_def key_simps get with_stored_def
        window_cfg_def validateProofConfig_def window_fills_def storable_record_def)
  have "builder_proof toy_prover SyntheticBuilder hash preimage 32 1 window_fills = Inr blob"
    using blob(1) by (simp add: builder_proof_def)
  from synthetic_shielded_never_clears [OF mem_env.host_env_axioms reads(1) _ this _ inputs window_seed reads(3) _ reads(2), of accept_all gov]
  show ?thesis using blob(1) inputs by (auto simp: window_cfg_def)
qed

end
