(* ===== verification/Bench_Live.thy ===== *)
theory Bench_Live
  imports Bench_Chain
begin

text \<open>
  The benchmark against a node: every window of a batch size is committed, revealed, proved and cleared.

  The locale \<open>bench_node\<close> is a session of the benchmark with the node of \<open>Cmd_Node\<close> on a state that accepts writes. A \<open>stage\<close> is a settled
  world in which the account can still pay and something holds of the state; each submission leads from one stage
  to the next. \<open>builder_accepted\<close> is what the node's verifier has to make of the proofs; with Groth16 keys it is a theorem.
\<close>

section \<open>A session\<close>

text \<open>A settled world with \<open>n\<close> VEIL at least, room for \<open>h\<close> more waits, and \<open>P\<close> of the state.\<close>

definition bench_stage ::
    "('w, 's, 'r) world_view \<Rightarrow> 's host \<Rightarrow> nat \<Rightarrow> Address \<Rightarrow> nat \<Rightarrow> nat \<Rightarrow> ('s \<Rightarrow> bool) \<Rightarrow> 'w \<Rightarrow> bool" where
  "bench_stage W H blocks addr n h P w \<longleftrightarrow> settled W w \<and> unat (wv_height W w) + blocks * h < 2 ^ 63
     \<and> (\<exists>b. GetBalance H (wv_due W w) addr = Inr b \<and> n \<le> unat b) \<and> P (wv_due W w)"

section \<open>Time\<close>

lemma windowClose:
  assumes "0 < sint bw" and "sint bw \<le> sint now" and "sint now < 2 ^ 62"
  shows "\<exists>close. windowCloseOf now bw = Inr close \<and> 0 < sint close \<and> sint close \<le> sint now
    \<and> sint now < sint close + sint bw \<and> go_rem close bw = Inr 0"
proof -
  let ?r = "sint now mod sint bw" and ?d = "sint now - sint now mod sint bw"
  have r: "0 \<le> ?r" "?r < sint bw" using assms(1) by simp_all
  have bw: "bw \<noteq> 0" using assms(1) by auto
  have "sint now smod sint bw = ?r" using assms(1,2) by (simp add: signed_modulo_int_def)
  then have rem: "go_rem now bw = Inr (word_of_int ?r)" using bw by (simp add: go_rem_def)
  have pos: "0 < ?d" using r assms(2) by linarith
  have close: "sint (now - word_of_int ?r) = ?d"
  proof -
    have "sint (word_of_int ?d :: i64) = ?d" using r pos assms(3) by (intro sint_small; simp)
    then show ?thesis by (simp add: wi_hom_syms)
  qed
  have "sint bw dvd ?d" by (simp add: dvd_minus_mod)
  then have "?d smod sint bw = 0" using assms(1) pos by (simp add: signed_modulo_int_def)
  then have "go_rem (now - word_of_int ?r) bw = Inr 0" using bw close by (simp add: go_rem_def)
  moreover have "windowCloseOf now bw = Inr (now - word_of_int ?r)"
    using close pos by (simp add: windowCloseOf_def res_try_def rem Let_def)
  ultimately show ?thesis using close pos r by auto
qed

lemma timely:
  assumes "go_rem (sb_WindowCloseAtMs a) (pc_BatchWindowMs pc) = Inr 0" and "sint (sb_WindowCloseAtMs a) \<le> clock"
    and "clock < sint (sb_WindowCloseAtMs a) + sint (pc_BatchWindowMs pc)" and "clock \<le> sint now" and "sint now \<le> clock + lag"
    and "sint (pc_BatchWindowMs pc) + lag \<le> sint (pc_ProofDeadlineMs pc)" and "sint (pc_ProofDeadlineMs pc) < 2 ^ 62"
    and "0 < sint (sb_WindowCloseAtMs a)" and "clock < 2 ^ 62" and "0 < sint (pc_BatchWindowMs pc)" and "0 \<le> lag"
  shows "submitTiming a pc now = Inr ()"
proof -
  have "sint (sb_WindowCloseAtMs a + pc_ProofDeadlineMs pc) = sint (sb_WindowCloseAtMs a) + sint (pc_ProofDeadlineMs pc)"
    using assms by (simp add: sint_word_ariths signed_take_bit_int_eq_self)
  then show ?thesis using assms by (simp add: submitTiming_def)
qed

lemma later_than:
  assumes "0 \<le> sint (gt_UnixNano t)"
  shows "0 < sint (time_Unix t + 86400)"
proof -
  let ?k = "sint (gt_UnixNano t) div 1000000000"
  have k: "0 \<le> ?k" "?k \<le> 2 ^ 62" using assms sint_lt [of "gt_UnixNano t"] by simp_all
  then have "sint (word_of_int (?k + 86400) :: i64) = ?k + 86400" by (intro sint_small; simp)
  then have "sint (time_Unix t + 86400) = ?k + 86400" by (simp add: time_Unix_def wi_hom_syms)
  then show ?thesis using k by simp
qed

lemma length_FormatUint: "n < 10 ^ k \<Longrightarrow> 0 < k \<Longrightarrow> length (FormatUint n) \<le> k"
proof (induction n arbitrary: k rule: FormatUint.induct)
  case (1 n)
  show ?case
  proof (cases "n < 10")
    case False
    then obtain j where j: "k = Suc j" "0 < j" using 1(2,3) by (cases k; cases "k - 1") auto
    have "n div 10 < 10 ^ j" using 1(2) j by (simp add: less_mult_imp_div_less)
    then show ?thesis using 1(1) [OF False, of j] j by (subst FormatUint.simps) (simp add: False)
  qed (use 1(3) in \<open>subst FormatUint.simps, simp\<close>)
qed

lemma length_FormatInt: "length (FormatInt (sint (b :: i64))) \<le> 20"
proof -
  have "nat \<bar>sint b\<bar> < 10 ^ 19" using sint_ge [of b] sint_lt [of b] by simp
  then show ?thesis using length_FormatUint [of "nat \<bar>sint b\<bar>" 19] by (auto simp: FormatInt_def)
qed

section \<open>Proofs the node accepts\<close>

definition builder_accepted ::
    "verifier_env \<Rightarrow> ('cs, 'pk, 'vk, 'fw, 'pf) prover_lib \<Rightarrow> ('cs, 'pk) proofBuilder \<Rightarrow> bytes \<Rightarrow> ID \<Rightarrow> i64 \<Rightarrow> nat \<Rightarrow> bool" where
  "builder_accepted V L builder circuitID mid bs i \<longleftrightarrow>
     (let fills = bench_fills bs i;
          (hash, preimage) = windowInputs circuitID mid (of_nat i) (windowPrice i) (windowVolume bs) fills in
      \<exists>blob e h. builder_proof L builder hash preimage bs (of_nat i) fills = Inr blob
        \<and> blob \<noteq> [] \<and> length blob \<le> MaxProofBytesSize \<and> parseProofEnvelope blob = Inr e
        \<and> computeExpectedPublicInputsHash (en_circuitID e) mid (of_nat i) (windowPrice i) (windowVolume bs) fills = Inr h
        \<and> hash = be_bytes 32 h \<and> verifyBatchProofInConsensus V ProofTypeGroth16 blob hash = Inr ())"

section \<open>Sessions\<close>

text \<open>Nothing is tampered with or delayed, and the clock and the delays leave time for the proof.\<close>

definition honest_run :: "benchConfig \<Rightarrow> ('w, 's, 'r) world_view \<Rightarrow> int \<Rightarrow> bool" where
  "honest_run cfg W lag \<longleftrightarrow> bc_ProofTamperMode cfg = [] \<and> sint (bc_ProofSubmitDelayMs cfg) \<le> 0
     \<and> 0 < sint (bc_BatchWindowMs cfg) \<and> (\<forall>w. sint (bc_BatchWindowMs cfg) \<le> sint (wv_clock W w))
     \<and> 0 \<le> lag \<and> sint (bc_BatchWindowMs cfg) + lag \<le> sint (bc_ProofDeadlineMs cfg)
     \<and> sint (bc_ProofDeadlineMs cfg) < 2 ^ 62"

lemma saturatingAdd_le: "unat (saturatingAdd a b) \<le> unat a + unat b"
proof (cases "maxUint64 - b < a")
  case True
  then have "2 ^ 64 \<le> unat a + unat b" by (simp only: sum_saturates)
  then show ?thesis using True unat_maxUint64 by (simp add: saturatingAdd_def)
qed (simp add: saturatingAdd_def unat_word_ariths)

locale bench_node = one_node C parse_action parse_result A H V W chainID prices window lag blocks + total_env H
  for C parse_action parse_result and A :: "('w, 'k, 'r) node_api" and H :: "'s host" and V and W :: "('w, 's, 'r) world_view"
    and chainID prices window lag blocks +
  fixes S :: "('w, 'k, 'r) benchSession" and T :: "'w bench_io"
  assumes session: "se_api S = A" "se_codec S = C" "se_chainID S = chainID"
    and time_now: "\<exists>t w'. time_Now T w = (Inr t, w') \<and> 0 \<le> sint (gt_UnixNano t) \<and> quiet W w w'"
    and csv_written: "\<exists>w'. csv_WriteAll T p bs w = (Inr (), w') \<and> quiet W w w'"
begin

abbreviation "addr \<equiv> signer_Address A (se_factory S)"
abbreviation "maxFee \<equiv> estimateMaxFee prices"

abbreviation "stage \<equiv> bench_stage W H blocks addr"

lemma bench_stage_quiet: "stage n h P w \<Longrightarrow> quiet W w w' \<Longrightarrow> stage n h P w'"
  by (simp add: bench_stage_def quiet_def)

lemma stage_mono: "stage n h P w \<Longrightarrow> n' \<le> n \<Longrightarrow> h' \<le> h \<Longrightarrow> (\<And>s. P s \<Longrightarrow> Q s) \<Longrightarrow> stage n' h' Q w"
  unfolding bench_stage_def by (meson add_left_mono le_trans mult_le_mono2 order_le_less_trans)

lemma balance_read:
  assumes "GetValue H t = (GetValue H s)(BalanceKey H a := stored_amount v)"
  shows "GetBalance H t a = Inr v"
  by (simp add: GetBalance_def getBalance_def assms read_amount)

lemma maxFee_pos: "maxFee \<noteq> 0"
  by (auto simp: estimateMaxFee_def split: option.split)

section \<open>Waiting\<close>

lemma height_advances:
  assumes "wv_height W w < 2 ^ 63"
  shows "\<exists>w'. waitForHeightAdvance A w = (Inr (), w') \<and> settled W w' \<and> wv_due W w' = wv_due W w
    \<and> unat (wv_height W w') \<le> unat (wv_height W w) + blocks \<and> (\<forall>t. wv_done W w t \<longrightarrow> wv_done W w' t)"
proof -
  obtain w1 where w1: "core_Accepted A w = (Inr (wv_height W w, wv_clock W w), w1)" "quiet W w w1" using accepted by blast
  obtain w2 where w2: "ctx_Err A w1 = (Inr None, w2)" "quiet W w1 w2" using no_deadline by blast
  have q: "quiet W w w2" using w1(2) w2(2) by (rule quiet_trans)
  then have h2: "wv_height W w2 = wv_height W w" by (simp add: quiet_def)
  obtain w3 where w3: "time_Sleep A (500 * Millisecond) w2 = (Inr (), w3)" "wv_due W w3 = wv_due W w2" "settled W w3"
    "500 * Millisecond \<le> 500 * Millisecond \<longrightarrow> wv_height W w2 < 2 ^ 63 \<longrightarrow> wv_height W w2 < wv_height W w3
      \<and> unat (wv_height W w3) \<le> unat (wv_height W w2) + blocks" "\<forall>t. wv_done W w2 t \<longrightarrow> wv_done W w3 t"
    using sleeps [of "500 * Millisecond" w2] by blast
  obtain w4 where w4: "core_Accepted A w3 = (Inr (wv_height W w3, wv_clock W w3), w4)" "quiet W w3 w4" using accepted by blast
  have "waitForHeightAdvance A w = (Inr (), w4)"
    using w3(4) assms by (simp add: waitForHeightAdvance_def numeral_eq_Suc go_defs w1(1) w2(1) w3(1) [simplified] w4(1) h2)
  then show ?thesis using q w3 w4(2) assms by (auto simp: quiet_def)
qed

lemma result_found:
  assumes "settled W w" and "wv_done W w txID"
  shows "\<exists>w'. waitForTxSuccess A txID name w = (Inr (), w') \<and> quiet W w w'"
proof -
  obtain w1 where w1: "ctx_Err A w = (Inr None, w1)" "quiet W w w1" using no_deadline by blast
  then have "settled W w1" "wv_done W w1 txID" using assms by (simp_all add: quiet_def)
  then obtain r w2 where w2: "idx_GetTxResults A txID w1 = (Inr (Some r), w2)" "tx_Success r" "quiet W w1 w2"
    using results by blast
  have "waitForTxSuccess A txID name w = (Inr (), w2)"
    by (simp add: waitForTxSuccess_def numeral_eq_Suc go_defs wrapf_ok w1(1) w2(1,2))
  then show ?thesis using quiet_trans [OF w1(2) w2(3)] by blast
qed

section \<open>Submitting\<close>

text \<open>A fee is charged and the action executed, some time between the last block and \<open>lag\<close> later.\<close>

lemma signed_action:
  assumes "smoke_fits C a" and "GetBalance H (wv_due W w) addr = Inr b" and "maxFee \<le> b" and "wv_height W w < 2 ^ 63"
    and exec: "\<And>fee now txID t. sint (wv_clock W w) \<le> sint now \<Longrightarrow> sint now \<le> sint (wv_clock W w) + lag \<Longrightarrow> fee \<noteq> 0 \<Longrightarrow>
      fee \<le> maxFee \<Longrightarrow> Deduct H addr fee (wv_due W w) = (Inr (), t) \<Longrightarrow>
      \<exists>u. Execute H V now addr txID a t = (Inr (), u) \<and> Q fee u"
  shows "\<exists>fee txID w'. submitSignedAction S name (se_factory S) a w = (Inr txID, w') \<and> fee \<le> maxFee \<and> fee \<noteq> 0
    \<and> Q fee (wv_due W w') \<and> settled W w' \<and> unat (wv_height W w') \<le> unat (wv_height W w) + blocks"
proof -
  obtain bs where bs: "decodable a" "Action_Bytes C a = Inr bs" using assms(1) by (auto simp: smoke_fits_def)
  obtain w1 where w1: "core_UnitPrices A False w = (Inr prices, w1)" "quiet W w w1" using unit_prices by blast
  obtain w2 where w2: "core_Accepted A w1 = (Inr (wv_height W w1, wv_clock W w1), w2)" "quiet W w1 w2" using accepted by blast
  obtain w3 where w3: "time_NowMs A w2 = (Inr (wv_clock W w2), w3)" "quiet W w2 w3" using now_ms by blast
  note q = quiet_trans [OF quiet_trans [OF w1(2) w2(2)] w3(2)]
  have clock: "wv_clock W w1 = wv_clock W w" "wv_clock W w2 = wv_clock W w" using w1(2) w2(2) by (simp_all add: quiet_def)
  have at: "wv_due W w3 = wv_due W w" "wv_clock W w3 = wv_clock W w" "wv_height W w3 = wv_height W w"
    using q by (simp_all add: quiet_def)
  let ?base = "\<lparr>tb_Timestamp = alignExpiry (wv_clock W w), tb_ChainID = chainID, tb_MaxFee = maxFee\<rparr>"
  obtain fee now txID ok w4 where w4: "fee \<noteq> 0" "fee \<le> maxFee" "sint (wv_clock W w) \<le> sint now"
    "sint now \<le> sint (wv_clock W w) + lag"
    "sendAction A C (name @ '' sign'') (name @ '' submit'') ?base (se_factory S) a w3 = (Inr txID, w4)"
    "included H V now addr txID fee a (wv_due W w) = (ok, wv_due W w4)" "ok \<longrightarrow> wv_done W w4 txID"
    "wv_height W w4 = wv_height W w"
    using sent [OF bs(2,1), of ?base w3 "se_factory S" b "name @ '' sign''" "name @ '' submit''"] assms(2,3) at maxFee_pos
    by auto
  have "fee \<le> b" using w4(2) assms(3) by (rule order_trans)
  then obtain t where t: "Deduct H addr fee (wv_due W w) = (Inr (), t)"
    using debit_veil_ok [OF assms(2) _ w4(1)] by (fastforce simp: Deduct_def go_defs)
  obtain u where u: "Execute H V now addr txID a t = (Inr (), u)" "Q fee u" using exec [OF w4(3,4,1,2) t] by blast
  have ok: "ok" "wv_due W w4 = u" using w4(6) by (simp_all add: included_def t u(1))
  have "wv_height W w4 < 2 ^ 63" using assms(4) w4(8) by simp
  then obtain w5 where w5: "waitForHeightAdvance A w4 = (Inr (), w5)" "settled W w5" "wv_due W w5 = u"
    "unat (wv_height W w5) \<le> unat (wv_height W w) + blocks" "wv_done W w5 txID"
    using height_advances [of w4] ok w4(7,8) by auto
  obtain w6 where w6: "waitForTxSuccess A txID name w5 = (Inr (), w6)" "quiet W w5 w6"
    using result_found [OF w5(2,5)] by blast
  have "submitSignedAction S name (se_factory S) a w = (Inr txID, w6)"
    by (simp add: submitSignedAction_def currentMaxFee_def session Let_def go_defs wrapf_ok w1(1) w2(1) w3(1) clock w4(5) w5(1) w6(1))
  then show ?thesis using w4(1,2) u(2) w5 w6(2) by (auto simp: quiet_def)
qed

lemma funded:
  assumes "settled W w" and "GetBalance H (wv_due W w) addr = Inr b" and "required \<le> b"
  shows "\<exists>w'. ensureBenchBalance S reason required w = (Inr (), w') \<and> quiet W w w'"
  using reads(1) [OF assms(1), of addr] assms(2,3)
  by (auto simp: ensureBenchBalance_def session Let_def go_defs wrapf_ok)

lemma preflight:
  assumes "settled W w" and "GetBalance H (wv_due W w) addr = Inr b" and "required \<le> b"
  shows "\<exists>w'. (if c then ensureBenchBalance S reason required else go_return ()) w = (Inr (), w') \<and> quiet W w w'"
  using funded [OF assms, of reason] by (cases c) (simp_all add: go_return_def quiet_def)

text \<open>One submission of the account, from stage to stage.\<close>

lemma submits:
  assumes "stage n h P w" and "smoke_fits C a"
    and "unat maxFee + unat (bc_GasReserve (se_cfg S)) \<le> n" and "0 < h"
    and fee: "\<And>fee s t. P s \<Longrightarrow> Deduct H addr fee s = (Inr (), t) \<Longrightarrow> P t"
    and exec: "\<And>b now txID t. P t \<Longrightarrow> sint (wv_clock W w) \<le> sint now \<Longrightarrow> sint now \<le> sint (wv_clock W w) + lag \<Longrightarrow>
      GetBalance H t addr = Inr b \<Longrightarrow> n - unat maxFee \<le> unat b \<Longrightarrow>
      \<exists>u b'. Execute H V now addr txID a t = (Inr (), u) \<and> Q u \<and> GetBalance H u addr = Inr b' \<and> n' \<le> unat b'"
  shows "\<exists>txID w'. submitAction S name a w = (Inr txID, w') \<and> stage n' (h - 1) Q w'"
proof -
  obtain b where b: "settled W w" "unat (wv_height W w) + blocks * h < 2 ^ 63" "GetBalance H (wv_due W w) addr = Inr b"
    "n \<le> unat b" "P (wv_due W w)" using assms(1) by (auto simp: bench_stage_def)
  have h: "wv_height W w < 2 ^ 63" using b(2) by (simp add: word_less_nat_alt)
  have F: "unat maxFee \<le> unat b" using assms(3) b(4) by linarith
  have need: "saturatingAdd maxFee (bc_GasReserve (se_cfg S)) \<le> b"
    using saturatingAdd_le [of maxFee "bc_GasReserve (se_cfg S)"] assms(3) b(4) unfolding word_le_nat_alt by linarith
  obtain w1 where w1: "core_UnitPrices A False w = (Inr prices, w1)" "quiet W w w1" using unit_prices by blast
  have "settled W w1" "GetBalance H (wv_due W w1) addr = Inr b" using w1(2) b(1,3) by (simp_all add: quiet_def)
  from preflight [OF this need] obtain w2 where w2: "(if se_refuel S \<noteq> None \<or> bc_StrictFeePreflight (se_cfg S)
       then ensureBenchBalance S (name @ '' preflight'') (saturatingAdd maxFee (bc_GasReserve (se_cfg S))) else go_return ()) w1 = (Inr (), w2)"
    "quiet W w1 w2" by blast
  note q = quiet_trans [OF w1(2) w2(2)]
  have at: "wv_due W w2 = wv_due W w" "wv_clock W w2 = wv_clock W w" "wv_height W w2 = wv_height W w"
    using q by (simp_all add: quiet_def)
  have step: "\<exists>u. Execute H V now addr txID a t = (Inr (), u) \<and> Q u \<and> (\<exists>b'. GetBalance H u addr = Inr b' \<and> n' \<le> unat b')"
    if c: "sint (wv_clock W w) \<le> sint now" "sint now \<le> sint (wv_clock W w) + lag" "fee \<noteq> 0" "fee \<le> maxFee"
      and t: "Deduct H addr fee (wv_due W w) = (Inr (), t)" for fee now txID t
  proof -
    have le: "fee \<le> b" using c(4) F unfolding word_le_nat_alt by linarith
    have "GetBalance H t addr = Inr (b - fee)"
      using debit_veil_ok [OF b(3) le c(3)] t by (auto simp: Deduct_def go_defs balance_read)
    moreover have "n - unat maxFee \<le> unat (b - fee)"
      using b(4) c(4) unat_sub [OF le] unfolding word_le_nat_alt by linarith
    ultimately show ?thesis using exec [OF fee [OF b(5) t] c(1,2)] by blast
  qed
  obtain fee txID w3 where w3: "submitSignedAction S name (se_factory S) a w2 = (Inr txID, w3)"
    "Q (wv_due W w3) \<and> (\<exists>b'. GetBalance H (wv_due W w3) addr = Inr b' \<and> n' \<le> unat b')" "settled W w3"
    "unat (wv_height W w3) \<le> unat (wv_height W w) + blocks"
    using signed_action [OF assms(2), of w2 b "\<lambda>fee u. Q u \<and> (\<exists>b'. GetBalance H u addr = Inr b' \<and> n' \<le> unat b')" name]
      b(3) F h step at by (auto simp: word_le_nat_alt)
  have "submitAction S name a w = (Inr txID, w3)"
    using w2(1) w3(1) by (simp add: submitAction_def currentMaxFee_def session Let_def go_defs wrapf_ok go_try_ok w1(1))
  moreover have "unat (wv_height W w3) + blocks * (h - 1) < 2 ^ 63"
    using w3(4) b(2) assms(4) by (cases h) simp_all
  ultimately show ?thesis using w3(2,3) by (auto simp: bench_stage_def)
qed

section \<open>One window\<close>

lemma actions_fit:
  "length env \<le> MaxEnvelopeSize \<Longrightarrow> smoke_fits C (ACommitOrder \<lparr>co_MarketID = mid, co_WindowID = v, co_Envelope = env,
    co_Commitment = be_bytes 32 (Sum256 env)\<rparr>)"
  "length share \<le> MaxDecryptionShareSize \<Longrightarrow> smoke_fits C (ARevealBatch \<lparr>rb_MarketID = mid, rb_WindowID = v,
    rb_DecryptionShare = share, rb_ValidatorIndex = 1\<rparr>)"
  "length f = 32 \<Longrightarrow> smoke_fits C (AClearBatch \<lparr>cb_MarketID = mid, cb_WindowID = v, cb_ClearPrice = p,
    cb_TotalVolume = vol, cb_FillsHash = f\<rparr>)"
  "length q \<le> MaxQuestionSize \<Longrightarrow> smoke_fits C (ACreateMarket \<lparr>cm_MarketID = mid, cm_Question = q, cm_Outcomes = 2,
    cm_ResolutionTime = rt, cm_CreatorBond = 1\<rparr>)"
  "\<not> submitMalformed a \<Longrightarrow> smoke_fits C (ASubmitBatchProof a)"
  unfolding smoke_fits_def Action_Bytes_iff by (simp_all add: action_shape_defs submitMalformed_def)

lemma metrics_calls:
  "\<exists>w'. Client_RecordZKProverMetrics (vm_Request A) mid v hint wb pg w = (Inr (), w') \<and> quiet W w w'"
  "\<exists>w'. Client_ResetZKMetrics (vm_Request A) w = (Inr (), w') \<and> quiet W w w'"
  "\<exists>snap w'. Client_ZKMetrics (vm_Request A) l b w = (Inr snap, w') \<and> quiet W w w'"
proof -
  show "\<exists>w'. Client_RecordZKProverMetrics (vm_Request A) mid v hint wb pg w = (Inr (), w') \<and> quiet W w w'"
    using served_api [of "''recordzkprovermetrics''" "RecordZKProverMetrics_args \<lparr>rpa_MarketID = mid, rpa_WindowID = v,
      rpa_BatchSizeHint = hint, rpa_WitnessBuildMs = wb, rpa_ProofGenerationMs = pg\<rparr>" w]
    by (auto simp: Client_RecordZKProverMetrics_def client_defs split: prod.split)
  show "\<exists>w'. Client_ResetZKMetrics (vm_Request A) w = (Inr (), w') \<and> quiet W w w'"
    using served_api [of "''zkmetricsreset''" NoArgs w]
    by (auto simp: Client_ResetZKMetrics_def client_defs split: prod.split)
  show "\<exists>snap w'. Client_ZKMetrics (vm_Request A) l b w = (Inr snap, w') \<and> quiet W w w'"
    using served_api [of "''zkmetrics''" "ZKMetrics_args \<lparr>zma_Limit = l, zma_IncludeWindows = b\<rparr>" w]
    by (auto simp: Client_ZKMetrics_def client_defs)
qed

lemma submits_free:
  assumes "stage n h P w" and "smoke_fits C a"
    and "unat maxFee + unat (bc_GasReserve (se_cfg S)) \<le> n" and "0 < h"
    and "\<And>fee s t. P s \<Longrightarrow> Deduct H addr fee s = (Inr (), t) \<Longrightarrow> P t"
    and exec: "\<And>now txID t. P t \<Longrightarrow> sint (wv_clock W w) \<le> sint now \<Longrightarrow> sint now \<le> sint (wv_clock W w) + lag \<Longrightarrow>
      \<exists>u. Execute H V now addr txID a t = (Inr (), u) \<and> Q u \<and> GetBalance H u addr = GetBalance H t addr"
  shows "\<exists>txID w'. submitAction S name a w = (Inr txID, w') \<and> stage (n - unat maxFee) (h - 1) Q w'"
proof (rule submits [OF assms(1-4)])
  fix fee s t
  assume "P s" and "Deduct H addr fee s = (Inr (), t)"
  then show "P t" by (rule assms(5))
next
  fix b :: u64 and now :: i64 and txID t
  assume "P t" "sint (wv_clock W w) \<le> sint now" "sint now \<le> sint (wv_clock W w) + lag"
    "GetBalance H t addr = Inr b" "n - unat maxFee \<le> unat b"
  then show "\<exists>u b'. Execute H V now addr txID a t = (Inr (), u) \<and> Q u \<and> GetBalance H u addr = Inr b' \<and> n - unat maxFee \<le> unat b'"
    using exec [of t now txID] by auto
qed

lemma orders_sent:
  assumes "stage n h (bench_chain H pc mid addr bs i) w" and "bench_size bs"
    and "2 * unat maxFee + unat (bc_GasReserve (se_cfg S)) \<le> n" and "2 \<le> h"
  shows "\<exists>ms w'. windowOrders S T mid bs (of_nat i) w = (Inr (bench_fills bs i, ms), w')
    \<and> stage (n - 2 * unat maxFee) (h - 2) (bench_chain H pc mid addr bs i) w'"
proof -
  obtain e where e: "buildEnvelope bs (of_nat i) = Inr e" "96 \<le> length e" "length e \<le> MaxEnvelopeSize"
    using buildEnvelope_size [OF assms(2)] by blast
  obtain r where r: "buildRevealShare bs (of_nat i) = Inr r" "96 \<le> length r" "length r \<le> MaxDecryptionShareSize"
    using buildRevealShare_size [OF assms(2)] by blast
  let ?co = "ACommitOrder \<lparr>co_MarketID = mid, co_WindowID = of_nat i, co_Envelope = e, co_Commitment = be_bytes 32 (Sum256 e)\<rparr>"
  let ?rb = "ARevealBatch \<lparr>rb_MarketID = mid, rb_WindowID = of_nat i, rb_DecryptionShare = r, rb_ValidatorIndex = 1\<rparr>"
  let ?P = "bench_chain H pc mid addr bs i"
  have 1: "\<exists>u. Execute H V now addr tx ?co t = (Inr (), u) \<and> ?P u \<and> GetBalance H u addr = GetBalance H t addr"
    if "?P t" for now tx t
  proof -
    have "0 < length e" using e(2) by linarith
    from chain_commit [OF that this e(3), of "of_nat i"] show ?thesis by (auto simp: run_only_def go_defs)
  qed
  obtain x1 w1 where w1: "submitAction S ''commit_order'' ?co w = (Inr x1, w1)" "stage (n - unat maxFee) (h - 1) ?P w1"
    using submits_free [OF assms(1) actions_fit(1) [OF e(3)] _ _ chain_fee(1) [rotated] 1] assms(3,4) by fastforce
  have 2: "\<exists>u. Execute H V now addr tx ?rb t = (Inr (), u) \<and> ?P u \<and> GetBalance H u addr = GetBalance H t addr"
    if "?P t" for now tx t
  proof -
    have "0 < length r" using r(2) by linarith
    from chain_reveal [OF that this r(3), of "of_nat i"] show ?thesis by (auto simp: run_only_def go_defs)
  qed
  obtain x2 w2 where w2: "submitAction S ''reveal_batch'' ?rb w1 = (Inr x2, w2)"
    "stage (n - unat maxFee - unat maxFee) (h - 1 - 1) ?P w2"
    using submits_free [OF w1(2) actions_fit(2) [OF r(3)] _ _ chain_fee(1) [rotated] 2] assms(3,4) by fastforce
  obtain t1 w3 where w3: "time_Now T w2 = (Inr t1, w3)" "quiet W w2 w3" using time_now by blast
  obtain t2 w4 where w4: "time_Now T w3 = (Inr t2, w4)" "quiet W w3 w4" using time_now by blast
  have "windowOrders S T mid bs (of_nat i) w = (Inr (bench_fills bs i, sinceMs t1 t2), w4)"
    by (simp add: windowOrders_def go_defs e(1) r(1) w1(1) w2(1) w3(1) w4(1) Let_def bench_fills_def)
  moreover have "stage (n - 2 * unat maxFee) (h - 2) (bench_chain H pc mid addr bs i) w4"
    using bench_stage_quiet [OF w2(2) quiet_trans [OF w3(2) w4(2)]] by (simp add: mult_2 numeral_2_eq_2)
  ultimately show ?thesis by blast
qed

abbreviation "pc \<equiv> bench_pc (se_cfg S) addr"

lemma proof_built:
  assumes "honest_run (se_cfg S) W lag" and "builder_proof L builder hash pre bs (of_nat i) f = Inr blob"
    and "windowInputs (bc_ProofCircuitID (se_cfg S)) mid (of_nat i) (windowPrice i) (windowVolume bs) f = (hash, pre)"
  shows "\<exists>ms w'. windowProof S T L builder mid bs i f w = (Inr (blob, ms), w') \<and> quiet W w w'"
proof -
  obtain t1 w1 where w1: "time_Now T w = (Inr t1, w1)" "quiet W w w1" using time_now by blast
  obtain t2 w2 where w2: "time_Now T w1 = (Inr t2, w2)" "quiet W w1 w2" using time_now by blast
  have "builder_Build T L builder hash pre bs (of_nat i) f w = (Inr (blob, sinceMs t1 t2), w2)"
    by (simp add: builder_Build_def go_defs assms(2) w1(1) w2(1))
  then have "windowProof S T L builder mid bs i f w = (Inr (blob, sinceMs t1 t2), w2)"
    using assms(1,3) by (simp add: windowProof_def go_defs wrapf_ok honest_run_def Let_def not_less)
  then show ?thesis using quiet_trans [OF w1(2) w2(2)] by blast
qed

lemma window_clears:
  assumes "stage n h (bench_chain H pc mid addr bs i) w" and "honest_run (se_cfg S) W lag" and "bench_size bs" and "1 \<le> i" and "i < 2 ^ 64"
    and "4 * unat maxFee + unat (bc_GasReserve (se_cfg S)) \<le> n" and "4 \<le> h"
    and "builder_accepted V L builder (bc_ProofCircuitID (se_cfg S)) mid bs i"
  shows "\<exists>w'. benchWindow S T L builder mid bs i w = (Inr (), w')
    \<and> stage (n - 4 * unat maxFee) (h - 4) (bench_chain H pc mid addr bs (Suc i)) w'"
proof -
  let ?f = "bench_fills bs i" and ?cfg = "se_cfg S"
  obtain hash pre where inputs: "windowInputs (bc_ProofCircuitID ?cfg) mid (of_nat i) (windowPrice i) (windowVolume bs) ?f = (hash, pre)"
    by fastforce
  obtain blob e hh where acc: "builder_proof L builder hash pre bs (of_nat i) ?f = Inr blob" "blob \<noteq> []"
    "length blob \<le> MaxProofBytesSize" "parseProofEnvelope blob = Inr e"
    "computeExpectedPublicInputsHash (en_circuitID e) mid (of_nat i) (windowPrice i) (windowVolume bs) ?f = Inr hh"
    "hash = be_bytes 32 hh" "verifyBatchProofInConsensus V ProofTypeGroth16 blob hash = Inr ()"
    using assms(8) inputs by (auto simp: builder_accepted_def Let_def)
  obtain ms w1 where w1: "windowOrders S T mid bs (of_nat i) w = (Inr (?f, ms), w1)"
    "stage (n - 2 * unat maxFee) (h - 2) (bench_chain H pc mid addr bs i) w1"
    using orders_sent [OF assms(1,3)] assms(6,7) by fastforce
  have f: "length ?f = 32"
    using buildEnvelope_size [OF assms(3), of "of_nat i"] buildRevealShare_size [OF assms(3), of "of_nat i"]
    by (auto simp: bench_fills_def)
  obtain w2 where w2: "core_Accepted A w1 = (Inr (wv_height W w1, wv_clock W w1), w2)" "quiet W w1 w2" using accepted by blast
  have bw: "0 < sint (bc_BatchWindowMs ?cfg)" "sint (bc_BatchWindowMs ?cfg) \<le> sint (wv_clock W w1)"
    using assms(2) by (auto simp: honest_run_def)
  obtain close where close: "windowCloseOf (wv_clock W w1) (bc_BatchWindowMs ?cfg) = Inr close" "0 < sint close"
    "sint close \<le> sint (wv_clock W w1)" "sint (wv_clock W w1) < sint close + sint (bc_BatchWindowMs ?cfg)"
    "go_rem close (bc_BatchWindowMs ?cfg) = Inr 0"
    using windowClose [OF bw] clock_range [of w1] by blast
  obtain ms' w3 where w3: "windowProof S T L builder mid bs i ?f w2 = (Inr (blob, ms'), w3)" "quiet W w2 w3"
    using proof_built [OF assms(2) acc(1) inputs] by blast
  note q = quiet_trans [OF w2(2) w3(2)]
  have clock: "wv_clock W w3 = wv_clock W w1" using q by (simp add: quiet_def)
  note st3 = bench_stage_quiet [OF w1(2) q]
  let ?sb = "\<lparr>sb_MarketID = mid, sb_WindowID = of_nat i, sb_WindowCloseAtMs = close, sb_ProofType = ProofTypeGroth16,
     sb_PublicInputsHash = hash, sb_FillsHash = ?f, sb_Proof = blob\<rparr>"
  let ?cb = "\<lparr>cb_MarketID = mid, cb_WindowID = of_nat i, cb_ClearPrice = windowPrice i, cb_TotalVolume = windowVolume bs, cb_FillsHash = ?f\<rparr>"
  have ok: "\<not> submitMalformed ?sb" using close(2) acc(2,3,6) f by (simp add: submitMalformed_def)
  have 3: "\<exists>u. Execute H V now addr tx (ASubmitBatchProof ?sb) t = (Inr (), u) \<and> bench_proved H pc addr bs i ?sb u
      \<and> GetBalance H u addr = GetBalance H t addr"
    if "bench_chain H pc mid addr bs i t" "sint (wv_clock W w3) \<le> sint now" "sint now \<le> sint (wv_clock W w3) + lag" for now tx t
  proof -
    have "submitTiming ?sb pc now = Inr ()"
      using timely [of ?sb pc "sint (wv_clock W w1)" now lag] close(2-5) that(2,3) clock assms(2) clock_range [of w1]
      by (simp add: bench_pc_def honest_run_def)
    then show ?thesis
      using chain_submit [of pc ?sb addr bs i t "se_cfg S" now V tx] that(1) ok assms(5) acc(7) by (auto simp: run_only_def go_defs)
  qed
  obtain x4 w4 where w4: "submitAction S ''submit_batch_proof'' (ASubmitBatchProof ?sb) w3 = (Inr x4, w4)"
    "stage (n - 2 * unat maxFee - unat maxFee) (h - 2 - 1) (bench_proved H pc addr bs i ?sb) w4"
    using submits_free [OF st3 actions_fit(5) [OF ok] _ _ chain_fee(1) [rotated] 3] assms(6,7) by fastforce
  obtain w5 where w5: "Client_RecordZKProverMetrics (vm_Request A) mid (of_nat i) (ucast bs) ms ms' w4 = (Inr (), w5)" "quiet W w4 w5"
    using metrics_calls(1) by blast
  have 4: "\<exists>u. Execute H V now addr tx (AClearBatch ?cb) t = (Inr (), u) \<and> bench_chain H pc mid addr bs (Suc i) u
      \<and> GetBalance H u addr = GetBalance H t addr"
    if "bench_proved H pc addr bs i ?sb t" for now tx t
    using chain_clear [OF that refl assms(4,5), of e hh V] f acc(4-7) by (auto simp: run_only_def go_defs)
  obtain x6 w6 where w6: "submitAction S ''clear_batch'' (AClearBatch ?cb) w5 = (Inr x6, w6)"
    "stage (n - 2 * unat maxFee - unat maxFee - unat maxFee) (h - 2 - 1 - 1) (bench_chain H pc mid addr bs (Suc i)) w6"
    using submits_free [OF bench_stage_quiet [OF w4(2) w5(2)] actions_fit(3) [OF f] _ _ chain_fee(2) [rotated] 4] assms(6,7) by fastforce
  have "benchWindow S T L builder mid bs i w = (Inr (), w6)"
    by (simp add: benchWindow_def session Let_def go_defs wrapf_ok w1(1) w2(1) close(1) w3(1) inputs w4(1) w5(1) w6(1))
  moreover have "n - 2 * unat maxFee - unat maxFee - unat maxFee = n - 4 * unat maxFee" "h - 2 - 1 - 1 = h - 4" by simp_all
  ultimately show ?thesis using w6(2) by metis
qed

section \<open>One batch size\<close>

lemma windows_clear:
  assumes "stage n h (bench_chain H pc mid addr bs i) w" and "honest_run (se_cfg S) W lag" and "bench_size bs" and "1 \<le> i"
    and "i + k \<le> 2 ^ 64" and "4 * k * unat maxFee + unat (bc_GasReserve (se_cfg S)) \<le> n" and "4 * k \<le> h"
    and "\<And>j. i \<le> j \<Longrightarrow> j < i + k \<Longrightarrow> builder_accepted V L builder (bc_ProofCircuitID (se_cfg S)) mid bs j"
  shows "\<exists>w'. go_each (benchWindow S T L builder mid bs) [i..<i + k] w = (Inr (), w')
    \<and> stage (n - 4 * k * unat maxFee) (h - 4 * k) (bench_chain H pc mid addr bs (i + k)) w'"
  using assms(1,4-8)
proof (induction k arbitrary: i n h w)
  case 0
  then show ?case by (simp add: go_return_def)
next
  case (Suc k)
  let ?F = "unat maxFee"
  have split: "4 * Suc k * ?F = 4 * ?F + 4 * k * ?F" by (simp add: algebra_simps)
  obtain w1 where w1: "benchWindow S T L builder mid bs i w = (Inr (), w1)"
    "stage (n - 4 * ?F) (h - 4) (bench_chain H pc mid addr bs (Suc i)) w1"
    using window_clears [OF Suc.prems(1) assms(2,3) Suc.prems(2), of L builder] Suc.prems(3-6) unfolding split by fastforce
  obtain w2 where w2: "go_each (benchWindow S T L builder mid bs) [Suc i..<Suc i + k] w1 = (Inr (), w2)"
    "stage (n - 4 * ?F - 4 * k * ?F) (h - 4 - 4 * k) (bench_chain H pc mid addr bs (Suc i + k)) w2"
    using Suc.IH [OF w1(2)] Suc.prems(3-6) unfolding split by fastforce
  have upt: "[i..<i + Suc k] = i # [Suc i..<Suc i + k]" by (simp add: upt_conv_Cons)
  have "go_each (benchWindow S T L builder mid bs) [i..<i + Suc k] w = (Inr (), w2)"
    unfolding upt using w1(1) w2(1) by (simp only: go_each.simps go_bind_def prod.case sum.case)
  moreover have "n - 4 * ?F - 4 * k * ?F = n - 4 * Suc k * ?F" "h - 4 - 4 * k = h - 4 * Suc k"
    unfolding split by simp_all
  ultimately show ?case using w2(2) by (metis add_Suc_shift)
qed

lemma market_created:
  assumes "stage n h P w" and "unat maxFee + unat (bc_GasReserve (se_cfg S)) \<le> n" and "unat maxFee < n" and "0 < h"
    and "length (go_str ''zkbench-'' @ FormatInt (sint bs)) \<le> MaxQuestionSize"
    and fee: "\<And>fee s t. P s \<Longrightarrow> Deduct H addr fee s = (Inr (), t) \<Longrightarrow> P t"
    and fresh: "\<And>s t. P s \<Longrightarrow> GetProofConfig H s = Inr pc \<and> (\<exists>x. GetBloodsworn H s addr = Inr x)
      \<and> GetMarket H s (deriveMarketID bs t) = Inl ErrMarketNotFound
      \<and> (\<forall>v. GetBatchProofRecord H s (deriveMarketID bs t) v = Inl ErrProofNotFound)"
  shows "\<exists>mid w'. benchMarket S T bs w = (Inr mid, w')
    \<and> stage (n - unat maxFee - 1) (h - 1) (bench_chain H pc mid addr bs 1) w'"
proof -
  obtain w1 where w1: "Client_ResetZKMetrics (vm_Request A) w = (Inr (), w1)" "quiet W w w1" using metrics_calls(2) by blast
  obtain t1 w2 where w2: "time_Now T w1 = (Inr t1, w2)" "quiet W w1 w2" using time_now by blast
  obtain t2 w3 where w3: "time_Now T w2 = (Inr t2, w3)" "0 \<le> sint (gt_UnixNano t2)" "quiet W w2 w3" using time_now by blast
  define mid rt where "mid = deriveMarketID bs (gt_UnixNano t1)" and "rt = time_Unix t2 + 86400"
  have rt: "0 < sint rt"
    unfolding rt_def using w3(2) by (rule later_than)
  let ?cm = "\<lparr>cm_MarketID = mid, cm_Question = go_str ''zkbench-'' @ FormatInt (sint bs), cm_Outcomes = 2, cm_ResolutionTime = rt,
     cm_CreatorBond = 1\<rparr>"
  have st: "stage n h P w3" using bench_stage_quiet [OF assms(1) quiet_trans [OF quiet_trans [OF w1(2) w2(2)] w3(3)]] .
  have create: "\<exists>u b'. Execute H V now addr tx (ACreateMarket ?cm) t = (Inr (), u) \<and> bench_chain H pc mid addr bs 1 u
      \<and> GetBalance H u addr = Inr b' \<and> n - unat maxFee - 1 \<le> unat b'"
    if "P t" "GetBalance H t addr = Inr b" "n - unat maxFee \<le> unat b" for now tx t b
  proof -
    have b: "1 \<le> b" using that(3) assms(3) by (simp add: word_le_nat_alt)
    have "unat (b - 1) = unat b - 1" using unat_sub [OF b] by simp
    then show ?thesis
      using fresh [OF that(1), of "gt_UnixNano t1"] chain_create [of t pc addr _ mid _ rt b bs, OF _ _ _ _ assms(5) rt that(2) b] that(3)
      by (fastforce simp: run_only_def go_defs mid_def)
  qed
  have "\<exists>x w4. submitAction S ''create_market'' (ACreateMarket ?cm) w3 = (Inr x, w4)
    \<and> stage (n - unat maxFee - 1) (h - 1) (bench_chain H pc mid addr bs 1) w4"
    apply (rule submits [OF st actions_fit(4) [OF assms(5)] assms(2,4)])
    subgoal by (rule fee)
    subgoal by (rule create)
    done
  then obtain x w4 where w4: "submitAction S ''create_market'' (ACreateMarket ?cm) w3 = (Inr x, w4)"
    "stage (n - unat maxFee - 1) (h - 1) (bench_chain H pc mid addr bs 1) w4" by blast
  have "benchMarket S T bs w = (Inr mid, w4)"
    using w4(1) by (simp add: benchMarket_def session go_defs wrapf_ok w1(1) w2(1) w3(1) Let_def mid_def rt_def)
  then show ?thesis using w4(2) by blast
qed

lemma batch_clears:
  assumes "stage n h P w" and "honest_run (se_cfg S) W lag" and "bench_size bs"
    and "N = nat (sint (bc_WindowsPerSize (se_cfg S)))"
    and "(1 + 4 * N) * unat maxFee + 1 + unat (bc_GasReserve (se_cfg S)) \<le> n" and "1 + 4 * N \<le> h"
    and "\<And>mid i. 1 \<le> i \<Longrightarrow> i \<le> N \<Longrightarrow> builder_accepted V L builder (bc_ProofCircuitID (se_cfg S)) mid bs i"
    and fee: "\<And>fee s t. P s \<Longrightarrow> Deduct H addr fee s = (Inr (), t) \<Longrightarrow> P t"
    and fresh: "\<And>s t. P s \<Longrightarrow> GetProofConfig H s = Inr pc \<and> (\<exists>x. GetBloodsworn H s addr = Inr x)
      \<and> GetMarket H s (deriveMarketID bs t) = Inl ErrMarketNotFound
      \<and> (\<forall>v. GetBatchProofRecord H s (deriveMarketID bs t) v = Inl ErrProofNotFound)"
  shows "\<exists>mid snap w'. benchBatch S T L builder bs w = (Inr (batchResultOf bs
      (path_Join [bc_OutputDir (se_cfg S), go_str ''metrics_batch_'' @ FormatInt (sint bs) @ go_str ''.csv'']) snap), w')
    \<and> stage (n - (1 + 4 * N) * unat maxFee - 1) (h - (1 + 4 * N)) (bench_chain H pc mid addr bs (Suc N)) w'"
proof -
  let ?F = "unat maxFee" and ?csv = "path_Join [bc_OutputDir (se_cfg S), go_str ''metrics_batch_'' @ FormatInt (sint bs) @ go_str ''.csv'']"
  have budget: "(1 + 4 * N) * ?F = ?F + 4 * N * ?F" by (simp add: algebra_simps)
  have q: "length (go_str ''zkbench-'' @ FormatInt (sint bs)) \<le> MaxQuestionSize"
    using length_FormatInt [of bs] by (simp add: go_str_def)
  obtain mid w1 where w1: "benchMarket S T bs w = (Inr mid, w1)" "stage (n - ?F - 1) (h - 1) (bench_chain H pc mid addr bs 1) w1"
    using market_created [OF assms(1) _ _ _ q fee fresh] assms(5,6) unfolding budget by fastforce
  have N: "1 + N \<le> 2 ^ 64" using sint_lt [of "bc_WindowsPerSize (se_cfg S)"] unfolding assms(4) by simp
  obtain w2 where w2: "go_each (benchWindow S T L builder mid bs) [1..<1 + N] w1 = (Inr (), w2)"
    "stage (n - ?F - 1 - 4 * N * ?F) (h - 1 - 4 * N) (bench_chain H pc mid addr bs (1 + N)) w2"
    using windows_clear [OF w1(2) assms(2,3) _ N, of L builder] assms(5-7) unfolding budget by fastforce
  obtain snap w3 where w3: "Client_ZKMetrics (vm_Request A) 0 True w2 = (Inr snap, w3)" "quiet W w2 w3" using metrics_calls(3) by blast
  obtain w4 where w4: "csv_WriteAll T ?csv (metricsCSV (sn_Windows snap)) w3 = (Inr (), w4)" "quiet W w3 w4" using csv_written by blast
  have "benchBatch S T L builder bs w = (Inr (batchResultOf bs ?csv snap), w4)"
    using w2(1) by (simp add: benchBatch_def session go_defs wrapf_ok w1(1) w3(1) w4(1) Let_def del: upt_Suc flip: assms(4))
  moreover have "n - ?F - 1 - 4 * N * ?F = n - (1 + 4 * N) * ?F - 1" "h - 1 - 4 * N = h - (1 + 4 * N)" "1 + N = Suc N"
    unfolding budget by simp_all
  ultimately show ?thesis using bench_stage_quiet [OF w2(2) quiet_trans [OF w3(2) w4(2)]] by metis
qed

end

text \<open>A state without a market of the batch size, and without proofs for one.\<close>

definition bench_fresh :: "'s host \<Rightarrow> ProofConfig \<Rightarrow> Address \<Rightarrow> i64 \<Rightarrow> 's \<Rightarrow> bool" where
  "bench_fresh H cfg addr bs s \<longleftrightarrow> GetProofConfig H s = Inr cfg \<and> (\<exists>x. GetBloodsworn H s addr = Inr x)
     \<and> (\<forall>t. GetMarket H s (deriveMarketID bs t) = Inl ErrMarketNotFound)
     \<and> (\<forall>t v. GetBatchProofRecord H s (deriveMarketID bs t) v = Inl ErrProofNotFound)"

context bench_node
begin

lemma fresh_fee: "bench_fresh H cfg addr bs s \<Longrightarrow> Deduct H addr fee s = (Inr (), t) \<Longrightarrow> bench_fresh H cfg addr bs t"
  using deduct_run [of addr fee s t] by (auto simp: bench_fresh_def bench_reads key_simps)

lemma batch_cleared:
  assumes "honest_run (se_cfg S) W lag" and "bench_size bs" and "N = nat (sint (bc_WindowsPerSize (se_cfg S)))"
    and "settled W w" and "unat (wv_height W w) + blocks * (1 + 4 * N) < 2 ^ 63"
    and "GetBalance H (wv_due W w) addr = Inr b" and "(1 + 4 * N) * unat maxFee + 1 + unat (bc_GasReserve (se_cfg S)) \<le> unat b"
    and "bench_fresh H pc addr bs (wv_due W w)"
    and "\<And>mid i. 1 \<le> i \<Longrightarrow> i \<le> N \<Longrightarrow> builder_accepted V L builder (bc_ProofCircuitID (se_cfg S)) mid bs i"
  shows "\<exists>mid snap csv w'. benchBatch S T L builder bs w = (Inr (batchResultOf bs csv snap), w') \<and> settled W w'
    \<and> bench_chain H pc mid addr bs (Suc N) (wv_accepted W w')"
proof -
  have st: "stage (unat b) (1 + 4 * N) (bench_fresh H pc addr bs) w"
    using assms(4-6,8) by (auto simp: bench_stage_def)
  have "\<exists>mid snap w'. benchBatch S T L builder bs w = (Inr (batchResultOf bs
      (path_Join [bc_OutputDir (se_cfg S), go_str ''metrics_batch_'' @ FormatInt (sint bs) @ go_str ''.csv'']) snap), w')
    \<and> stage (unat b - (1 + 4 * N) * unat maxFee - 1) (1 + 4 * N - (1 + 4 * N)) (bench_chain H pc mid addr bs (Suc N)) w'"
    using batch_clears [OF st assms(1-3,7) order_refl assms(9) fresh_fee] by (fastforce simp: bench_fresh_def)
  then show ?thesis by (fastforce simp: bench_stage_def settled_def)
qed

end

section \<open>Groth16 proofs\<close>

text \<open>A node that verifies Groth16 proofs of one circuit under one key.\<close>

definition vk_node :: "('vk, 'gp) backend \<Rightarrow> ('pl, 'pp) backend \<Rightarrow> 'wt witness_lib \<Rightarrow> 'vk \<Rightarrow> bytes \<Rightarrow> verifier_env" where
  "vk_node G P W vk circuitID = ConfigureBatchProofVerifier
     (Some (Verifier_Verify G P W \<lparr>groth16VK = Some vk, plonkVK = None, requiredCircuitID = circuitID\<rparr>)) True"

lemma length_bench_fills:
  assumes "bench_size bs"
  shows "length (bench_fills bs i) = 32"
  using buildEnvelope_size [OF assms, of "of_nat i"] buildRevealShare_size [OF assms, of "of_nat i"]
  by (auto simp: bench_fills_def)

lemma windowPrice_pos: "windowPrice i \<noteq> 0"
proof -
  have "1000 + i mod 97 < 2 ^ 64" by (rule less_trans [of _ 1100]) simp_all
  then have "unat (windowPrice i) = 1000 + i mod 97" by (simp add: windowPrice_def unat_of_nat del: of_nat_add)
  then show ?thesis by auto
qed

lemma built_size:
  assumes "BuildProofEnvelopeWithCircuit pt c prf wit = Inr env"
  shows "length env \<le> MaxProofBytesSize"
proof -
  have "env = proofEnvelopeMagicV2 @ [pt, of_nat (length (TrimSpace c))] @ be_bytes 4 (of_nat (length prf) :: u32)
      @ be_bytes 4 (of_nat (length wit) :: u32) @ TrimSpace c @ prf @ wit"
    and "14 + length (TrimSpace c) + length prf + length wit \<le> MaxProofBytesSize"
    using assms by (simp_all add: BuildProofEnvelopeWithCircuit_def Let_def split: if_splits)
  then show ?thesis by (simp add: go_str_def)
qed

context groth16_lib
begin

lemma window_assignment:
  assumes "isSupportedCircuitID c" and "length f = 32" and "v \<noteq> 0" and "p \<noteq> 0"
    and "c = ProofCircuitShieldedLedgerV1 \<Longrightarrow> mid \<noteq> 0 \<and> vol \<noteq> 0 \<and> f \<noteq> replicate 32 0"
    and "windowInputs c mid v p vol f = (hash, pre)"
  shows "\<exists>a h. groth16Assignment c pre hash = Inr a \<and> satisfied F a \<and> digest_of a = hash
    \<and> selectedCircuit c = Inr (blank_of a) \<and> hash = be_bytes 32 h \<and> computeExpectedPublicInputsHash c mid v p vol f = Inr h"
proof -
  have trims: "TrimSpace ProofCircuitClearHashV1 = ProofCircuitClearHashV1"
    "TrimSpace ProofCircuitShieldedLedgerV1 = ProofCircuitShieldedLedgerV1"
    "ProofCircuitShieldedLedgerV1 \<noteq> ProofCircuitClearHashV1" "ProofCircuitShieldedLedgerV1 \<noteq> []"
    using supported_trim by (simp_all add: isSupportedCircuitID_def go_str_def)
  note defs = groth16Assignment_def windowInputs_def selectedCircuit_def computeExpectedPublicInputsHash_def digest_of_def blank_of_def
    ComputeClearPublicInputsHash_def ComputeShieldedLedgerPublicInputsHash_def Let_def trims
  consider (clear) "c = ProofCircuitClearHashV1" | (shielded) "c = ProofCircuitShieldedLedgerV1"
    using assms(1) by (auto simp: isSupportedCircuitID_def)
  then show ?thesis
  proof cases
    case clear
    then show ?thesis using clear_assignment [OF assms(2), of mid v p vol] assms(6) trims(3) [symmetric] by (auto simp: defs)
  next
    case shielded
    then show ?thesis
      using shielded_assignment [OF assms(2) _ assms(3,4), of mid vol] assms(5,6) by (auto simp: defs)
  qed
qed

lemma builder_accepts:
  assumes "isSupportedCircuitID c" and "bench_size bs" and "1 \<le> i" and "i < 2 ^ 64"
    and "c = ProofCircuitShieldedLedgerV1 \<Longrightarrow> mid \<noteq> 0 \<and> windowVolume bs \<noteq> 0 \<and> bench_fills bs i \<noteq> replicate 32 0"
    and "selectedCircuit c = Inr circuit" and "frontend_Compile L circuit = Inr cs" and "groth16_Setup L cs = Inr (pk, vk)"
  shows "builder_accepted (vk_node G P W vk c) L (Groth16Builder cs pk c) c mid bs i"
proof -
  let ?f = "bench_fills bs i"
  obtain hash pre where inputs: "windowInputs c mid (of_nat i) (windowPrice i) (windowVolume bs) ?f = (hash, pre)" by fastforce
  have "(of_nat i :: u64) \<noteq> 0" using assms(3,4) by (simp add: word_unat_eq_iff unat_of_nat)
  from window_assignment [OF assms(1) length_bench_fills [OF assms(2)] this windowPrice_pos assms(5) inputs]
  obtain a h where a: "groth16Assignment c pre hash = Inr a" "satisfied F a" "digest_of a = hash" "selectedCircuit c = Inr (blank_of a)"
    "hash = be_bytes 32 h" "computeExpectedPublicInputsHash c mid (of_nat i) (windowPrice i) (windowVolume bs) ?f = Inr h" by blast
  obtain parts where parts: "proveAssignment L cs pk c a = Inr parts"
    "BuildProofEnvelopeWithCircuit ProofTypeGroth16 c (pp_proof parts) (pp_publicWitness parts) = Inr (pp_envelope parts)"
    "verifyWith G W vk c (pp_proof parts) hash (pp_publicWitness parts) = None"
    using proves [OF a(2) _ _ assms(8,1)] a(3-5) assms(6,7) by auto
  have id: "TrimSpace c = c" "c \<noteq> []" using supported_trim [OF assms(1)] by simp_all
  have parse: "parseProofEnvelope (pp_envelope parts) = Inr \<lparr>en_proofType = ProofTypeGroth16, en_circuitID = c,
      en_proof = pp_proof parts, en_witness = pp_publicWitness parts, en_hasEnvelope = True\<rparr>"
    using parse_build_v2 [OF parts(2)] id by simp
  have size: "pp_envelope parts \<noteq> []" "length (pp_envelope parts) \<le> MaxProofBytesSize"
    using built_size [OF parts(2)] built_v2(3) [OF parts(2)] by auto
  have "Verifier_Verify G P W \<lparr>groth16VK = Some vk, plonkVK = None, requiredCircuitID = c\<rparr> ProofTypeGroth16 c (pp_proof parts)
      hash (pp_publicWitness parts) = None"
    using parts(3) assms(1) id by (simp add: Verifier_Verify_def normalizeCircuitID_def Let_def)
  then have "verifyBatchProofInConsensus (vk_node G P W vk c) ProofTypeGroth16 (pp_envelope parts) hash = Inr ()"
    by (simp add: verifyBatchProofInConsensus_def parse vk_node_def getBatchProofVerifier_def ConfigureBatchProofVerifier_def)
  then show ?thesis
    using a(1,5,6) parts(1) parse size by (simp add: builder_accepted_def inputs builder_proof_def res_try_def)
qed

end

section \<open>Properties\<close>


definition toy_node :: verifier_env where
  "toy_node = vk_node toy_backend toy_backend sample_witness_lib True ProofCircuitClearHashV1"



section \<open>A run against the node that includes at once\<close>

definition sole_io :: "'s sole bench_io" where
  "sole_io = \<lparr>bi_os = \<lparr>io_MkdirAll = (\<lambda>_. go_return ()), io_WriteFile = (\<lambda>_ _. go_return ()),
       io_ReadFile = (\<lambda>_. go_fail (HostError ''no such file'')), io_Remove = (\<lambda>_. go_return ()),
       io_Rename = (\<lambda>_ _. go_return ()), rand_Read = (\<lambda>n. go_return (replicate n 7))\<rparr>,
     time_Now = go_return \<lparr>gt_UnixNano = 10000000000, gt_Mono = 0\<rparr>, select_Timer = (\<lambda>_. go_return None),
     csv_WriteAll = (\<lambda>_ _. go_return ()), json_MarshalIndent = (\<lambda>_. Inr [])\<rparr>"

definition bench_cfg :: benchConfig where
  "bench_cfg = \<lparr>bc_NodeURL = defaultNodeURL, bc_ChainID = go_str ''veil'', bc_PrivateKeyHex = defaultKeyHex,
     bc_RefuelPrivateKeyHex = [], bc_ProofConfigPrivateKeyHex = [], bc_ProofConfigFallbackPrivateKeyHex = [],
     bc_ProverAuthorityPrivateKeyHex = [], bc_StrictFeePreflight = True, bc_OutputDir = go_str ''zkbench-out'',
     bc_ProofMode = go_str ''groth16'', bc_ProofCircuitID = ProofCircuitClearHashV1, bc_Groth16PKPath = go_str ''pk.bin'',
     bc_Groth16CSCachePath = go_str ''ccs.bin'', bc_ProofTamperMode = [], bc_BatchSizes = [32], bc_WindowsPerSize = 25,
     bc_BatchWindowMs = 5000, bc_ProofDeadlineMs = 10000, bc_ProofSubmitDelayMs = 0, bc_PrefundOnly = False,
     bc_TimeoutMinutes = 60, bc_GasSafetyBps = defaultGasSafetyBps, bc_GasReserve = defaultGasReserve,
     bc_RefuelAmount = defaultRefuelAmount\<rparr>"

definition sole_session :: "'s host \<Rightarrow> verifier_env \<Rightarrow> ('s sole, Address, unit) benchSession" where
  "sole_session H V = \<lparr>se_api = sole_api H V, se_codec = mem_codec, se_cfg = bench_cfg, se_factory = 5, se_refuel = None,
     se_chainID = 7\<rparr>"

lemma quiet_refl: "quiet W w w"
  by (simp add: quiet_def)

interpretation sole_bench: bench_node mem_codec first_byte_parser first_byte_parser "sole_api mem_host V" mem_host V
    "sole_view mem_host" 7 "[100, 100, 100, 100, 100]" 60000 0 1 "sole_session mem_host V" sole_io for V
  by (intro bench_node.intro bench_node_axioms.intro sole.one_node_axioms mem_env.total_env_axioms)
    (simp_all add: sole_session_def sole_io_def go_return_def)

definition bench_start :: mem where
  "bench_start = [slot_key mem_host (SBalance 5) \<mapsto> be_bytes 8 (1000000000 :: u64),
     slot_key mem_host SProofConfig \<mapsto> encodeProofConfig (bench_pc bench_cfg 5)]"

lemma bench_cfg_fields:
  "bc_WindowsPerSize bench_cfg = 25" "bc_BatchWindowMs bench_cfg = 5000" "bc_ProofDeadlineMs bench_cfg = 10000"
  "bc_ProofSubmitDelayMs bench_cfg = 0" "bc_ProofTamperMode bench_cfg = []" "bc_GasReserve bench_cfg = 250000"
  "bc_ProofCircuitID bench_cfg = ProofCircuitClearHashV1"
  by (simp_all add: bench_cfg_def)

lemma bench_start_reads:
  "GetBalance mem_host bench_start 5 = Inr 1000000000" "bench_fresh mem_host (bench_pc bench_cfg 5) 5 32 bench_start"
proof -
  have get: "GetValue mem_host bench_start (slot_key mem_host k) = (if k = SBalance 5 then Inr (be_bytes 8 (1000000000 :: u64))
      else if k = SProofConfig then Inr (encodeProofConfig (bench_pc bench_cfg 5)) else Inl DbErrNotFound)" for k
    by (simp add: mem_host_def mem_get_def bench_start_def)
  show "GetBalance mem_host bench_start 5 = Inr 1000000000"
    by (simp add: GetBalance_def getBalance_def get key_simps mem_env.read_amount Let_def)
  show "bench_fresh mem_host (bench_pc bench_cfg 5) 5 32 bench_start"
    by (simp add: bench_fresh_def bench_reads get key_simps bench_pc_def bench_cfg_fields with_stored_def bloodswornResult_def validateProofConfig_def)
qed


end
