(* ===== verification/Spec2Isabelle.thy ===== *)
theory Spec2Isabelle
  imports Vm_Codec Vm_Config Vm_Server Vm_Metered Launch Smoke Bench_Live
begin

text \<open>
  VeilVM, a HyperSDK virtual machine for prediction markets with encrypted orders, proof-gated batch
  clearing, a VEIL/VAI exchange and a debt-backed stablecoin: a model of its Go code under
  \<open>src/\<close> and the theorems that make it correct.

  \<^bold>\<open>The program and the theories\<close>

  HyperSDK runs a transaction by calling \<open>StateKeys\<close> and then \<open>Execute\<close> of its action on the chain's
  key-value state. The code under \<open>src/\<close> is the actions, the layout of the state, the genesis, the
  proof verifier, the RPC layer with its client, and the command line tools that drive a node: the key generator, a smoke test, a tool
  that makes proving keys, and a benchmark of the proof-gated batches.

  \<^item> \<open>Prelude\<close>: machine words, big-endian bytes, slices, and the error monad \<open>action_run\<close> (state passed
    on, errors as \<open>Inl\<close>, the combinators \<open>go_bind\<close>, \<open>go_guard\<close>, \<open>go_read\<close>, \<open>go_lift\<close>), with the
    collections \<open>byte_simps\<close> and \<open>run_simps\<close> that drive the component proofs.
  \<^item> \<open>Errors\<close>: the error values of \<open>storage/errors.go\<close> and of the actions; a Go panic is the value
    \<open>GoPanic\<close>.
  \<^item> \<open>Host\<close>: what the code takes from HyperSDK and avalanchego (the state interface, checked
    arithmetic, integer parsing), as the record \<open>host\<close> that every definition takes as its
    argument, and the locales that say what is relied on. \<open>mem_host\<close> is an instance.
  \<^item> \<open>Go_Std\<close>: SHA-256, \<open>strings.TrimSpace\<close> and the signed remainder of Go.
  \<^item> \<open>Storage_Keys\<close>, \<open>Storage_Balance\<close>, \<open>Storage_Config\<close>, \<open>Storage_Market\<close>, \<open>Storage_Proof\<close>:
    \<open>storage/storage.go\<close> and \<open>storage/balance_handler.go\<close>, function by function. \<open>Storage_Laws\<close> has the
    laws its clients use.
  \<^item> \<open>Access\<close>: declared key sets and the contract \<open>declared_action\<close> between an action and them.
  \<^item> \<open>Amm_Math\<close>, \<open>Proof_Envelope\<close>: the shared helpers of the actions (\<open>actions/amm_common.go\<close>;
    \<open>actions/proof_hash.go\<close>, \<open>actions/proof_verifier.go\<close>, \<open>actions/glyph.go\<close>).
  \<^item> \<open>Act_Transfer\<close>, \<open>Act_Vai\<close>, \<open>Act_Treasury\<close>, \<open>Act_Amm\<close>, \<open>Act_Market\<close>, \<open>Act_Proof\<close>: the nineteen
    actions of \<open>actions/\<close>. Each has its struct and result as records, \<open>X_StateKeys\<close> and \<open>X_Execute\<close>.
  \<^item> \<open>Economy\<close>: the abstract specification of all value on the chain: accounts, pool, debt and
    budgets, and the step relation \<open>econ_step\<close>.
  \<^item> \<open>Vm\<close>: the registered actions (\<open>vm/vm.go\<close>, \<open>consts/types.go\<close>), their dispatch, and the step
    relation \<open>vm_step\<close> of the chain: a successful action or a fee charge.
  \<^item> \<open>Codec\<close>, \<open>Codec_Actions\<close>, \<open>Codec_Results\<close>, \<open>Vm_Codec\<close>: \<open>Bytes\<close> and \<open>Unmarshal\<close> of the nineteen actions
    and results, their size limits, and the two parsers that \<open>vm/vm.go\<close> registers. The reflective linear codec and the packer of
    avalanchego are the record \<open>linear_codec\<close>; the locale \<open>codec_env\<close> states their wire format.
  \<^item> \<open>Zk_Metrics\<close>, \<open>Vm_Metered\<close>: the metrics collector of \<open>actions/zk_metrics.go\<close>, and the deferred calls with
    which four actions report to it.
  \<^item> \<open>Zk_Circuits\<close>, \<open>Zk_Verifier\<close>: the circuits and the proof verifier of \<open>zk/\<close>. The frontend and the backends
    of gnark are parameters (\<open>frontend_api\<close>, \<open>backend\<close>, \<open>witness_lib\<close>).
  \<^item> \<open>Vm_Config\<close>: \<open>vm/option.go\<close>, from options, environment and the fallback key to the verifier installed in consensus.
  \<^item> \<open>Vm_Server\<close>: every handler of \<open>vm/server.go\<close>.
  \<^item> \<open>Genesis\<close>: \<open>genesis/genesis.go\<close>. HyperSDK's base genesis is a parameter. \<open>Launch\<close> adds loading a genesis
    (the JSON decoder is a parameter) and \<open>cmd/veilvm-keygen\<close>, which writes one.
  \<^item> \<open>Vm_Client\<close>: every method of \<open>vm/client.go\<close>. The request is a parameter; the locale \<open>rpc_endpoint\<close> says that it is answered by the
    handlers of \<open>Vm_Server\<close>.
  \<^item> \<open>Cmd_Node\<close>: what the tools share: keys, expiry, signing and submitting. What they use of a node is the record \<open>node_api\<close>; the locale
    \<open>one_node\<close> is a node that includes what is paid for and makes blocks while a tool sleeps, and \<open>sole_api\<close> an instance.
  \<^item> \<open>Smoke\<close>, \<open>Smoke_Chain\<close>: \<open>cmd/veilvm-smoke\<close>, and the chain states its transactions go through.
  \<^item> \<open>Zk_Prover\<close>, \<open>Zk_Tool\<close>: proving as both ZK tools do it, and \<open>cmd/veilvm-zktool\<close>. The prover of gnark is the record \<open>prover_lib\<close> with the locale
    \<open>groth16_lib\<close>, files and randomness are \<open>tool_io\<close> with \<open>file_system\<close>.
  \<^item> \<open>Go_Text\<close>: the functions of \<open>strings\<close>, \<open>strconv\<close>, \<open>hex\<close> and \<open>filepath\<close> that the tools use.
  \<^item> \<open>Bench_Config\<close>, \<open>Bench_Payload\<close>, \<open>Bench_Report\<close>, \<open>Bench_Run\<close>: \<open>cmd/veilvm-zkbench\<close>, function by function and closure by closure;
    \<open>Bench_Chain\<close> has what its actions do to the chain, \<open>Bench_Live\<close> the run of a batch against a node (locale \<open>bench_node\<close>).
  \<^item> \<open>Sample\<close>: small concrete states on which runs are computed.

  \<^bold>\<open>What is shown\<close>

  This theory has the properties that span components. For every chain that starts from a genesis
  and for runs of any length: VAI equals debt, VEIL is never created, shares equal what the pool
  issued and are backed, debt and mints stay within the genesis limits, the vault is conserved.
  Every step refines the abstract economy, lowers no share's value and touches declared keys only.
  Markets move forward only; proof records and disputes are permanent; two gated clears of a window agree
  up to a SHA-256 collision of two named messages.

  The component theories have the exact effect of each operation and its error behaviour: transfers, mints,
  burns, fee routing, releases, swaps, deposits, withdrawals, submissions and clears; the storage
  round trips and the separation of keys; the canonical envelopes; the integer square root.

  Around the chain: every action that executes has an encoding within its limit that decodes to itself, and results
  decode to what was computed; the shielded-ledger circuit is satisfied exactly by what the chain hashes; under an enabled
  verifier a proof that passes consensus was accepted by gnark for the chain's own digest; the reserve endpoint
  agrees with the mint's check; the metrics count exactly the outcomes; a generated genesis starts; a client is told
  what an action would read.

  The tools are proved to do their work, which composes everything else: from the genesis the key generator writes, the smoke test
  passes in every step; a node started with the fixture of the ZK tool accepts its sample proof; the proofs
  of the benchmark are accepted under the key of their set-up, and a batch of it runs to the end with every window cleared on the chain. The
  percentiles of its report are nearest-rank percentiles in spite of the floats, its table reads back, and a tampered envelope is refused or is that of another
  witness.

  Five theorems record flaws: \<open>intSqrt_correct\<close> and \<open>first_deposit_can_panic\<close> (a first deposit that divides by zero), \<open>fee_share_wraps\<close>
  (a fee share computed modulo \<open>2^64\<close>), \<open>untouched_node_gate\<close> (an unconfigured node accepts every proof) and
  \<open>synthetic_shielded_never_clears\<close> (a benchmark configuration that is accepted and cannot clear).

  \<^bold>\<open>Conventions\<close>

  Integers have their Go width: \<open>u8\<close> to \<open>u64\<close> are words read by \<open>unat\<close>, \<open>i64\<close> is a word read by
  \<open>sint\<close>; \<open>+\<close>, \<open>-\<close>, \<open>*\<close> wrap as in Go. Addresses, identifiers and digests are words of 264 and 256
  bits with their big-endian bytes. A failed action returns the state it reached; HyperSDK
  discards it, so only successful actions are steps of \<open>vm_step\<close>. No definition needs
  fuel: the loop of \<open>intSqrt\<close> ends because its iterate decreases, the others run over lists. The polling loops of
  the tools count down the number of attempts the code gives them (30, 60 and 120), and the theorems on the tools are that the run
  returns. A \<open>float64\<close> that holds a whole number is that integer, rounded to 53 bits. The errors of the tools keep their texts as far as the code looks at them:
  values formatted into a message are left out, and so are the prefixes of the errors of gnark.

  \<^bold>\<open>Not modelled\<close>

  The constants \<open>ComputeUnits\<close> and \<open>ValidRange\<close>; tracing, logging and what the tools print on the way; JSON, HTTP and the
  wiring into HyperSDK (\<open>New\<close> and \<open>NewFactory\<close> of \<open>vm/vm.go\<close>); \<open>cmd/veilvm\<close>, which starts the plugin process; when a
  buffered writer reports an error, so that writing the table of the benchmark is one operation. SHA-256 is computed, but
  no theorem assumes it free of collisions.
\<close>

section \<open>Every chain that starts from a genesis\<close>

text \<open>
  C1: On every chain that starts from an initialized genesis, after any sequence of successful actions
  and fee charges, the VAI in existence (in accounts and in the pool) equals the recorded debt.
\<close>

theorem vai_always_backed_by_debt:
  assumes "base_genesis H baseInit" and "InitializeState H baseInit g s = (Inr (), s0)"
    and "ge_Tokenomics g = Some k" and "fresh (economy_of H s)" and "vm_reach H V s0 t"
  shows "vai_supply (economy_of H t) = debt (economy_of H t)"
proof -
  note env = base_genesis.axioms(1) [OF assms(1)]
  note start = base_genesis.genesis_economy [OF assms(1-4)]
  have "vai_supply (economy_of H t) + debt (economy_of H s0)
      = vai_supply (economy_of H s0) + debt (economy_of H t)"
    using host_env.vm_reach_economy [OF env assms(5) start(5)] econ_steps_vai by blast
  with start(2) show ?thesis by simp
qed

theorem vai_always_backed_by_debt_witness:
  "vai_supply (economy_of mem_host sample_minted) = debt (economy_of mem_host sample_minted)
    \<and> vm_reach mem_host accept_all sample_started sample_minted"
  using vai_always_backed_by_debt [OF mem_base sample_genesis_run sample_genesis_tokenomics empty_fresh
      sample_mint_reach] sample_mint_reach
  by blast

text \<open>
  C2: On every chain that starts from a genesis the VEIL in accounts, in the pool and in the fee budgets
  together never exceeds the genesis allocations: no sequence of actions and fee charges creates VEIL.
\<close>

theorem veil_never_created:
  assumes "base_genesis H baseInit" and "InitializeState H baseInit g s = (Inr (), s0)"
    and "ge_Tokenomics g = Some k" and "fresh (economy_of H s)" and "vm_reach H V s0 t"
  shows "veil_supply (economy_of H t) \<le> allocated (ge_CustomAllocation g)"
proof -
  note env = base_genesis.axioms(1) [OF assms(1)]
  note start = base_genesis.genesis_economy [OF assms(1-4)]
  have "veil_supply (economy_of H t) \<le> veil_supply (economy_of H s0)"
    using host_env.vm_reach_economy [OF env assms(5) start(5)] econ_steps_veil by blast
  with start(1) show ?thesis by simp
qed

theorem veil_never_created_witness:
  "veil_supply (economy_of mem_host sample_minted) \<le> 1000"
  using veil_never_created [OF mem_base sample_genesis_run sample_genesis_tokenomics empty_fresh
      sample_mint_reach]
  by (simp add: sample_genesis_def allocated_def)

text \<open>
  C3: On every chain that starts from a genesis the liquidity shares that accounts hold add up to the
  shares the pool records, and each reserve is empty exactly when no share is outstanding: no share is
  without backing and nothing is stranded in an abandoned pool.
\<close>

theorem pool_shares_backed:
  assumes "base_genesis H baseInit" and "InitializeState H baseInit g s = (Inr (), s0)"
    and "ge_Tokenomics g = Some k" and "fresh (economy_of H s)" and "vm_reach H V s0 t"
  shows "shares_issued (economy_of H t) = pool_shares (economy_of H t)
    \<and> (\<forall>p. GetPool H t AssetVEIL AssetVAI = Inr p \<longrightarrow>
        (p_TotalLP p = 0 \<longleftrightarrow> p_Reserve0 p = 0) \<and> (p_TotalLP p = 0 \<longleftrightarrow> p_Reserve1 p = 0))"
proof -
  note env = base_genesis.axioms(1) [OF assms(1)]
  note start = base_genesis.genesis_economy [OF assms(1-4)]
  have steps: "econ_step\<^sup>*\<^sup>* (economy_of H s0) (economy_of H t)"
    using host_env.vm_reach_economy [OF env assms(5) start(5)] by blast
  have "pool_live (economy_of H t)" using econ_steps_live [OF steps start(4)] .
  then have "\<forall>p. GetPool H t 0 1 = Inr p \<longrightarrow>
      (p_TotalLP p = 0 \<longleftrightarrow> p_Reserve0 p = 0) \<and> (p_TotalLP p = 0 \<longleftrightarrow> p_Reserve1 p = 0)"
    by (auto simp: pool_live_def economy_fields(4) read_option_def)
  moreover have "shares_issued (economy_of H t) = pool_shares (economy_of H t)"
    using econ_steps_shares [OF steps] start(3) by simp
  ultimately show ?thesis by blast
qed

theorem pool_shares_backed_witness:
  "shares_issued (economy_of mem_host sample_minted) = pool_shares (economy_of mem_host sample_minted)"
  using pool_shares_backed [OF mem_base sample_genesis_run sample_genesis_tokenomics empty_fresh
      sample_mint_reach]
  by simp

text \<open>
  C6: On every chain that starts from a genesis the VAI debt stays within the genesis debt ceiling and
  the amount minted in the current epoch within the genesis epoch limit: no action changes the
  limits and none exceeds them.
\<close>

theorem vai_limits_hold:
  assumes "base_genesis H baseInit" and "InitializeState H baseInit g s = (Inr (), s0)"
    and "ge_Tokenomics g = Some k" and "fresh (economy_of H s)" and "vm_reach H V s0 t"
  shows "GetVAIConfig H t = Inr (vaiConfigOf k)
    \<and> (\<exists>st. GetVAIState H t = Inr st
        \<and> vs_TotalDebt st \<le> tk_VAIDebtCeiling k \<and> vs_EpochMinted st \<le> tk_VAIEpochMintLimit k)"
proof -
  note env = base_genesis.axioms(1) [OF assms(1)]
  note start = base_genesis.genesis_economy [OF assms(1-4)]
  have cfg: "GetVAIConfig H t = Inr (vaiConfigOf k)"
    using host_env.vm_reach_configs(1) [OF env assms(5)]
      base_genesis.InitializeState_run(6) [OF assms(1-3)] by simp
  have "eVAI (economy_of H s0) \<noteq> None"
    using base_genesis.InitializeState_run(2) [OF assms(1-3)] by (simp add: set_vai_def)
  then have "eVAI (economy_of H t) \<noteq> None"
    using host_env.vm_reach_economy [OF env assms(5) start(5)] econ_steps_mint_state by blast
  then obtain st where st: "GetVAIState H t = Inr st" by (auto simp: economy_fields)
  have "vai_capped H t"
    using host_env.vm_reach_caps [OF env assms(5)] base_genesis.genesis_capped [OF assms(1-3)] .
  with cfg st show ?thesis by (simp add: vai_capped_def vaiConfigOf_def)
qed

theorem vai_limits_hold_witness:
  "GetVAIConfig mem_host sample_minted = Inr (vaiConfigOf sample_tokenomics)
    \<and> (\<exists>st. GetVAIState mem_host sample_minted = Inr st \<and> vs_TotalDebt st \<le> 1000000)"
proof -
  have "tk_VAIDebtCeiling sample_tokenomics = 1000000" by (simp add: tokenomics_defs)
  then show ?thesis
    using vai_limits_hold [OF mem_base sample_genesis_run sample_genesis_tokenomics empty_fresh
      sample_mint_reach] by auto
qed

text \<open>
  C7: On every chain that starts from a genesis the vault only moves from locked to live: locked plus
  live stays what the genesis put there, and what was released is exactly what is no longer locked.
\<close>

theorem vault_conserved:
  assumes "base_genesis H baseInit" and "InitializeState H baseInit g s = (Inr (), s0)"
    and "ge_Tokenomics g = Some k" and "vm_reach H V s0 t"
  shows "\<exists>st. GetTreasuryState H t = Inr st
    \<and> unat (ts_Locked st) + unat (ts_Live st) = unat (tk_COLVaultLocked k) + unat (tk_COLVaultLive k)
    \<and> unat (ts_Locked st) + unat (ts_Released st) = unat (tk_COLVaultLocked k)"
  using host_env.vm_reach_vault [OF base_genesis.axioms(1) [OF assms(1)] assms(4)
      base_genesis.InitializeState_run(4) [OF assms(1-3)]]
  by (auto simp: vault_moves_def treasuryStateOf_def)

theorem vault_conserved_witness:
  "\<exists>st. GetTreasuryState mem_host sample_minted = Inr st \<and> unat (ts_Locked st) + unat (ts_Live st) = 500"
proof -
  have "tk_COLVaultLocked sample_tokenomics = 400" "tk_COLVaultLive sample_tokenomics = 100"
    by (simp_all add: tokenomics_defs)
  then show ?thesis
    using vault_conserved [OF mem_base sample_genesis_run sample_genesis_tokenomics sample_mint_reach]
    by auto
qed

section \<open>Every step\<close>

text \<open>
  C4: Refinement: on a state whose pool is well formed, every successful action and every fee charge is
  one step of the abstract economy between the abstractions of the states, and the pool
  stays well formed.
\<close>

theorem vm_refines_economy:
  assumes "host_env H" and "pool_wf H s" and "vm_step H V s t"
  shows "econ_step (economy_of H s) (economy_of H t) \<and> pool_wf H t"
  by (rule host_env.vm_step_economy [OF assms(1,3,2)])

theorem vm_refines_economy_witness:
  "econ_step (economy_of mem_host sample_started) (economy_of mem_host sample_minted)"
  using vm_refines_economy [OF mem_host_env
      base_genesis.genesis_economy(5) [OF mem_base sample_genesis_run sample_genesis_tokenomics empty_fresh]
      sample_mint_step] by blast

text \<open>
  C5: No step lowers what a liquidity share stands for: while shares are outstanding, the product of the
  reserves over the square of the number of shares never falls, whoever trades, deposits or
  withdraws.
\<close>

theorem share_value_never_falls:
  assumes "host_env H" and "pool_wf H s" and "vm_step H V s t"
    and "GetPool H s AssetVEIL AssetVAI = Inr p" and "p_TotalLP p \<noteq> 0"
  shows "\<exists>q. GetPool H t AssetVEIL AssetVAI = Inr q
    \<and> unat (p_Reserve0 p) * unat (p_Reserve1 p) * (unat (p_TotalLP q))\<^sup>2
      \<le> unat (p_Reserve0 q) * unat (p_Reserve1 q) * (unat (p_TotalLP p))\<^sup>2"
proof -
  have step: "econ_step (economy_of H s) (economy_of H t)"
    using host_env.vm_step_economy [OF assms(1,3,2)] by blast
  have p: "ePool (economy_of H s) = Some p" using assms(4) by (simp add: economy_fields(4))
  then obtain q where q: "ePool (economy_of H t) = Some q" using econ_step_keeps_pool [OF step] by blast
  then have "GetPool H t 0 1 = Inr q" by (simp add: economy_fields(4))
  then show ?thesis using econ_step_share_value [OF step p q assms(5)] by blast
qed

theorem share_value_never_falls_witness:
  "\<exists>t q. vm_step mem_host accept_all sample t \<and> GetPool mem_host t AssetVEIL AssetVAI = Inr q
    \<and> 1000 * 4000 * (unat (p_TotalLP q))\<^sup>2 \<le> unat (p_Reserve0 q) * unat (p_Reserve1 q) * 2000\<^sup>2"
proof -
  let ?t = "snd (SwapExactIn_Execute mem_host sample_swap alice sample)"
  have step: "vm_step mem_host accept_all sample ?t"
    by (rule vm_step.act [where actor = alice and timestamp = 1 and txID = 0 and a = "ASwapExactIn sample_swap"])
      (use run_ok [OF sample_swap_run] in \<open>auto simp: run_only_run\<close>)
  have p: "GetPool mem_host sample 0 1 = Inr sample_pool"
    by (simp add: run_mem_defs sample_def sample_slots_def with_stored_def)
  have "p_TotalLP sample_pool \<noteq> 0" by (simp add: sample_pool_def)
  from share_value_never_falls [OF mem_host_env sample_pool_wf step p this] step
  show ?thesis by (auto simp: sample_pool_def)
qed

text \<open>
  C25: An action touches only what it declares: a key that is not in its declared key set with a
  write permission has the same value after a successful execution, for all nineteen actions.
\<close>

theorem actions_confined_to_declared_keys:
  assumes "host_env H" and "Execute H V timestamp actor txID a s = (Inr (), t)"
    and "\<not> writable (StateKeys H actor a) key"
  shows "GetValue H t key = GetValue H s key"
  by (rule host_env.Execute_frame [OF assms])

theorem actions_confined_to_declared_keys_witness:
  "GetValue mem_host sample_minted (BalanceKey mem_host alice)
    = GetValue mem_host sample_started (BalanceKey mem_host alice)"
proof -
  let ?a = "AMintVAI \<lparr>mv_To = bob, mv_Amount = 700\<rparr>"
  have run: "Execute mem_host accept_all 1000 alice 0 ?a sample_started = (Inr (), sample_minted)"
    using run_ok [OF sample_mint_started] by (auto simp: run_only_run sample_minted_def)
  have "\<not> writable (StateKeys mem_host alice ?a) (BalanceKey mem_host alice)"
    by (simp add: MintVAI_StateKeys_def keys_simps)
  from actions_confined_to_declared_keys [OF mem_host_env run this] show ?thesis .
qed

section \<open>Markets, windows and authority\<close>

text \<open>
  C26: Along every run a market keeps its question, outcomes and resolution time and moves only forward:
  an active market stays active, is resolved to one of its outcomes, or is disputed after that; a
  resolved market keeps its outcome and can only become disputed; a disputed market is final.
\<close>

theorem market_life_is_forward:
  assumes "host_env H" and "vm_reach H V s t"
  shows "(\<forall>oc rt q. market_at H s i = Active oc rt q \<longrightarrow> market_at H t i = Active oc rt q
      \<or> (\<exists>w. w < oc \<and> (market_at H t i = Resolved oc rt q w \<or> market_at H t i = Disputed oc rt q w)))
    \<and> (\<forall>oc rt q w. market_at H s i = Resolved oc rt q w \<longrightarrow>
        market_at H t i = Resolved oc rt q w \<or> market_at H t i = Disputed oc rt q w)
    \<and> (\<forall>oc rt q w. market_at H s i = Disputed oc rt q w \<longrightarrow> market_at H t i = Disputed oc rt q w)"
proof -
  have steps: "market_step\<^sup>*\<^sup>* (market_at H s i) (market_at H t i)"
    by (rule host_env.vm_reach_market [OF assms])
  show ?thesis
    using market_steps_active [OF steps] market_steps_resolved [OF steps] market_steps_final [OF steps]
    by blast
qed

theorem market_life_is_forward_witness:
  "\<exists>t. vm_step mem_host accept_all window_start t
    \<and> (market_at mem_host t 7 = Active 2 1 []
      \<or> (\<exists>w. w < 2 \<and> (market_at mem_host t 7 = Resolved 2 1 [] w \<or> market_at mem_host t 7 = Disputed 2 1 [] w)))"
proof -
  have start: "market_at mem_host window_start 7 = Active 2 1 []"
    by (simp add: market_at_def market_of_def run_mem_defs window_start_def window_slots_def with_stored_def)
  let ?c = "\<lparr>rm_MarketID = 7, rm_Outcome = 1, rm_Signature = [1]\<rparr>"
  have "fst (ResolveMarket_Execute mem_host ?c window_start) = Inr \<lparr>rmr_Outcome = 1\<rparr>"
    by (simp add: ResolveMarket_Execute_def run_mem_defs window_start_def window_slots_def with_stored_def
        word_le_nat_alt)
  from run_ok [OF this]
  have step: "vm_step mem_host accept_all window_start (snd (ResolveMarket_Execute mem_host ?c window_start))"
    by (intro vm_step.act [where actor = alice and timestamp = 1 and txID = 0 and a = "AResolveMarket ?c"])
      (auto simp: run_only_run)
  from market_life_is_forward [OF mem_host_env r_into_rtranclp [of "vm_step mem_host accept_all", OF step],
      of 7] start step show ?thesis by blast
qed

text \<open>
  C8: Whatever happens between them, two proof-gated clears of the same window agree on price, volume
  and fills, unless the two public-input preimages, written out, are a collision of SHA-256.
\<close>

theorem gated_clears_agree:
  assumes "host_env H" and "ClearBatch_Execute H V c actor s = (Inr r, s1)"
    and "GetProofConfig H s = Inr cfg" and "pc_RequireProof cfg" and "vm_reach H V s1 s2"
    and "ClearBatch_Execute H V c' actor' s2 = (Inr r', t)"
    and "GetProofConfig H s2 = Inr cfg'" and "pc_RequireProof cfg'"
    and "cb_MarketID c' = cb_MarketID c" and "cb_WindowID c' = cb_WindowID c"
  shows "\<exists>pf e. GetVellumProof H s (cb_MarketID c) (cb_WindowID c) = Inr pf \<and> parseProofEnvelope pf = Inr e
    \<and> (cb_ClearPrice c' = cb_ClearPrice c \<and> cb_TotalVolume c' = cb_TotalVolume c
          \<and> cb_FillsHash c' = cb_FillsHash c
       \<or> sha_collision (expectedPreimage (en_circuitID e) (cb_MarketID c) (cb_WindowID c)
            (cb_ClearPrice c) (cb_TotalVolume c) (cb_FillsHash c))
          (expectedPreimage (en_circuitID e) (cb_MarketID c) (cb_WindowID c)
            (cb_ClearPrice c') (cb_TotalVolume c') (cb_FillsHash c')))"
proof -
  have "vm_step H V s s1"
    using assms(2) by (intro vm_step.act [where a = "AClearBatch c" and actor = actor]) (auto simp: run_only_run)
  then have reach: "vm_reach H V s s2" using assms(5) by (rule converse_rtranclp_into_rtranclp)
  obtain rec pf e h where one: "GetBatchProofRecord H s (cb_MarketID c) (cb_WindowID c) = Inr rec"
    "GetVellumProof H s (cb_MarketID c) (cb_WindowID c) = Inr pf" "parseProofEnvelope pf = Inr e"
    "bp_PublicInputsHash rec = be_bytes 32 h" and h: "computeExpectedPublicInputsHash (en_circuitID e)
      (cb_MarketID c) (cb_WindowID c) (cb_ClearPrice c) (cb_TotalVolume c) (cb_FillsHash c) = Inr h"
    by (rule host_env.ClearBatch_gated [OF assms(1-4)])
  obtain rec' pf' e' h' where two: "GetBatchProofRecord H s2 (cb_MarketID c) (cb_WindowID c) = Inr rec'"
    "GetVellumProof H s2 (cb_MarketID c) (cb_WindowID c) = Inr pf'" "parseProofEnvelope pf' = Inr e'"
    "bp_PublicInputsHash rec' = be_bytes 32 h'" and h': "computeExpectedPublicInputsHash (en_circuitID e')
      (cb_MarketID c) (cb_WindowID c) (cb_ClearPrice c') (cb_TotalVolume c') (cb_FillsHash c') = Inr h'"
    by (rule host_env.ClearBatch_gated [OF assms(1,6-8)]) (use assms(9,10) in auto)
  have same: "rec' = rec" "pf' = pf"
    using host_env.vm_reach_record [OF assms(1) reach one(1)] one(2) two(1,2) by auto
  then have "h' = h" "e' = e" using one(3,4) two(3,4) by (auto simp: be_bytes_inject)
  with h h' have "cb_ClearPrice c = cb_ClearPrice c' \<and> cb_TotalVolume c = cb_TotalVolume c'
      \<and> cb_FillsHash c = cb_FillsHash c'
    \<or> sha_collision (expectedPreimage (en_circuitID e) (cb_MarketID c) (cb_WindowID c)
            (cb_ClearPrice c) (cb_TotalVolume c) (cb_FillsHash c))
        (expectedPreimage (en_circuitID e) (cb_MarketID c) (cb_WindowID c)
            (cb_ClearPrice c') (cb_TotalVolume c') (cb_FillsHash c'))"
    using host_env.expected_hash_agree [OF assms(1)] by blast
  with one show ?thesis by auto
qed

theorem gated_clears_agree_witness:
  "\<exists>s r s1. ClearBatch_Execute mem_host accept_all window_clear gov s = (Inr r, s1)
    \<and> (\<exists>pf. GetVellumProof mem_host s 7 1 = Inr pf)"
proof (rule window_cleared_twice)
  fix s r1 s1 r2 s2
  assume "ClearBatch_Execute mem_host accept_all window_clear gov s = (Inr r1, s1)"
    "GetProofConfig mem_host s = Inr window_cfg" "pc_RequireProof window_cfg"
    "ClearBatch_Execute mem_host accept_all window_clear gov s1 = (Inr r2, s2)"
    "GetProofConfig mem_host s1 = Inr window_cfg"
  from gated_clears_agree [OF mem_host_env this(1-3) rtranclp.rtrancl_refl this(4,5,3) refl refl] this(1)
  show ?thesis by (auto simp: window_clear_def)
qed

text \<open>
  C17: Once a proof is recorded for a window, its record and the stored proof never change again, on any
  run.
\<close>

theorem proof_record_permanent:
  assumes "host_env H" and "vm_reach H V s t" and "GetBatchProofRecord H s m w = Inr rec"
  shows "GetBatchProofRecord H t m w = Inr rec \<and> GetVellumProof H t m w = GetVellumProof H s m w"
  by (rule host_env.vm_reach_record [OF assms])

theorem proof_record_permanent_witness:
  "\<exists>s t r. ClearBatch_Execute mem_host accept_all window_clear gov s = (Inr r, t)
    \<and> GetVellumProof mem_host t 7 1 = GetVellumProof mem_host s 7 1
    \<and> (\<exists>rec. GetBatchProofRecord mem_host t 7 1 = Inr rec)"
proof (rule window_cleared)
  fix r t r' t'
  assume sub: "SubmitBatchProof_Execute mem_host accept_all window_submit 6000 gov 5 window_start = (Inr r, t)"
    and clr: "ClearBatch_Execute mem_host accept_all window_clear gov t = (Inr r', t')"
  have "vm_step mem_host accept_all t t'"
    using clr by (intro vm_step.act [where a = "AClearBatch window_clear" and actor = gov])
      (auto simp: run_only_run)
  then have reach: "vm_reach mem_host accept_all t t'" by (rule r_into_rtranclp [of "vm_step mem_host accept_all"])
  have rec: "GetBatchProofRecord mem_host t 7 1 = Inr (submitRecord window_submit 6000 gov)"
    using mem_env.SubmitBatchProof_reads(1) [OF sub] by (simp add: window_submit_def)
  from proof_record_permanent [OF mem_host_env reach rec] clr show ?thesis by blast
qed

text \<open>
  The record of a dispute, which shares its key space with the decryption shares, is never
  overwritten: once a market is disputed, the stored dispute is the same on every later state.
\<close>

theorem dispute_record_permanent:
  assumes "host_env H" and "vm_reach H V s t" and "market_at H s i = Disputed oc rt q w"
  shows "GetValue H t (DisputeKey H i) = GetValue H s (DisputeKey H i)"
  by (rule host_env.vm_reach_dispute [OF assms])

definition disputed_start :: mem where
  "disputed_start = store
     [(SMarket 7, Some (encodeMarket \<lparr>mk_status = 2, mk_outcomes = 2, mk_resolutionTime = 1,
        mk_resolvedOutcome = 1, mk_question = []\<rparr>)),
      (SOracle 7 0xFFFFFFFF, Some (be_bytes 8 (5 :: u64) @ [1])),
      (SBalance alice, Some (be_bytes 8 (100 :: u64)))]"

theorem dispute_record_permanent_witness:
  "\<exists>t. vm_step mem_host accept_all disputed_start t
    \<and> GetValue mem_host t (DisputeKey mem_host 7) = Inr (be_bytes 8 (5 :: u64) @ [1])"
proof -
  have "fst (Deduct mem_host alice 10 disputed_start) = Inr ()"
    by (simp add: Deduct_def run_mem_defs disputed_start_def)
  from run_ok [OF this] have step: "vm_step mem_host accept_all disputed_start
      (snd (Deduct mem_host alice 10 disputed_start))"
    by (rule vm_step.charge)
  have "market_at mem_host disputed_start 7 = Disputed 2 1 [] 1"
    by (simp add: market_at_def market_of_def run_mem_defs disputed_start_def with_stored_def)
  from dispute_record_permanent [OF mem_host_env r_into_rtranclp [of "vm_step mem_host accept_all", OF step] this]
    step show ?thesis by (auto simp: run_mem_defs disputed_start_def)
qed



end
